(* ===== verification/Prelude.thy ===== *)
theory Prelude
  imports Main "HOL-Library.Word"
begin

text \<open>
  Shared vocabulary of the development.  A Rust \<open>Result<T, E>\<close> is the datatype
  \<open>result\<close>, with a third constructor for the computation that panics
  (an index out of range, an \<open>expect\<close> or \<open>unwrap\<close> that fails).  An \<open>async fn\<close>
  that talks to Postgres, Redis, a key manager, a clock or a random generator is a
  function from the state \<open>'w\<close> of those services to a result and their next state.
  The combinators below are the \<open>?\<close> operator, \<open>map_err\<close>, and \<open>match\<close> on the result of
  an awaited call.

  Rust's \<open>str\<close> and \<open>String\<close> are the list of their UTF-8 bytes, a HOL \<open>string\<close>.
\<close>

section \<open>Results\<close>

datatype (vals_ok: 'a, vals_err: 'e) result = Ok 'a | Err 'e | Panic
  for map: map_result

type_synonym ('w, 'a, 'e) io = "'w \<Rightarrow> ('a, 'e) result \<times> 'w"

named_theorems io_defs "the combinators of effectful computations, unfolded"

fun res_bind :: "('a, 'e) result \<Rightarrow> ('a \<Rightarrow> ('b, 'e) result) \<Rightarrow> ('b, 'e) result" where
  "res_bind (Ok x) f = f x"
| "res_bind (Err e) f = Err e"
| "res_bind Panic f = Panic"

fun res_map :: "('a \<Rightarrow> 'b) \<Rightarrow> ('a, 'e) result \<Rightarrow> ('b, 'e) result" where
  "res_map f (Ok x) = Ok (f x)"
| "res_map f (Err e) = Err e"
| "res_map f Panic = Panic"

fun res_map_err :: "('e \<Rightarrow> 'f) \<Rightarrow> ('a, 'e) result \<Rightarrow> ('a, 'f) result" where
  "res_map_err f (Ok x) = Ok x"
| "res_map_err f (Err e) = Err (f e)"
| "res_map_err f Panic = Panic"

definition ok_or :: "'e \<Rightarrow> 'a option \<Rightarrow> ('a, 'e) result" where
  "ok_or e m = (case m of None \<Rightarrow> Err e | Some x \<Rightarrow> Ok x)"

definition unwrap :: "'a option \<Rightarrow> ('a, 'e) result" where
  "unwrap m = (case m of None \<Rightarrow> Panic | Some x \<Rightarrow> Ok x)"

fun is_ok :: "('a, 'e) result \<Rightarrow> bool" where
  "is_ok (Ok x) = True"
| "is_ok (Err e) = False"
| "is_ok Panic = False"

fun res_traverse :: "('a \<Rightarrow> ('b, 'e) result) \<Rightarrow> 'a list \<Rightarrow> ('b list, 'e) result" where
  "res_traverse f [] = Ok []"
| "res_traverse f (x # xs) = res_bind (f x) (\<lambda>y. res_map ((#) y) (res_traverse f xs))"

lemma ok_or_simps [simp]: "ok_or e None = Err e" "ok_or e (Some x) = Ok x"
  by (simp_all add: ok_or_def)

lemma unwrap_simps [simp]: "unwrap None = Panic" "unwrap (Some x) = Ok x"
  by (simp_all add: unwrap_def)

lemma res_bind_Ok_iff [simp]: "res_bind r f = Ok y \<longleftrightarrow> (\<exists>x. r = Ok x \<and> f x = Ok y)"
  by (cases r) auto

lemma res_map_Ok_iff [simp]: "res_map f r = Ok y \<longleftrightarrow> (\<exists>x. r = Ok x \<and> y = f x)"
  by (cases r) auto

lemma res_map_Err_iff [simp]: "res_map f r = Err e \<longleftrightarrow> r = Err e"
  by (cases r) auto

lemma res_map_Panic_iff [simp]: "res_map f r = Panic \<longleftrightarrow> r = Panic"
  by (cases r) auto

lemma res_map_err_Ok_iff [simp]: "res_map_err f r = Ok y \<longleftrightarrow> r = Ok y"
  by (cases r) auto

lemma res_map_err_Err_iff [simp]: "res_map_err f r = Err e' \<longleftrightarrow> (\<exists>e. r = Err e \<and> e' = f e)"
  by (cases r) auto

lemma res_map_err_Panic_iff [simp]: "res_map_err f r = Panic \<longleftrightarrow> r = Panic"
  by (cases r) auto

lemma ok_or_Ok_iff [simp]: "ok_or e m = Ok y \<longleftrightarrow> m = Some y"
  by (cases m) auto

lemma ok_or_not_Panic [simp]: "ok_or e m \<noteq> Panic"
  by (cases m) auto

lemma is_ok_iff: "is_ok r \<longleftrightarrow> (\<exists>x. r = Ok x)"
  by (cases r) auto

lemma res_traverse_Ok_iff:
  "res_traverse f xs = Ok ys \<longleftrightarrow> list_all2 (\<lambda>x y. f x = Ok y) xs ys"
proof (induction xs arbitrary: ys)
  case Nil
  show ?case by (cases ys) auto
next
  case (Cons x xs)
  show ?case by (cases ys) (auto simp: Cons)
qed

section \<open>Effectful computations\<close>

definition io_ret :: "'a \<Rightarrow> ('w, 'a, 'e) io" where
  [io_defs]: "io_ret x = (\<lambda>w. (Ok x, w))"

definition io_err :: "'e \<Rightarrow> ('w, 'a, 'e) io" where
  [io_defs]: "io_err e = (\<lambda>w. (Err e, w))"

definition io_lift :: "('a, 'e) result \<Rightarrow> ('w, 'a, 'e) io" where
  [io_defs]: "io_lift r = (\<lambda>w. (r, w))"

definition io_try :: "('w, 'a, 'e) io \<Rightarrow> ('a \<Rightarrow> ('w, 'b, 'f) io) \<Rightarrow> ('e \<Rightarrow> ('w, 'b, 'f) io)
    \<Rightarrow> ('w, 'b, 'f) io" where
  [io_defs]: "io_try m ok err = (\<lambda>w. case m w of (r, w') \<Rightarrow>
     (case r of Ok x \<Rightarrow> ok x w' | Err e \<Rightarrow> err e w' | Panic \<Rightarrow> (Panic, w')))"

definition io_bind :: "('w, 'a, 'e) io \<Rightarrow> ('a \<Rightarrow> ('w, 'b, 'e) io) \<Rightarrow> ('w, 'b, 'e) io" where
  [io_defs]: "io_bind m f = (\<lambda>w. case m w of (r, w') \<Rightarrow>
     (case r of Ok x \<Rightarrow> f x w' | Err e \<Rightarrow> (Err e, w') | Panic \<Rightarrow> (Panic, w')))"

definition io_map :: "('a \<Rightarrow> 'b) \<Rightarrow> ('w, 'a, 'e) io \<Rightarrow> ('w, 'b, 'e) io" where
  [io_defs]: "io_map f m = (\<lambda>w. case m w of (r, w') \<Rightarrow> (res_map f r, w'))"

definition io_map_err :: "('e \<Rightarrow> 'f) \<Rightarrow> ('w, 'a, 'e) io \<Rightarrow> ('w, 'a, 'f) io" where
  [io_defs]: "io_map_err f m = (\<lambda>w. case m w of (r, w') \<Rightarrow> (res_map_err f r, w'))"

definition io_of :: "('w \<Rightarrow> 'a \<times> 'w) \<Rightarrow> ('w, 'a, 'e) io" where
  [io_defs]: "io_of f = (\<lambda>w. case f w of (x, w') \<Rightarrow> (Ok x, w'))"

definition io_discard :: "('w, 'a, 'e) io \<Rightarrow> ('w, unit, 'f) io" where
  [io_defs]: "io_discard m = (\<lambda>w. case m w of (r, w') \<Rightarrow>
     (case r of Panic \<Rightarrow> (Panic, w') | _ \<Rightarrow> (Ok (), w')))"

lemma io_bind_as_try: "io_bind m f = io_try m f io_err"
  by (rule ext) (simp add: io_bind_def io_try_def io_err_def split: prod.splits result.splits)

lemma io_bind_Ok: "m w = (Ok x, w') \<Longrightarrow> io_bind m f w = f x w'"
  by (simp add: io_bind_def)

lemma io_bind_Err: "m w = (Err e, w') \<Longrightarrow> io_bind m f w = (Err e, w')"
  by (simp add: io_bind_def)

lemma io_bind_Ok_E:
  assumes "io_bind m f w = (Ok y, w'')"
  obtains x w' where "m w = (Ok x, w')" "f x w' = (Ok y, w'')"
  using assms by (auto simp: io_bind_def split: prod.splits result.splits)

lemma io_bind_assoc: "io_bind (io_bind m f) g = io_bind m (\<lambda>x. io_bind (f x) g)"
  by (rule ext) (simp add: io_bind_def split: prod.splits result.splits)

lemma io_bind_ret [simp]: "io_bind (io_ret x) f = f x" "io_bind m io_ret = m"
  by (rule ext, simp add: io_bind_def io_ret_def split: prod.splits result.splits)+

lemma io_map_err_bind:
  "io_map_err g (io_bind m f) = io_bind (io_map_err g m) (\<lambda>x. io_map_err g (f x))"
  by (rule ext) (simp add: io_bind_def io_map_err_def split: prod.splits result.splits)

lemma io_map_Ok_iff [simp]:
  "io_map f m w = (Ok y, w') \<longleftrightarrow> (\<exists>x. m w = (Ok x, w') \<and> y = f x)"
  by (auto simp: io_map_def split: prod.splits)

lemma io_map_err_Ok_iff [simp]: "io_map_err f m w = (Ok y, w') \<longleftrightarrow> m w = (Ok y, w')"
  by (auto simp: io_map_err_def split: prod.splits)

lemma res_map_id: "res_map id r = r"
  by (cases r) simp_all

lemma io_map_id: "io_map id m = m"
  by (intro ext) (simp add: io_map_def res_map_id split: prod.split)

section \<open>Strings\<close>

lemma res_map_comp: "res_map f (res_map g r) = res_map (f \<circ> g) r"
  by (cases r) simp_all

definition is_prefix :: "string \<Rightarrow> string \<Rightarrow> bool" where
  "is_prefix p s = (take (length p) s = p)"

fun split_on :: "char \<Rightarrow> string \<Rightarrow> string list" where
  "split_on d [] = [[]]"
| "split_on d (c # cs) =
     (if c = d then [] # split_on d cs
      else (case split_on d cs of [] \<Rightarrow> [[c]] | p # ps \<Rightarrow> (c # p) # ps))"

fun join_on :: "char \<Rightarrow> string list \<Rightarrow> string" where
  "join_on d [] = []"
| "join_on d [p] = p"
| "join_on d (p # q # ps) = p @ d # join_on d (q # ps)"

lemma split_on_not_Nil [simp]: "split_on d s \<noteq> []"
  by (cases s) (auto split: list.splits)

lemma split_on_free: "d \<notin> set p \<Longrightarrow> split_on d p = [p]"
  by (induction p) auto

lemma split_on_append: "d \<notin> set p \<Longrightarrow> split_on d (p @ d # s) = p # split_on d s"
  by (induction p) auto

lemma split_on_join_on:
  assumes "ps \<noteq> []" "\<And>p. p \<in> set ps \<Longrightarrow> d \<notin> set p"
  shows "split_on d (join_on d ps) = ps"
  using assms
proof (induction d ps rule: join_on.induct)
  case (3 d p q ps)
  then show ?case by (simp add: split_on_append)
qed (auto simp: split_on_free)

lemma join_on_Cons: "ps \<noteq> [] \<Longrightarrow> join_on d ((c # p) # ps) = c # join_on d (p # ps)"
  by (cases ps) auto

lemma join_on_split_on [simp]: "join_on d (split_on d s) = s"
proof (induction s)
  case (Cons c s)
  show ?case
  proof (cases "c = d")
    case True
    then show ?thesis using Cons by (cases "split_on d s") auto
  next
    case False
    then show ?thesis using Cons by (cases "split_on d s"; cases "tl (split_on d s)") (auto simp: join_on_Cons)
  qed
qed simp

lemma split_on_parts_free: "p \<in> set (split_on d s) \<Longrightarrow> d \<notin> set p"
  by (induction s arbitrary: p) (auto split: if_splits list.splits)

lemma append_sep_inj:
  fixes a b :: string
  assumes "a @ d # b = a' @ d # b'" "d \<notin> set a" "d \<notin> set a'"
  shows "a = a' \<and> b = b'"
proof -
  have "split_on d (a @ d # b) = split_on d (a' @ d # b')" using assms(1) by simp
  then have "a = a'" using assms(2,3) by (simp add: split_on_append)
  with assms(1) show ?thesis by simp
qed

text \<open>The decimal digits of a natural number, as Rust's \<open>Display\<close> prints them.\<close>

fun show_nat :: "nat \<Rightarrow> string" where
  "show_nat n = (if n < 10 then [char_of (48 + n)] else show_nat (n div 10) @ [char_of (48 + n mod 10)])"

declare show_nat.simps [simp del]

lemma show_nat_not_Nil [simp]: "show_nat n \<noteq> []"
  by (subst show_nat.simps) simp

definition nat_of_digits :: "string \<Rightarrow> nat" where
  "nat_of_digits s = foldl (\<lambda>a c. a * 10 + (of_char c - 48)) 0 s"

lemma nat_of_digits_show_nat: "nat_of_digits (show_nat n) = n"
proof (induction n rule: show_nat.induct)
  case (1 n)
  show ?case
  proof (cases "n < 10")
    case True
    then show ?thesis by (subst show_nat.simps) (simp add: nat_of_digits_def)
  next
    case False
    with 1 have "nat_of_digits (show_nat (n div 10)) = n div 10" by simp
    with False show ?thesis
      by (subst show_nat.simps) (simp add: nat_of_digits_def)
  qed
qed

lemma show_nat_inj: "show_nat m = show_nat n \<longleftrightarrow> m = n"
  by (metis nat_of_digits_show_nat)

section \<open>Maps\<close>

lemma map_upd_neq [simp]: "k' \<noteq> k \<Longrightarrow> (m(k := v)) k' = m k'"
  by simp

end
