(* ===== verification/Errors.thy ===== *)
theory Errors
  imports Prelude
begin

text \<open>
  The error types of \<open>src/src/error.rs\<close> and \<open>src/src/error/\<close>, their conversions
  (\<open>error/transforms.rs\<close>), the classification of database and Redis errors
  (\<open>error/custom_error.rs\<close>, \<open>error/kv.rs\<close>, \<open>storage/kv/impls.rs\<close>) and the HTTP answer
  an \<open>ApiError\<close> becomes.

  A \<open>ContainerError<E>\<close> is an \<open>error_stack::Report<E>\<close>; every decision of the program
  reads its \<open>current_context()\<close>, so it is modelled by that value of type \<open>E\<close>, and
  \<open>change_error(e)\<close> by replacing the value.  The payload of a wrapped third-party error
  is its message.
\<close>

section \<open>The error enums\<close>

datatype ConfigurationError =
    ServerError string | AddressError string | IOError string | DatabaseError
  | KmsDecryptError string | VaultClientError | InvalidConfigurationValueError string

datatype CryptoError =
    SerdeJsonError string | JWError string | InvalidData string | EncodingError string
  | EncryptionError | DecryptionError | NotImplemented

datatype StorageError =
    DBPoolError | PoolClientFailure | FindError | InsertError | DeleteError
  | DecryptionError | EncryptionError | NotFoundError | UpdateError
  | ReplicaPoolNotConfigured

datatype ApiError =
    RetrieveDataFailed string | DecryptingKeysFailed string | RequestMiddlewareError string
  | ResponseMiddlewareError string | EncodingError | DecodingError
  | DatabaseInsertFailed string | DatabaseDeleteFailed string | MerchantError | UnknownError
  | MerchantKeyError | DatabaseError | ValidationError string | NotFoundError | InvalidTtl
  | CustodianLocked | CustodianUnlocked | TenantError string | KeyManagerError string

datatype KmsError =
    Base64DecodingFailed | HexDecodingFailed | DecryptionFailed
  | MissingPlaintextDecryptionOutput | Utf8DecodingFailed | KmsClientNotInitialized
  | KmsNotImplemented | IncompleteData | FetchFailed | ParseError

datatype ApiClientError =
    ClientConstructionFailed | HeaderMapConstructionFailed | IdentityParseFailed
  | CertificateParseFailed string | UrlEncodingFailed | RequestNotSent
  | ResponseDecodingFailed | BadRequest string | Unauthorized string | Unexpected nat string
  | InternalServerError string | MissingConfigurationError string

datatype KeyManagerError =
    KeyAddFailed | KeyTransferFailed | EncryptionFailed | DecryptionFailed | DbError
  | ResponseDecodingFailed | Unauthorized | MissingConfigurationError string

datatype DataKeyCreationError =
    RequestSendFailed | ResponseDecodingFailed | InternalServerError | Unexpected
  | BadRequest | CertificateParseFailed | RequestConstructionFailed | Unauthorized

datatype DataKeyTransferError =
    RequestSendFailed | ResponseDecodingFailed | InternalServerError | Unexpected
  | BadRequest | CertificateParseFailed | RequestConstructionFailed | Unauthorized

datatype DataEncryptionError =
    RequestSendFailed | ResponseDecodingFailed | InternalServerError | Unexpected
  | BadRequest | CertificateParseFailed | RequestConstructionFailed | Unauthorized

datatype DataDecryptionError =
    RequestSendFailed | ResponseDecodingFailed | InternalServerError | Unexpected
  | BadRequest | CertificateParseFailed | RequestConstructionFailed | Unauthorized

datatype KeyManagerHealthCheckError =
    FailedToConnect | MissingConfigurationError string

datatype MerchantDBError =
    DEKEncryptionError | DEKDecryptionError | DBError | DBFilterError | DBInsertError
  | NotFoundError | Duplicate | UnknownError

datatype VaultDBError =
    DataEncryptionError | DataDecryptionError | DBError | DBFilterError | DBInsertError
  | DBDeleteError | NotFoundError | Duplicate | UnknownError

datatype HashDBError =
    DBError | DBFilterError | DBInsertError | Duplicate | UnknownError

datatype TestDBError =
    DBError | DBWriteError | DBReadError | DBDeleteError | UnknownError
  | DBReplicaNotConfigured

datatype FingerprintDBError =
    DBError | DBFilterError | DBInsertError | Duplicate | UnknownError | EncodingError

datatype EntityDBError =
    DBError | DBFilterError | DBInsertError | UnknownError | NotFoundError | Duplicate

datatype ReverseLookupDBError =
    DBError | DBFilterError | DBInsertError | NotFoundError | Duplicate | UnknownError

datatype KvError =
    DuplicateValue string | Backend | ValueNotFound string | SerializationFailed

section \<open>Conversions between error types (error/transforms.rs)\<close>

fun MerchantDBError_from_CryptoError :: "CryptoError \<Rightarrow> MerchantDBError" where
  "MerchantDBError_from_CryptoError (CryptoError.SerdeJsonError m) = MerchantDBError.UnknownError"
| "MerchantDBError_from_CryptoError (CryptoError.JWError m) = MerchantDBError.UnknownError"
| "MerchantDBError_from_CryptoError (CryptoError.InvalidData m) = MerchantDBError.UnknownError"
| "MerchantDBError_from_CryptoError (CryptoError.EncodingError m) = MerchantDBError.UnknownError"
| "MerchantDBError_from_CryptoError CryptoError.NotImplemented = MerchantDBError.UnknownError"
| "MerchantDBError_from_CryptoError CryptoError.EncryptionError = MerchantDBError.DEKEncryptionError"
| "MerchantDBError_from_CryptoError CryptoError.DecryptionError = MerchantDBError.DEKDecryptionError"

fun VaultDBError_from_CryptoError :: "CryptoError \<Rightarrow> VaultDBError" where
  "VaultDBError_from_CryptoError (CryptoError.SerdeJsonError m) = VaultDBError.UnknownError"
| "VaultDBError_from_CryptoError (CryptoError.JWError m) = VaultDBError.UnknownError"
| "VaultDBError_from_CryptoError (CryptoError.InvalidData m) = VaultDBError.UnknownError"
| "VaultDBError_from_CryptoError (CryptoError.EncodingError m) = VaultDBError.UnknownError"
| "VaultDBError_from_CryptoError CryptoError.NotImplemented = VaultDBError.UnknownError"
| "VaultDBError_from_CryptoError CryptoError.EncryptionError = VaultDBError.DataEncryptionError"
| "VaultDBError_from_CryptoError CryptoError.DecryptionError = VaultDBError.DataDecryptionError"

fun MerchantDBError_from_StorageError :: "StorageError \<Rightarrow> MerchantDBError" where
  "MerchantDBError_from_StorageError StorageError.DBPoolError = MerchantDBError.DBError"
| "MerchantDBError_from_StorageError StorageError.PoolClientFailure = MerchantDBError.DBError"
| "MerchantDBError_from_StorageError StorageError.ReplicaPoolNotConfigured = MerchantDBError.DBError"
| "MerchantDBError_from_StorageError StorageError.FindError = MerchantDBError.DBFilterError"
| "MerchantDBError_from_StorageError StorageError.DecryptionError = MerchantDBError.UnknownError"
| "MerchantDBError_from_StorageError StorageError.EncryptionError = MerchantDBError.UnknownError"
| "MerchantDBError_from_StorageError StorageError.DeleteError = MerchantDBError.UnknownError"
| "MerchantDBError_from_StorageError StorageError.InsertError = MerchantDBError.DBInsertError"
| "MerchantDBError_from_StorageError StorageError.UpdateError = MerchantDBError.DBInsertError"
| "MerchantDBError_from_StorageError StorageError.NotFoundError = MerchantDBError.NotFoundError"

fun VaultDBError_from_StorageError :: "StorageError \<Rightarrow> VaultDBError" where
  "VaultDBError_from_StorageError StorageError.DBPoolError = VaultDBError.DBError"
| "VaultDBError_from_StorageError StorageError.PoolClientFailure = VaultDBError.DBError"
| "VaultDBError_from_StorageError StorageError.ReplicaPoolNotConfigured = VaultDBError.DBError"
| "VaultDBError_from_StorageError StorageError.FindError = VaultDBError.DBFilterError"
| "VaultDBError_from_StorageError StorageError.DecryptionError = VaultDBError.UnknownError"
| "VaultDBError_from_StorageError StorageError.EncryptionError = VaultDBError.UnknownError"
| "VaultDBError_from_StorageError StorageError.InsertError = VaultDBError.DBInsertError"
| "VaultDBError_from_StorageError StorageError.UpdateError = VaultDBError.DBInsertError"
| "VaultDBError_from_StorageError StorageError.DeleteError = VaultDBError.DBDeleteError"
| "VaultDBError_from_StorageError StorageError.NotFoundError = VaultDBError.NotFoundError"

fun HashDBError_from_StorageError :: "StorageError \<Rightarrow> HashDBError" where
  "HashDBError_from_StorageError StorageError.DBPoolError = HashDBError.DBError"
| "HashDBError_from_StorageError StorageError.PoolClientFailure = HashDBError.DBError"
| "HashDBError_from_StorageError StorageError.ReplicaPoolNotConfigured = HashDBError.DBError"
| "HashDBError_from_StorageError StorageError.FindError = HashDBError.DBFilterError"
| "HashDBError_from_StorageError StorageError.DecryptionError = HashDBError.UnknownError"
| "HashDBError_from_StorageError StorageError.EncryptionError = HashDBError.UnknownError"
| "HashDBError_from_StorageError StorageError.DeleteError = HashDBError.UnknownError"
| "HashDBError_from_StorageError StorageError.InsertError = HashDBError.DBInsertError"
| "HashDBError_from_StorageError StorageError.UpdateError = HashDBError.DBInsertError"
| "HashDBError_from_StorageError StorageError.NotFoundError = HashDBError.DBFilterError"

fun TestDBError_from_StorageError :: "StorageError \<Rightarrow> TestDBError" where
  "TestDBError_from_StorageError StorageError.DBPoolError = TestDBError.DBError"
| "TestDBError_from_StorageError StorageError.PoolClientFailure = TestDBError.DBError"
| "TestDBError_from_StorageError StorageError.FindError = TestDBError.DBReadError"
| "TestDBError_from_StorageError StorageError.InsertError = TestDBError.DBWriteError"
| "TestDBError_from_StorageError StorageError.UpdateError = TestDBError.DBWriteError"
| "TestDBError_from_StorageError StorageError.DeleteError = TestDBError.DBDeleteError"
| "TestDBError_from_StorageError StorageError.DecryptionError = TestDBError.UnknownError"
| "TestDBError_from_StorageError StorageError.EncryptionError = TestDBError.UnknownError"
| "TestDBError_from_StorageError StorageError.NotFoundError = TestDBError.UnknownError"
| "TestDBError_from_StorageError StorageError.ReplicaPoolNotConfigured = TestDBError.DBReplicaNotConfigured"

fun FingerprintDBError_from_StorageError :: "StorageError \<Rightarrow> FingerprintDBError" where
  "FingerprintDBError_from_StorageError StorageError.DBPoolError = FingerprintDBError.DBError"
| "FingerprintDBError_from_StorageError StorageError.PoolClientFailure = FingerprintDBError.DBError"
| "FingerprintDBError_from_StorageError StorageError.ReplicaPoolNotConfigured = FingerprintDBError.DBError"
| "FingerprintDBError_from_StorageError StorageError.FindError = FingerprintDBError.DBFilterError"
| "FingerprintDBError_from_StorageError StorageError.NotFoundError = FingerprintDBError.DBFilterError"
| "FingerprintDBError_from_StorageError StorageError.DecryptionError = FingerprintDBError.UnknownError"
| "FingerprintDBError_from_StorageError StorageError.EncryptionError = FingerprintDBError.UnknownError"
| "FingerprintDBError_from_StorageError StorageError.DeleteError = FingerprintDBError.UnknownError"
| "FingerprintDBError_from_StorageError StorageError.InsertError = FingerprintDBError.DBInsertError"
| "FingerprintDBError_from_StorageError StorageError.UpdateError = FingerprintDBError.DBInsertError"

fun FingerprintDBError_from_CryptoError :: "CryptoError \<Rightarrow> FingerprintDBError" where
  "FingerprintDBError_from_CryptoError (CryptoError.SerdeJsonError m) = FingerprintDBError.UnknownError"
| "FingerprintDBError_from_CryptoError (CryptoError.JWError m) = FingerprintDBError.UnknownError"
| "FingerprintDBError_from_CryptoError (CryptoError.InvalidData m) = FingerprintDBError.UnknownError"
| "FingerprintDBError_from_CryptoError CryptoError.NotImplemented = FingerprintDBError.UnknownError"
| "FingerprintDBError_from_CryptoError CryptoError.EncryptionError = FingerprintDBError.UnknownError"
| "FingerprintDBError_from_CryptoError CryptoError.DecryptionError = FingerprintDBError.UnknownError"
| "FingerprintDBError_from_CryptoError (CryptoError.EncodingError m) = FingerprintDBError.EncodingError"

fun ApiError_from_FingerprintDBError :: "FingerprintDBError \<Rightarrow> ApiError" where
  "ApiError_from_FingerprintDBError FingerprintDBError.EncodingError = ApiError.EncodingError"
| "ApiError_from_FingerprintDBError FingerprintDBError.DBError = ApiError.DatabaseError"
| "ApiError_from_FingerprintDBError FingerprintDBError.DBFilterError = ApiError.RetrieveDataFailed ''fingerprint''"
| "ApiError_from_FingerprintDBError FingerprintDBError.DBInsertError = ApiError.DatabaseInsertFailed ''fingerprint''"
| "ApiError_from_FingerprintDBError FingerprintDBError.Duplicate = ApiError.DatabaseInsertFailed ''fingerprint''"
| "ApiError_from_FingerprintDBError FingerprintDBError.UnknownError = ApiError.UnknownError"

fun HashDBError_from_CryptoError :: "CryptoError \<Rightarrow> HashDBError" where
  "HashDBError_from_CryptoError (CryptoError.SerdeJsonError m) = HashDBError.UnknownError"
| "HashDBError_from_CryptoError (CryptoError.JWError m) = HashDBError.UnknownError"
| "HashDBError_from_CryptoError (CryptoError.InvalidData m) = HashDBError.UnknownError"
| "HashDBError_from_CryptoError (CryptoError.EncodingError m) = HashDBError.UnknownError"
| "HashDBError_from_CryptoError CryptoError.NotImplemented = HashDBError.UnknownError"
| "HashDBError_from_CryptoError CryptoError.EncryptionError = HashDBError.UnknownError"
| "HashDBError_from_CryptoError CryptoError.DecryptionError = HashDBError.UnknownError"

fun ApiError_from_MerchantDBError :: "MerchantDBError \<Rightarrow> ApiError" where
  "ApiError_from_MerchantDBError MerchantDBError.DEKEncryptionError = ApiError.MerchantError"
| "ApiError_from_MerchantDBError MerchantDBError.DEKDecryptionError = ApiError.MerchantError"
| "ApiError_from_MerchantDBError MerchantDBError.DBError = ApiError.MerchantError"
| "ApiError_from_MerchantDBError MerchantDBError.DBFilterError = ApiError.MerchantError"
| "ApiError_from_MerchantDBError MerchantDBError.Duplicate = ApiError.MerchantError"
| "ApiError_from_MerchantDBError MerchantDBError.DBInsertError = ApiError.MerchantError"
| "ApiError_from_MerchantDBError MerchantDBError.NotFoundError = ApiError.NotFoundError"
| "ApiError_from_MerchantDBError MerchantDBError.UnknownError = ApiError.UnknownError"

fun ApiError_from_VaultDBError :: "VaultDBError \<Rightarrow> ApiError" where
  "ApiError_from_VaultDBError VaultDBError.DataEncryptionError = ApiError.MerchantKeyError"
| "ApiError_from_VaultDBError VaultDBError.DataDecryptionError = ApiError.MerchantKeyError"
| "ApiError_from_VaultDBError VaultDBError.DBError = ApiError.DatabaseError"
| "ApiError_from_VaultDBError VaultDBError.DBFilterError = ApiError.RetrieveDataFailed ''locker''"
| "ApiError_from_VaultDBError VaultDBError.DBInsertError = ApiError.DatabaseInsertFailed ''locker''"
| "ApiError_from_VaultDBError VaultDBError.DBDeleteError = ApiError.DatabaseDeleteFailed ''locker''"
| "ApiError_from_VaultDBError VaultDBError.UnknownError = ApiError.UnknownError"
| "ApiError_from_VaultDBError VaultDBError.NotFoundError = ApiError.NotFoundError"
| "ApiError_from_VaultDBError VaultDBError.Duplicate = ApiError.DatabaseInsertFailed ''locker''"

fun ApiError_from_HashDBError :: "HashDBError \<Rightarrow> ApiError" where
  "ApiError_from_HashDBError HashDBError.DBError = ApiError.DatabaseError"
| "ApiError_from_HashDBError HashDBError.DBFilterError = ApiError.RetrieveDataFailed ''hash table''"
| "ApiError_from_HashDBError HashDBError.DBInsertError = ApiError.DatabaseInsertFailed ''hash table''"
| "ApiError_from_HashDBError HashDBError.Duplicate = ApiError.DatabaseInsertFailed ''hash table''"
| "ApiError_from_HashDBError HashDBError.UnknownError = ApiError.UnknownError"

fun ApiError_from_TestDBError :: "TestDBError \<Rightarrow> ApiError" where
  "ApiError_from_TestDBError TestDBError.DBError = ApiError.DatabaseError"
| "ApiError_from_TestDBError TestDBError.UnknownError = ApiError.UnknownError"
| "ApiError_from_TestDBError TestDBError.DBWriteError = ApiError.DatabaseInsertFailed ''TestFailed''"
| "ApiError_from_TestDBError TestDBError.DBReadError = ApiError.RetrieveDataFailed ''Test Failed''"
| "ApiError_from_TestDBError TestDBError.DBDeleteError = ApiError.DatabaseDeleteFailed ''Test Failed''"
| "ApiError_from_TestDBError TestDBError.DBReplicaNotConfigured = ApiError.DatabaseError"

fun ApiError_from_CryptoError :: "CryptoError \<Rightarrow> ApiError" where
  "ApiError_from_CryptoError (CryptoError.SerdeJsonError m) = ApiError.DecodingError"
| "ApiError_from_CryptoError CryptoError.DecryptionError = ApiError.RequestMiddlewareError ''Failed while encrypting/decrypting''"
| "ApiError_from_CryptoError (CryptoError.JWError m) = ApiError.RequestMiddlewareError ''Failed while encrypting/decrypting''"
| "ApiError_from_CryptoError (CryptoError.InvalidData m) = ApiError.DecodingError"
| "ApiError_from_CryptoError (CryptoError.EncodingError m) = ApiError.EncodingError"
| "ApiError_from_CryptoError CryptoError.EncryptionError = ApiError.ResponseMiddlewareError ''Failed while encrypting response''"
| "ApiError_from_CryptoError CryptoError.NotImplemented = ApiError.UnknownError"

fun EntityDBError_from_StorageError :: "StorageError \<Rightarrow> EntityDBError" where
  "EntityDBError_from_StorageError StorageError.DBPoolError = EntityDBError.DBError"
| "EntityDBError_from_StorageError StorageError.PoolClientFailure = EntityDBError.DBError"
| "EntityDBError_from_StorageError StorageError.ReplicaPoolNotConfigured = EntityDBError.DBError"
| "EntityDBError_from_StorageError StorageError.FindError = EntityDBError.DBFilterError"
| "EntityDBError_from_StorageError StorageError.NotFoundError = EntityDBError.NotFoundError"
| "EntityDBError_from_StorageError StorageError.DecryptionError = EntityDBError.UnknownError"
| "EntityDBError_from_StorageError StorageError.EncryptionError = EntityDBError.UnknownError"
| "EntityDBError_from_StorageError StorageError.DeleteError = EntityDBError.UnknownError"
| "EntityDBError_from_StorageError StorageError.InsertError = EntityDBError.DBInsertError"
| "EntityDBError_from_StorageError StorageError.UpdateError = EntityDBError.DBInsertError"

fun EntityDBError_from_CryptoError :: "CryptoError \<Rightarrow> EntityDBError" where
  "EntityDBError_from_CryptoError (CryptoError.SerdeJsonError m) = EntityDBError.UnknownError"
| "EntityDBError_from_CryptoError (CryptoError.JWError m) = EntityDBError.UnknownError"
| "EntityDBError_from_CryptoError (CryptoError.InvalidData m) = EntityDBError.UnknownError"
| "EntityDBError_from_CryptoError CryptoError.NotImplemented = EntityDBError.UnknownError"
| "EntityDBError_from_CryptoError CryptoError.EncryptionError = EntityDBError.UnknownError"
| "EntityDBError_from_CryptoError CryptoError.DecryptionError = EntityDBError.UnknownError"
| "EntityDBError_from_CryptoError (CryptoError.EncodingError m) = EntityDBError.UnknownError"

fun ApiError_from_EntityDBError :: "EntityDBError \<Rightarrow> ApiError" where
  "ApiError_from_EntityDBError EntityDBError.DBError = ApiError.DatabaseError"
| "ApiError_from_EntityDBError EntityDBError.DBFilterError = ApiError.RetrieveDataFailed ''entity''"
| "ApiError_from_EntityDBError EntityDBError.DBInsertError = ApiError.DatabaseInsertFailed ''entity''"
| "ApiError_from_EntityDBError EntityDBError.Duplicate = ApiError.DatabaseInsertFailed ''entity''"
| "ApiError_from_EntityDBError EntityDBError.UnknownError = ApiError.UnknownError"
| "ApiError_from_EntityDBError EntityDBError.NotFoundError = ApiError.NotFoundError"

fun ReverseLookupDBError_from_StorageError :: "StorageError \<Rightarrow> ReverseLookupDBError" where
  "ReverseLookupDBError_from_StorageError StorageError.DBPoolError = ReverseLookupDBError.DBError"
| "ReverseLookupDBError_from_StorageError StorageError.PoolClientFailure = ReverseLookupDBError.DBError"
| "ReverseLookupDBError_from_StorageError StorageError.ReplicaPoolNotConfigured = ReverseLookupDBError.DBError"
| "ReverseLookupDBError_from_StorageError StorageError.FindError = ReverseLookupDBError.DBFilterError"
| "ReverseLookupDBError_from_StorageError StorageError.NotFoundError = ReverseLookupDBError.NotFoundError"
| "ReverseLookupDBError_from_StorageError StorageError.DecryptionError = ReverseLookupDBError.UnknownError"
| "ReverseLookupDBError_from_StorageError StorageError.EncryptionError = ReverseLookupDBError.UnknownError"
| "ReverseLookupDBError_from_StorageError StorageError.DeleteError = ReverseLookupDBError.UnknownError"
| "ReverseLookupDBError_from_StorageError StorageError.InsertError = ReverseLookupDBError.DBInsertError"
| "ReverseLookupDBError_from_StorageError StorageError.UpdateError = ReverseLookupDBError.DBInsertError"

fun ApiError_from_ReverseLookupDBError :: "ReverseLookupDBError \<Rightarrow> ApiError" where
  "ApiError_from_ReverseLookupDBError ReverseLookupDBError.DBError = ApiError.DatabaseError"
| "ApiError_from_ReverseLookupDBError ReverseLookupDBError.DBFilterError = ApiError.RetrieveDataFailed ''reverse lookup''"
| "ApiError_from_ReverseLookupDBError ReverseLookupDBError.DBInsertError = ApiError.DatabaseInsertFailed ''reverse lookup''"
| "ApiError_from_ReverseLookupDBError ReverseLookupDBError.Duplicate = ApiError.DatabaseInsertFailed ''reverse lookup''"
| "ApiError_from_ReverseLookupDBError ReverseLookupDBError.NotFoundError = ApiError.NotFoundError"
| "ApiError_from_ReverseLookupDBError ReverseLookupDBError.UnknownError = ApiError.UnknownError"

fun ApiError_from_KeyManagerError :: "KeyManagerError \<Rightarrow> ApiError" where
  "ApiError_from_KeyManagerError KeyManagerError.KeyAddFailed = ApiError.KeyManagerError ''Failed to add key to the Key manager''"
| "ApiError_from_KeyManagerError KeyManagerError.KeyTransferFailed = ApiError.KeyManagerError ''Failed to transfer the key to the Key manager''"
| "ApiError_from_KeyManagerError KeyManagerError.EncryptionFailed = ApiError.KeyManagerError ''Failed to encrypt the data in the Key manager''"
| "ApiError_from_KeyManagerError KeyManagerError.DecryptionFailed = ApiError.KeyManagerError ''Failed to decrypt the data in the Key manager''"
| "ApiError_from_KeyManagerError KeyManagerError.DbError = ApiError.KeyManagerError ''Database error''"
| "ApiError_from_KeyManagerError KeyManagerError.ResponseDecodingFailed = ApiError.KeyManagerError ''Failed to deserialize from bytes''"
| "ApiError_from_KeyManagerError KeyManagerError.Unauthorized = ApiError.TenantError ''Invalid master key''"
| "ApiError_from_KeyManagerError (KeyManagerError.MissingConfigurationError m) = ApiError.TenantError ''Missing configuration''"

fun KeyManagerError_from_EntityDBError :: "EntityDBError \<Rightarrow> KeyManagerError" where
  "KeyManagerError_from_EntityDBError EntityDBError.DBError = KeyManagerError.DbError"
| "KeyManagerError_from_EntityDBError EntityDBError.DBFilterError = KeyManagerError.DbError"
| "KeyManagerError_from_EntityDBError EntityDBError.DBInsertError = KeyManagerError.DbError"
| "KeyManagerError_from_EntityDBError EntityDBError.Duplicate = KeyManagerError.DbError"
| "KeyManagerError_from_EntityDBError EntityDBError.UnknownError = KeyManagerError.DbError"
| "KeyManagerError_from_EntityDBError EntityDBError.NotFoundError = KeyManagerError.DbError"

fun DataKeyCreationError_from_ApiClientError :: "ApiClientError \<Rightarrow> DataKeyCreationError" where
  "DataKeyCreationError_from_ApiClientError ApiClientError.ClientConstructionFailed = DataKeyCreationError.Unexpected"
| "DataKeyCreationError_from_ApiClientError (ApiClientError.Unexpected c m) = DataKeyCreationError.Unexpected"
| "DataKeyCreationError_from_ApiClientError ApiClientError.HeaderMapConstructionFailed = DataKeyCreationError.RequestConstructionFailed"
| "DataKeyCreationError_from_ApiClientError ApiClientError.UrlEncodingFailed = DataKeyCreationError.RequestConstructionFailed"
| "DataKeyCreationError_from_ApiClientError ApiClientError.IdentityParseFailed = DataKeyCreationError.CertificateParseFailed"
| "DataKeyCreationError_from_ApiClientError (ApiClientError.CertificateParseFailed m) = DataKeyCreationError.CertificateParseFailed"
| "DataKeyCreationError_from_ApiClientError ApiClientError.RequestNotSent = DataKeyCreationError.RequestSendFailed"
| "DataKeyCreationError_from_ApiClientError ApiClientError.ResponseDecodingFailed = DataKeyCreationError.ResponseDecodingFailed"
| "DataKeyCreationError_from_ApiClientError (ApiClientError.BadRequest m) = DataKeyCreationError.BadRequest"
| "DataKeyCreationError_from_ApiClientError (ApiClientError.InternalServerError m) = DataKeyCreationError.InternalServerError"
| "DataKeyCreationError_from_ApiClientError (ApiClientError.Unauthorized m) = DataKeyCreationError.Unauthorized"
| "DataKeyCreationError_from_ApiClientError (ApiClientError.MissingConfigurationError m) = DataKeyCreationError.Unexpected"

fun KeyManagerError_from_DataKeyCreationError :: "DataKeyCreationError \<Rightarrow> KeyManagerError" where
  "KeyManagerError_from_DataKeyCreationError DataKeyCreationError.RequestSendFailed = KeyManagerError.KeyAddFailed"
| "KeyManagerError_from_DataKeyCreationError DataKeyCreationError.ResponseDecodingFailed = KeyManagerError.KeyAddFailed"
| "KeyManagerError_from_DataKeyCreationError DataKeyCreationError.InternalServerError = KeyManagerError.KeyAddFailed"
| "KeyManagerError_from_DataKeyCreationError DataKeyCreationError.Unexpected = KeyManagerError.KeyAddFailed"
| "KeyManagerError_from_DataKeyCreationError DataKeyCreationError.BadRequest = KeyManagerError.KeyAddFailed"
| "KeyManagerError_from_DataKeyCreationError DataKeyCreationError.CertificateParseFailed = KeyManagerError.KeyAddFailed"
| "KeyManagerError_from_DataKeyCreationError DataKeyCreationError.RequestConstructionFailed = KeyManagerError.KeyAddFailed"
| "KeyManagerError_from_DataKeyCreationError DataKeyCreationError.Unauthorized = KeyManagerError.Unauthorized"

fun DataKeyTransferError_from_ApiClientError :: "ApiClientError \<Rightarrow> DataKeyTransferError" where
  "DataKeyTransferError_from_ApiClientError ApiClientError.ClientConstructionFailed = DataKeyTransferError.Unexpected"
| "DataKeyTransferError_from_ApiClientError (ApiClientError.Unexpected c m) = DataKeyTransferError.Unexpected"
| "DataKeyTransferError_from_ApiClientError ApiClientError.HeaderMapConstructionFailed = DataKeyTransferError.RequestConstructionFailed"
| "DataKeyTransferError_from_ApiClientError ApiClientError.UrlEncodingFailed = DataKeyTransferError.RequestConstructionFailed"
| "DataKeyTransferError_from_ApiClientError ApiClientError.IdentityParseFailed = DataKeyTransferError.CertificateParseFailed"
| "DataKeyTransferError_from_ApiClientError (ApiClientError.CertificateParseFailed m) = DataKeyTransferError.CertificateParseFailed"
| "DataKeyTransferError_from_ApiClientError ApiClientError.RequestNotSent = DataKeyTransferError.RequestSendFailed"
| "DataKeyTransferError_from_ApiClientError ApiClientError.ResponseDecodingFailed = DataKeyTransferError.ResponseDecodingFailed"
| "DataKeyTransferError_from_ApiClientError (ApiClientError.BadRequest m) = DataKeyTransferError.BadRequest"
| "DataKeyTransferError_from_ApiClientError (ApiClientError.InternalServerError m) = DataKeyTransferError.InternalServerError"
| "DataKeyTransferError_from_ApiClientError (ApiClientError.Unauthorized m) = DataKeyTransferError.Unauthorized"
| "DataKeyTransferError_from_ApiClientError (ApiClientError.MissingConfigurationError m) = DataKeyTransferError.Unexpected"

fun KeyManagerError_from_DataKeyTransferError :: "DataKeyTransferError \<Rightarrow> KeyManagerError" where
  "KeyManagerError_from_DataKeyTransferError DataKeyTransferError.RequestSendFailed = KeyManagerError.KeyTransferFailed"
| "KeyManagerError_from_DataKeyTransferError DataKeyTransferError.ResponseDecodingFailed = KeyManagerError.KeyTransferFailed"
| "KeyManagerError_from_DataKeyTransferError DataKeyTransferError.InternalServerError = KeyManagerError.KeyTransferFailed"
| "KeyManagerError_from_DataKeyTransferError DataKeyTransferError.Unexpected = KeyManagerError.KeyTransferFailed"
| "KeyManagerError_from_DataKeyTransferError DataKeyTransferError.BadRequest = KeyManagerError.KeyTransferFailed"
| "KeyManagerError_from_DataKeyTransferError DataKeyTransferError.CertificateParseFailed = KeyManagerError.KeyTransferFailed"
| "KeyManagerError_from_DataKeyTransferError DataKeyTransferError.RequestConstructionFailed = KeyManagerError.KeyTransferFailed"
| "KeyManagerError_from_DataKeyTransferError DataKeyTransferError.Unauthorized = KeyManagerError.Unauthorized"

fun DataEncryptionError_from_ApiClientError :: "ApiClientError \<Rightarrow> DataEncryptionError" where
  "DataEncryptionError_from_ApiClientError ApiClientError.ClientConstructionFailed = DataEncryptionError.Unexpected"
| "DataEncryptionError_from_ApiClientError (ApiClientError.Unexpected c m) = DataEncryptionError.Unexpected"
| "DataEncryptionError_from_ApiClientError ApiClientError.HeaderMapConstructionFailed = DataEncryptionError.RequestConstructionFailed"
| "DataEncryptionError_from_ApiClientError ApiClientError.UrlEncodingFailed = DataEncryptionError.RequestConstructionFailed"
| "DataEncryptionError_from_ApiClientError ApiClientError.IdentityParseFailed = DataEncryptionError.CertificateParseFailed"
| "DataEncryptionError_from_ApiClientError (ApiClientError.CertificateParseFailed m) = DataEncryptionError.CertificateParseFailed"
| "DataEncryptionError_from_ApiClientError ApiClientError.RequestNotSent = DataEncryptionError.RequestSendFailed"
| "DataEncryptionError_from_ApiClientError ApiClientError.ResponseDecodingFailed = DataEncryptionError.ResponseDecodingFailed"
| "DataEncryptionError_from_ApiClientError (ApiClientError.BadRequest m) = DataEncryptionError.BadRequest"
| "DataEncryptionError_from_ApiClientError (ApiClientError.InternalServerError m) = DataEncryptionError.InternalServerError"
| "DataEncryptionError_from_ApiClientError (ApiClientError.Unauthorized m) = DataEncryptionError.Unauthorized"
| "DataEncryptionError_from_ApiClientError (ApiClientError.MissingConfigurationError m) = DataEncryptionError.Unexpected"

fun KeyManagerError_from_DataEncryptionError :: "DataEncryptionError \<Rightarrow> KeyManagerError" where
  "KeyManagerError_from_DataEncryptionError DataEncryptionError.RequestSendFailed = KeyManagerError.EncryptionFailed"
| "KeyManagerError_from_DataEncryptionError DataEncryptionError.ResponseDecodingFailed = KeyManagerError.EncryptionFailed"
| "KeyManagerError_from_DataEncryptionError DataEncryptionError.InternalServerError = KeyManagerError.EncryptionFailed"
| "KeyManagerError_from_DataEncryptionError DataEncryptionError.Unexpected = KeyManagerError.EncryptionFailed"
| "KeyManagerError_from_DataEncryptionError DataEncryptionError.BadRequest = KeyManagerError.EncryptionFailed"
| "KeyManagerError_from_DataEncryptionError DataEncryptionError.CertificateParseFailed = KeyManagerError.EncryptionFailed"
| "KeyManagerError_from_DataEncryptionError DataEncryptionError.RequestConstructionFailed = KeyManagerError.EncryptionFailed"
| "KeyManagerError_from_DataEncryptionError DataEncryptionError.Unauthorized = KeyManagerError.Unauthorized"

fun DataDecryptionError_from_ApiClientError :: "ApiClientError \<Rightarrow> DataDecryptionError" where
  "DataDecryptionError_from_ApiClientError ApiClientError.ClientConstructionFailed = DataDecryptionError.Unexpected"
| "DataDecryptionError_from_ApiClientError (ApiClientError.Unexpected c m) = DataDecryptionError.Unexpected"
| "DataDecryptionError_from_ApiClientError ApiClientError.HeaderMapConstructionFailed = DataDecryptionError.RequestConstructionFailed"
| "DataDecryptionError_from_ApiClientError ApiClientError.UrlEncodingFailed = DataDecryptionError.RequestConstructionFailed"
| "DataDecryptionError_from_ApiClientError ApiClientError.IdentityParseFailed = DataDecryptionError.CertificateParseFailed"
| "DataDecryptionError_from_ApiClientError (ApiClientError.CertificateParseFailed m) = DataDecryptionError.CertificateParseFailed"
| "DataDecryptionError_from_ApiClientError ApiClientError.RequestNotSent = DataDecryptionError.RequestSendFailed"
| "DataDecryptionError_from_ApiClientError ApiClientError.ResponseDecodingFailed = DataDecryptionError.ResponseDecodingFailed"
| "DataDecryptionError_from_ApiClientError (ApiClientError.BadRequest m) = DataDecryptionError.BadRequest"
| "DataDecryptionError_from_ApiClientError (ApiClientError.InternalServerError m) = DataDecryptionError.InternalServerError"
| "DataDecryptionError_from_ApiClientError (ApiClientError.Unauthorized m) = DataDecryptionError.Unauthorized"
| "DataDecryptionError_from_ApiClientError (ApiClientError.MissingConfigurationError m) = DataDecryptionError.Unexpected"

fun KeyManagerError_from_DataDecryptionError :: "DataDecryptionError \<Rightarrow> KeyManagerError" where
  "KeyManagerError_from_DataDecryptionError DataDecryptionError.RequestSendFailed = KeyManagerError.DecryptionFailed"
| "KeyManagerError_from_DataDecryptionError DataDecryptionError.ResponseDecodingFailed = KeyManagerError.DecryptionFailed"
| "KeyManagerError_from_DataDecryptionError DataDecryptionError.InternalServerError = KeyManagerError.DecryptionFailed"
| "KeyManagerError_from_DataDecryptionError DataDecryptionError.Unexpected = KeyManagerError.DecryptionFailed"
| "KeyManagerError_from_DataDecryptionError DataDecryptionError.BadRequest = KeyManagerError.DecryptionFailed"
| "KeyManagerError_from_DataDecryptionError DataDecryptionError.CertificateParseFailed = KeyManagerError.DecryptionFailed"
| "KeyManagerError_from_DataDecryptionError DataDecryptionError.RequestConstructionFailed = KeyManagerError.DecryptionFailed"
| "KeyManagerError_from_DataDecryptionError DataDecryptionError.Unauthorized = KeyManagerError.Unauthorized"

fun KeyManagerHealthCheckError_from_ApiClientError :: "ApiClientError \<Rightarrow> KeyManagerHealthCheckError" where
  "KeyManagerHealthCheckError_from_ApiClientError ApiClientError.ClientConstructionFailed = KeyManagerHealthCheckError.FailedToConnect"
| "KeyManagerHealthCheckError_from_ApiClientError ApiClientError.HeaderMapConstructionFailed = KeyManagerHealthCheckError.FailedToConnect"
| "KeyManagerHealthCheckError_from_ApiClientError ApiClientError.IdentityParseFailed = KeyManagerHealthCheckError.FailedToConnect"
| "KeyManagerHealthCheckError_from_ApiClientError (ApiClientError.CertificateParseFailed m) = KeyManagerHealthCheckError.FailedToConnect"
| "KeyManagerHealthCheckError_from_ApiClientError ApiClientError.UrlEncodingFailed = KeyManagerHealthCheckError.FailedToConnect"
| "KeyManagerHealthCheckError_from_ApiClientError ApiClientError.RequestNotSent = KeyManagerHealthCheckError.FailedToConnect"
| "KeyManagerHealthCheckError_from_ApiClientError ApiClientError.ResponseDecodingFailed = KeyManagerHealthCheckError.FailedToConnect"
| "KeyManagerHealthCheckError_from_ApiClientError (ApiClientError.BadRequest m) = KeyManagerHealthCheckError.FailedToConnect"
| "KeyManagerHealthCheckError_from_ApiClientError (ApiClientError.Unauthorized m) = KeyManagerHealthCheckError.FailedToConnect"
| "KeyManagerHealthCheckError_from_ApiClientError (ApiClientError.Unexpected c m) = KeyManagerHealthCheckError.FailedToConnect"
| "KeyManagerHealthCheckError_from_ApiClientError (ApiClientError.InternalServerError m) = KeyManagerHealthCheckError.FailedToConnect"
| "KeyManagerHealthCheckError_from_ApiClientError (ApiClientError.MissingConfigurationError m) = KeyManagerHealthCheckError.FailedToConnect"

section \<open>Conversions of KV errors (storage/kv/impls.rs)\<close>

fun ReverseLookupDBError_from_KvError :: "KvError \<Rightarrow> ReverseLookupDBError" where
  "ReverseLookupDBError_from_KvError (KvError.DuplicateValue m) = ReverseLookupDBError.Duplicate"
| "ReverseLookupDBError_from_KvError (KvError.ValueNotFound m) = ReverseLookupDBError.NotFoundError"
| "ReverseLookupDBError_from_KvError KvError.Backend = ReverseLookupDBError.UnknownError"
| "ReverseLookupDBError_from_KvError KvError.SerializationFailed = ReverseLookupDBError.UnknownError"

fun HashDBError_from_KvError :: "KvError \<Rightarrow> HashDBError" where
  "HashDBError_from_KvError (KvError.DuplicateValue m) = HashDBError.Duplicate"
| "HashDBError_from_KvError (KvError.ValueNotFound m) = HashDBError.DBFilterError"
| "HashDBError_from_KvError KvError.Backend = HashDBError.UnknownError"
| "HashDBError_from_KvError KvError.SerializationFailed = HashDBError.UnknownError"

fun VaultDBError_from_KvError :: "KvError \<Rightarrow> VaultDBError" where
  "VaultDBError_from_KvError (KvError.DuplicateValue m) = VaultDBError.Duplicate"
| "VaultDBError_from_KvError (KvError.ValueNotFound m) = VaultDBError.NotFoundError"
| "VaultDBError_from_KvError KvError.Backend = VaultDBError.UnknownError"
| "VaultDBError_from_KvError KvError.SerializationFailed = VaultDBError.UnknownError"

fun FingerprintDBError_from_KvError :: "KvError \<Rightarrow> FingerprintDBError" where
  "FingerprintDBError_from_KvError (KvError.DuplicateValue m) = FingerprintDBError.Duplicate"
| "FingerprintDBError_from_KvError (KvError.ValueNotFound m) = FingerprintDBError.DBFilterError"
| "FingerprintDBError_from_KvError KvError.Backend = FingerprintDBError.UnknownError"
| "FingerprintDBError_from_KvError KvError.SerializationFailed = FingerprintDBError.UnknownError"

section \<open>Database errors (error/custom_error.rs)\<close>

text \<open>
  What the program distinguishes of \<open>diesel::result::Error\<close>: the two variants that
  \<open>impl_storage_error\<close> matches and, with their message, all the others.
\<close>

datatype DatabaseErrorKind = UniqueViolation | OtherDatabaseErrorKind string

datatype DieselError = NotFound | DatabaseError DatabaseErrorKind string | OtherDieselError string

text \<open>The macro \<open>impl_storage_error\<close>, with the three variants it is given as arguments.\<close>

definition storage_error_is :: "'e \<Rightarrow> 'e \<Rightarrow> bool" where
  "storage_error_is variant e = (e = variant)"

definition storage_error_from_diesel :: "'e \<Rightarrow> 'e \<Rightarrow> 'e \<Rightarrow> DieselError \<Rightarrow> 'e" where
  "storage_error_from_diesel dup nf other err = (case err of
     DieselError.NotFound \<Rightarrow> nf
   | DieselError.DatabaseError kind info \<Rightarrow>
       (case kind of UniqueViolation \<Rightarrow> dup | OtherDatabaseErrorKind k \<Rightarrow> other)
   | OtherDieselError info \<Rightarrow> other)"

definition VaultDBError_is_duplicate :: "VaultDBError \<Rightarrow> bool" where
  "VaultDBError_is_duplicate = storage_error_is VaultDBError.Duplicate"

definition VaultDBError_is_not_found :: "VaultDBError \<Rightarrow> bool" where
  "VaultDBError_is_not_found = storage_error_is VaultDBError.NotFoundError"

definition VaultDBError_from_diesel :: "DieselError \<Rightarrow> VaultDBError" where
  "VaultDBError_from_diesel = storage_error_from_diesel
     VaultDBError.Duplicate VaultDBError.NotFoundError VaultDBError.DBError"

definition MerchantDBError_is_duplicate :: "MerchantDBError \<Rightarrow> bool" where
  "MerchantDBError_is_duplicate = storage_error_is MerchantDBError.Duplicate"

definition MerchantDBError_is_not_found :: "MerchantDBError \<Rightarrow> bool" where
  "MerchantDBError_is_not_found = storage_error_is MerchantDBError.NotFoundError"

definition MerchantDBError_from_diesel :: "DieselError \<Rightarrow> MerchantDBError" where
  "MerchantDBError_from_diesel = storage_error_from_diesel
     MerchantDBError.Duplicate MerchantDBError.NotFoundError MerchantDBError.DBError"

definition FingerprintDBError_is_duplicate :: "FingerprintDBError \<Rightarrow> bool" where
  "FingerprintDBError_is_duplicate = storage_error_is FingerprintDBError.Duplicate"

definition FingerprintDBError_is_not_found :: "FingerprintDBError \<Rightarrow> bool" where
  "FingerprintDBError_is_not_found = storage_error_is FingerprintDBError.DBFilterError"

definition FingerprintDBError_from_diesel :: "DieselError \<Rightarrow> FingerprintDBError" where
  "FingerprintDBError_from_diesel = storage_error_from_diesel
     FingerprintDBError.Duplicate FingerprintDBError.DBFilterError FingerprintDBError.DBError"

definition HashDBError_is_duplicate :: "HashDBError \<Rightarrow> bool" where
  "HashDBError_is_duplicate = storage_error_is HashDBError.Duplicate"

definition HashDBError_is_not_found :: "HashDBError \<Rightarrow> bool" where
  "HashDBError_is_not_found = storage_error_is HashDBError.DBFilterError"

definition HashDBError_from_diesel :: "DieselError \<Rightarrow> HashDBError" where
  "HashDBError_from_diesel = storage_error_from_diesel
     HashDBError.Duplicate HashDBError.DBFilterError HashDBError.DBError"

definition EntityDBError_is_duplicate :: "EntityDBError \<Rightarrow> bool" where
  "EntityDBError_is_duplicate = storage_error_is EntityDBError.Duplicate"

definition EntityDBError_is_not_found :: "EntityDBError \<Rightarrow> bool" where
  "EntityDBError_is_not_found = storage_error_is EntityDBError.NotFoundError"

definition EntityDBError_from_diesel :: "DieselError \<Rightarrow> EntityDBError" where
  "EntityDBError_from_diesel = storage_error_from_diesel
     EntityDBError.Duplicate EntityDBError.NotFoundError EntityDBError.DBError"

definition ReverseLookupDBError_is_duplicate :: "ReverseLookupDBError \<Rightarrow> bool" where
  "ReverseLookupDBError_is_duplicate = storage_error_is ReverseLookupDBError.Duplicate"

definition ReverseLookupDBError_is_not_found :: "ReverseLookupDBError \<Rightarrow> bool" where
  "ReverseLookupDBError_is_not_found = storage_error_is ReverseLookupDBError.NotFoundError"

definition ReverseLookupDBError_from_diesel :: "DieselError \<Rightarrow> ReverseLookupDBError" where
  "ReverseLookupDBError_from_diesel = storage_error_from_diesel
     ReverseLookupDBError.Duplicate ReverseLookupDBError.NotFoundError ReverseLookupDBError.DBError"

section \<open>Redis errors (error/kv.rs)\<close>

datatype RedisError =
    NotFound | SetNxFailed | SetAddMembersFailed | JsonSerializationFailed | JsonDeserializationFailed
  | InvalidConfiguration string | SetFailed | SetExFailed | SetExpiryFailed | GetFailed | DeleteFailed
  | StreamAppendFailed | StreamReadFailed | GetLengthFailed | StreamDeleteFailed | StreamTrimFailed
  | StreamAcknowledgeFailed | StreamEmptyOrNotAvailable | ConsumerGroupCreateFailed
  | ConsumerGroupDestroyFailed | ConsumerGroupRemoveConsumerFailed | ConsumerGroupSetIdFailed
  | ConsumerGroupClaimFailed | SetHashFailed | SetHashFieldFailed | DeleteHashFieldFailed
  | GetHashFieldFailed | InvalidRedisEntryId | RedisConnectionError | SubscribeError | PublishError
  | OnMessageError | UnknownResult | AppendElementsToListFailed | GetListElementsFailed
  | GetListLengthFailed | PopListElementsFailed | IncrementHashFieldFailed | ScriptExecutionFailed

definition to_redis_failed_response :: "RedisError \<Rightarrow> string \<Rightarrow> KvError" where
  "to_redis_failed_response e key = (case e of
     RedisError.NotFound \<Rightarrow> KvError.ValueNotFound (''Data does not exist for key '' @ key)
   | SetNxFailed \<Rightarrow> KvError.DuplicateValue key
   | SetAddMembersFailed \<Rightarrow> KvError.DuplicateValue key
   | JsonSerializationFailed \<Rightarrow> KvError.SerializationFailed
   | JsonDeserializationFailed \<Rightarrow> KvError.SerializationFailed
   | _ \<Rightarrow> KvError.Backend)"

section \<open>The HTTP answer of an ApiError (error.rs)\<close>

record ApiErrorResponse =
  code :: string
  message :: string
  data :: "string option"

definition ApiErrorResponse_new :: "string \<Rightarrow> string \<Rightarrow> string option \<Rightarrow> ApiErrorResponse" where
  "ApiErrorResponse_new c m d = \<lparr> code = c, message = m, data = d \<rparr>"

fun ApiError_to_string :: "ApiError \<Rightarrow> string" where
  "ApiError_to_string (ApiError.RetrieveDataFailed m) = ''failed while retrieving stored data''"
| "ApiError_to_string (ApiError.DecryptingKeysFailed m) = ''failed to decrypt two custodian keys: '' @ m"
| "ApiError_to_string (ApiError.RequestMiddlewareError m) = ''failed in request middleware: '' @ m"
| "ApiError_to_string (ApiError.ResponseMiddlewareError m) = ''failed in response middleware: '' @ m"
| "ApiError_to_string ApiError.EncodingError = ''Error while encoding data''"
| "ApiError_to_string ApiError.DecodingError = ''Failed while decoding data''"
| "ApiError_to_string (ApiError.DatabaseInsertFailed m) = ''Failed while inserting data into '' @ m"
| "ApiError_to_string (ApiError.DatabaseDeleteFailed m) = ''failed while deleting data from '' @ m"
| "ApiError_to_string ApiError.MerchantError = ''Failed while getting merchant from DB''"
| "ApiError_to_string ApiError.UnknownError = ''Something went wrong''"
| "ApiError_to_string ApiError.MerchantKeyError = ''Error while encrypting with merchant key''"
| "ApiError_to_string ApiError.DatabaseError = ''Failed while connecting to database''"
| "ApiError_to_string (ApiError.ValidationError m) = ''Failed while validation: '' @ m"
| "ApiError_to_string ApiError.NotFoundError = ''Requested resource not found''"
| "ApiError_to_string ApiError.InvalidTtl = ''TTL is invalid''"
| "ApiError_to_string ApiError.CustodianLocked = ''Custodian is locked''"
| "ApiError_to_string ApiError.CustodianUnlocked = ''Custodian is already unlocked''"
| "ApiError_to_string (ApiError.TenantError m) = ''Tenant error: '' @ m"
| "ApiError_to_string (ApiError.KeyManagerError m) = ''Key manager error: '' @ m"

definition into_response :: "ApiError \<Rightarrow> nat \<times> ApiErrorResponse" where
  "into_response e = (case e of
     ApiError.CustodianLocked \<Rightarrow> (401, ApiErrorResponse_new ''TE_00'' ''Custodian is locked'' None)
   | ApiError.DecryptingKeysFailed err \<Rightarrow>
       (401, ApiErrorResponse_new ''TE_00'' (''Failed while decrypting two custodian keys: '' @ err) None)
   | ApiError.EncodingError \<Rightarrow> (500, ApiErrorResponse_new ''TE_00'' (ApiError_to_string e) None)
   | ApiError.ResponseMiddlewareError m \<Rightarrow> (500, ApiErrorResponse_new ''TE_00'' (ApiError_to_string e) None)
   | ApiError.UnknownError \<Rightarrow> (500, ApiErrorResponse_new ''TE_00'' (ApiError_to_string e) None)
   | ApiError.MerchantKeyError \<Rightarrow> (500, ApiErrorResponse_new ''TE_00'' (ApiError_to_string e) None)
   | ApiError.KeyManagerError m \<Rightarrow> (500, ApiErrorResponse_new ''TE_00'' (ApiError_to_string e) None)
   | ApiError.DatabaseInsertFailed m \<Rightarrow> (500, ApiErrorResponse_new ''TE_01'' (ApiError_to_string e) None)
   | ApiError.DatabaseError \<Rightarrow> (500, ApiErrorResponse_new ''TE_01'' (ApiError_to_string e) None)
   | ApiError.DatabaseDeleteFailed m \<Rightarrow> (500, ApiErrorResponse_new ''TE_01'' (ApiError_to_string e) None)
   | ApiError.RetrieveDataFailed m \<Rightarrow> (500, ApiErrorResponse_new ''TE_01'' (ApiError_to_string e) None)
   | ApiError.RequestMiddlewareError m \<Rightarrow> (400, ApiErrorResponse_new ''TE_03'' (ApiError_to_string e) None)
   | ApiError.DecodingError \<Rightarrow> (400, ApiErrorResponse_new ''TE_03'' (ApiError_to_string e) None)
   | ApiError.ValidationError m \<Rightarrow> (400, ApiErrorResponse_new ''TE_03'' (ApiError_to_string e) None)
   | ApiError.InvalidTtl \<Rightarrow> (400, ApiErrorResponse_new ''TE_03'' (ApiError_to_string e) None)
   | ApiError.CustodianUnlocked \<Rightarrow> (400, ApiErrorResponse_new ''TE_03'' (ApiError_to_string e) None)
   | ApiError.TenantError m \<Rightarrow> (400, ApiErrorResponse_new ''TE_03'' (ApiError_to_string e) None)
   | ApiError.NotFoundError \<Rightarrow> (404, ApiErrorResponse_new ''TE_02'' (ApiError_to_string e) None)
   | ApiError.MerchantError \<Rightarrow> (500, ApiErrorResponse_new ''TE_02'' (ApiError_to_string e) None))"

section \<open>The contract of a storage error type\<close>

text \<open>
  The generic code of the storage and domain layers (\<open>kv/resource.rs\<close>, \<open>domain/\<close>) sees an
  error type only through \<open>is_duplicate\<close>, \<open>is_not_found\<close> and the two conversions.  The
  locales state what that code relies on; every table's error type is an instance.
\<close>

locale storage_error =
  fixes is_duplicate is_not_found :: "'e \<Rightarrow> bool"
    and from_diesel :: "DieselError \<Rightarrow> 'e"
  assumes diesel_duplicate: "is_duplicate (from_diesel (DieselError.DatabaseError UniqueViolation info))"
    and diesel_not_found: "is_not_found (from_diesel DieselError.NotFound)"
    and diesel_other: "is_duplicate (from_diesel (DieselError.DatabaseError (OtherDatabaseErrorKind k) info)) = False"
      "is_not_found (from_diesel (DieselError.DatabaseError (OtherDatabaseErrorKind k) info)) = False"
      "is_duplicate (from_diesel (OtherDieselError info)) = False"
      "is_not_found (from_diesel (OtherDieselError info)) = False"
    and disjoint: "is_duplicate e \<Longrightarrow> \<not> is_not_found e"
begin

lemma duplicate_iff:
  "is_duplicate (from_diesel d) \<longleftrightarrow> (\<exists>info. d = DieselError.DatabaseError UniqueViolation info)"
proof (cases d)
  case NotFound
  then show ?thesis using disjoint diesel_not_found by auto
next
  case (DatabaseError k i)
  then show ?thesis by (cases k) (simp_all add: diesel_duplicate diesel_other)
qed (simp add: diesel_other)

lemma not_found_iff: "is_not_found (from_diesel d) \<longleftrightarrow> d = DieselError.NotFound"
proof (cases d)
  case NotFound
  then show ?thesis by (simp add: diesel_not_found)
next
  case (DatabaseError k i)
  then show ?thesis using disjoint [OF diesel_duplicate, of i]
    by (cases k) (simp_all add: diesel_other)
qed (simp add: diesel_other)

lemma duplicate_not_found: "is_duplicate e \<Longrightarrow> is_not_found e = False"
  using disjoint by auto

end

locale kv_storage_error = storage_error +
  fixes from_kv :: "KvError \<Rightarrow> 'a"
  assumes kv_duplicate: "is_duplicate (from_kv e) \<longleftrightarrow> (\<exists>k. e = KvError.DuplicateValue k)"
    and kv_not_found: "is_not_found (from_kv e) \<longleftrightarrow> (\<exists>m. e = KvError.ValueNotFound m)"
begin

lemma redis_duplicate_iff:
  "is_duplicate (from_kv (to_redis_failed_response e key)) \<longleftrightarrow> e = SetNxFailed \<or> e = SetAddMembersFailed"
  by (cases e) (simp_all add: kv_duplicate to_redis_failed_response_def)

lemma redis_not_found_iff:
  "is_not_found (from_kv (to_redis_failed_response e key)) \<longleftrightarrow> e = RedisError.NotFound"
  by (cases e) (simp_all add: kv_not_found to_redis_failed_response_def)

end

lemmas storage_error_simps = storage_error_is_def storage_error_from_diesel_def
  VaultDBError_is_duplicate_def VaultDBError_is_not_found_def VaultDBError_from_diesel_def
  MerchantDBError_is_duplicate_def MerchantDBError_is_not_found_def MerchantDBError_from_diesel_def
  FingerprintDBError_is_duplicate_def FingerprintDBError_is_not_found_def FingerprintDBError_from_diesel_def
  HashDBError_is_duplicate_def HashDBError_is_not_found_def HashDBError_from_diesel_def
  EntityDBError_is_duplicate_def EntityDBError_is_not_found_def EntityDBError_from_diesel_def
  ReverseLookupDBError_is_duplicate_def ReverseLookupDBError_is_not_found_def
  ReverseLookupDBError_from_diesel_def

interpretation vault_err: kv_storage_error VaultDBError_is_duplicate VaultDBError_is_not_found
    VaultDBError_from_diesel VaultDBError_from_KvError
proof unfold_locales
  fix e show "VaultDBError_is_duplicate (VaultDBError_from_KvError e) \<longleftrightarrow> (\<exists>k. e = KvError.DuplicateValue k)"
    and "VaultDBError_is_not_found (VaultDBError_from_KvError e) \<longleftrightarrow> (\<exists>m. e = KvError.ValueNotFound m)"
    by (cases e; simp add: storage_error_simps)+
qed (auto simp: storage_error_simps)

interpretation hash_err: kv_storage_error HashDBError_is_duplicate HashDBError_is_not_found
    HashDBError_from_diesel HashDBError_from_KvError
proof unfold_locales
  fix e show "HashDBError_is_duplicate (HashDBError_from_KvError e) \<longleftrightarrow> (\<exists>k. e = KvError.DuplicateValue k)"
    and "HashDBError_is_not_found (HashDBError_from_KvError e) \<longleftrightarrow> (\<exists>m. e = KvError.ValueNotFound m)"
    by (cases e; simp add: storage_error_simps)+
qed (auto simp: storage_error_simps)

interpretation fingerprint_err: kv_storage_error FingerprintDBError_is_duplicate
    FingerprintDBError_is_not_found FingerprintDBError_from_diesel FingerprintDBError_from_KvError
proof unfold_locales
  fix e show "FingerprintDBError_is_duplicate (FingerprintDBError_from_KvError e) \<longleftrightarrow> (\<exists>k. e = KvError.DuplicateValue k)"
    and "FingerprintDBError_is_not_found (FingerprintDBError_from_KvError e) \<longleftrightarrow> (\<exists>m. e = KvError.ValueNotFound m)"
    by (cases e; simp add: storage_error_simps)+
qed (auto simp: storage_error_simps)

interpretation reverse_lookup_err: kv_storage_error ReverseLookupDBError_is_duplicate
    ReverseLookupDBError_is_not_found ReverseLookupDBError_from_diesel ReverseLookupDBError_from_KvError
proof unfold_locales
  fix e show "ReverseLookupDBError_is_duplicate (ReverseLookupDBError_from_KvError e) \<longleftrightarrow> (\<exists>k. e = KvError.DuplicateValue k)"
    and "ReverseLookupDBError_is_not_found (ReverseLookupDBError_from_KvError e) \<longleftrightarrow> (\<exists>m. e = KvError.ValueNotFound m)"
    by (cases e; simp add: storage_error_simps)+
qed (auto simp: storage_error_simps)

interpretation merchant_err: storage_error MerchantDBError_is_duplicate MerchantDBError_is_not_found
    MerchantDBError_from_diesel
  by unfold_locales (auto simp: storage_error_simps)

interpretation entity_err: storage_error EntityDBError_is_duplicate EntityDBError_is_not_found
    EntityDBError_from_diesel
  by unfold_locales (auto simp: storage_error_simps)

end
