(* ===== verification/Text.thy ===== *)
theory Text
  imports Prelude
begin

text \<open>
  The parts of Rust's standard string library the program uses: UTF-8 text as a list of
  bytes, white space, \<open>split_whitespace\<close>, \<open>trim\<close>, \<open>trim_start_matches\<close>, \<open>trim_end_matches\<close>,
  \<open>String::from_utf8\<close> and \<open>into_bytes\<close>.
\<close>

type_synonym bytes = "8 word list"

section \<open>Bytes\<close>

definition into_bytes :: "string \<Rightarrow> bytes" where
  "into_bytes s = map (\<lambda>c. of_nat (of_char c)) s"

definition of_bytes :: "bytes \<Rightarrow> string" where
  "of_bytes bs = map (\<lambda>b. char_of (unat b)) bs"

lemma length_into_bytes [simp]: "length (into_bytes s) = length s"
  by (simp add: into_bytes_def)

lemma unat_of_char [simp]: "unat (of_nat (of_char c) :: 8 word) = of_char c"
  using nat_of_char_less_256 [of c] by (simp add: unat_of_nat)

lemma of_bytes_into_bytes [simp]: "of_bytes (into_bytes s) = s"
proof -
  have "((\<lambda>b. char_of (unat b)) \<circ> (\<lambda>c. of_nat (of_char c) :: 8 word)) = id"
    by (rule ext) (simp only: comp_apply unat_of_char char_of_char id_apply)
  then show ?thesis by (simp add: of_bytes_def into_bytes_def)
qed

lemma into_bytes_of_bytes [simp]: "into_bytes (of_bytes bs) = bs"
proof -
  have *: "unat (b :: 8 word) mod 256 = unat b" for b
    using unsigned_less [of b, where ?'a = nat] by simp
  have "((\<lambda>c. of_nat (of_char c)) \<circ> (\<lambda>b. char_of (unat b))) = (id :: 8 word \<Rightarrow> 8 word)"
    by (rule ext) (simp only: comp_apply of_char_of * id_apply word_of_nat_eq_iff, simp)
  then show ?thesis by (simp add: of_bytes_def into_bytes_def)
qed

lemma into_bytes_inj [simp]: "into_bytes s = into_bytes t \<longleftrightarrow> s = t"
  by (metis of_bytes_into_bytes)

section \<open>UTF-8\<close>

text \<open>
  The well-formed byte sequences of the Unicode standard (table 3-7), by which
  \<open>String::from_utf8\<close> accepts a vector.
\<close>

fun utf8_valid :: "nat list \<Rightarrow> bool" where
  "utf8_valid [] = True"
| "utf8_valid (a # s) =
     (if a < 0x80 then utf8_valid s
      else (case s of [] \<Rightarrow> False | b # t \<Rightarrow>
        if 0xC2 \<le> a \<and> a \<le> 0xDF then 0x80 \<le> b \<and> b \<le> 0xBF \<and> utf8_valid t
        else (case t of [] \<Rightarrow> False | c # u \<Rightarrow>
          if 0xE0 \<le> a \<and> a \<le> 0xEF
          then (if a = 0xE0 then 0xA0 else 0x80) \<le> b \<and> b \<le> (if a = 0xED then 0x9F else 0xBF)
            \<and> 0x80 \<le> c \<and> c \<le> 0xBF \<and> utf8_valid u
          else (case u of [] \<Rightarrow> False | d # v \<Rightarrow>
            0xF0 \<le> a \<and> a \<le> 0xF4
            \<and> (if a = 0xF0 then 0x90 else 0x80) \<le> b \<and> b \<le> (if a = 0xF4 then 0x8F else 0xBF)
            \<and> 0x80 \<le> c \<and> c \<le> 0xBF \<and> 0x80 \<le> d \<and> d \<le> 0xBF \<and> utf8_valid v))))"

definition from_utf8 :: "bytes \<Rightarrow> string option" where
  "from_utf8 bs = (if utf8_valid (map unat bs) then Some (of_bytes bs) else None)"

lemma from_utf8_Some: "from_utf8 bs = Some s \<Longrightarrow> into_bytes s = bs"
  by (auto simp: from_utf8_def split: if_splits)

section \<open>White space\<close>

text \<open>
  The number of bytes of the Unicode white space character at the head of a UTF-8 text, 0
  if there is none (the \<open>White_Space\<close> property that \<open>split_whitespace\<close> and \<open>trim\<close> use).
\<close>

definition white_space_width :: "nat list \<Rightarrow> nat" where
  "white_space_width bs = (case bs of
     [] \<Rightarrow> 0
   | a # s \<Rightarrow>
      if (9 \<le> a \<and> a \<le> 13) \<or> a = 0x20 then 1
      else (case s of
        [] \<Rightarrow> 0
      | b # t \<Rightarrow>
         if a = 0xC2 \<and> (b = 0x85 \<or> b = 0xA0) then 2
         else (case t of
           [] \<Rightarrow> 0
         | c # u \<Rightarrow>
            if a = 0xE1 \<and> b = 0x9A \<and> c = 0x80 then 3
            else if a = 0xE2 \<and> b = 0x80 \<and> ((0x80 \<le> c \<and> c \<le> 0x8A) \<or> c = 0xA8 \<or> c = 0xA9 \<or> c = 0xAF) then 3
            else if a = 0xE2 \<and> b = 0x81 \<and> c = 0x9F then 3
            else if a = 0xE3 \<and> b = 0x80 \<and> c = 0x80 then 3
            else 0)))"

fun split_whitespace_collect :: "string \<Rightarrow> string" where
  "split_whitespace_collect [] = []"
| "split_whitespace_collect (c # cs) =
     (case white_space_width (map of_char (c # take 2 cs)) of
        0 \<Rightarrow> c # split_whitespace_collect cs
      | Suc n \<Rightarrow> split_whitespace_collect (drop n cs))"

text \<open>The characters of a text: each lead byte with the continuation bytes after it.\<close>

definition is_continuation :: "char \<Rightarrow> bool" where
  "is_continuation c = (0x80 \<le> (of_char c :: nat) \<and> (of_char c :: nat) < 0xC0)"

function utf8_chars :: "string \<Rightarrow> string list" where
  "utf8_chars [] = []"
| "utf8_chars (c # cs) =
     (c # takeWhile is_continuation cs) # utf8_chars (dropWhile is_continuation cs)"
  by pat_completeness auto
termination
  by (relation "measure length") (simp_all add: length_dropWhile_le le_imp_less_Suc)

lemma concat_utf8_chars [simp]: "concat (utf8_chars s) = s"
  by (induction s rule: utf8_chars.induct) auto

definition is_white_space :: "string \<Rightarrow> bool" where
  "is_white_space ch = (ch \<noteq> [] \<and> white_space_width (map of_char ch) = length ch)"

definition trim :: "string \<Rightarrow> string" where
  "trim s = concat (rev (dropWhile is_white_space (rev (dropWhile is_white_space (utf8_chars s)))))"

definition trim_start_matches :: "char \<Rightarrow> string \<Rightarrow> string" where
  "trim_start_matches c s = dropWhile ((=) c) s"

definition trim_end_matches :: "char \<Rightarrow> string \<Rightarrow> string" where
  "trim_end_matches c s = rev (dropWhile ((=) c) (rev s))"

lemma trim_Nil [simp]: "trim [] = []"
  by (simp add: trim_def)

lemma trim_not_Nil: "trim s \<noteq> [] \<Longrightarrow> s \<noteq> []"
  by auto

end
