(* ===== verification/Validations.thy ===== *)
theory Validations
  imports Errors Text
begin

text \<open>
  Card number validation, \<open>src/src/validations.rs\<close>.  A card number is trimmed of white
  space, its characters are turned into digits (\<open>u8\<close>), its length is checked against the
  limits of the standard, and the Luhn sum is computed with 8-bit arithmetic, which wraps
  in a release build.  The lemmas show that for an accepted length the sum does not
  wrap, that the routine computes the textbook Luhn sum, and that it detects every
  single-digit error.
\<close>

section \<open>The code\<close>

definition MIN_CARD_NUMBER_LENGTH :: nat where "MIN_CARD_NUMBER_LENGTH = 8"

definition MAX_CARD_NUMBER_LENGTH :: nat where "MAX_CARD_NUMBER_LENGTH = 19"

definition to_digit10 :: "char \<Rightarrow> nat option" where
  "to_digit10 c = (if 48 \<le> (of_char c :: nat) \<and> (of_char c :: nat) \<le> 57
     then Some (of_char c - 48) else None)"

fun validate_card_number_chars :: "string \<Rightarrow> (8 word list, ApiError) result" where
  "validate_card_number_chars number = foldl (\<lambda>data character.
      res_bind data (\<lambda>d.
      res_bind (ok_or (ApiError.ValidationError ''invalid character found in card number'')
                  (to_digit10 character)) (\<lambda>n.
      if n < 256 then Ok (d @ [of_nat n]) else Panic)))
    (Ok []) number"

definition validate_card_number_length :: "8 word list \<Rightarrow> (8 word list, ApiError) result" where
  "validate_card_number_length number =
     (if length number \<ge> MIN_CARD_NUMBER_LENGTH \<and> length number \<le> MAX_CARD_NUMBER_LENGTH
      then Ok number
      else Err (ApiError.ValidationError ''invalid card number length''))"

definition luhn :: "8 word list \<Rightarrow> bool" where
  "luhn number = (sum_list (map (\<lambda>(idx, element).
       ((element * 2) div 10 + (element * 2) mod 10) * (of_nat idx mod 2)
       + element * (of_nat (idx + 1) mod 2))
     (enumerate 0 (rev number))) mod 10 = 0)"

definition sanitize_card_number :: "string \<Rightarrow> (bool, ApiError) result" where
  "sanitize_card_number card_number =
     res_map luhn
       (res_bind (res_bind (Ok (split_whitespace_collect card_number)) validate_card_number_chars)
          validate_card_number_length)"

section \<open>The character and length checks\<close>

lemma to_digit10_lt: "to_digit10 c = Some n \<Longrightarrow> n < 10"
  by (auto simp: to_digit10_def split: if_splits)

lemma validate_chars_snoc:
  "validate_card_number_chars (s @ [c]) =
     res_bind (validate_card_number_chars s) (\<lambda>d.
       res_bind (ok_or (ApiError.ValidationError ''invalid character found in card number'')
                  (to_digit10 c)) (\<lambda>n. if n < 256 then Ok (d @ [of_nat n]) else Panic))"
  by simp

declare validate_card_number_chars.simps [simp del]

lemma validate_chars_nil [simp]: "validate_card_number_chars [] = Ok []"
  by (simp add: validate_card_number_chars.simps)

text \<open>The digits of a text all of whose characters are decimal digits.\<close>

definition digits_of :: "string \<Rightarrow> 8 word list" where
  "digits_of s = map (\<lambda>c. of_nat (of_char c - 48)) s"

lemma validate_chars_eq:
  "validate_card_number_chars s =
     (if \<forall>c\<in>set s. to_digit10 c \<noteq> None then Ok (digits_of s)
      else Err (ApiError.ValidationError ''invalid character found in card number''))"
proof (induction s rule: rev_induct)
  case (snoc c s)
  show ?case
  proof (cases "to_digit10 c")
    case None
    then show ?thesis by (simp add: validate_chars_snoc snoc)
  next
    case (Some n)
    then have "n < 256" "n = of_char c - 48"
      using to_digit10_lt [OF Some] by (auto simp: to_digit10_def split: if_splits)
    with Some show ?thesis by (simp add: validate_chars_snoc snoc digits_of_def)
  qed
qed (simp add: digits_of_def)

lemma digits_of_bound:
  assumes "\<forall>c\<in>set s. to_digit10 c \<noteq> None" "d \<in> set (digits_of s)"
  shows "unat d < 10"
proof -
  obtain c where c: "c \<in> set s" "d = of_nat (of_char c - 48)"
    using assms(2) by (auto simp: digits_of_def)
  then have n: "(of_char c - 48 :: nat) < 10"
    using assms(1) by (auto simp: to_digit10_def split: if_splits)
  then have "unat d = (of_char c - 48 :: nat)"
    using c(2) by (simp add: unat_of_nat)
  with n show ?thesis by simp
qed

lemma length_digits_of [simp]: "length (digits_of s) = length s"
  by (simp add: digits_of_def)

section \<open>The Luhn sum\<close>

text \<open>
  The textbook definition: from the right, every second digit is doubled and the digits of
  the product are added up.
\<close>

definition luhn_double :: "nat \<Rightarrow> nat" where
  "luhn_double d = (if 2 * d > 9 then 2 * d - 9 else 2 * d)"

fun luhn_total :: "bool \<Rightarrow> nat list \<Rightarrow> nat" where
  "luhn_total dbl [] = 0"
| "luhn_total dbl (d # ds) = (if dbl then luhn_double d else d) + luhn_total (\<not> dbl) ds"

definition luhn_spec :: "nat list \<Rightarrow> bool" where
  "luhn_spec digits = (luhn_total False (rev digits) mod 10 = 0)"

lemma luhn_double_lt: "d < 10 \<Longrightarrow> luhn_double d < 10"
  by (auto simp: luhn_double_def)

lemma luhn_total_bound:
  "(\<forall>d\<in>set ds. d < 10) \<Longrightarrow> luhn_total dbl ds \<le> 9 * length ds"
proof (induction ds arbitrary: dbl)
  case (Cons d ds)
  then have "luhn_total (\<not> dbl) ds \<le> 9 * length ds" "d < 10" "luhn_double d < 10"
    using luhn_double_lt [of d] by auto
  then show ?case by (cases dbl) auto
qed simp

lemma luhn_total_append:
  "luhn_total b (xs @ ys) = luhn_total b xs + luhn_total (b = even (length xs)) ys"
proof (induction xs arbitrary: b)
  case (Cons x xs)
  have "((\<not> b) = even (length xs)) = (b = even (length (x # xs)))" by auto
  with Cons show ?case by simp
qed simp

lemma luhn_term:
  fixes e :: "8 word"
  assumes "unat e < 10"
  shows "(e * 2) div 10 + (e * 2) mod 10 = of_nat (luhn_double (unat e))"
proof -
  obtain n where "n = unat e" by simp
  with assms have n: "e = of_nat n" "n < 10" by simp_all
  then have "n = 0 \<or> n = 1 \<or> n = 2 \<or> n = 3 \<or> n = 4 \<or> n = 5 \<or> n = 6 \<or> n = 7 \<or> n = 8 \<or> n = 9"
    by arith
  then show ?thesis unfolding n(1) by (elim disjE) (simp_all add: luhn_double_def)
qed

lemma idx_parity: "(of_nat idx mod 2 :: 8 word) = of_nat (idx mod 2)"
proof -
  have "unat (of_nat idx mod 2 :: 8 word) = idx mod 256 mod 2"
    by (simp add: unat_mod unat_of_nat)
  also have "\<dots> = idx mod 2" by (simp add: mod_mod_cancel)
  also have "\<dots> = unat (of_nat (idx mod 2) :: 8 word)" by (simp add: unat_of_nat)
  finally show ?thesis by (simp add: word_unat_eq_iff)
qed

lemma luhn_sum_words:
  "(\<forall>e\<in>set es. unat e < 10) \<Longrightarrow>
   sum_list (map (\<lambda>(idx, element :: 8 word).
       ((element * 2) div 10 + (element * 2) mod 10) * (of_nat idx mod 2)
       + element * (of_nat (idx + 1) mod 2)) (enumerate n es))
   = of_nat (luhn_total (odd n) (map unat es))"
proof (induction es arbitrary: n)
  case (Cons e es)
  have "(of_nat (n + 1) mod 2 :: 8 word) = of_nat ((n + 1) mod 2)" "(of_nat n mod 2 :: 8 word) = of_nat (n mod 2)"
    by (rule idx_parity)+
  moreover have "(e * 2) div 10 + (e * 2) mod 10 = of_nat (luhn_double (unat e))"
    using Cons.prems by (simp add: luhn_term)
  moreover have "n mod 2 = (if odd n then 1 else 0)" "(n + 1) mod 2 = (if odd n then 0 else 1)"
    by (auto simp: mod2_eq_if)
  ultimately show ?case
    using Cons.IH [of "Suc n"] Cons.prems by (cases "odd n") simp_all
qed simp

lemma luhn_eq_spec:
  assumes "\<forall>d\<in>set number. unat d < 10" "length number \<le> 28"
  shows "luhn number = luhn_spec (map unat number)"
proof -
  let ?T = "luhn_total False (map unat (rev number))"
  have "?T \<le> 9 * length (map unat (rev number))"
    using assms(1) by (intro luhn_total_bound) auto
  then have "?T < 256" using assms(2) by simp
  then have "unat (of_nat ?T :: 8 word) = ?T" by (simp add: unat_of_nat)
  moreover have "luhn number = ((of_nat ?T :: 8 word) mod 10 = 0)"
    using luhn_sum_words [of "rev number" 0] assms(1) by (simp add: luhn_def)
  moreover have "((of_nat ?T :: 8 word) mod 10 = 0) = (unat (of_nat ?T :: 8 word) mod 10 = 0)"
    by (simp add: unat_mod word_unat_eq_iff)
  ultimately show ?thesis by (simp add: luhn_spec_def rev_map)
qed


section \<open>Error detection\<close>

lemma luhn_double_inj: "a < 10 \<Longrightarrow> b < 10 \<Longrightarrow> luhn_double a = luhn_double b \<Longrightarrow> a = b"
  by (auto simp: luhn_double_def split: if_splits) presburger+

lemma luhn_total_update:
  assumes "i < length ds" "\<forall>x\<in>set ds. x < 10" "d < 10" "d \<noteq> ds ! i"
    and "luhn_total b ds mod 10 = 0"
  shows "luhn_total b (ds[i := d]) mod 10 \<noteq> 0"
proof -
  let ?l = "take i ds" and ?r = "drop (Suc i) ds"
  have ds: "ds = ?l @ ds ! i # ?r" using assms(1) by (simp add: id_take_nth_drop)
  have up: "ds[i := d] = ?l @ d # ?r" using assms(1) by (simp add: upd_conv_take_nth_drop)
  let ?b = "b = even (length ?l)"
  have old: "luhn_total b ds = luhn_total b ?l
      + ((if ?b then luhn_double (ds ! i) else ds ! i) + luhn_total (\<not> ?b) ?r)"
    by (subst ds, subst luhn_total_append) simp
  have new: "luhn_total b (ds[i := d]) = luhn_total b ?l
      + ((if ?b then luhn_double d else d) + luhn_total (\<not> ?b) ?r)"
    by (subst up, subst luhn_total_append) simp
  define p' where "p' = luhn_total b ?l"
  define c' where "c' = luhn_total (\<not> ?b) ?r"
  define o' where "o' = (if ?b then luhn_double (ds ! i) else ds ! i)"
  define n' where "n' = (if ?b then luhn_double d else d)"
  have lt: "ds ! i < 10" using assms(1,2) by simp
  have ne: "o' \<noteq> n'" "o' < 10" "n' < 10"
    using assms(3,4) lt luhn_double_inj [OF lt assms(3)] luhn_double_lt
    by (auto simp: o'_def n'_def)
  have "p' + (o' + c') = luhn_total b ds" "p' + (n' + c') = luhn_total b (ds[i := d])"
    using old new by (simp_all add: p'_def c'_def o'_def n'_def)
  moreover have False if "p' + (o' + c') = 10 * k" "p' + (n' + c') = 10 * m" for k m
  proof -
    have "o' + 10 * m = n' + 10 * k" using that by arith
    with ne show False by presburger
  qed
  ultimately show ?thesis using assms(5) by (auto elim!: dvdE simp: mod_eq_0_iff_dvd)
qed

section \<open>Properties\<close>

text \<open>C37. Validating a card number decides exactly: after removing white space, a text with a
  character that is no decimal digit is rejected with the character error; otherwise a length
  outside 8..19 is rejected with the length error; otherwise the answer is the textbook Luhn
  check of its digits.  The 8-bit sum of the code never wraps and no step panics.\<close>

theorem sanitize_card_number_correct:
  "sanitize_card_number s =
     (let t = split_whitespace_collect s in
      if \<exists>c\<in>set t. to_digit10 c = None
      then Err (ApiError.ValidationError ''invalid character found in card number'')
      else if length t < 8 \<or> 19 < length t
      then Err (ApiError.ValidationError ''invalid card number length'')
      else Ok (luhn_spec (map (\<lambda>c. of_char c - 48) t)))"
proof -
  define t where "t = split_whitespace_collect s"
  have "luhn (digits_of t) = luhn_spec (map (\<lambda>c. of_char c - 48) t)"
    if d: "\<forall>c\<in>set t. to_digit10 c \<noteq> None" and l: "length t \<le> 19"
  proof -
    have "luhn (digits_of t) = luhn_spec (map unat (digits_of t))"
      using digits_of_bound [OF d] l by (intro luhn_eq_spec) auto
    moreover have "map unat (digits_of t) = map (\<lambda>c. of_char c - 48) t"
    proof -
      have "unat (of_nat (of_char c - 48) :: 8 word) = of_char c - 48" if "c \<in> set t" for c
        using d that by (auto simp: to_digit10_def unat_of_nat split: if_splits)
      then show ?thesis by (simp add: digits_of_def)
    qed
    ultimately show ?thesis by simp
  qed
  then show ?thesis
    by (auto simp: sanitize_card_number_def validate_chars_eq validate_card_number_length_def
      MIN_CARD_NUMBER_LENGTH_def MAX_CARD_NUMBER_LENGTH_def Let_def t_def)
qed

text \<open>C38. The check digit does its job: if a card number of at most 19 digits passes the code's
  Luhn routine, then replacing any one digit by a different digit makes it fail.\<close>

theorem luhn_detects_single_digit_error:
  assumes "\<forall>x\<in>set number. unat x < 10" "length number \<le> 19"
    and "i < length number" "unat d < 10" "d \<noteq> number ! i" "luhn number"
  shows "\<not> luhn (number[i := d])"
proof -
  let ?j = "length number - Suc i"
  have dig: "\<forall>x\<in>set (number[i := d]). unat x < 10"
    using assms(1,4) set_update_subset_insert [of number i d] by auto
  have rev: "rev (map unat (number[i := d])) = (rev (map unat number))[?j := unat d]"
    using assms(3) by (simp add: map_update rev_update)
  have "luhn_total False (rev (map unat number)) mod 10 = 0"
    using luhn_eq_spec [of number] assms(1,2,6) by (simp add: luhn_spec_def)
  moreover have "rev (map unat number) ! ?j = unat (number ! i)"
    using assms(3) by (simp add: rev_nth)
  ultimately have "luhn_total False ((rev (map unat number))[?j := unat d]) mod 10 \<noteq> 0"
    using assms by (intro luhn_total_update) (auto simp: word_unat_eq_iff)
  with rev show ?thesis
    using luhn_eq_spec [OF dig] assms(2) by (simp add: luhn_spec_def)
qed

lemma luhn_detects_single_digit_error_witness:
  "\<not> luhn ([4, 2, 4, 2, 4, 2, 4, 2, 4, 2, 4, 2, 4, 2, 4, 2][3 := 7])"
  by (rule luhn_detects_single_digit_error) (simp_all add: luhn_def)

end
