(* ===== verification/Types.thy ===== *)
theory Types
  imports Validations
begin

text \<open>
  The data of the storage layer: \<open>src/src/storage/types.rs\<close>, \<open>storage/storage_v2/types.rs\<close>,
  \<open>storage/scheme.rs\<close>, \<open>storage/kv/scheme.rs\<close>, and the request types of the routes that build
  new rows.  The masking wrappers \<open>Secret\<close> and \<open>StrongSecret\<close> only hide a value from logs
  and are transparent here; a \<open>Vec<u8>\<close> is a list of 8-bit words and a \<open>PrimitiveDateTime\<close> the
  number of nanoseconds since the epoch.  Every record field carries a prefix for its
  struct, because several structs have fields of the same name.
\<close>

type_synonym time = int

section \<open>Storage schemes\<close>

datatype StorageScheme = PostgresOnly | RedisKv

fun StorageScheme_to_string :: "StorageScheme \<Rightarrow> string" where
  "StorageScheme_to_string PostgresOnly = ''postgres_only''"
| "StorageScheme_to_string RedisKv = ''redis_kv''"

definition StorageScheme_from_str :: "string \<Rightarrow> (StorageScheme, string) result" where
  "StorageScheme_from_str s =
     (if s = ''postgres_only'' then Ok PostgresOnly
      else if s = ''redis_kv'' then Ok RedisKv
      else Err ''Matching variant not found'')"

lemma StorageScheme_roundtrip: "StorageScheme_from_str (StorageScheme_to_string s) = Ok s"
  by (cases s) (simp_all add: StorageScheme_from_str_def)

datatype KvState = Disabled | Enabled | SoftKill

section \<open>Encrypted and decrypted data\<close>

datatype Encrypted = Encrypted_new (into_inner: bytes)

datatype Encryptable = Encrypted bytes | Decrypted bytes

fun get_encrypted_inner_value :: "Encryptable \<Rightarrow> bytes option" where
  "get_encrypted_inner_value (Encrypted secret) = Some secret"
| "get_encrypted_inner_value (Decrypted secret) = None"

fun get_decrypted_inner_value :: "Encryptable \<Rightarrow> bytes option" where
  "get_decrypted_inner_value (Encrypted secret) = None"
| "get_decrypted_inner_value (Decrypted secret) = Some secret"

definition from_decrypted_data :: "bytes \<Rightarrow> Encryptable" where
  "from_decrypted_data d = Decrypted d"

definition Encryptable_from_Encrypted :: "Encrypted \<Rightarrow> Encryptable" where
  "Encryptable_from_Encrypted e = Encrypted (into_inner e)"

section \<open>Merchants\<close>

record MerchantInner =
  mi_id :: int
  mi_merchant_id :: string
  mi_enc_key :: Encrypted
  mi_created_at :: time

record Merchant =
  m_merchant_id :: string
  m_enc_key :: bytes
  m_created_at :: time

record MerchantNewInner =
  mni_merchant_id :: string
  mni_enc_key :: Encrypted

record MerchantNew =
  mn_merchant_id :: string
  mn_enc_key :: bytes

section \<open>Lockers\<close>

record LockerInner =
  li_id :: int
  li_locker_id :: string
  li_merchant_id :: string
  li_customer_id :: string
  li_enc_data :: Encrypted
  li_created_at :: time
  li_hash_id :: string
  li_ttl :: "time option"
  li_updated_by :: "StorageScheme option"

record Locker =
  lk_locker_id :: string
  lk_merchant_id :: string
  lk_customer_id :: string
  lk_data :: Encryptable
  lk_created_at :: time
  lk_hash_id :: string
  lk_ttl :: "time option"
  lk_updated_by :: "StorageScheme option"

record LockerNew =
  ln_locker_id :: string
  ln_merchant_id :: string
  ln_customer_id :: string
  ln_enc_data :: Encrypted
  ln_created_at :: time
  ln_hash_id :: string
  ln_ttl :: "time option"
  ln_updated_by :: "StorageScheme option"

definition LockerInner_from_LockerNew :: "LockerNew \<Rightarrow> LockerInner" where
  "LockerInner_from_LockerNew v =
     \<lparr> li_id = 0, li_locker_id = ln_locker_id v, li_merchant_id = ln_merchant_id v,
       li_customer_id = ln_customer_id v, li_enc_data = ln_enc_data v,
       li_created_at = ln_created_at v, li_hash_id = ln_hash_id v, li_ttl = ln_ttl v,
       li_updated_by = ln_updated_by v \<rparr>"

definition Locker_from_LockerInner :: "LockerInner \<Rightarrow> Locker" where
  "Locker_from_LockerInner v =
     \<lparr> lk_locker_id = li_locker_id v, lk_merchant_id = li_merchant_id v,
       lk_customer_id = li_customer_id v, lk_data = Encryptable_from_Encrypted (li_enc_data v),
       lk_created_at = li_created_at v, lk_hash_id = li_hash_id v, lk_ttl = li_ttl v,
       lk_updated_by = li_updated_by v \<rparr>"

definition Locker_from_LockerNew :: "LockerNew \<Rightarrow> Locker" where
  "Locker_from_LockerNew v =
     \<lparr> lk_locker_id = ln_locker_id v, lk_merchant_id = ln_merchant_id v,
       lk_customer_id = ln_customer_id v, lk_data = Encryptable_from_Encrypted (ln_enc_data v),
       lk_created_at = ln_created_at v, lk_hash_id = ln_hash_id v, lk_ttl = ln_ttl v,
       lk_updated_by = ln_updated_by v \<rparr>"

lemma Locker_from_new_commutes:
  "Locker_from_LockerInner (LockerInner_from_LockerNew v) = Locker_from_LockerNew v"
  by (simp add: Locker_from_LockerInner_def LockerInner_from_LockerNew_def Locker_from_LockerNew_def)

section \<open>Reverse lookups, hashes, fingerprints, entities\<close>

record ReverseLookup =
  rl_lookup_id :: string
  rl_secondary_key :: string
  rl_partition_key :: string
  rl_source :: string
  rl_updated_by :: string

record ReverseLookupNew =
  rln_lookup_id :: string
  rln_secondary_key :: string
  rln_partition_key :: string
  rln_source :: string
  rln_updated_by :: string

definition ReverseLookup_from_ReverseLookupNew :: "ReverseLookupNew \<Rightarrow> ReverseLookup" where
  "ReverseLookup_from_ReverseLookupNew v =
     \<lparr> rl_lookup_id = rln_lookup_id v, rl_secondary_key = rln_secondary_key v,
       rl_partition_key = rln_partition_key v, rl_source = rln_source v,
       rl_updated_by = rln_updated_by v \<rparr>"

record HashTable =
  ht_id :: int
  ht_hash_id :: string
  ht_data_hash :: bytes
  ht_created_at :: time
  ht_updated_by :: "StorageScheme option"

record HashTableNew =
  htn_hash_id :: string
  htn_data_hash :: bytes
  htn_created_at :: time
  htn_updated_by :: "StorageScheme option"

definition HashTable_from_HashTableNew :: "HashTableNew \<Rightarrow> HashTable" where
  "HashTable_from_HashTableNew v =
     \<lparr> ht_id = 0, ht_hash_id = htn_hash_id v, ht_data_hash = htn_data_hash v,
       ht_created_at = htn_created_at v, ht_updated_by = htn_updated_by v \<rparr>"

record Fingerprint =
  fp_id :: int
  fp_fingerprint_hash :: bytes
  fp_fingerprint_id :: string
  fp_updated_by :: "StorageScheme option"

record FingerprintTableNew =
  fpn_fingerprint_hash :: bytes
  fpn_fingerprint_id :: string
  fpn_updated_by :: "StorageScheme option"

definition Fingerprint_from_FingerprintTableNew :: "FingerprintTableNew \<Rightarrow> Fingerprint" where
  "Fingerprint_from_FingerprintTableNew v =
     \<lparr> fp_id = 0, fp_fingerprint_hash = fpn_fingerprint_hash v,
       fp_fingerprint_id = fpn_fingerprint_id v, fp_updated_by = fpn_updated_by v \<rparr>"

record Entity =
  en_id :: int
  en_entity_id :: string
  en_enc_key_id :: string
  en_created_at :: time

record EntityTableNew =
  enn_entity_id :: string
  enn_enc_key_id :: string

section \<open>Card numbers\<close>

datatype CardNumber = CardNumber (card_number_peek: string)

definition CardNumber_validate :: "CardNumber \<Rightarrow> (unit, ApiError) result" where
  "CardNumber_validate self =
     res_bind (sanitize_card_number (card_number_peek self)) (\<lambda>valid.
       ok_or (ApiError.ValidationError ''card number invalid'') (if valid then Some () else None))"

definition CardNumber_into_bytes :: "CardNumber \<Rightarrow> bytes" where
  "CardNumber_into_bytes self = into_bytes (card_number_peek self)"

section \<open>The vault (storage_v2)\<close>

record Vault =
  v_vault_id :: string
  v_entity_id :: string
  v_data :: Encryptable
  v_created_at :: time
  v_expires_at :: "time option"
  v_updated_by :: "StorageScheme option"

record VaultNew =
  vn_vault_id :: string
  vn_entity_id :: string
  vn_encrypted_data :: Encrypted
  vn_created_at :: time
  vn_expires_at :: "time option"
  vn_updated_by :: StorageScheme

record VaultUpdate =
  vu_encrypted_data :: Encrypted
  vu_expires_at :: "time option"
  vu_updated_by :: StorageScheme

record VaultInner =
  vi_id :: int
  vi_entity_id :: string
  vi_vault_id :: string
  vi_encrypted_data :: Encrypted
  vi_created_at :: time
  vi_expires_at :: "time option"
  vi_updated_by :: "StorageScheme option"

record VaultNewInner =
  vni_vault_id :: string
  vni_entity_id :: string
  vni_encrypted_data :: Encrypted
  vni_created_at :: time
  vni_expires_at :: "time option"
  vni_updated_by :: "StorageScheme option"

definition VaultUpdate_from_VaultNew :: "VaultNew \<Rightarrow> VaultUpdate" where
  "VaultUpdate_from_VaultNew v =
     \<lparr> vu_encrypted_data = vn_encrypted_data v, vu_expires_at = vn_expires_at v,
       vu_updated_by = vn_updated_by v \<rparr>"

definition VaultInner_from_update :: "VaultUpdate \<Rightarrow> VaultInner \<Rightarrow> VaultInner" where
  "VaultInner_from_update new current =
     \<lparr> vi_id = 0, vi_entity_id = vi_entity_id current, vi_vault_id = vi_vault_id current,
       vi_encrypted_data = vu_encrypted_data new, vi_created_at = vi_created_at current,
       vi_expires_at = vu_expires_at new, vi_updated_by = Some (vu_updated_by new) \<rparr>"

definition VaultNewInner_from_VaultNew :: "VaultNew \<Rightarrow> VaultNewInner" where
  "VaultNewInner_from_VaultNew v =
     \<lparr> vni_vault_id = vn_vault_id v, vni_entity_id = vn_entity_id v,
       vni_encrypted_data = vn_encrypted_data v, vni_created_at = vn_created_at v,
       vni_expires_at = vn_expires_at v, vni_updated_by = Some (vn_updated_by v) \<rparr>"

definition VaultNewInner_set_updated_by :: "VaultNewInner \<Rightarrow> StorageScheme \<Rightarrow> VaultNewInner" where
  "VaultNewInner_set_updated_by v s = v\<lparr> vni_updated_by := Some s \<rparr>"

definition VaultInner_from_VaultNewInner :: "VaultNewInner \<Rightarrow> VaultInner" where
  "VaultInner_from_VaultNewInner v =
     \<lparr> vi_id = 0, vi_entity_id = vni_entity_id v, vi_vault_id = vni_vault_id v,
       vi_encrypted_data = vni_encrypted_data v, vi_created_at = vni_created_at v,
       vi_expires_at = vni_expires_at v, vi_updated_by = vni_updated_by v \<rparr>"

definition Vault_from_VaultInner :: "VaultInner \<Rightarrow> Vault" where
  "Vault_from_VaultInner v =
     \<lparr> v_vault_id = vi_vault_id v, v_entity_id = vi_entity_id v,
       v_data = Encryptable_from_Encrypted (vi_encrypted_data v), v_created_at = vi_created_at v,
       v_expires_at = vi_expires_at v, v_updated_by = vi_updated_by v \<rparr>"

lemmas type_conversions =
  LockerInner_from_LockerNew_def Locker_from_LockerInner_def Locker_from_LockerNew_def
  ReverseLookup_from_ReverseLookupNew_def HashTable_from_HashTableNew_def
  Fingerprint_from_FingerprintTableNew_def VaultUpdate_from_VaultNew_def
  VaultInner_from_update_def VaultNewInner_from_VaultNew_def VaultNewInner_set_updated_by_def
  VaultInner_from_VaultNewInner_def Vault_from_VaultInner_def Encryptable_from_Encrypted_def

section \<open>Keys of the KV store (storage/kv/partition_key.rs, storage/kv/impls)\<close>

datatype PartitionKey =
    CombinationKey string
  | Fingerprint bytes
  | HashTable bytes
  | Locker string string string
  | ReverseLookup string
  | Vault string string

record LockerPrimaryKeyType =
  lpk_locker_id :: string
  lpk_merchant_id :: string
  lpk_customer_id :: string

record LockerHashLookupKey =
  lhk_hash_id :: string
  lhk_merchant_id :: string
  lhk_customer_id :: string

record VaultPrimaryKey =
  vpk_entity_id :: string
  vpk_vault_id :: string

record FingerprintPrimaryKey =
  fpk_fingerprint_hash :: bytes

record HashTablePrimaryKey =
  htpk_data_hash :: bytes

record ReverseLookupPrimaryKey =
  rlpk_lookup_id :: string

definition Locker_get_partition_key :: "LockerPrimaryKeyType \<Rightarrow> PartitionKey" where
  "Locker_get_partition_key pk =
     PartitionKey.Locker (lpk_merchant_id pk) (lpk_customer_id pk) (lpk_locker_id pk)"

definition Vault_get_partition_key :: "VaultPrimaryKey \<Rightarrow> PartitionKey" where
  "Vault_get_partition_key pk = PartitionKey.Vault (vpk_entity_id pk) (vpk_vault_id pk)"

definition Fingerprint_get_partition_key :: "FingerprintPrimaryKey \<Rightarrow> PartitionKey" where
  "Fingerprint_get_partition_key pk = PartitionKey.Fingerprint (fpk_fingerprint_hash pk)"

definition HashTable_get_partition_key :: "HashTablePrimaryKey \<Rightarrow> PartitionKey" where
  "HashTable_get_partition_key pk = PartitionKey.HashTable (htpk_data_hash pk)"

definition ReverseLookup_get_partition_key :: "ReverseLookupPrimaryKey \<Rightarrow> PartitionKey" where
  "ReverseLookup_get_partition_key pk = PartitionKey.ReverseLookup (rlpk_lookup_id pk)"

text \<open>\<open>ReverseLookup::get_partition_key\<close>: the key of the row the lookup points at.\<close>

definition ReverseLookup_target :: "ReverseLookup \<Rightarrow> PartitionKey" where
  "ReverseLookup_target rl = PartitionKey.CombinationKey (rl_partition_key rl)"

text \<open>\<open>LockerHashLookupKey::get_lookup_key\<close> and the lookup id a stored locker has.\<close>

definition Locker_get_lookup_key :: "LockerHashLookupKey \<Rightarrow> string" where
  "Locker_get_lookup_key k =
     ''locker_'' @ lhk_merchant_id k @ ''_'' @ lhk_customer_id k @ ''_'' @ lhk_hash_id k"

definition Locker_get_reverse_lookup_key :: "LockerNew \<Rightarrow> PartitionKey \<Rightarrow> LockerHashLookupKey" where
  "Locker_get_reverse_lookup_key new key =
     \<lparr> lhk_hash_id = ln_hash_id new, lhk_merchant_id = ln_merchant_id new,
       lhk_customer_id = ln_customer_id new \<rparr>"

definition Locker_get_reverse_lookup_key_from_resource :: "Locker \<Rightarrow> string" where
  "Locker_get_reverse_lookup_key_from_resource l =
     ''locker_'' @ lk_merchant_id l @ ''_'' @ lk_customer_id l @ ''_'' @ lk_hash_id l"

end
