(* ===== verification/Config.thy ===== *)
theory Config
  imports Errors Text
begin

text \<open>
  The configuration of the process, \<open>src/src/config.rs\<close>, with the parts of
  \<open>observability.rs\<close>, \<open>api_client.rs\<close> and \<open>crypto/secrets_manager/\<close> it is validated with:
  which configurations start a server, what each tenant gets of the global
  configuration, and how the secrets are fetched at start-up.

  A \<open>HashMap\<close> is the list of its entries in iteration order, with distinct keys; no
  result may depend on that order.
\<close>

section \<open>Data\<close>

record Server =
  host :: string
  port :: nat

record Database =
  username :: string
  password :: string
  db_host :: string
  db_port :: nat
  dbname :: string
  pool_size :: "nat option"

record Cache =
  tti :: "nat option"
  max_capacity :: nat

record Secrets =
  locker_private_key :: string

record TenantSecrets =
  master_key :: bytes
  public_key :: string
  schema :: string
  redis_key_prefix :: string

type_synonym TenantsSecrets = "(string \<times> TenantSecrets) list"

record ServerTls =
  certificate :: string
  private_key :: string

record ApiClientConfig =
  client_idle_timeout :: nat
  pool_max_idle_per_host :: nat
  identity :: string

record RuntimeConfigEndpoint =
  base_url :: string
  api_key :: string
  headers :: "(string \<times> string) list"
  path :: string

datatype RuntimeConfig =
    Disabled
  | Enabled (rc_endpoint: RuntimeConfigEndpoint) (rc_refresh_interval_seconds: nat)

datatype ExternalKeyManagerConfig =
    Disabled
  | Enabled string
  | EnabledWithMtls string string

datatype MetricsConfig =
    Disabled
  | Otlp string nat nat nat
  | Prometheus string nat nat

record KvConfig =
  drainer_stream_suffix :: string
  drainer_num_partitions :: "8 word"
  ttl_for_kv :: "32 word"

record AwsKmsConfig =
  key_id :: string
  region :: string

record HashiCorpVaultConfig =
  url :: string
  token :: string

datatype SecretsManagementConfig =
    AwsKms AwsKmsConfig
  | HashiCorpVault HashiCorpVaultConfig
  | NoEncryption

record Limit =
  request_count :: nat
  duration :: nat
  buffer_size :: "nat option"

text \<open>\<open>RedisSettings\<close> belongs to the Redis library and is a type parameter.\<close>

record 'redis GlobalConfig =
  server :: Server
  database :: Database
  read_replica :: "Database option"
  secrets :: Secrets
  secrets_management :: SecretsManagementConfig
  metrics :: MetricsConfig
  limit :: Limit
  cache :: Cache
  tenant_secrets :: TenantsSecrets
  tls :: "ServerTls option"
  api_client :: ApiClientConfig
  external_key_manager :: ExternalKeyManagerConfig
  redis :: "'redis option"
  runtime_config :: RuntimeConfig
  kv :: KvConfig

record TenantConfig =
  tc_tenant_id :: string
  tc_locker_secrets :: Secrets
  tc_tenant_secrets :: TenantSecrets
  tc_external_key_manager :: ExternalKeyManagerConfig
  tc_redis_key_prefix :: string

section \<open>Defaults\<close>

definition default_drainer_stream_suffix :: string where
  "default_drainer_stream_suffix = ''DRAINER_STREAM''"

definition default_drainer_num_partitions :: "8 word" where
  "default_drainer_num_partitions = 16"

definition default_ttl_for_kv :: "32 word" where
  "default_ttl_for_kv = 900"

definition KvConfig_default :: KvConfig where
  "KvConfig_default =
     \<lparr> drainer_stream_suffix = default_drainer_stream_suffix,
       drainer_num_partitions = default_drainer_num_partitions, ttl_for_kv = default_ttl_for_kv \<rparr>"

definition default_runtime_config_refresh_interval_seconds :: nat where
  "default_runtime_config_refresh_interval_seconds = 30"

definition ApiClientConfig_default :: ApiClientConfig where
  "ApiClientConfig_default =
     \<lparr> client_idle_timeout = 90, pool_max_idle_per_host = 5, identity = [] \<rparr>"

section \<open>Tenant configuration\<close>

definition TenantConfig_from_global_config :: "'redis GlobalConfig \<Rightarrow> string \<Rightarrow> (TenantConfig, 'e) result" where
  "TenantConfig_from_global_config global_config tenant_id =
     res_map (\<lambda>secret.
        \<lparr> tc_tenant_id = tenant_id, tc_locker_secrets = secrets global_config,
          tc_tenant_secrets = secret,
          tc_external_key_manager = external_key_manager global_config,
          tc_redis_key_prefix = redis_key_prefix secret \<rparr>)
       (unwrap (map_of (tenant_secrets global_config) tenant_id))"

section \<open>The KV configuration\<close>

definition KvConfig_drainer_stream_name :: "KvConfig \<Rightarrow> string \<Rightarrow> string" where
  "KvConfig_drainer_stream_name self shard_key =
     ''{'' @ shard_key @ ''}_'' @ drainer_stream_suffix self"

definition KvConfig_validate :: "KvConfig \<Rightarrow> (unit, ConfigurationError) result" where
  "KvConfig_validate self =
     (if drainer_num_partitions self = 0
      then Err (InvalidConfigurationValueError ''kv.drainer_num_partitions must be greater than 0'')
      else Ok ())"

section \<open>Runtime configuration and key manager\<close>

definition RuntimeConfig_is_enabled :: "RuntimeConfig \<Rightarrow> bool" where
  "RuntimeConfig_is_enabled c = (case c of RuntimeConfig.Enabled e r \<Rightarrow> True | RuntimeConfig.Disabled \<Rightarrow> False)"

definition RuntimeConfig_validate :: "RuntimeConfig \<Rightarrow> (unit, ConfigurationError) result" where
  "RuntimeConfig_validate c = (case c of
     RuntimeConfig.Disabled \<Rightarrow> Ok ()
   | RuntimeConfig.Enabled endpoint r \<Rightarrow>
       if trim (base_url endpoint) = []
       then Err (InvalidConfigurationValueError
         ''runtime_config.endpoint.base_url is required when mode is \"enabled\"'')
       else if trim (api_key endpoint) = []
       then Err (InvalidConfigurationValueError
         ''runtime_config.endpoint.api_key is required when mode is \"enabled\"'')
       else Ok ())"

fun is_external :: "ExternalKeyManagerConfig \<Rightarrow> bool" where
  "is_external ExternalKeyManagerConfig.Disabled = False"
| "is_external (ExternalKeyManagerConfig.Enabled u) = True"
| "is_external (EnabledWithMtls u c) = True"

fun is_mtls_enabled :: "ExternalKeyManagerConfig \<Rightarrow> bool" where
  "is_mtls_enabled ExternalKeyManagerConfig.Disabled = False"
| "is_mtls_enabled (ExternalKeyManagerConfig.Enabled u) = False"
| "is_mtls_enabled (EnabledWithMtls u c) = True"

fun get_url :: "ExternalKeyManagerConfig \<Rightarrow> string option" where
  "get_url ExternalKeyManagerConfig.Disabled = None"
| "get_url (ExternalKeyManagerConfig.Enabled u) = Some u"
| "get_url (EnabledWithMtls u c) = Some u"

definition get_url_required :: "ExternalKeyManagerConfig \<Rightarrow> (string, KeyManagerError) result" where
  "get_url_required self =
     ok_or (KeyManagerError.MissingConfigurationError
       ''external_key_manager.url is required when external key manager is enabled'') (get_url self)"

fun get_ca_cert :: "ExternalKeyManagerConfig \<Rightarrow> string option" where
  "get_ca_cert ExternalKeyManagerConfig.Disabled = None"
| "get_ca_cert (ExternalKeyManagerConfig.Enabled u) = None"
| "get_ca_cert (EnabledWithMtls u c) = Some c"

definition ExternalKeyManagerConfig_validate :: "ExternalKeyManagerConfig \<Rightarrow> (unit, ConfigurationError) result" where
  "ExternalKeyManagerConfig_validate c = (case c of
     ExternalKeyManagerConfig.Disabled \<Rightarrow> Ok ()
   | ExternalKeyManagerConfig.Enabled u \<Rightarrow>
       if trim u = []
       then Err (InvalidConfigurationValueError
         ''external_key_manager.url is required when external key manager is enabled'')
       else Ok ()
   | EnabledWithMtls u cert \<Rightarrow>
       if trim u = []
       then Err (InvalidConfigurationValueError
         ''external_key_manager.url is required when external key manager is enabled'')
       else if trim cert = []
       then Err (InvalidConfigurationValueError
         ''external_key_manager.ca_cert is required when mTLS is enabled'')
       else Ok ())"

definition ApiClientConfig_validate_for_mtls ::
    "ApiClientConfig \<Rightarrow> ExternalKeyManagerConfig \<Rightarrow> (unit, ConfigurationError) result" where
  "ApiClientConfig_validate_for_mtls self ekm =
     (if is_mtls_enabled ekm \<and> identity self = []
      then Err (InvalidConfigurationValueError ''api_client.identity is required when mTLS is enabled'')
      else Ok ())"

section \<open>Metrics and secrets management\<close>

text \<open>\<open>is_ip\<close> is \<open>host.parse::<IpAddr>().is_ok()\<close>.\<close>

definition MetricsConfig_validate :: "(string \<Rightarrow> bool) \<Rightarrow> MetricsConfig \<Rightarrow> (unit, ConfigurationError) result" where
  "MetricsConfig_validate is_ip c = (case c of
     MetricsConfig.Disabled \<Rightarrow> Ok ()
   | Otlp endpoint t e b \<Rightarrow>
       if trim endpoint = []
       then Err (InvalidConfigurationValueError ''metrics.endpoint is required when mode is \"otlp\"'')
       else Ok ()
   | Prometheus h p b \<Rightarrow>
       if \<not> is_ip h
       then Err (InvalidConfigurationValueError
         ''metrics.host must be a valid IP address when mode is \"prometheus\"'')
       else if p = 0
       then Err (InvalidConfigurationValueError
         ''metrics.port must be a non-zero value when mode is \"prometheus\"'')
       else Ok ())"

definition AwsKmsConfig_validate :: "AwsKmsConfig \<Rightarrow> (unit, ConfigurationError) result" where
  "AwsKmsConfig_validate self =
     (if trim (key_id self) = []
      then Err (InvalidConfigurationValueError ''AWS KMS key ID must not be empty'')
      else if trim (region self) = []
      then Err (InvalidConfigurationValueError ''AWS KMS region must not be empty'')
      else Ok ())"

definition HashiCorpVaultConfig_validate :: "HashiCorpVaultConfig \<Rightarrow> (unit, ConfigurationError) result" where
  "HashiCorpVaultConfig_validate self =
     (if trim (url self) = []
      then Err (InvalidConfigurationValueError ''HashiCorp vault url must not be empty'')
      else if trim (token self) = []
      then Err (InvalidConfigurationValueError ''HashiCorp vault token must not be empty'')
      else Ok ())"

fun SecretsManagementConfig_validate :: "SecretsManagementConfig \<Rightarrow> (unit, ConfigurationError) result" where
  "SecretsManagementConfig_validate (AwsKms c) = AwsKmsConfig_validate c"
| "SecretsManagementConfig_validate (HashiCorpVault c) = HashiCorpVaultConfig_validate c"
| "SecretsManagementConfig_validate NoEncryption = Ok ()"

section \<open>Fetching secrets at start-up\<close>

datatype SecretsManagementError = FetchSecretFailed | ClientCreationFailed

datatype HashiCorpError =
    ClientCreationFailed | ConfigurationBuildFailed | HexDecodingFailed | Base64DecodingFailed
  | DecryptionFailed | MissingPlaintextDecryptionOutput | Utf8DecodingFailed | IncompleteData
  | FetchFailed | ParseError

datatype AwsKmsError =
    Base64EncodingFailed | Base64DecodingFailed | DecryptionFailed | EncryptionFailed
  | MissingPlaintextDecryptionOutput | MissingCiphertextEncryptionOutput | Utf8DecodingFailed
  | AwsKmsClientNotInitialized

text \<open>
  The calls of the AWS SDK, of \<open>vaultrs\<close> and of the base64 and hex crates are parameters:
  building a vault client, reading a path of a mount (a map from keys to values), decrypting a
  blob, decoding text.
\<close>

record 'w SecretBackends =
  vault_client_new :: "string \<Rightarrow> string \<Rightarrow> (unit, string) result"
  vault_kv2_read :: "string \<Rightarrow> string \<Rightarrow> ('w, (string \<rightharpoonup> string), string) io"
  kms_decrypt :: "string \<Rightarrow> bytes \<Rightarrow> ('w, bytes option, string) io"
  base64_decode :: "string \<Rightarrow> bytes option"
  hex_decode :: "string \<Rightarrow> bytes option"

datatype SecretsManagerClient =
    Client_AwsKms AwsKmsConfig | Client_HashiCorp HashiCorpVaultConfig | Client_NoEncryption

text \<open>\<open>Kv2::read\<close>: the location is \<open>mount:path:key\<close>, the key defaulting to \<open>value\<close>.\<close>

definition Kv2_read :: "'w SecretBackends \<Rightarrow> string \<Rightarrow> ('w, string, HashiCorpError) io" where
  "Kv2_read b location =
     (let split = split_on CHR '':'' location in
      io_bind (io_lift (ok_or IncompleteData (if split = [] then None else Some (split ! 0)))) (\<lambda>mount.
      io_bind (io_lift (ok_or IncompleteData (if length split \<le> 1 then None else Some (split ! 1)))) (\<lambda>path.
      let key = (if length split \<le> 2 then ''value'' else split ! 2) in
      io_bind (io_map_err (\<lambda>_. FetchFailed) (vault_kv2_read b mount path)) (\<lambda>output.
      io_lift (ok_or ParseError (output key))))))"

definition AwsKmsClient_decrypt :: "'w SecretBackends \<Rightarrow> AwsKmsConfig \<Rightarrow> string \<Rightarrow> ('w, string, AwsKmsError) io" where
  "AwsKmsClient_decrypt b config input =
     io_bind (io_lift (ok_or AwsKmsError.Base64DecodingFailed (base64_decode b input))) (\<lambda>blob.
     io_bind (io_map_err (\<lambda>_. AwsKmsError.DecryptionFailed) (kms_decrypt b (key_id config) blob)) (\<lambda>out.
     io_bind (io_lift (ok_or AwsKmsError.MissingPlaintextDecryptionOutput out)) (\<lambda>plaintext.
     io_lift (ok_or AwsKmsError.Utf8DecodingFailed (from_utf8 plaintext)))))"

definition get_secret_management_client ::
    "'w SecretBackends \<Rightarrow> SecretsManagementConfig \<Rightarrow> (SecretsManagerClient, SecretsManagementError) result" where
  "get_secret_management_client b c = (case c of
     AwsKms aws \<Rightarrow> Ok (Client_AwsKms aws)
   | HashiCorpVault hc \<Rightarrow>
       res_map (\<lambda>_. Client_HashiCorp hc)
         (res_map_err (\<lambda>_. SecretsManagementError.ClientCreationFailed) (vault_client_new b (url hc) (token hc)))
   | NoEncryption \<Rightarrow> Ok Client_NoEncryption)"

definition get_secret ::
    "'w SecretBackends \<Rightarrow> SecretsManagerClient \<Rightarrow> string \<Rightarrow> ('w, string, SecretsManagementError) io" where
  "get_secret b client input = (case client of
     Client_AwsKms config \<Rightarrow> io_map_err (\<lambda>_. FetchSecretFailed) (AwsKmsClient_decrypt b config input)
   | Client_HashiCorp config \<Rightarrow> io_map_err (\<lambda>_. FetchSecretFailed) (Kv2_read b input)
   | Client_NoEncryption \<Rightarrow> io_lift (ok_or FetchSecretFailed (from_utf8 (into_bytes input))))"

text \<open>\<open>get_secret\<close> with the error of the field that is being fetched.\<close>

definition fetch_secret ::
    "'w SecretBackends \<Rightarrow> SecretsManagerClient \<Rightarrow> string \<Rightarrow> string \<Rightarrow> ('w, string, ConfigurationError) io" where
  "fetch_secret b client field input = io_map_err (\<lambda>_. KmsDecryptError field) (get_secret b client input)"

text \<open>The loop over the tenants: each master key is fetched and hex-decoded.\<close>

fun fetch_master_keys ::
    "'w SecretBackends \<Rightarrow> SecretsManagerClient \<Rightarrow> TenantsSecrets \<Rightarrow> ('w, TenantsSecrets, ConfigurationError) io" where
  "fetch_master_keys b client [] = io_ret []"
| "fetch_master_keys b client ((tenant_id, s) # rest) =
     io_bind (io_lift (unwrap (from_utf8 (master_key s)))) (\<lambda>encrypted.
     io_bind (fetch_secret b client ''master_key'' encrypted) (\<lambda>decrypted.
     io_bind (io_lift (unwrap (hex_decode b decrypted))) (\<lambda>key.
     io_map (\<lambda>rest'. (tenant_id, s\<lparr> master_key := key \<rparr>) # rest')
       (fetch_master_keys b client rest))))"

fun fetch_public_keys ::
    "'w SecretBackends \<Rightarrow> SecretsManagerClient \<Rightarrow> TenantsSecrets \<Rightarrow> ('w, TenantsSecrets, ConfigurationError) io" where
  "fetch_public_keys b client [] = io_ret []"
| "fetch_public_keys b client ((tenant_id, s) # rest) =
     io_bind (fetch_secret b client ''public_key'' (public_key s)) (\<lambda>decrypted.
     io_map (\<lambda>rest'. (tenant_id, s\<lparr> public_key := decrypted \<rparr>) # rest')
       (fetch_public_keys b client rest))"

definition fetch_raw_secrets ::
    "'w SecretBackends \<Rightarrow> 'redis GlobalConfig \<Rightarrow> ('w, 'redis GlobalConfig, ConfigurationError) io" where
  "fetch_raw_secrets b self =
     io_bind (io_lift (case get_secret_management_client b (secrets_management self) of
         Ok c \<Rightarrow> Ok c | Err e \<Rightarrow> Panic | Panic \<Rightarrow> Panic)) (\<lambda>client.
     io_bind (fetch_secret b client ''database_password'' (password (database self))) (\<lambda>db_password.
     io_bind (case read_replica self of
         None \<Rightarrow> io_ret None
       | Some r \<Rightarrow> io_map (\<lambda>p. Some (r\<lparr> password := p \<rparr>))
           (fetch_secret b client ''read_replica_password'' (password r))) (\<lambda>replica.
     io_bind (fetch_master_keys b client (tenant_secrets self)) (\<lambda>tenants1.
     io_bind (fetch_public_keys b client tenants1) (\<lambda>tenants2.
     io_bind (fetch_secret b client ''locker_private_key'' (locker_private_key (secrets self))) (\<lambda>priv.
     io_bind (case runtime_config self of
         RuntimeConfig.Disabled \<Rightarrow> io_ret RuntimeConfig.Disabled
       | RuntimeConfig.Enabled endpoint interval \<Rightarrow>
           io_map (\<lambda>k. RuntimeConfig.Enabled (endpoint\<lparr> api_key := k \<rparr>) interval)
             (fetch_secret b client ''runtime_config api_key'' (api_key endpoint))) (\<lambda>runtime.
     io_bind (if is_mtls_enabled (external_key_manager self)
         then io_map (\<lambda>i. (api_client self)\<lparr> identity := i \<rparr>)
           (fetch_secret b client ''api_client-identity'' (identity (api_client self)))
         else io_ret (api_client self)) (\<lambda>client_config.
     io_bind (case external_key_manager self of
         EnabledWithMtls u ca \<Rightarrow>
           io_map (\<lambda>ca'. EnabledWithMtls u ca') (fetch_secret b client ''ca_cert'' ca)
       | ExternalKeyManagerConfig.Enabled u \<Rightarrow> io_ret (external_key_manager self)
       | ExternalKeyManagerConfig.Disabled \<Rightarrow> io_ret (external_key_manager self)) (\<lambda>ekm.
     io_ret (self\<lparr> database := (database self)\<lparr> password := db_password \<rparr>,
       read_replica := replica, tenant_secrets := tenants2,
       secrets := (secrets self)\<lparr> locker_private_key := priv \<rparr>,
       runtime_config := runtime, api_client := client_config,
       external_key_manager := ekm \<rparr>))))))))))"

section \<open>Validation of the whole configuration\<close>

text \<open>The loop of \<open>validate_kv_tenant_prefixes\<close>, with the set of prefixes seen so far.\<close>

fun validate_prefixes :: "string list \<Rightarrow> TenantsSecrets \<Rightarrow> (unit, ConfigurationError) result" where
  "validate_prefixes seen [] = Ok ()"
| "validate_prefixes seen ((tenant_id, s) # rest) =
     (let prefix = trim (redis_key_prefix s) in
      if prefix = []
      then Err (InvalidConfigurationValueError
        (''tenant `'' @ tenant_id @ ''`: redis_key_prefix required with kv + multi-tenant''))
      else if List.member seen prefix
      then Err (InvalidConfigurationValueError (''duplicate redis_key_prefix `'' @ prefix @ ''`''))
      else validate_prefixes (prefix # seen) rest)"

definition validate_kv_tenant_prefixes :: "'redis GlobalConfig \<Rightarrow> (unit, ConfigurationError) result" where
  "validate_kv_tenant_prefixes self =
     (if redis self = None \<or> length (tenant_secrets self) \<le> 1 then Ok ()
      else validate_prefixes [] (tenant_secrets self))"

definition GlobalConfig_validate ::
    "(string \<Rightarrow> bool) \<Rightarrow> 'redis GlobalConfig \<Rightarrow> (unit, ConfigurationError) result" where
  "GlobalConfig_validate is_ip self =
     res_bind (SecretsManagementConfig_validate (secrets_management self)) (\<lambda>_.
     res_bind (RuntimeConfig_validate (runtime_config self)) (\<lambda>_.
     res_bind (KvConfig_validate (kv self)) (\<lambda>_.
     res_bind (validate_kv_tenant_prefixes self) (\<lambda>_.
     res_bind (ExternalKeyManagerConfig_validate (external_key_manager self)) (\<lambda>_.
     res_bind (ApiClientConfig_validate_for_mtls (api_client self) (external_key_manager self)) (\<lambda>_.
     MetricsConfig_validate is_ip (metrics self)))))))"

section \<open>Properties of validation\<close>

lemma validate_prefixes_Ok:
  "validate_prefixes seen ts = Ok () \<longleftrightarrow>
     (\<forall>(t, s) \<in> set ts. trim (redis_key_prefix s) \<noteq> [])
     \<and> distinct (map (\<lambda>(t, s). trim (redis_key_prefix s)) ts)
     \<and> set seen \<inter> set (map (\<lambda>(t, s). trim (redis_key_prefix s)) ts) = {}"
proof (induction seen ts rule: validate_prefixes.induct)
  case (2 seen tenant_id s rest)
  then show ?case by (auto simp: Let_def)
qed simp

lemma distinct_trimmed:
  assumes "distinct (map (\<lambda>(t, s). trim (redis_key_prefix s)) ts)"
  shows "distinct (map (\<lambda>(t, s). redis_key_prefix s) ts)"
proof -
  have "distinct (map trim (map (\<lambda>(t, s). redis_key_prefix s) ts))"
    using assms by (simp add: case_prod_unfold comp_def)
  then show ?thesis using distinct_map by blast
qed

lemma validated_mtls:
  "ExternalKeyManagerConfig_validate e = Ok () \<Longrightarrow> ApiClientConfig_validate_for_mtls a e = Ok () \<Longrightarrow>
   is_mtls_enabled e \<Longrightarrow> identity a \<noteq> [] \<and> (\<exists>ca. get_ca_cert e = Some ca \<and> trim ca \<noteq> [])"
  by (cases e) (auto simp: ExternalKeyManagerConfig_validate_def ApiClientConfig_validate_for_mtls_def
    split: if_splits)

lemma validate_kv_tenant_prefixes_Ok:
  "validate_kv_tenant_prefixes c = Ok () \<longleftrightarrow>
     (redis c \<noteq> None \<and> length (tenant_secrets c) > 1 \<longrightarrow>
        (\<forall>(t, s) \<in> set (tenant_secrets c). trim (redis_key_prefix s) \<noteq> [])
        \<and> distinct (map (\<lambda>(t, s). trim (redis_key_prefix s)) (tenant_secrets c)))"
  by (auto simp: validate_kv_tenant_prefixes_def validate_prefixes_Ok)

lemma validated_prefixes:
  assumes "validate_kv_tenant_prefixes c = Ok ()" "redis c \<noteq> None" "length (tenant_secrets c) > 1"
  shows "(\<forall>(t, s) \<in> set (tenant_secrets c). redis_key_prefix s \<noteq> [])
    \<and> distinct (map (\<lambda>(t, s). redis_key_prefix s) (tenant_secrets c))"
proof -
  have *: "\<forall>(t, s) \<in> set (tenant_secrets c). trim (redis_key_prefix s) \<noteq> []"
    "distinct (map (\<lambda>(t, s). trim (redis_key_prefix s)) (tenant_secrets c))"
    using assms by (simp_all add: validate_kv_tenant_prefixes_Ok)
  show ?thesis using *(1) distinct_trimmed [OF *(2)] by (fastforce dest: trim_not_Nil)
qed

lemma res_bind_unit_Ok: "res_bind m (\<lambda>_. n) = Ok x \<longleftrightarrow> m = Ok () \<and> n = Ok x" for m :: "(unit, 'e) result"
  by (cases m) simp_all

lemma secrets_validate_Ok:
  "SecretsManagementConfig_validate m = Ok () \<longleftrightarrow> (case m of
       AwsKms k \<Rightarrow> trim (key_id k) \<noteq> [] \<and> trim (region k) \<noteq> []
     | HashiCorpVault v \<Rightarrow> trim (url v) \<noteq> [] \<and> trim (token v) \<noteq> []
     | NoEncryption \<Rightarrow> True)"
  by (cases m) (simp_all add: AwsKmsConfig_validate_def HashiCorpVaultConfig_validate_def)

lemma key_manager_validate_Ok:
  "ExternalKeyManagerConfig_validate e = Ok () \<and> ApiClientConfig_validate_for_mtls a e = Ok () \<longleftrightarrow>
     (\<forall>u. get_url e = Some u \<longrightarrow> trim u \<noteq> [])
     \<and> (\<forall>ca. get_ca_cert e = Some ca \<longrightarrow> trim ca \<noteq> [] \<and> identity a \<noteq> [])"
  by (cases e) (auto simp: ExternalKeyManagerConfig_validate_def ApiClientConfig_validate_for_mtls_def)

lemma metrics_validate_Ok:
  "MetricsConfig_validate is_ip m = Ok () \<longleftrightarrow> (case m of
       MetricsConfig.Disabled \<Rightarrow> True
     | Otlp endpoint t e b \<Rightarrow> trim endpoint \<noteq> []
     | Prometheus h p b \<Rightarrow> is_ip h \<and> p \<noteq> 0)"
  by (cases m) (simp_all add: MetricsConfig_validate_def)

lemma runtime_validate_Ok:
  "RuntimeConfig_validate r = Ok () \<longleftrightarrow> (RuntimeConfig_is_enabled r \<longrightarrow>
     trim (base_url (rc_endpoint r)) \<noteq> [] \<and> trim (api_key (rc_endpoint r)) \<noteq> [])"
  by (cases r) (auto simp: RuntimeConfig_is_enabled_def RuntimeConfig_validate_def)

text \<open>C26. What validation accepts, exactly: the drainer has at least one partition (so the shard of a key is
  defined); with Redis configured and more than one tenant, the tenants' key prefixes, trimmed as the
  running tenants trim them, are not empty and no two are equal; an enabled runtime configuration has
  a base URL and an API key that are not blank; an external key manager has a URL that is not blank, and
  with mTLS also a CA certificate and a client identity; the chosen secrets manager has its two
  settings; and the metrics have an endpoint, or an address with a port that is not zero.\<close>

theorem validated_config_is_safe:
  "GlobalConfig_validate is_ip c = Ok () \<longleftrightarrow>
     drainer_num_partitions (kv c) \<noteq> 0
     \<and> (redis c \<noteq> None \<and> length (tenant_secrets c) > 1 \<longrightarrow>
          (\<forall>(t, s) \<in> set (tenant_secrets c). trim (redis_key_prefix s) \<noteq> [])
          \<and> distinct (map (\<lambda>(t, s). trim (redis_key_prefix s)) (tenant_secrets c)))
     \<and> (RuntimeConfig_is_enabled (runtime_config c) \<longrightarrow>
          trim (base_url (rc_endpoint (runtime_config c))) \<noteq> [] \<and> trim (api_key (rc_endpoint (runtime_config c))) \<noteq> [])
     \<and> (\<forall>u. get_url (external_key_manager c) = Some u \<longrightarrow> trim u \<noteq> [])
     \<and> (\<forall>ca. get_ca_cert (external_key_manager c) = Some ca \<longrightarrow> trim ca \<noteq> [] \<and> identity (api_client c) \<noteq> [])
     \<and> (case secrets_management c of
          AwsKms k \<Rightarrow> trim (key_id k) \<noteq> [] \<and> trim (region k) \<noteq> []
        | HashiCorpVault v \<Rightarrow> trim (url v) \<noteq> [] \<and> trim (token v) \<noteq> []
        | NoEncryption \<Rightarrow> True)
     \<and> (case metrics c of
          MetricsConfig.Disabled \<Rightarrow> True
        | Otlp endpoint t e b \<Rightarrow> trim endpoint \<noteq> []
        | Prometheus h p b \<Rightarrow> is_ip h \<and> p \<noteq> 0)"
proof -
  have "KvConfig_validate (kv c) = Ok () \<longleftrightarrow> drainer_num_partitions (kv c) \<noteq> 0" by (simp add: KvConfig_validate_def)
  then show ?thesis
    unfolding GlobalConfig_validate_def res_bind_unit_Ok secrets_validate_Ok runtime_validate_Ok metrics_validate_Ok
      validate_kv_tenant_prefixes_Ok
    using key_manager_validate_Ok [of "external_key_manager c" "api_client c"] by argo
qed

text \<open>A configuration with two tenants, Redis and an external key manager over mTLS.\<close>

definition example_config :: "unit GlobalConfig" where
  "example_config =
     \<lparr> server = \<lparr> host = ''0.0.0.0'', port = 8080 \<rparr>,
       database = \<lparr> username = ''u'', password = ''p'', db_host = ''db'', db_port = 5432,
         dbname = ''locker'', pool_size = None \<rparr>,
       read_replica = None, secrets = \<lparr> locker_private_key = ''k'' \<rparr>,
       secrets_management = NoEncryption, metrics = MetricsConfig.Disabled,
       limit = \<lparr> request_count = 1, duration = 60, buffer_size = None \<rparr>,
       cache = \<lparr> tti = None, max_capacity = 100 \<rparr>,
       tenant_secrets =
         [(''hyperswitch'', \<lparr> master_key = [], public_key = ''p'', schema = ''public'', redis_key_prefix = ''a'' \<rparr>),
          (''t2'', \<lparr> master_key = [], public_key = ''p'', schema = ''t2'', redis_key_prefix = ''b'' \<rparr>)],
       tls = None,
       api_client = \<lparr> client_idle_timeout = 90, pool_max_idle_per_host = 5, identity = ''pem'' \<rparr>,
       external_key_manager = EnabledWithMtls ''https://km'' ''ca'',
       redis = Some (),
       runtime_config = RuntimeConfig.Enabled \<lparr> base_url = ''http://c'', api_key = ''k'',
         headers = [], path = [] \<rparr> 30,
       kv = KvConfig_default \<rparr>"

theorem validated_config_is_safe_witness:
  "distinct (map (\<lambda>(t, s). trim (redis_key_prefix s)) (tenant_secrets example_config))
   \<and> identity (api_client example_config) \<noteq> []
   \<and> GlobalConfig_validate (\<lambda>h. True) (example_config\<lparr> api_client := (api_client example_config)\<lparr> identity := [] \<rparr> \<rparr>) \<noteq> Ok ()"
proof -
  have "GlobalConfig_validate (\<lambda>h. True) example_config = Ok ()"
    by code_simp
  then have "distinct (map (\<lambda>(t, s). trim (redis_key_prefix s)) (tenant_secrets example_config))"
    "identity (api_client example_config) \<noteq> []"
    unfolding validated_config_is_safe by (simp_all add: example_config_def)
  moreover have "GlobalConfig_validate (\<lambda>h. True) (example_config\<lparr> api_client := (api_client example_config)\<lparr> identity := [] \<rparr> \<rparr>) \<noteq> Ok ()"
    unfolding validated_config_is_safe by (simp add: example_config_def)
  ultimately show ?thesis by blast
qed

end
