(* ===== verification/RuntimeConfigManager.thy ===== *)
theory RuntimeConfigManager
  imports Config
begin

text \<open>
  The runtime configuration manager, \<open>src/src/runtime_config.rs\<close>: it fetches a
  configuration document from an endpoint on a schedule and serves the last document that
  was fetched and well formed.  The theorem shows that what is served is always the last good
  document of all the fetches so far, and which answers of the endpoint are good.
\<close>

section \<open>The code\<close>

definition API_KEY_HEADER_NAME :: string where
  "API_KEY_HEADER_NAME = ''X-Internal-Api-Key''"

text \<open>A \<open>reqwest\<close> response, as far as it is read: the status and the envelope parsed from its body.\<close>

record HttpResponse =
  resp_status :: nat
  resp_json_value :: "(string, string) result"

text \<open>
  The \<open>RwLock\<close> around the cached document is a cell of the state: a function that reads it
  and one that writes it.  \<open>client_get\<close> sends a GET request with one header, \<open>json_valid\<close> is
  \<open>serde_json::from_str::<Value>\<close> succeeding.
\<close>

record 'w RuntimeClient =
  client_get :: "string \<Rightarrow> string \<times> string \<Rightarrow> ('w, HttpResponse, string) io"
  json_valid :: "string \<Rightarrow> bool"

record 'w Cell =
  cell_read :: "'w \<Rightarrow> string option"
  cell_write :: "string option \<Rightarrow> 'w \<Rightarrow> 'w"

datatype 'w RuntimeConfigState =
    Disabled
  | Enabled string string string "'w RuntimeClient" nat "'w Cell"

record 'w RuntimeConfigManager =
  rcm_state :: "'w RuntimeConfigState"

text \<open>\<open>client_builder\<close> is the HTTP client the library builds from the settings, or its error.\<close>

definition RuntimeConfigManager_new ::
    "(nat \<Rightarrow> nat \<Rightarrow> (string \<times> string) list \<Rightarrow> ('w RuntimeClient, string) result) \<Rightarrow> (string \<Rightarrow> bool) \<Rightarrow>
     (string \<Rightarrow> bool) \<Rightarrow> 'w Cell \<Rightarrow> RuntimeConfig \<Rightarrow> nat \<Rightarrow> nat \<Rightarrow>
     ('w RuntimeConfigManager, ConfigurationError) result" where
  "RuntimeConfigManager_new client_builder header_name_ok header_value_ok cell config idle_timeout max_idle =
     (case config of
        RuntimeConfig.Disabled \<Rightarrow> Ok \<lparr> rcm_state = RuntimeConfigState.Disabled \<rparr>
      | RuntimeConfig.Enabled endpoint interval \<Rightarrow>
          res_bind (res_traverse (\<lambda>(name, value).
              if \<not> header_name_ok name
              then Err (InvalidConfigurationValueError (''invalid runtime_config header name `'' @ name @ ''`''))
              else if \<not> header_value_ok value
              then Err (InvalidConfigurationValueError (''invalid runtime_config header value for `'' @ name @ ''`''))
              else Ok (name, value)) (headers endpoint)) (\<lambda>hs.
          res_bind (res_map_err (\<lambda>_. InvalidConfigurationValueError
              ''Failed to build HTTP client for runtime config endpoint'')
              (client_builder idle_timeout max_idle hs)) (\<lambda>c.
          Ok \<lparr> rcm_state = RuntimeConfigState.Enabled (base_url endpoint) (path endpoint) (api_key endpoint)
                 c interval cell \<rparr>)))"

text \<open>\<open>get::<T>\<close> with \<open>parse\<close> for \<open>serde_json::from_str::<T>\<close>.\<close>

definition RuntimeConfigManager_get :: "(string \<Rightarrow> 't option) \<Rightarrow> 'w RuntimeConfigManager \<Rightarrow> 'w \<Rightarrow> 't option" where
  "RuntimeConfigManager_get parse self w = (case rcm_state self of
     RuntimeConfigState.Disabled \<Rightarrow> None
   | RuntimeConfigState.Enabled u p k c r ce \<Rightarrow>
       (case cell_read ce w of None \<Rightarrow> None | Some raw \<Rightarrow> parse raw))"

definition fetch_config :: "string \<Rightarrow> string \<Rightarrow> string \<Rightarrow> 'w RuntimeClient \<Rightarrow> ('w, string, ConfigurationError) io" where
  "fetch_config endpoint_url endpoint_path endpoint_api_key client =
     (let url = trim_end_matches CHR ''/'' endpoint_url @ ''/'' @ trim_start_matches CHR ''/'' endpoint_path in
      io_bind (io_map_err (\<lambda>_. InvalidConfigurationValueError ''Failed to send runtime config request'')
        (client_get client url (API_KEY_HEADER_NAME, endpoint_api_key))) (\<lambda>response.
      if \<not> (200 \<le> resp_status response \<and> resp_status response < 300)
      then io_err (InvalidConfigurationValueError
        (''Runtime config request returned non-success status ('' @ show_nat (resp_status response) @ '')''))
      else io_bind (io_lift (res_map_err (\<lambda>_. InvalidConfigurationValueError
             ''Failed to parse runtime config response envelope'') (resp_json_value response))) (\<lambda>value.
      if json_valid client value then io_ret value
      else io_err (InvalidConfigurationValueError ''Runtime config value is not valid JSON''))))"

definition prefetch :: "'w RuntimeConfigManager \<Rightarrow> 'w \<Rightarrow> 'w" where
  "prefetch self w = (case rcm_state self of
     RuntimeConfigState.Disabled \<Rightarrow> w
   | RuntimeConfigState.Enabled u p k c r ce \<Rightarrow>
       (case fetch_config u p k c w of (res, w') \<Rightarrow>
         (case res of Ok body \<Rightarrow> cell_write ce (Some body) w' | _ \<Rightarrow> w')))"

text \<open>The background task: one fetch at start, one at every tick of the timer.\<close>

fun prefetch_task :: "'w RuntimeConfigManager \<Rightarrow> ('w \<Rightarrow> 'w) list \<Rightarrow> 'w \<Rightarrow> 'w" where
  "prefetch_task self [] w = prefetch self w"
| "prefetch_task self (tick # ticks) w = prefetch_task self ticks (tick (prefetch self w))"

definition spawn_prefetch_task :: "'w RuntimeConfigManager \<Rightarrow> (('w \<Rightarrow> 'w) list \<Rightarrow> 'w \<Rightarrow> 'w) option" where
  "spawn_prefetch_task self = (case rcm_state self of
     RuntimeConfigState.Disabled \<Rightarrow> None
   | RuntimeConfigState.Enabled u p k c r ce \<Rightarrow> Some (prefetch_task self))"

section \<open>What is served\<close>

text \<open>What the model relies on of a cell and of the code that runs between two fetches.\<close>

definition cell_ok :: "'w Cell \<Rightarrow> bool" where
  "cell_ok ce = (\<forall>v w. cell_read ce (cell_write ce v w) = v)"

definition keeps_cell :: "'w Cell \<Rightarrow> ('w \<Rightarrow> 'w) \<Rightarrow> bool" where
  "keeps_cell ce f = (\<forall>w. cell_read ce (f w) = cell_read ce w)"

definition client_keeps_cell :: "'w Cell \<Rightarrow> 'w RuntimeClient \<Rightarrow> bool" where
  "client_keeps_cell ce c = (\<forall>u h w. cell_read ce (snd (client_get c u h w)) = cell_read ce w)"

lemma fetch_config_keeps_cell:
  "client_keeps_cell ce c \<Longrightarrow> cell_read ce (snd (fetch_config u p k c w)) = cell_read ce w"
  by (auto simp: fetch_config_def client_keeps_cell_def io_defs Let_def
      split: prod.splits result.splits if_splits) (metis snd_conv)+

text \<open>The answers that are good: a success status, an envelope that parses, a value that is JSON.\<close>

lemma fetch_config_Ok:
  "fetch_config u p k c w = (Ok body, w') \<longleftrightarrow>
     (\<exists>resp. client_get c (trim_end_matches CHR ''/'' u @ ''/'' @ trim_start_matches CHR ''/'' p) (API_KEY_HEADER_NAME, k) w
          = (Ok resp, w')
        \<and> 200 \<le> resp_status resp \<and> resp_status resp < 300 \<and> resp_json_value resp = Ok body \<and> json_valid c body)"
proof -
  obtain r w1 where g: "client_get c (trim_end_matches CHR ''/'' u @ ''/'' @ trim_start_matches CHR ''/'' p)
      (API_KEY_HEADER_NAME, k) w = (r, w1)" by force
  show ?thesis
  proof (cases r)
    case (Ok resp)
    then show ?thesis using g
      by (cases "resp_json_value resp") (auto simp: fetch_config_def io_defs Let_def)
  qed (use g in \<open>auto simp: fetch_config_def io_defs Let_def\<close>)
qed

text \<open>The fetches of a run of the task, and the last good document among them.\<close>

fun fetches :: "'w RuntimeConfigManager \<Rightarrow> (string \<times> string \<times> string \<times> 'w RuntimeClient) \<Rightarrow> ('w \<Rightarrow> 'w) list \<Rightarrow> 'w \<Rightarrow>
    (string, ConfigurationError) result list" where
  "fetches self (u, p, k, c) [] w = [fst (fetch_config u p k c w)]"
| "fetches self (u, p, k, c) (tick # ticks) w =
     fst (fetch_config u p k c w) # fetches self (u, p, k, c) ticks (tick (prefetch self w))"

fun last_good :: "string option \<Rightarrow> (string, ConfigurationError) result list \<Rightarrow> string option" where
  "last_good known [] = known"
| "last_good known (Ok body # results) = last_good (Some body) results"
| "last_good known (_ # results) = last_good known results"

lemma prefetch_cell:
  assumes "rcm_state self = RuntimeConfigState.Enabled u p k c r ce" "cell_ok ce" "client_keeps_cell ce c"
  shows "cell_read ce (prefetch self w) = last_good (cell_read ce w) [fst (fetch_config u p k c w)]"
proof -
  obtain res w' where f: "fetch_config u p k c w = (res, w')" by force
  have "cell_read ce w' = cell_read ce w"
    using fetch_config_keeps_cell [OF assms(3), of u p k w] f by simp
  then show ?thesis using assms(1,2) f by (cases res) (simp_all add: prefetch_def cell_ok_def)
qed

lemma last_good_cases: "last_good known (x # xs) = last_good (last_good known [x]) xs"
  by (cases x) simp_all

lemma prefetch_task_cell:
  assumes state: "rcm_state self = RuntimeConfigState.Enabled u p k c r ce" and ok: "cell_ok ce" "client_keeps_cell ce c"
    and ticks: "\<forall>t \<in> set ticks. keeps_cell ce t"
  shows "cell_read ce (prefetch_task self ticks w) = last_good (cell_read ce w) (fetches self (u, p, k, c) ticks w)"
  using ticks
proof (induction ticks arbitrary: w)
  case Nil
  then show ?case using prefetch_cell [OF state ok] by simp
next
  case (Cons tick ticks)
  have "cell_read ce (tick (prefetch self w)) = last_good (cell_read ce w) [fst (fetch_config u p k c w)]"
    using Cons.prems prefetch_cell [OF state ok] by (simp add: keeps_cell_def)
  moreover have "cell_read ce (prefetch_task self ticks v) = last_good (cell_read ce v) (fetches self (u, p, k, c) ticks v)" for v
    using Cons by simp
  ultimately show ?case by (simp only: prefetch_task.simps fetches.simps) (subst last_good_cases, rule refl)
qed

text \<open>C32. Last known good: after any number of scheduled fetches every \<open>get\<close> answers from the body of the last
  fetch that was good, and before the first good one it answers nothing.  So a good fetch replaces what is
  served, and a failed one leaves it: a fetch is good exactly if the endpoint answered with a success
  status and an envelope whose value is JSON, and the body is that value.\<close>

theorem runtime_config_last_known_good:
  assumes state: "rcm_state self = RuntimeConfigState.Enabled u p k c r ce"
    and ok: "cell_ok ce" "client_keeps_cell ce c" and ticks: "\<forall>t \<in> set ticks. keeps_cell ce t"
    and fresh: "cell_read ce w = None"
  shows "RuntimeConfigManager_get parse self (prefetch_task self ticks w)
      = Option.bind (last_good None (fetches self (u, p, k, c) ticks w)) parse
    \<and> (\<forall>v body v'. fetch_config u p k c v = (Ok body, v') \<longleftrightarrow>
        (\<exists>resp. client_get c (trim_end_matches CHR ''/'' u @ ''/'' @ trim_start_matches CHR ''/'' p)
              (API_KEY_HEADER_NAME, k) v = (Ok resp, v')
          \<and> 200 \<le> resp_status resp \<and> resp_status resp < 300 \<and> resp_json_value resp = Ok body \<and> json_valid c body))"
proof -
  have "RuntimeConfigManager_get parse self v = Option.bind (cell_read ce v) parse" for v
    by (simp add: RuntimeConfigManager_get_def state split: option.split)
  then have "RuntimeConfigManager_get parse self (prefetch_task self ticks w)
      = Option.bind (last_good None (fetches self (u, p, k, c) ticks w)) parse"
    using prefetch_task_cell [OF state ok ticks, of w] fresh by simp
  then show ?thesis by (intro conjI allI fetch_config_Ok)
qed

text \<open>A witness: an endpoint that answers a good document, then another one, then one that is not JSON.  The
  state is the number of requests and the cached document.\<close>

definition example_endpoint :: "(nat \<times> string option) RuntimeClient" where
  "example_endpoint = \<lparr> client_get = (\<lambda>u h (n, cell). (Ok \<lparr> resp_status = 200,
       resp_json_value = Ok (if n = 0 then ''{}'' else if n = 1 then ''[]'' else ''{'') \<rparr>, (Suc n, cell))),
     json_valid = (\<lambda>s. s \<in> {''{}'', ''[]''}) \<rparr>"

definition example_cell :: "(nat \<times> string option) Cell" where
  "example_cell = \<lparr> cell_read = snd, cell_write = (\<lambda>v (n, cell). (n, v)) \<rparr>"

definition example_manager :: "(nat \<times> string option) RuntimeConfigManager" where
  "example_manager = \<lparr> rcm_state = RuntimeConfigState.Enabled ''http://c'' ''p'' ''k'' example_endpoint 30 example_cell \<rparr>"

theorem runtime_config_last_known_good_witness:
  "RuntimeConfigManager_get Some example_manager (prefetch_task example_manager [id, id] (0, None)) = Some ''[]''
   \<and> RuntimeConfigManager_get Some example_manager (prefetch_task example_manager [] (0, None)) = Some ''{}''"
proof -
  have h: "rcm_state example_manager = RuntimeConfigState.Enabled ''http://c'' ''p'' ''k'' example_endpoint 30 example_cell"
    "cell_ok example_cell" "client_keeps_cell example_cell example_endpoint"
    "cell_read example_cell (0, None) = None"
    by (simp_all add: example_manager_def example_cell_def example_endpoint_def cell_ok_def client_keeps_cell_def split: prod.split)
  have ticks: "\<forall>t \<in> set [id, id]. keeps_cell example_cell t" "\<forall>t \<in> set []. keeps_cell example_cell t"
    by (simp_all add: keeps_cell_def)
  have one: "fetches example_manager (''http://c'', ''p'', ''k'', example_endpoint) [] (0, None) = [Ok ''{}'']"
    by (simp add: fetch_config_def example_endpoint_def io_defs Let_def)
  have three: "last_good None (fetches example_manager (''http://c'', ''p'', ''k'', example_endpoint) [id, id] (0, None)) = Some ''[]''"
    by (simp add: fetch_config_def prefetch_def example_manager_def example_endpoint_def example_cell_def io_defs Let_def)
  show ?thesis
    using runtime_config_last_known_good [OF h(1-3) ticks(1) h(4), of Some]
      runtime_config_last_known_good [OF h(1-3) ticks(2) h(4), of Some] one three by simp
qed

end
