(* ===== verification/Store.thy ===== *)
theory Store
  imports Types RuntimeConfigManager
begin

text \<open>
  The storage handle, \<open>src/src/storage.rs\<close>, and the keys of \<open>storage/kv/partition_key.rs\<close>: what a
  \<open>Storage\<close> holds, how a read or a write gets its Postgres connection (primary or read
  replica), how the KV mode is read from the runtime configuration, and which Redis shard a
  row's key belongs to.

  Postgres, Redis and the pure library functions are parameters.  \<open>PgConn\<close> holds one field per
  query the program builds with diesel (the filter of a \<open>select\<close>, \<open>update\<close> or \<open>delete\<close> is its
  argument); \<open>RedisPool\<close> the commands the program sends; \<open>Libs\<close> the pure functions of
  third-party crates.  The metrics that wrap every query do not change its result (\<open>Metrics\<close>) and are
  left out here.
\<close>

section \<open>Library functions\<close>

text \<open>A statement the program builds with diesel for the drainer.\<close>

datatype Statement =
    InsertLocker LockerNew | DeleteLocker LockerPrimaryKeyType
  | InsertVault VaultNewInner | DeleteVault VaultPrimaryKey | UpdateVault VaultPrimaryKey VaultUpdate
  | InsertHashTable HashTableNew | InsertFingerprint FingerprintTableNew
  | InsertReverseLookup ReverseLookupNew | DeleteReverseLookup ReverseLookupPrimaryKey

datatype DatabaseOperation = Insert | Update | Delete

text \<open>The ids of a Postgres type and of its arrays; \<open>None\<close> is a lookup that failed.\<close>

type_synonym PgTypeMetadata = "(nat \<times> nat) option"

record SerializableQuery =
  sq_sql :: string
  sq_binds :: "bytes option list"
  sq_metadata :: "PgTypeMetadata list"
  sq_safe_to_cache_prepared :: bool
  sq_entity_type :: string
  sq_operation :: DatabaseOperation

record RuntimeConfigValues =
  enable_kv :: KvState
  use_replica :: bool

record Libs =
  hex_encode :: "bytes \<Rightarrow> string"
  crc32_hash :: "bytes \<Rightarrow> 32 word"
  diesel_to_sql :: "Statement \<Rightarrow> (string, string) result"
  diesel_is_safe_to_cache :: "Statement \<Rightarrow> (bool, string) result"
  diesel_collect_binds :: "Statement \<Rightarrow> (bytes option list \<times> PgTypeMetadata list, string) result"
  query_to_json :: "SerializableQuery \<Rightarrow> (string, string) result"
  runtime_values_from_json :: "string \<Rightarrow> RuntimeConfigValues option"

section \<open>Services\<close>

datatype HsetnxReply = KeySet | KeyNotSet

text \<open>
  The functions of the Redis crate and of serde that are generic in the stored type, at
  the type \<open>'e\<close>.
\<close>

record ('w, 'e) KvValue =
  to_json :: "'e \<Rightarrow> (string, string) result"
  serialize_and_set_hash_field_if_not_exist ::
    "string \<Rightarrow> string \<Rightarrow> 'e \<Rightarrow> 32 word option \<Rightarrow> ('w, HsetnxReply, RedisError) io"
  get_hash_field_and_deserialize :: "string \<Rightarrow> string \<Rightarrow> ('w, 'e, RedisError) io"

record 'w RedisPool =
  set_hash_fields :: "string \<Rightarrow> (string \<times> string) list \<Rightarrow> 32 word option \<Rightarrow> ('w, unit, RedisError) io"
  delete_hash_fields :: "string \<Rightarrow> string \<Rightarrow> ('w, nat, RedisError) io"
  stream_append_entry :: "string \<Rightarrow> (string \<times> string) list \<Rightarrow> ('w, unit, RedisError) io"
  kv_locker :: "('w, LockerInner) KvValue"
  kv_vault :: "('w, VaultInner) KvValue"
  kv_hash_table :: "('w, HashTable) KvValue"
  kv_fingerprint :: "('w, Fingerprint) KvValue"
  kv_reverse_lookup :: "('w, ReverseLookup) KvValue"

record 'w PgConn =
  pg_merchant_find :: "string \<Rightarrow> ('w, MerchantInner, DieselError) io"
  pg_merchant_insert :: "MerchantNewInner \<Rightarrow> ('w, MerchantInner, DieselError) io"
  pg_merchants_without_entity :: "int \<Rightarrow> ('w, MerchantInner list, DieselError) io"
  pg_locker_insert :: "LockerNew \<Rightarrow> ('w, LockerInner, DieselError) io"
  pg_locker_find :: "LockerPrimaryKeyType \<Rightarrow> ('w, LockerInner, DieselError) io"
  pg_locker_find_by_hash :: "LockerHashLookupKey \<Rightarrow> ('w, LockerInner, DieselError) io"
  pg_locker_delete :: "LockerPrimaryKeyType \<Rightarrow> ('w, nat, DieselError) io"
  pg_vault_insert :: "VaultNewInner \<Rightarrow> ('w, VaultInner, DieselError) io"
  pg_vault_find :: "VaultPrimaryKey \<Rightarrow> ('w, VaultInner, DieselError) io"
  pg_vault_update :: "VaultPrimaryKey \<Rightarrow> VaultUpdate \<Rightarrow> ('w, VaultInner, DieselError) io"
  pg_vault_delete :: "VaultPrimaryKey \<Rightarrow> ('w, nat, DieselError) io"
  pg_hash_table_insert :: "HashTableNew \<Rightarrow> ('w, HashTable, DieselError) io"
  pg_hash_table_find :: "HashTablePrimaryKey \<Rightarrow> ('w, HashTable, DieselError) io"
  pg_hash_table_insert_count :: "HashTableNew \<Rightarrow> ('w, nat, DieselError) io"
  pg_hash_table_delete_by_hash_id :: "string \<Rightarrow> ('w, nat, DieselError) io"
  pg_fingerprint_insert :: "FingerprintTableNew \<Rightarrow> ('w, Fingerprint, DieselError) io"
  pg_fingerprint_find :: "FingerprintPrimaryKey \<Rightarrow> ('w, Fingerprint, DieselError) io"
  pg_reverse_lookup_insert :: "ReverseLookupNew \<Rightarrow> ('w, ReverseLookup, DieselError) io"
  pg_reverse_lookup_find :: "ReverseLookupPrimaryKey \<Rightarrow> ('w, ReverseLookup, DieselError) io"
  pg_reverse_lookup_delete :: "ReverseLookupPrimaryKey \<Rightarrow> ('w, nat, DieselError) io"
  pg_entity_find :: "string \<Rightarrow> ('w, Entity, DieselError) io"
  pg_entity_insert :: "EntityTableNew \<Rightarrow> ('w, Entity, DieselError) io"
  pg_select_one_plus_one :: "('w, int, DieselError) io"
  pg_test_transaction :: "('w, unit, TestDBError) io \<Rightarrow> 'w \<Rightarrow> (unit, unit) result \<times> 'w"

text \<open>The clock and the random generators of the process.\<close>

record 'w Globals =
  date_time_now :: "'w \<Rightarrow> time \<times> 'w"
  unix_timestamp_now :: "'w \<Rightarrow> nat \<times> 'w"
  uuid_now_v7 :: "'w \<Rightarrow> string \<times> 'w"
  nanoid :: "nat \<Rightarrow> string \<Rightarrow> 'w \<Rightarrow> string \<times> 'w"

section \<open>The storage handle\<close>

record 'w Storage =
  primary_pg_pool :: "('w, 'w PgConn, string) io"
  replica_pg_pool :: "('w, 'w PgConn, string) io option"
  runtime_config_manager :: "'w RuntimeConfigManager"
  st_redis :: "'w RedisPool option"
  kv_config :: KvConfig
  libs :: Libs
  globals :: "'w Globals"

datatype DbPool = Primary | Replica

text \<open>A \<open>DbConnection\<close> is the connection and the pool it comes from.\<close>

type_synonym 'w DbConnection = "'w PgConn \<times> DbPool"

definition create_database_url :: "Database \<Rightarrow> string \<Rightarrow> string" where
  "create_database_url database_config schema_name =
     ''postgres://'' @ username database_config @ '':'' @ password database_config @ ''@''
       @ db_host database_config @ '':'' @ show_nat (db_port database_config) @ ''/''
       @ dbname database_config @ ''?application_name='' @ schema_name
       @ ''&options=-c search_path%3D'' @ schema_name"

text \<open>\<open>pool_build url max_size\<close> is the pool deadpool builds for a URL.\<close>

definition create_database_connection_pool ::
    "(string \<Rightarrow> nat option \<Rightarrow> (('w, 'w PgConn, string) io, string) result) \<Rightarrow> Database \<Rightarrow> string \<Rightarrow>
     (('w, 'w PgConn, string) io, StorageError) result" where
  "create_database_connection_pool pool_build database_config schema_name =
     res_map_err (\<lambda>_. StorageError.DBPoolError)
       (pool_build (create_database_url database_config schema_name) (pool_size database_config))"

definition Storage_new ::
    "(string \<Rightarrow> nat option \<Rightarrow> (('w, 'w PgConn, string) io, string) result) \<Rightarrow> Libs \<Rightarrow> 'w Globals \<Rightarrow>
     Database \<Rightarrow> Database option \<Rightarrow> string \<Rightarrow> 'w RuntimeConfigManager \<Rightarrow> 'w RedisPool option \<Rightarrow> KvConfig \<Rightarrow>
     ('w Storage, StorageError) result" where
  "Storage_new pool_build ls gs primary_config replica_config schema_name manager redis_store kvc =
     res_bind (create_database_connection_pool pool_build primary_config schema_name) (\<lambda>pg_pool.
     res_bind (case replica_config of
         Some cfg \<Rightarrow> res_map Some (create_database_connection_pool pool_build cfg schema_name)
       | None \<Rightarrow> Ok None) (\<lambda>replica_pool.
     Ok \<lparr> primary_pg_pool = pg_pool, replica_pg_pool = replica_pool, runtime_config_manager = manager,
          st_redis = redis_store, kv_config = kvc, libs = ls, globals = gs \<rparr>))"

definition get_conn :: "'w Storage \<Rightarrow> ('w, 'w DbConnection, StorageError) io" where
  "get_conn self =
     io_map (\<lambda>conn. (conn, Primary)) (io_map_err (\<lambda>_. StorageError.PoolClientFailure) (primary_pg_pool self))"

definition get_replica_conn :: "'w Storage \<Rightarrow> ('w, 'w DbConnection, StorageError) io" where
  "get_replica_conn self = (case replica_pg_pool self of
     Some pg_pool \<Rightarrow>
       io_map (\<lambda>conn. (conn, Replica)) (io_map_err (\<lambda>_. StorageError.PoolClientFailure) pg_pool)
   | None \<Rightarrow> io_err StorageError.ReplicaPoolNotConfigured)"

definition has_replica :: "'w Storage \<Rightarrow> bool" where
  "has_replica self = (replica_pg_pool self \<noteq> None)"

definition runtime_values :: "'w Storage \<Rightarrow> 'w \<Rightarrow> RuntimeConfigValues option" where
  "runtime_values self w =
     RuntimeConfigManager_get (runtime_values_from_json (libs self)) (runtime_config_manager self) w"

definition should_use_replica :: "'w Storage \<Rightarrow> 'w \<Rightarrow> bool" where
  "should_use_replica self w =
     (if \<not> has_replica self then False
      else (case runtime_values self w of Some runtime_conf \<Rightarrow> use_replica runtime_conf | None \<Rightarrow> False))"

definition route_conn :: "'w Storage \<Rightarrow> ('w, 'w DbConnection, StorageError) io" where
  "route_conn self = (\<lambda>w. if should_use_replica self w then get_replica_conn self w else get_conn self w)"

definition kv_settings :: "'w Storage \<Rightarrow> 'w \<Rightarrow> KvState" where
  "kv_settings self w = (case runtime_values self w of
     Some runtime_config_values \<Rightarrow> enable_kv runtime_config_values
   | None \<Rightarrow> KvState.Disabled)"

definition get_redis_conn :: "'w Storage \<Rightarrow> ('w RedisPool, RedisError) result" where
  "get_redis_conn self = ok_or RedisConnectionError (st_redis self)"

section \<open>Partition keys and shards (storage/kv/partition_key.rs)\<close>

definition PartitionKey_to_string :: "Libs \<Rightarrow> PartitionKey \<Rightarrow> string" where
  "PartitionKey_to_string l key = (case key of
     PartitionKey.CombinationKey combination \<Rightarrow> combination
   | PartitionKey.Fingerprint fingerprint_hash \<Rightarrow> ''fingerprint_'' @ hex_encode l fingerprint_hash
   | PartitionKey.Vault entity_id vault_id \<Rightarrow> ''vault_'' @ entity_id @ ''_'' @ vault_id
   | PartitionKey.HashTable data_hash \<Rightarrow> ''hash_table_'' @ hex_encode l data_hash
   | PartitionKey.Locker merchant_id customer_id locker_id \<Rightarrow>
       ''locker_'' @ merchant_id @ ''_'' @ customer_id @ ''_'' @ locker_id
   | PartitionKey.ReverseLookup lookup_id \<Rightarrow> ''reverse_lookup_'' @ lookup_id)"

text \<open>The remainder by zero panics.\<close>

definition partition_number :: "Libs \<Rightarrow> PartitionKey \<Rightarrow> 8 word \<Rightarrow> (32 word, RedisError) result" where
  "partition_number l key num_partitions =
     (let n = (ucast num_partitions :: 32 word) in
      if n = 0 then Panic
      else Ok (crc32_hash l (into_bytes (PartitionKey_to_string l key)) mod n))"

definition shard_key :: "Libs \<Rightarrow> PartitionKey \<Rightarrow> 8 word \<Rightarrow> (string, RedisError) result" where
  "shard_key l key num_partitions =
     res_map (\<lambda>n. ''shard_'' @ show_nat (unat n)) (partition_number l key num_partitions)"

section \<open>Connections\<close>

lemma runtime_values_disabled:
  "rcm_state (runtime_config_manager self) = RuntimeConfigState.Disabled \<Longrightarrow> runtime_values self w = None"
  by (simp add: runtime_values_def RuntimeConfigManager_get_def)

section \<open>Shards\<close>

lemma partition_number_bound:
  assumes "n \<noteq> 0"
  shows "\<exists>p. partition_number l key n = Ok p \<and> unat p < unat n"
proof -
  have u: "unat (ucast n :: 32 word) = unat n"
    using unsigned_less [of n, where ?'a = nat] by (simp add: unsigned_ucast_eq take_bit_eq_mod)
  have "unat n > 0" using assms by (simp add: unat_gt_0)
  then have "(ucast n :: 32 word) \<noteq> 0" using u by (metis not_less_zero unsigned_0)
  then show ?thesis
    using u \<open>unat n > 0\<close> by (simp add: partition_number_def Let_def unat_mod)
qed

lemma shard_key_cong:
  "PartitionKey_to_string l key = PartitionKey_to_string l key' \<Longrightarrow> shard_key l key n = shard_key l key' n"
  by (simp add: shard_key_def partition_number_def Let_def)

lemma drainer_stream_name_inj:
  "KvConfig_drainer_stream_name cfg (''shard_'' @ show_nat (unat p))
     = KvConfig_drainer_stream_name cfg (''shard_'' @ show_nat (unat q)) \<longleftrightarrow> p = q"
  by (simp add: KvConfig_drainer_stream_name_def show_nat_inj word_unat_eq_iff)

text \<open>C35. With a validated KV configuration every key has a shard: the partition number never
  panics and is below the number of partitions, it is a function of the printed key alone, and
  different partition numbers have different drainer streams.\<close>

theorem drainer_shards:
  assumes "KvConfig_validate cfg = Ok ()"
  shows "(\<exists>p. partition_number l key (drainer_num_partitions cfg) = Ok p
        \<and> unat p < unat (drainer_num_partitions cfg)
        \<and> shard_key l key (drainer_num_partitions cfg) = Ok (''shard_'' @ show_nat (unat p)))
    \<and> (PartitionKey_to_string l key = PartitionKey_to_string l key' \<longrightarrow>
        shard_key l key n = shard_key l key' n)
    \<and> (KvConfig_drainer_stream_name cfg (''shard_'' @ show_nat (unat p))
         = KvConfig_drainer_stream_name cfg (''shard_'' @ show_nat (unat q)) \<longleftrightarrow> p = q)"
proof -
  have "drainer_num_partitions cfg \<noteq> 0"
    using assms by (auto simp: KvConfig_validate_def)
  then obtain p' where p': "partition_number l key (drainer_num_partitions cfg) = Ok p'"
      "unat p' < unat (drainer_num_partitions cfg)"
    using partition_number_bound by blast
  then have "shard_key l key (drainer_num_partitions cfg) = Ok (''shard_'' @ show_nat (unat p'))"
    by (simp add: shard_key_def)
  with p' show ?thesis using shard_key_cong drainer_stream_name_inj by blast
qed

lemma drainer_shards_witness:
  "\<forall>l. \<exists>p. partition_number l (PartitionKey.Vault ''m1'' ''v1'') 16 = Ok p \<and> unat p < 16"
proof
  fix l
  have "KvConfig_validate KvConfig_default = Ok ()"
    by (simp add: KvConfig_validate_def KvConfig_default_def default_drainer_num_partitions_def)
  note shards = drainer_shards [OF this, THEN conjunct1, of l "PartitionKey.Vault ''m1'' ''v1''"]
  have "drainer_num_partitions KvConfig_default = 16"
    by (simp add: KvConfig_default_def default_drainer_num_partitions_def)
  with shards show "\<exists>p. partition_number l (PartitionKey.Vault ''m1'' ''v1'') 16 = Ok p \<and> unat p < 16"
    by auto
qed

end
