(* ===== verification/KvStore.thy ===== *)
theory KvStore
  imports Store
begin

text \<open>
  The generic KV layer: \<open>src/src/storage/kv/wrapper.rs\<close>, \<open>kv/serializable_query.rs\<close> and
  \<open>kv/resource.rs\<close>.  A table takes part through a dictionary of its trait implementations
  (\<open>KvResource\<close> and its extensions, records below); the operations are written once over
  the dictionary and choose between Postgres and Redis by the KV mode.
\<close>

section \<open>Queries for the drainer (kv/serializable_query.rs)\<close>

definition from_query :: "Libs \<Rightarrow> Statement \<Rightarrow> string \<Rightarrow> DatabaseOperation \<Rightarrow> (SerializableQuery, KvError) result" where
  "from_query l query entity_type operation =
     res_map_err (\<lambda>_. KvError.SerializationFailed)
       (res_bind (diesel_to_sql l query) (\<lambda>sql.
        res_bind (diesel_is_safe_to_cache l query) (\<lambda>safe_to_cache_prepared.
        res_bind (diesel_collect_binds l query) (\<lambda>(binds, metadata).
        Ok \<lparr> sq_sql = sql, sq_binds = binds, sq_metadata = metadata,
             sq_safe_to_cache_prepared = safe_to_cache_prepared,
             sq_entity_type = entity_type, sq_operation = operation \<rparr>))))"

definition generate_insert_query :: "Libs \<Rightarrow> string \<Rightarrow> Statement \<Rightarrow> (SerializableQuery, KvError) result" where
  "generate_insert_query l entity_type query = from_query l query entity_type Insert"

definition generate_delete_query :: "Libs \<Rightarrow> string \<Rightarrow> Statement \<Rightarrow> (SerializableQuery, KvError) result" where
  "generate_delete_query l entity_type query = from_query l query entity_type Delete"

definition generate_update_query :: "Libs \<Rightarrow> string \<Rightarrow> Statement \<Rightarrow> (SerializableQuery, KvError) result" where
  "generate_update_query l entity_type query = from_query l query entity_type Update"

definition to_field_value_pairs ::
    "Libs \<Rightarrow> 'w Globals \<Rightarrow> SerializableQuery \<Rightarrow> string \<Rightarrow> string \<Rightarrow> ('w, (string \<times> string) list, KvError) io" where
  "to_field_value_pairs l g self request_id global_id =
     io_bind (io_of (unix_timestamp_now g)) (\<lambda>pushed_at.
     io_bind (io_lift (res_map_err (\<lambda>_. KvError.SerializationFailed) (query_to_json l self))) (\<lambda>query.
     io_ret [(''query'', query), (''global_id'', global_id), (''request_id'', request_id),
             (''pushed_at'', show_nat pushed_at)]))"

section \<open>The Redis wrapper (kv/wrapper.rs)\<close>

definition REQUEST_ID :: string where
  "REQUEST_ID = ''VAULT_CONSTANT_REQUEST_ID''"

definition redis_error_from_ref :: "RedisError \<Rightarrow> RedisError" where
  "redis_error_from_ref err = (case err of
     RedisError.NotFound \<Rightarrow> RedisError.NotFound
   | SetNxFailed \<Rightarrow> SetNxFailed
   | SetAddMembersFailed \<Rightarrow> SetAddMembersFailed
   | _ \<Rightarrow> UnknownResult)"

definition bridge :: "('w, 'a, RedisError) io \<Rightarrow> ('w, 'a, RedisError) io" where
  "bridge m = io_map_err redis_error_from_ref m"

datatype 'e KvOperation =
    Hset string 'e SerializableQuery
  | HSetNx string 'e SerializableQuery
  | HGet string
  | HDel string SerializableQuery

datatype 'e KvResult = HGet_result 'e | Hset_result | HSetNx_result HsetnxReply | HDel_result nat

fun KvOperation_to_string :: "'e KvOperation \<Rightarrow> string" where
  "KvOperation_to_string (Hset k v q) = ''Hset''"
| "KvOperation_to_string (HSetNx k v q) = ''HSetNx''"
| "KvOperation_to_string (HGet k) = ''HGet''"
| "KvOperation_to_string (HDel k q) = ''HDel''"

fun try_into_hset :: "'e KvResult \<Rightarrow> (unit, RedisError) result" where
  "try_into_hset Hset_result = Ok ()"
| "try_into_hset (HGet_result v) = Err UnknownResult"
| "try_into_hset (HSetNx_result r) = Err UnknownResult"
| "try_into_hset (HDel_result n) = Err UnknownResult"

fun try_into_hsetnx :: "'e KvResult \<Rightarrow> (HsetnxReply, RedisError) result" where
  "try_into_hsetnx (HSetNx_result r) = Ok r"
| "try_into_hsetnx (HGet_result v) = Err UnknownResult"
| "try_into_hsetnx Hset_result = Err UnknownResult"
| "try_into_hsetnx (HDel_result n) = Err UnknownResult"

fun try_into_hdel :: "'e KvResult \<Rightarrow> (nat, RedisError) result" where
  "try_into_hdel (HDel_result n) = Ok n"
| "try_into_hdel (HGet_result v) = Err UnknownResult"
| "try_into_hdel Hset_result = Err UnknownResult"
| "try_into_hdel (HSetNx_result r) = Err UnknownResult"

definition push_to_drainer_stream ::
    "'w Storage \<Rightarrow> SerializableQuery \<Rightarrow> PartitionKey \<Rightarrow> ('w, unit, RedisError) io" where
  "push_to_drainer_stream store query partition_key =
     (let global_id = PartitionKey_to_string (libs store) partition_key in
      io_bind (io_lift (shard_key (libs store) partition_key (drainer_num_partitions (kv_config store)))) (\<lambda>key.
      let stream_name = KvConfig_drainer_stream_name (kv_config store) key in
      io_bind (io_lift (get_redis_conn store)) (\<lambda>redis_conn.
      io_bind (io_map_err (\<lambda>_. JsonSerializationFailed)
        (to_field_value_pairs (libs store) (globals store) query REQUEST_ID global_id)) (\<lambda>fields.
      io_map_err (\<lambda>_. StreamAppendFailed)
        (bridge (stream_append_entry redis_conn stream_name fields))))))"

text \<open>
  \<open>sel\<close> picks the functions of the Redis crate at the type of the stored entity.  The metrics
  around the operation are left out.
\<close>

definition kv_wrapper ::
    "'w Storage \<Rightarrow> ('w RedisPool \<Rightarrow> ('w, 'e) KvValue) \<Rightarrow> 'e KvOperation \<Rightarrow> PartitionKey \<Rightarrow>
     ('w, 'e KvResult, RedisError) io" where
  "kv_wrapper store sel op partition_key =
     io_bind (io_lift (get_redis_conn store)) (\<lambda>redis_conn.
     let key = PartitionKey_to_string (libs store) partition_key;
         ttl = ttl_for_kv (kv_config store) in
     (case op of
        Hset field value query \<Rightarrow>
          io_bind (io_lift (res_map_err (\<lambda>_. JsonSerializationFailed) (to_json (sel redis_conn) value))) (\<lambda>serialized.
          io_bind (bridge (set_hash_fields redis_conn key [(field, serialized)] (Some ttl))) (\<lambda>_.
          io_bind (push_to_drainer_stream store query partition_key) (\<lambda>_.
          io_ret Hset_result)))
      | HSetNx field value query \<Rightarrow>
          io_bind (bridge (serialize_and_set_hash_field_if_not_exist (sel redis_conn) key field value (Some ttl))) (\<lambda>reply.
          if reply = KeySet
          then io_bind (push_to_drainer_stream store query partition_key) (\<lambda>_. io_ret (HSetNx_result reply))
          else io_ret (HSetNx_result KeyNotSet))
      | HGet field \<Rightarrow>
          io_map HGet_result (bridge (get_hash_field_and_deserialize (sel redis_conn) key field))
      | HDel field query \<Rightarrow>
          io_bind (bridge (delete_hash_fields redis_conn key field)) (\<lambda>deleted.
          io_bind (push_to_drainer_stream store query partition_key) (\<lambda>_.
          io_ret (HDel_result deleted)))))"

section \<open>The traits of a KV table (kv/resource.rs)\<close>

text \<open>\<open>KvResource\<close>, with the conversions of its associated types.\<close>

record ('w, 'new, 'entity, 'm, 'pk, 'e) KvResource =
  ENTITY_TYPE :: string
  set_storage_scheme :: "'new \<Rightarrow> StorageScheme \<Rightarrow> 'new"
  generate_insert_drainer_query :: "Libs \<Rightarrow> 'new \<Rightarrow> (SerializableQuery, KvError) result"
  storage_insert :: "'new \<Rightarrow> 'w Storage \<Rightarrow> ('w, 'entity, 'e) io"
  storage_find :: "'w Storage \<Rightarrow> 'pk \<Rightarrow> ('w, 'entity, 'e) io"
  into_entity :: "'new \<Rightarrow> 'entity"
  into_model :: "'entity \<Rightarrow> 'm"
  get_partition_key :: "'pk \<Rightarrow> PartitionKey"
  kv_value :: "'w RedisPool \<Rightarrow> ('w, 'entity) KvValue"
  error_from_kv :: "KvError \<Rightarrow> 'e"
  error_is_not_found :: "'e \<Rightarrow> bool"

record ('w, 'pk, 'e) KvDeletableResource =
  generate_delete_drainer_query :: "Libs \<Rightarrow> 'pk \<Rightarrow> (SerializableQuery, KvError) result"
  storage_delete :: "'w Storage \<Rightarrow> 'pk \<Rightarrow> ('w, nat, 'e) io"

record ('w, 'upd, 'entity, 'm, 'pk, 'e) KvUpdatableResource =
  set_update_storage_scheme :: "'upd \<Rightarrow> StorageScheme \<Rightarrow> 'upd"
  generate_update_drainer_query :: "Libs \<Rightarrow> 'upd \<Rightarrow> 'pk \<Rightarrow> (SerializableQuery, KvError) result"
  apply_update :: "'upd \<Rightarrow> 'entity \<Rightarrow> 'entity"
  storage_update :: "'w Storage \<Rightarrow> 'upd \<Rightarrow> 'pk \<Rightarrow> ('w, 'm, 'e) io"

record ('w, 'new, 'm, 'lk, 'e) KvSecondaryLookupResource =
  get_reverse_lookup_key :: "'new \<Rightarrow> PartitionKey \<Rightarrow> 'lk"
  get_lookup_key :: "'lk \<Rightarrow> string"
  storage_find_by_lookup :: "'w Storage \<Rightarrow> 'lk \<Rightarrow> ('w, 'm, 'e) io"

section \<open>Choosing the storage scheme\<close>

definition kv_backend_error :: "('w, 'n, 'en, 'm, 'p, 'e) KvResource \<Rightarrow> KvError \<Rightarrow> 'e" where
  "kv_backend_error M report = error_from_kv M report"

definition kv_duplicate_error :: "('w, 'n, 'en, 'm, 'p, 'e) KvResource \<Rightarrow> string \<Rightarrow> 'e" where
  "kv_duplicate_error M key = kv_backend_error M (KvError.DuplicateValue key)"

definition decide_storage_scheme_for_find_operation :: "'w Storage \<Rightarrow> 'w \<Rightarrow> StorageScheme" where
  "decide_storage_scheme_for_find_operation store w = (case kv_settings store w of
     KvState.Disabled \<Rightarrow> PostgresOnly
   | KvState.Enabled \<Rightarrow> RedisKv
   | KvState.SoftKill \<Rightarrow> RedisKv)"

definition decide_storage_scheme_for_insert_operation :: "'w Storage \<Rightarrow> 'w \<Rightarrow> StorageScheme" where
  "decide_storage_scheme_for_insert_operation store w = (case kv_settings store w of
     KvState.Disabled \<Rightarrow> PostgresOnly
   | KvState.SoftKill \<Rightarrow> PostgresOnly
   | KvState.Enabled \<Rightarrow> RedisKv)"

text \<open>What \<open>HGet\<close> answers, seen by its callers: the value, or a miss to go on with, or an error.\<close>

definition kv_hget ::
    "('w, 'n, 'en, 'm, 'p, 'e) KvResource \<Rightarrow> 'w Storage \<Rightarrow> PartitionKey \<Rightarrow> string \<Rightarrow>
     ('en \<Rightarrow> ('w, 'a, 'e) io) \<Rightarrow> ('w, 'a, 'e) io \<Rightarrow> ('w, 'a, 'e) io" where
  "kv_hget M store key key_str hit miss =
     io_try (kv_wrapper store (kv_value M) (HGet key_str) key)
       (\<lambda>result. case result of
          HGet_result v \<Rightarrow> hit v
        | HSetNx_result r \<Rightarrow> io_err (kv_backend_error M KvError.Backend)
        | Hset_result \<Rightarrow> io_err (kv_backend_error M KvError.Backend)
        | HDel_result n \<Rightarrow> io_err (kv_backend_error M KvError.Backend))
       (\<lambda>e. if e = RedisError.NotFound then miss
            else io_err (kv_backend_error M (to_redis_failed_response e key_str)))"

definition decide_storage_scheme_for_mutate_operation ::
    "('w, 'n, 'en, 'm, 'p, 'e) KvResource \<Rightarrow> 'w Storage \<Rightarrow> PartitionKey \<Rightarrow>
     ('w, StorageScheme \<times> 'en option, 'e) io" where
  "decide_storage_scheme_for_mutate_operation M store partition_key = (\<lambda>w.
     (case kv_settings store w of
        KvState.Disabled \<Rightarrow> io_ret (PostgresOnly, None)
      | KvState.Enabled \<Rightarrow> io_ret (RedisKv, None)
      | KvState.SoftKill \<Rightarrow>
          (let partition_key_str = PartitionKey_to_string (libs store) partition_key in
           kv_hget M store partition_key partition_key_str
             (\<lambda>v. io_ret (RedisKv, Some v))
             (io_ret (PostgresOnly, None)))) w)"

section \<open>Operations\<close>

text \<open>
  \<open>insert_reverse_lookup\<close> of the store is itself an insert of this layer, of the table
  \<open>reverse_lookup\<close>; the operations below take it (and the two other reverse-lookup calls)
  as an argument and \<open>StorageDb\<close> passes the real ones.
\<close>

definition insert_resource_inner ::
    "('w, 'n, 'en, 'm, 'p, 'e) KvResource \<Rightarrow>
     (ReverseLookupNew \<Rightarrow> ('w, ReverseLookup, ReverseLookupDBError) io) \<Rightarrow> 'w Storage \<Rightarrow> 'n \<Rightarrow> PartitionKey \<Rightarrow>
     ('n \<Rightarrow> PartitionKey \<Rightarrow> string option) \<Rightarrow> ('w, 'en, 'e) io" where
  "insert_resource_inner M insert_reverse_lookup store diesel_new partition_key reverse_lookup_key = (\<lambda>w.
     (let scheme = decide_storage_scheme_for_insert_operation store w;
          diesel_new = set_storage_scheme M diesel_new scheme in
      case scheme of
        PostgresOnly \<Rightarrow> storage_insert M diesel_new store
      | RedisKv \<Rightarrow>
          io_bind (io_lift (res_map_err (kv_backend_error M)
            (generate_insert_drainer_query M (libs store) diesel_new))) (\<lambda>drainer_query.
          let partition_key_str = PartitionKey_to_string (libs store) partition_key in
          io_bind (case reverse_lookup_key diesel_new partition_key of
              Some lookup_id \<Rightarrow>
                io_map (\<lambda>_. ()) (io_map_err (\<lambda>err. kv_backend_error M KvError.Backend)
                  (insert_reverse_lookup
                    \<lparr> rln_lookup_id = lookup_id, rln_secondary_key = lookup_id,
                      rln_partition_key = partition_key_str, rln_source = ENTITY_TYPE M,
                      rln_updated_by = StorageScheme_to_string scheme \<rparr>))
            | None \<Rightarrow> io_ret ()) (\<lambda>_.
          let diesel_entity = into_entity M diesel_new in
          io_bind (io_map_err (\<lambda>e. kv_backend_error M (to_redis_failed_response e partition_key_str))
            (kv_wrapper store (kv_value M) (HSetNx partition_key_str diesel_entity drainer_query) partition_key)) (\<lambda>reply.
          (case try_into_hsetnx reply of
             Ok KeySet \<Rightarrow> io_ret diesel_entity
           | Ok KeyNotSet \<Rightarrow> io_err (kv_duplicate_error M partition_key_str)
           | Err e \<Rightarrow> io_err (kv_backend_error M KvError.Backend)
           | Panic \<Rightarrow> io_lift Panic))))) w)"

text \<open>A table without reverse lookups never calls the reverse-lookup table.\<close>

definition no_reverse_lookup :: "ReverseLookupNew \<Rightarrow> ('w, ReverseLookup, ReverseLookupDBError) io" where
  "no_reverse_lookup new = io_err ReverseLookupDBError.UnknownError"

definition insert_resource ::
    "('w, 'n, 'en, 'm, 'p, 'e) KvResource \<Rightarrow> 'w Storage \<Rightarrow> 'n \<Rightarrow> PartitionKey \<Rightarrow> ('w, 'm, 'e) io" where
  "insert_resource M store diesel_new partition_key =
     io_map (into_model M)
       (insert_resource_inner M no_reverse_lookup store diesel_new partition_key (\<lambda>_ _. None))"

definition insert_resource_with_reverse_lookup ::
    "('w, 'n, 'en, 'm, 'p, 'e) KvResource \<Rightarrow> ('w, 'n, 'm, 'lk, 'e) KvSecondaryLookupResource \<Rightarrow>
     (ReverseLookupNew \<Rightarrow> ('w, ReverseLookup, ReverseLookupDBError) io) \<Rightarrow>
     'w Storage \<Rightarrow> 'n \<Rightarrow> PartitionKey \<Rightarrow> ('w, 'm, 'e) io" where
  "insert_resource_with_reverse_lookup M L insert_reverse_lookup store diesel_new partition_key =
     io_map (into_model M)
       (insert_resource_inner M insert_reverse_lookup store diesel_new partition_key
          (\<lambda>new_object key. Some (get_lookup_key L (get_reverse_lookup_key L new_object key))))"

definition find_resource_by_id_inner ::
    "('w, 'n, 'en, 'm, 'p, 'e) KvResource \<Rightarrow> 'w Storage \<Rightarrow> 'p \<Rightarrow> ('w, 'en, 'e) io" where
  "find_resource_by_id_inner M store primary_key = (\<lambda>w.
     (let key = get_partition_key M primary_key in
      case decide_storage_scheme_for_find_operation store w of
        PostgresOnly \<Rightarrow> storage_find M store primary_key
      | RedisKv \<Rightarrow>
          (let key_str = PartitionKey_to_string (libs store) key in
           kv_hget M store key key_str io_ret (storage_find M store primary_key))) w)"

definition find_resource_by_id ::
    "('w, 'n, 'en, 'm, 'p, 'e) KvResource \<Rightarrow> 'w Storage \<Rightarrow> 'p \<Rightarrow> ('w, 'm, 'e) io" where
  "find_resource_by_id M store primary_key =
     io_map (into_model M) (find_resource_by_id_inner M store primary_key)"

definition find_resource_by_lookup_id ::
    "('w, 'n, 'en, 'm, 'p, 'e) KvResource \<Rightarrow> ('w, 'n, 'm, 'lk, 'e) KvSecondaryLookupResource \<Rightarrow>
     (string \<Rightarrow> ('w, ReverseLookup, ReverseLookupDBError) io) \<Rightarrow>
     'w Storage \<Rightarrow> 'lk \<Rightarrow> ('w, 'm, 'e) io" where
  "find_resource_by_lookup_id M L find_by_lookup_id store lookup_key = (\<lambda>w.
     (let lookup_id = get_lookup_key L lookup_key in
      case decide_storage_scheme_for_find_operation store w of
        PostgresOnly \<Rightarrow> storage_find_by_lookup L store lookup_key
      | RedisKv \<Rightarrow>
          io_try (find_by_lookup_id lookup_id)
            (\<lambda>lookup.
               let key_str = PartitionKey_to_string (libs store) (ReverseLookup_target lookup) in
               kv_hget M store (PartitionKey.CombinationKey key_str) key_str
                 (\<lambda>v. io_ret (into_model M v))
                 (storage_find_by_lookup L store lookup_key))
            (\<lambda>err. if err = ReverseLookupDBError.NotFoundError
                   then storage_find_by_lookup L store lookup_key
                   else io_err (kv_backend_error M KvError.Backend))) w)"

text \<open>\<open>find_optional_...\<close>: a not-found error becomes \<open>None\<close>.\<close>

definition optional :: "('e \<Rightarrow> bool) \<Rightarrow> ('w, 'm, 'e) io \<Rightarrow> ('w, 'm option, 'e) io" where
  "optional is_nf m = io_try m (\<lambda>x. io_ret (Some x)) (\<lambda>err. if is_nf err then io_ret None else io_err err)"

definition find_optional_resource_by_id ::
    "('w, 'n, 'en, 'm, 'p, 'e) KvResource \<Rightarrow> 'w Storage \<Rightarrow> 'p \<Rightarrow> ('w, 'm option, 'e) io" where
  "find_optional_resource_by_id M store primary_key =
     optional (error_is_not_found M) (find_resource_by_id M store primary_key)"

definition find_optional_resource_by_lookup_id ::
    "('w, 'n, 'en, 'm, 'p, 'e) KvResource \<Rightarrow> ('w, 'n, 'm, 'lk, 'e) KvSecondaryLookupResource \<Rightarrow>
     (string \<Rightarrow> ('w, ReverseLookup, ReverseLookupDBError) io) \<Rightarrow>
     'w Storage \<Rightarrow> 'lk \<Rightarrow> ('w, 'm option, 'e) io" where
  "find_optional_resource_by_lookup_id M L find_by_lookup_id store lookup_key =
     optional (error_is_not_found M) (find_resource_by_lookup_id M L find_by_lookup_id store lookup_key)"

definition update_resource_by_id ::
    "('w, 'n, 'en, 'm, 'p, 'e) KvResource \<Rightarrow> ('w, 'u, 'en, 'm, 'p, 'e) KvUpdatableResource \<Rightarrow>
     'w Storage \<Rightarrow> 'u \<Rightarrow> 'p \<Rightarrow> ('w, 'm, 'e) io" where
  "update_resource_by_id M U store update primary_key =
     (let key = get_partition_key M primary_key in
      io_bind (decide_storage_scheme_for_mutate_operation M store key) (\<lambda>(scheme, cached).
      let update = set_update_storage_scheme U update scheme in
      case scheme of
        PostgresOnly \<Rightarrow> storage_update U store update primary_key
      | RedisKv \<Rightarrow>
          io_bind (case cached of
              Some resource \<Rightarrow> io_ret resource
            | None \<Rightarrow> find_resource_by_id_inner M store primary_key) (\<lambda>current.
          io_bind (io_lift (res_map_err (kv_backend_error M)
            (generate_update_drainer_query U (libs store) update primary_key))) (\<lambda>update_query.
          let updated_model = apply_update U update current;
              updated_resource = into_model M updated_model;
              key_str = PartitionKey_to_string (libs store) key in
          io_bind (io_map_err (\<lambda>e. kv_backend_error M (to_redis_failed_response e key_str))
            (kv_wrapper store (kv_value M) (Hset key_str updated_model update_query) key)) (\<lambda>reply.
          io_bind (io_lift (res_map_err (\<lambda>e. kv_backend_error M KvError.Backend) (try_into_hset reply))) (\<lambda>_.
          io_ret updated_resource))))))"

definition delete_resource_by_id_inner ::
    "('w, 'n, 'en, 'm, 'p, 'e) KvResource \<Rightarrow> ('w, 'p, 'e) KvDeletableResource \<Rightarrow>
     'w Storage \<Rightarrow> 'p \<Rightarrow> ('w, nat, 'e) io" where
  "delete_resource_by_id_inner M D store primary_key =
     (let key = get_partition_key M primary_key in
      io_bind (decide_storage_scheme_for_mutate_operation M store key) (\<lambda>(scheme, cached).
      case scheme of
        PostgresOnly \<Rightarrow> storage_delete D store primary_key
      | RedisKv \<Rightarrow>
          io_bind (io_lift (res_map_err (kv_backend_error M)
            (generate_delete_drainer_query D (libs store) primary_key))) (\<lambda>delete_query.
          let key_str = PartitionKey_to_string (libs store) key in
          io_bind (io_map_err (\<lambda>e. kv_backend_error M (to_redis_failed_response e key_str))
            (kv_wrapper store (kv_value M) (HDel key_str delete_query) key)) (\<lambda>reply.
          io_lift (res_map_err (\<lambda>e. kv_backend_error M KvError.Backend) (try_into_hdel reply))))))"

definition delete_resource_by_id ::
    "('w, 'n, 'en, 'm, 'p, 'e) KvResource \<Rightarrow> ('w, 'p, 'e) KvDeletableResource \<Rightarrow>
     'w Storage \<Rightarrow> 'p \<Rightarrow> ('w, nat, 'e) io" where
  "delete_resource_by_id M D store primary_key = delete_resource_by_id_inner M D store primary_key"

text \<open>\<open>lookup_of\<close> is \<open>get_reverse_lookup_key_from_resource\<close>.\<close>

definition delete_resource_by_id_with_reverse_lookup ::
    "('w, 'n, 'en, 'm, 'p, 'e) KvResource \<Rightarrow> ('w, 'p, 'e) KvDeletableResource \<Rightarrow> ('m \<Rightarrow> string) \<Rightarrow>
     (string \<Rightarrow> ('w, nat, ReverseLookupDBError) io) \<Rightarrow> 'w Storage \<Rightarrow> 'p \<Rightarrow> ('w, nat, 'e) io" where
  "delete_resource_by_id_with_reverse_lookup M D lookup_of delete_reverse_lookup store primary_key =
     io_bind (io_map (map_option lookup_of) (find_optional_resource_by_id M store primary_key)) (\<lambda>reverse_lookup_key.
     io_bind (delete_resource_by_id_inner M D store primary_key) (\<lambda>deleted_rows.
     io_bind (case reverse_lookup_key of
         Some lookup_id \<Rightarrow>
           io_map (\<lambda>_. ()) (io_map_err (\<lambda>err. kv_backend_error M KvError.Backend) (delete_reverse_lookup lookup_id))
       | None \<Rightarrow> io_ret ()) (\<lambda>_.
     io_ret deleted_rows)))"

end
