(* ===== verification/KvResources.thy ===== *)
theory KvResources
  imports KvStore
begin

text \<open>
  The five tables of the KV layer, \<open>src/src/storage/kv/impls/\<close>: for each of them the Postgres
  queries on a pooled connection and the dictionary of its traits.
\<close>

section \<open>Running a query on a connection\<close>

text \<open>
  The common shape of the queries: get a connection (a pool failure becomes the
  table's error through \<open>StorageError\<close>), run the query, classify the database error.
\<close>

definition on_conn ::
    "('w, 'w DbConnection, StorageError) io \<Rightarrow> (StorageError \<Rightarrow> 'e) \<Rightarrow> (DieselError \<Rightarrow> 'e) \<Rightarrow>
     ('w PgConn \<Rightarrow> ('w, 'a, DieselError) io) \<Rightarrow> ('w, 'a, 'e) io" where
  "on_conn conn from_storage from_diesel query =
     io_bind (io_map_err from_storage conn) (\<lambda>(c, pool). io_map_err from_diesel (query c))"

section \<open>Locker (kv/impls/locker.rs)\<close>

definition Locker_storage_insert :: "LockerNew \<Rightarrow> 'w Storage \<Rightarrow> ('w, LockerInner, VaultDBError) io" where
  "Locker_storage_insert new_object store =
     on_conn (get_conn store) VaultDBError_from_StorageError VaultDBError_from_diesel
       (\<lambda>c. pg_locker_insert c new_object)"

definition Locker_storage_find :: "'w Storage \<Rightarrow> LockerPrimaryKeyType \<Rightarrow> ('w, LockerInner, VaultDBError) io" where
  "Locker_storage_find store pk =
     on_conn (route_conn store) VaultDBError_from_StorageError VaultDBError_from_diesel
       (\<lambda>c. pg_locker_find c pk)"

definition Locker_storage_delete :: "'w Storage \<Rightarrow> LockerPrimaryKeyType \<Rightarrow> ('w, nat, VaultDBError) io" where
  "Locker_storage_delete store pk =
     on_conn (get_conn store) VaultDBError_from_StorageError VaultDBError_from_diesel
       (\<lambda>c. pg_locker_delete c pk)"

definition Locker_storage_find_by_lookup :: "'w Storage \<Rightarrow> LockerHashLookupKey \<Rightarrow> ('w, Locker, VaultDBError) io" where
  "Locker_storage_find_by_lookup store lookup_key =
     io_map Locker_from_LockerInner
       (on_conn (route_conn store) VaultDBError_from_StorageError VaultDBError_from_diesel
          (\<lambda>c. pg_locker_find_by_hash c lookup_key))"

definition Locker_kv ::
    "('w, LockerNew, LockerInner, Locker, LockerPrimaryKeyType, VaultDBError) KvResource" where
  "Locker_kv =
     \<lparr> ENTITY_TYPE = ''locker'',
       set_storage_scheme = (\<lambda>new scheme. new\<lparr> ln_updated_by := Some scheme \<rparr>),
       generate_insert_drainer_query = (\<lambda>l new. generate_insert_query l ''locker'' (InsertLocker new)),
       storage_insert = Locker_storage_insert, storage_find = Locker_storage_find,
       into_entity = LockerInner_from_LockerNew, into_model = Locker_from_LockerInner,
       get_partition_key = Locker_get_partition_key, kv_value = kv_locker,
       error_from_kv = VaultDBError_from_KvError, error_is_not_found = VaultDBError_is_not_found \<rparr>"

definition Locker_kv_delete :: "('w, LockerPrimaryKeyType, VaultDBError) KvDeletableResource" where
  "Locker_kv_delete =
     \<lparr> generate_delete_drainer_query = (\<lambda>l pk. generate_delete_query l ''locker'' (DeleteLocker pk)),
       storage_delete = Locker_storage_delete \<rparr>"

definition Locker_kv_lookup ::
    "('w, LockerNew, Locker, LockerHashLookupKey, VaultDBError) KvSecondaryLookupResource" where
  "Locker_kv_lookup =
     \<lparr> get_reverse_lookup_key = Locker_get_reverse_lookup_key, get_lookup_key = Locker_get_lookup_key,
       storage_find_by_lookup = Locker_storage_find_by_lookup \<rparr>"

section \<open>Vault (kv/impls/vault.rs)\<close>

definition Vault_storage_insert :: "VaultNewInner \<Rightarrow> 'w Storage \<Rightarrow> ('w, VaultInner, VaultDBError) io" where
  "Vault_storage_insert new_object store =
     on_conn (get_conn store) VaultDBError_from_StorageError VaultDBError_from_diesel
       (\<lambda>c. pg_vault_insert c new_object)"

definition Vault_storage_find :: "'w Storage \<Rightarrow> VaultPrimaryKey \<Rightarrow> ('w, VaultInner, VaultDBError) io" where
  "Vault_storage_find store pk =
     on_conn (route_conn store) VaultDBError_from_StorageError VaultDBError_from_diesel
       (\<lambda>c. pg_vault_find c pk)"

definition Vault_storage_delete :: "'w Storage \<Rightarrow> VaultPrimaryKey \<Rightarrow> ('w, nat, VaultDBError) io" where
  "Vault_storage_delete store pk =
     on_conn (get_conn store) VaultDBError_from_StorageError VaultDBError_from_diesel
       (\<lambda>c. pg_vault_delete c pk)"

definition Vault_storage_update :: "'w Storage \<Rightarrow> VaultUpdate \<Rightarrow> VaultPrimaryKey \<Rightarrow> ('w, Vault, VaultDBError) io" where
  "Vault_storage_update store update pk =
     io_map Vault_from_VaultInner
       (on_conn (get_conn store) VaultDBError_from_StorageError VaultDBError_from_diesel
          (\<lambda>c. pg_vault_update c pk update))"

definition Vault_kv ::
    "('w, VaultNewInner, VaultInner, Vault, VaultPrimaryKey, VaultDBError) KvResource" where
  "Vault_kv =
     \<lparr> ENTITY_TYPE = ''vault'', set_storage_scheme = VaultNewInner_set_updated_by,
       generate_insert_drainer_query = (\<lambda>l new. generate_insert_query l ''vault'' (InsertVault new)),
       storage_insert = Vault_storage_insert, storage_find = Vault_storage_find,
       into_entity = VaultInner_from_VaultNewInner, into_model = Vault_from_VaultInner,
       get_partition_key = Vault_get_partition_key, kv_value = kv_vault,
       error_from_kv = VaultDBError_from_KvError, error_is_not_found = VaultDBError_is_not_found \<rparr>"

definition Vault_kv_delete :: "('w, VaultPrimaryKey, VaultDBError) KvDeletableResource" where
  "Vault_kv_delete =
     \<lparr> generate_delete_drainer_query = (\<lambda>l pk. generate_delete_query l ''vault'' (DeleteVault pk)),
       storage_delete = Vault_storage_delete \<rparr>"

definition Vault_kv_update ::
    "('w, VaultUpdate, VaultInner, Vault, VaultPrimaryKey, VaultDBError) KvUpdatableResource" where
  "Vault_kv_update =
     \<lparr> set_update_storage_scheme = (\<lambda>update scheme. update\<lparr> vu_updated_by := scheme \<rparr>),
       generate_update_drainer_query =
         (\<lambda>l update pk. generate_update_query l ''vault'' (UpdateVault pk update)),
       apply_update = VaultInner_from_update, storage_update = Vault_storage_update \<rparr>"

section \<open>Hash table (kv/impls/hash_table.rs)\<close>

definition HashTable_storage_insert :: "HashTableNew \<Rightarrow> 'w Storage \<Rightarrow> ('w, HashTable, HashDBError) io" where
  "HashTable_storage_insert new_object store =
     on_conn (get_conn store) HashDBError_from_StorageError HashDBError_from_diesel
       (\<lambda>c. pg_hash_table_insert c new_object)"

definition HashTable_storage_find :: "'w Storage \<Rightarrow> HashTablePrimaryKey \<Rightarrow> ('w, HashTable, HashDBError) io" where
  "HashTable_storage_find store pk =
     on_conn (route_conn store) HashDBError_from_StorageError HashDBError_from_diesel
       (\<lambda>c. pg_hash_table_find c pk)"

definition HashTable_kv ::
    "('w, HashTableNew, HashTable, HashTable, HashTablePrimaryKey, HashDBError) KvResource" where
  "HashTable_kv =
     \<lparr> ENTITY_TYPE = ''hash_table'',
       set_storage_scheme = (\<lambda>new scheme. new\<lparr> htn_updated_by := Some scheme \<rparr>),
       generate_insert_drainer_query = (\<lambda>l new. generate_insert_query l ''hash_table'' (InsertHashTable new)),
       storage_insert = HashTable_storage_insert, storage_find = HashTable_storage_find,
       into_entity = HashTable_from_HashTableNew, into_model = id,
       get_partition_key = HashTable_get_partition_key, kv_value = kv_hash_table,
       error_from_kv = HashDBError_from_KvError, error_is_not_found = HashDBError_is_not_found \<rparr>"

section \<open>Fingerprint (kv/impls/fingerprint.rs)\<close>

definition Fingerprint_storage_insert ::
    "FingerprintTableNew \<Rightarrow> 'w Storage \<Rightarrow> ('w, Fingerprint, FingerprintDBError) io" where
  "Fingerprint_storage_insert new_object store =
     on_conn (get_conn store) FingerprintDBError_from_StorageError FingerprintDBError_from_diesel
       (\<lambda>c. pg_fingerprint_insert c new_object)"

definition Fingerprint_storage_find ::
    "'w Storage \<Rightarrow> FingerprintPrimaryKey \<Rightarrow> ('w, Fingerprint, FingerprintDBError) io" where
  "Fingerprint_storage_find store pk =
     on_conn (route_conn store) FingerprintDBError_from_StorageError FingerprintDBError_from_diesel
       (\<lambda>c. pg_fingerprint_find c pk)"

definition Fingerprint_kv ::
    "('w, FingerprintTableNew, Fingerprint, Fingerprint, FingerprintPrimaryKey, FingerprintDBError) KvResource" where
  "Fingerprint_kv =
     \<lparr> ENTITY_TYPE = ''fingerprint'',
       set_storage_scheme = (\<lambda>new scheme. new\<lparr> fpn_updated_by := Some scheme \<rparr>),
       generate_insert_drainer_query = (\<lambda>l new. generate_insert_query l ''fingerprint'' (InsertFingerprint new)),
       storage_insert = Fingerprint_storage_insert, storage_find = Fingerprint_storage_find,
       into_entity = Fingerprint_from_FingerprintTableNew, into_model = id,
       get_partition_key = Fingerprint_get_partition_key, kv_value = kv_fingerprint,
       error_from_kv = FingerprintDBError_from_KvError,
       error_is_not_found = FingerprintDBError_is_not_found \<rparr>"

section \<open>Reverse lookup (kv/impls/reverse_lookup.rs)\<close>

text \<open>Its reads use the primary pool, not the routed one.\<close>

definition ReverseLookup_storage_insert ::
    "ReverseLookupNew \<Rightarrow> 'w Storage \<Rightarrow> ('w, ReverseLookup, ReverseLookupDBError) io" where
  "ReverseLookup_storage_insert new_object store =
     on_conn (get_conn store) ReverseLookupDBError_from_StorageError ReverseLookupDBError_from_diesel
       (\<lambda>c. pg_reverse_lookup_insert c new_object)"

definition ReverseLookup_storage_find ::
    "'w Storage \<Rightarrow> ReverseLookupPrimaryKey \<Rightarrow> ('w, ReverseLookup, ReverseLookupDBError) io" where
  "ReverseLookup_storage_find store pk =
     on_conn (get_conn store) ReverseLookupDBError_from_StorageError ReverseLookupDBError_from_diesel
       (\<lambda>c. pg_reverse_lookup_find c pk)"

definition ReverseLookup_storage_delete ::
    "'w Storage \<Rightarrow> ReverseLookupPrimaryKey \<Rightarrow> ('w, nat, ReverseLookupDBError) io" where
  "ReverseLookup_storage_delete store pk =
     on_conn (get_conn store) ReverseLookupDBError_from_StorageError ReverseLookupDBError_from_diesel
       (\<lambda>c. pg_reverse_lookup_delete c pk)"

definition ReverseLookup_kv ::
    "('w, ReverseLookupNew, ReverseLookup, ReverseLookup, ReverseLookupPrimaryKey, ReverseLookupDBError) KvResource" where
  "ReverseLookup_kv =
     \<lparr> ENTITY_TYPE = ''reverse_lookup'',
       set_storage_scheme = (\<lambda>new scheme. new\<lparr> rln_updated_by := StorageScheme_to_string scheme \<rparr>),
       generate_insert_drainer_query = (\<lambda>l new. generate_insert_query l ''reverse_lookup'' (InsertReverseLookup new)),
       storage_insert = ReverseLookup_storage_insert, storage_find = ReverseLookup_storage_find,
       into_entity = ReverseLookup_from_ReverseLookupNew, into_model = id,
       get_partition_key = ReverseLookup_get_partition_key, kv_value = kv_reverse_lookup,
       error_from_kv = ReverseLookupDBError_from_KvError,
       error_is_not_found = ReverseLookupDBError_is_not_found \<rparr>"

definition ReverseLookup_kv_delete :: "('w, ReverseLookupPrimaryKey, ReverseLookupDBError) KvDeletableResource" where
  "ReverseLookup_kv_delete =
     \<lparr> generate_delete_drainer_query =
         (\<lambda>l pk. generate_delete_query l ''reverse_lookup'' (DeleteReverseLookup pk)),
       storage_delete = ReverseLookup_storage_delete \<rparr>"

section \<open>The contract of a KV table\<close>

text \<open>
  What the generic operations rely on of a dictionary: marking a new row with the scheme
  shows in the stored entity and does not move it to another key, the stored entity has the key
  of the row it was made from, and the error type tells a duplicate from a missing row.
  \<open>pk_of_new\<close>, \<open>pk_of_entity\<close> and \<open>scheme_of\<close> are specification functions.
\<close>

locale kv_resource = kv_storage_error is_duplicate "error_is_not_found M" from_diesel "error_from_kv M"
  for M :: "('w, 'new, 'entity, 'm, 'pk, 'e) KvResource"
    and is_duplicate :: "'e \<Rightarrow> bool" and from_diesel :: "DieselError \<Rightarrow> 'e" +
  fixes pk_of_new :: "'new \<Rightarrow> 'pk" and pk_of_entity :: "'entity \<Rightarrow> 'pk"
    and scheme_of :: "'entity \<Rightarrow> StorageScheme option"
  assumes pk_of_entity [simp]: "pk_of_entity (into_entity M n) = pk_of_new n"
    and pk_of_marked [simp]: "pk_of_new (set_storage_scheme M n s) = pk_of_new n"
    and scheme_of_marked [simp]: "scheme_of (into_entity M (set_storage_scheme M n s)) = Some s"
begin

text \<open>In every mode but \<open>Enabled\<close> an insert is the Postgres insert of the row marked \<open>PostgresOnly\<close>.\<close>

lemma insert_postgres:
  assumes "kv_settings store w \<noteq> KvState.Enabled"
  shows "insert_resource_inner M irl store n key lk w = storage_insert M (set_storage_scheme M n PostgresOnly) store w"
  using assms by (cases "kv_settings store w")
    (simp_all add: insert_resource_inner_def decide_storage_scheme_for_insert_operation_def Let_def)

text \<open>In mode \<open>Enabled\<close> an insert that succeeds returns the row it was given, marked \<open>RedisKv\<close>.\<close>

lemma insert_redis_entity:
  assumes "kv_settings store w = KvState.Enabled"
    and "insert_resource_inner M irl store n key lk w = (Ok x, w')"
  shows "x = into_entity M (set_storage_scheme M n RedisKv) \<and> pk_of_entity x = pk_of_new n
    \<and> scheme_of x = Some RedisKv"
proof -
  have "x = into_entity M (set_storage_scheme M n RedisKv)"
    using assms by (auto simp: insert_resource_inner_def decide_storage_scheme_for_insert_operation_def
        Let_def io_defs split: prod.splits result.splits HsetnxReply.splits option.splits)
  then show ?thesis by simp
qed

lemma find_postgres:
  assumes "kv_settings store w = KvState.Disabled"
  shows "find_resource_by_id_inner M store pk w = storage_find M store pk w"
  using assms by (simp add: find_resource_by_id_inner_def decide_storage_scheme_for_find_operation_def)

text \<open>A Redis read that finds the row answers with it; only a miss reaches Postgres.\<close>

lemma hget_cases:
  "kv_hget M store key ks hit miss w =
     (case kv_wrapper store (kv_value M) (HGet ks) key w of (r, w') \<Rightarrow>
        (case r of
           Ok (HGet_result v) \<Rightarrow> hit v w'
         | Ok _ \<Rightarrow> (Err (error_from_kv M KvError.Backend), w')
         | Err e \<Rightarrow> if e = RedisError.NotFound then miss w'
             else (Err (error_from_kv M (to_redis_failed_response e ks)), w')
         | Panic \<Rightarrow> (Panic, w')))"
  by (auto simp: kv_hget_def io_defs kv_backend_error_def split: prod.splits result.splits KvResult.splits)

text \<open>Errors of Redis other than a missing key are never reported as a missing row.\<close>

lemma hget_error_not_found:
  assumes "fst (kv_wrapper store (kv_value M) (HGet ks) key w) = Err e" "e \<noteq> RedisError.NotFound"
  shows "\<exists>x. fst (kv_hget M store key ks hit miss w) = Err x \<and> \<not> error_is_not_found M x"
  using assms redis_not_found_iff [of e ks]
  by (auto simp: hget_cases split: prod.splits)

end

lemmas kv_dictionaries = Locker_kv_def Locker_kv_delete_def Locker_kv_lookup_def Vault_kv_def
  Vault_kv_delete_def Vault_kv_update_def HashTable_kv_def Fingerprint_kv_def ReverseLookup_kv_def
  ReverseLookup_kv_delete_def

interpretation locker_kv: kv_resource "Locker_kv :: ('w, _, _, _, _, _) KvResource"
    VaultDBError_is_duplicate VaultDBError_from_diesel
    "\<lambda>n. \<lparr> lpk_locker_id = ln_locker_id n, lpk_merchant_id = ln_merchant_id n, lpk_customer_id = ln_customer_id n \<rparr>"
    "\<lambda>e. \<lparr> lpk_locker_id = li_locker_id e, lpk_merchant_id = li_merchant_id e, lpk_customer_id = li_customer_id e \<rparr>"
    li_updated_by
  by (intro kv_resource.intro kv_resource_axioms.intro;
      simp add: kv_dictionaries type_conversions vault_err.kv_storage_error_axioms)

interpretation vault_kv: kv_resource "Vault_kv :: ('w, _, _, _, _, _) KvResource"
    VaultDBError_is_duplicate VaultDBError_from_diesel
    "\<lambda>n. \<lparr> vpk_entity_id = vni_entity_id n, vpk_vault_id = vni_vault_id n \<rparr>"
    "\<lambda>e. \<lparr> vpk_entity_id = vi_entity_id e, vpk_vault_id = vi_vault_id e \<rparr>"
    vi_updated_by
  by (intro kv_resource.intro kv_resource_axioms.intro;
      simp add: kv_dictionaries type_conversions vault_err.kv_storage_error_axioms)

interpretation hash_table_kv: kv_resource "HashTable_kv :: ('w, _, _, _, _, _) KvResource"
    HashDBError_is_duplicate HashDBError_from_diesel
    "\<lambda>n. \<lparr> htpk_data_hash = htn_data_hash n \<rparr>" "\<lambda>e. \<lparr> htpk_data_hash = ht_data_hash e \<rparr>" ht_updated_by
  by (intro kv_resource.intro kv_resource_axioms.intro;
      simp add: kv_dictionaries type_conversions hash_err.kv_storage_error_axioms)

interpretation fingerprint_kv: kv_resource "Fingerprint_kv :: ('w, _, _, _, _, _) KvResource"
    FingerprintDBError_is_duplicate FingerprintDBError_from_diesel
    "\<lambda>n. \<lparr> fpk_fingerprint_hash = fpn_fingerprint_hash n \<rparr>"
    "\<lambda>e. \<lparr> fpk_fingerprint_hash = fp_fingerprint_hash e \<rparr>" fp_updated_by
  by (intro kv_resource.intro kv_resource_axioms.intro;
      simp add: kv_dictionaries type_conversions fingerprint_err.kv_storage_error_axioms)

interpretation reverse_lookup_kv: kv_resource "ReverseLookup_kv :: ('w, _, _, _, _, _) KvResource"
    ReverseLookupDBError_is_duplicate ReverseLookupDBError_from_diesel
    "\<lambda>n. \<lparr> rlpk_lookup_id = rln_lookup_id n \<rparr>" "\<lambda>e. \<lparr> rlpk_lookup_id = rl_lookup_id e \<rparr>"
    "\<lambda>e. case StorageScheme_from_str (rl_updated_by e) of Ok s \<Rightarrow> Some s | _ \<Rightarrow> None"
  by (intro kv_resource.intro kv_resource_axioms.intro;
      simp add: kv_dictionaries type_conversions reverse_lookup_err.kv_storage_error_axioms StorageScheme_roundtrip)

end
