(* ===== verification/ExampleCodec.thy ===== *)
theory ExampleCodec
  imports Text "HOL-Library.Countable"
begin

text \<open>
  A concrete text format for values of any countable type, used by the concrete services that
  witness the properties with hypotheses: the decimal digits of the value's number.
\<close>

definition text_of :: "'a :: countable \<Rightarrow> string" where
  "text_of x = show_nat (to_nat x)"

definition of_text :: "string \<Rightarrow> 'a :: countable" where
  "of_text s = from_nat (nat_of_digits s)"

lemma of_text_text_of [simp]: "of_text (text_of x) = x"
  by (simp add: of_text_def text_of_def nat_of_digits_show_nat)

lemma text_of_inj [simp]: "text_of x = text_of y \<longleftrightarrow> x = y"
  by (metis of_text_text_of)

lemma show_nat_digits: "c \<in> set (show_nat n) \<Longrightarrow> 48 \<le> (of_char c :: nat) \<and> (of_char c :: nat) \<le> 57"
proof (induction n rule: show_nat.induct)
  case (1 n)
  have "n mod 10 < 10" by simp
  then have "48 + n mod 10 < 256" "(48 + n mod 10) mod 256 = 48 + n mod 10" by auto
  with 1 show ?case by (subst (asm) show_nat.simps) (auto split: if_splits)
qed

lemma text_of_no_dot [simp]: "CHR ''.'' \<notin> set (text_of x)" "CHR ''_'' \<notin> set (text_of x)"
  using show_nat_digits [of "CHR ''.''"] show_nat_digits [of "CHR ''_''"] by (auto simp: text_of_def)

lemma utf8_valid_ascii: "(\<forall>b\<in>set bs. b < 0x80) \<Longrightarrow> utf8_valid bs"
  by (induction bs) auto

lemma from_utf8_text_of [simp]: "from_utf8 (into_bytes (text_of x)) = Some (text_of x)"
proof -
  have "\<forall>b\<in>set (map unat (into_bytes (text_of x))). b < 0x80"
    using show_nat_digits by (fastforce simp: text_of_def into_bytes_def)
  then show ?thesis by (simp only: from_utf8_def utf8_valid_ascii if_True of_bytes_into_bytes)
qed

end
