(* ===== verification/Crypto.thy ===== *)
theory Crypto
  imports Errors ExampleCodec
begin

text \<open>
  The cryptographic code: AES-256-GCM with its nonce (\<open>src/src/crypto/encryption_manager/managers/aes.rs\<close>),
  JWS inside JWE (\<open>managers/jw.rs\<close>), hashing (\<open>crypto/hash_manager/managers/sha.rs\<close>) and the
  request/response middleware (\<open>middleware.rs\<close>).

  The primitives of \<open>ring\<close> and \<open>josekit\<close> are parameters (\<open>CryptoLibs\<close>); what the program relies
  on of them is \<open>crypto_libs_ok\<close>: opening what was sealed under the same key and nonce gives
  the plaintext back, decrypting and verifying what was encrypted and signed with the matching
  keys gives the payload back, and a random fill has the length asked for.
\<close>

section \<open>Parameters\<close>

datatype RsaesJweAlgorithm = RSA_OAEP | RSA_OAEP_256

record JwsBody =
  jws_header :: string
  jws_payload :: string
  jws_signature :: string

record JweBody =
  jwe_header :: string
  jwe_iv :: string
  jwe_encrypted_payload :: string
  jwe_tag :: string
  jwe_encrypted_key :: string

record 'w CryptoLibs =
  rng_fill :: "nat \<Rightarrow> ('w, bytes, unit) io"
  aes_key_ok :: "bytes \<Rightarrow> bool"
  aes_seal :: "bytes \<Rightarrow> bytes \<Rightarrow> bytes \<Rightarrow> (bytes, unit) result"
  aes_open :: "bytes \<Rightarrow> bytes \<Rightarrow> bytes \<Rightarrow> (bytes, unit) result"
  sha512_digest :: "bytes \<Rightarrow> bytes"
  hmac_sha512_sign :: "bytes \<Rightarrow> bytes \<Rightarrow> bytes"
  jws_serialize :: "bytes \<Rightarrow> string \<Rightarrow> ('w, string, string) io"
  jwe_serialize :: "bytes \<Rightarrow> string \<Rightarrow> RsaesJweAlgorithm \<Rightarrow> ('w, string, string) io"
  jwe_deserialize :: "string \<Rightarrow> string \<Rightarrow> RsaesJweAlgorithm \<Rightarrow> (bytes, string) result"
  jws_deserialize :: "string \<Rightarrow> string \<Rightarrow> (bytes, string) result"
  jws_body_to_json :: "JwsBody \<Rightarrow> (bytes, string) result"
  jws_body_from_json :: "string \<Rightarrow> (JwsBody, string) result"

section \<open>AES-256-GCM (aes.rs)\<close>

definition NONCE_LEN :: nat where "NONCE_LEN = 12"

definition SEQUENCE_NUMBER_START_INDEX :: nat where "SEQUENCE_NUMBER_START_INDEX = 4"

text \<open>\<open>u128::from_be_bytes\<close> and \<open>to_be_bytes\<close>.\<close>

definition be_value :: "bytes \<Rightarrow> nat" where
  "be_value bs = foldl (\<lambda>a b. a * 256 + unat b) 0 bs"

fun be_digits :: "nat \<Rightarrow> nat \<Rightarrow> bytes" where
  "be_digits 0 v = []"
| "be_digits (Suc n) v = be_digits n (v div 256) @ [of_nat (v mod 256)]"

definition u128_from_be_bytes :: "bytes \<Rightarrow> 128 word" where
  "u128_from_be_bytes bs = of_nat (be_value bs)"

definition u128_to_be_bytes :: "128 word \<Rightarrow> bytes" where
  "u128_to_be_bytes n = be_digits 16 (unat n)"

definition NonceSequence_new :: "'w CryptoLibs \<Rightarrow> ('w, 128 word, unit) io" where
  "NonceSequence_new c =
     io_map (\<lambda>filled. u128_from_be_bytes (replicate SEQUENCE_NUMBER_START_INDEX 0 @ filled))
       (rng_fill c (16 - SEQUENCE_NUMBER_START_INDEX))"

definition NonceSequence_current :: "128 word \<Rightarrow> bytes" where
  "NonceSequence_current self = drop SEQUENCE_NUMBER_START_INDEX (u128_to_be_bytes self)"

definition NonceSequence_from_bytes :: "bytes \<Rightarrow> 128 word" where
  "NonceSequence_from_bytes bs = u128_from_be_bytes (replicate SEQUENCE_NUMBER_START_INDEX 0 @ bs)"

definition NonceSequence_advance :: "128 word \<Rightarrow> bytes \<times> 128 word" where
  "NonceSequence_advance self =
     (drop SEQUENCE_NUMBER_START_INDEX (u128_to_be_bytes self), self + 1)"

definition GcmAes256_encrypt :: "'w CryptoLibs \<Rightarrow> bytes \<Rightarrow> bytes \<Rightarrow> ('w, bytes, CryptoError) io" where
  "GcmAes256_encrypt c secret input =
     io_bind (io_map_err (\<lambda>_. CryptoError.EncryptionError) (NonceSequence_new c)) (\<lambda>nonce_sequence.
     let current_nonce = NonceSequence_current nonce_sequence in
     if \<not> aes_key_ok c secret then io_err CryptoError.EncryptionError
     else io_bind (io_lift (res_map_err (\<lambda>_. CryptoError.EncryptionError)
            (aes_seal c secret (fst (NonceSequence_advance nonce_sequence)) input))) (\<lambda>sealed.
     io_ret (current_nonce @ sealed)))"

text \<open>The slice of the first twelve bytes panics when the input is shorter.\<close>

definition GcmAes256_decrypt :: "'w CryptoLibs \<Rightarrow> bytes \<Rightarrow> bytes \<Rightarrow> (bytes, CryptoError) result" where
  "GcmAes256_decrypt c secret input =
     (if \<not> aes_key_ok c secret then Err CryptoError.DecryptionError
      else if length input < NONCE_LEN then Panic
      else let nonce_sequence = NonceSequence_from_bytes (take NONCE_LEN input) in
        res_map_err (\<lambda>_. CryptoError.DecryptionError)
          (aes_open c secret (fst (NonceSequence_advance nonce_sequence)) (drop NONCE_LEN input)))"

definition generate_aes256_key :: "'w CryptoLibs \<Rightarrow> ('w, bytes, 'e) io" where
  "generate_aes256_key c = (\<lambda>w. case rng_fill c 32 w of
     (Ok key, w') \<Rightarrow> (Ok key, w') | (_, w') \<Rightarrow> (Panic, w'))"

section \<open>Hashing (sha.rs)\<close>

definition Sha512_encode :: "'w CryptoLibs \<Rightarrow> bytes \<Rightarrow> (bytes, CryptoError) result" where
  "Sha512_encode c input = Ok (sha512_digest c input)"

text \<open>\<open>HmacSha512::<N>\<close>; the constant \<open>N > 0\<close> is enforced at compile time.\<close>

definition HmacSha512_encode :: "'w CryptoLibs \<Rightarrow> nat \<Rightarrow> bytes \<Rightarrow> bytes \<Rightarrow> (bytes, CryptoError) result" where
  "HmacSha512_encode c N hmac_key input =
     (let first = hmac_sha512_sign c hmac_key input in
      Ok (foldl (\<lambda>signature _. hmac_sha512_sign c hmac_key signature) first [0..<Suc (N - 1)]))"

section \<open>JWS and JWE (jw.rs)\<close>

definition JwsBody_from_dotted_str :: "string \<Rightarrow> JwsBody option" where
  "JwsBody_from_dotted_str input = (case split_on CHR ''.'' input of
     header # payload # signature # rest \<Rightarrow>
       Some \<lparr> jws_header = header, jws_payload = payload, jws_signature = signature \<rparr>
   | _ \<Rightarrow> None)"

definition get_dotted_jws :: "JwsBody \<Rightarrow> string" where
  "get_dotted_jws self = jws_header self @ ''.'' @ jws_payload self @ ''.'' @ jws_signature self"

definition JweBody_from_str :: "string \<Rightarrow> JweBody option" where
  "JweBody_from_str input = (case split_on CHR ''.'' input of
     header # encrypted_key # iv # encrypted_payload # tag # rest \<Rightarrow>
       Some \<lparr> jwe_header = header, jwe_iv = iv, jwe_encrypted_payload = encrypted_payload,
              jwe_tag = tag, jwe_encrypted_key = encrypted_key \<rparr>
   | _ \<Rightarrow> None)"

definition get_dotted_jwe :: "JweBody \<Rightarrow> string" where
  "get_dotted_jwe self =
     jwe_header self @ ''.'' @ jwe_encrypted_key self @ ''.'' @ jwe_iv self @ ''.''
       @ jwe_encrypted_payload self @ ''.'' @ jwe_tag self"

record JWEncryption =
  jw_private_key :: string
  jw_public_key :: string
  encryption_algo :: RsaesJweAlgorithm
  decryption_algo :: RsaesJweAlgorithm

definition jws_sign_payload :: "'w CryptoLibs \<Rightarrow> bytes \<Rightarrow> string \<Rightarrow> ('w, string, CryptoError) io" where
  "jws_sign_payload c payload priv = io_map_err CryptoError.JWError (jws_serialize c payload priv)"

definition encrypt_jwe ::
    "'w CryptoLibs \<Rightarrow> bytes \<Rightarrow> string \<Rightarrow> RsaesJweAlgorithm \<Rightarrow> ('w, string, CryptoError) io" where
  "encrypt_jwe c payload pub alg = io_map_err CryptoError.JWError (jwe_serialize c payload pub alg)"

definition decrypt_jwe ::
    "'w CryptoLibs \<Rightarrow> string \<Rightarrow> string \<Rightarrow> RsaesJweAlgorithm \<Rightarrow> (string, CryptoError) result" where
  "decrypt_jwe c jwt priv alg =
     res_bind (res_map_err CryptoError.JWError (jwe_deserialize c jwt priv alg)) (\<lambda>dst_payload.
     ok_or (CryptoError.EncodingError ''invalid utf-8 sequence'') (from_utf8 dst_payload))"

definition verify_sign :: "'w CryptoLibs \<Rightarrow> string \<Rightarrow> string \<Rightarrow> (string, CryptoError) result" where
  "verify_sign c jws_body pub =
     res_bind (res_map_err CryptoError.JWError (jws_deserialize c jws_body pub)) (\<lambda>dst_payload.
     ok_or (CryptoError.EncodingError ''invalid utf-8 sequence'') (from_utf8 dst_payload))"

definition JWEncryption_encrypt :: "'w CryptoLibs \<Rightarrow> JWEncryption \<Rightarrow> bytes \<Rightarrow> ('w, JweBody, CryptoError) io" where
  "JWEncryption_encrypt c self payload =
     io_bind (jws_sign_payload c payload (jw_private_key self)) (\<lambda>jws_encoded.
     io_bind (io_lift (ok_or (CryptoError.InvalidData ''JWS encoded data is incomplete'')
       (JwsBody_from_dotted_str jws_encoded))) (\<lambda>jws_body.
     io_bind (io_lift (res_map_err CryptoError.SerdeJsonError (jws_body_to_json c jws_body))) (\<lambda>json.
     io_bind (encrypt_jwe c json (jw_public_key self) (encryption_algo self)) (\<lambda>jwe_encrypted.
     io_lift (ok_or (CryptoError.InvalidData ''JWE data incomplete'') (JweBody_from_str jwe_encrypted))))))"

definition JWEncryption_decrypt :: "'w CryptoLibs \<Rightarrow> JWEncryption \<Rightarrow> JweBody \<Rightarrow> (bytes, CryptoError) result" where
  "JWEncryption_decrypt c self input =
     res_bind (decrypt_jwe c (get_dotted_jwe input) (jw_private_key self) (decryption_algo self)) (\<lambda>jwe_decrypted.
     res_bind (res_map_err (\<lambda>_. CryptoError.InvalidData ''Failed while extracting jws body'')
       (jws_body_from_json c jwe_decrypted)) (\<lambda>jws_parsed.
     res_bind (verify_sign c (get_dotted_jws jws_parsed) (jw_public_key self)) (\<lambda>output.
     Ok (into_bytes output))))"

section \<open>The JWE middleware (middleware.rs)\<close>

text \<open>
  \<open>next\<close> is the rest of the application: it answers a request body with a status and a body
  whose collection may fail.  The response headers are replaced by one content type.
\<close>

record JweResponse =
  jr_status :: nat
  jr_headers :: "(string \<times> string) list"
  jr_body :: JweBody

definition middleware ::
    "'w CryptoLibs \<Rightarrow> string \<Rightarrow> string \<Rightarrow> (bytes \<Rightarrow> 'w \<Rightarrow> (nat \<times> (bytes, string) result) \<times> 'w) \<Rightarrow>
     JweBody \<Rightarrow> ('w, JweResponse, ApiError) io" where
  "middleware c locker_priv tenant_pub next_run jwe_body =
     (let keys = \<lparr> jw_private_key = locker_priv, jw_public_key = tenant_pub,
                   encryption_algo = RSA_OAEP, decryption_algo = RSA_OAEP_256 \<rparr> in
      io_bind (io_lift (res_map_err ApiError_from_CryptoError (JWEncryption_decrypt c keys jwe_body))) (\<lambda>jwe_decrypted.
      io_bind (io_of (next_run jwe_decrypted)) (\<lambda>(status, body).
      io_bind (io_lift (res_map_err (\<lambda>_. ApiError.ResponseMiddlewareError
        ''Failed to read response body for jws signing'') body)) (\<lambda>response_body.
      io_bind (io_map_err ApiError_from_CryptoError (JWEncryption_encrypt c keys response_body)) (\<lambda>jwe_payload.
      io_ret \<lparr> jr_status = status, jr_headers = [(''content-type'', ''application/json'')],
               jr_body = jwe_payload \<rparr>)))))"

section \<open>Nonces\<close>

lemma length_be_digits [simp]: "length (be_digits n v) = n"
  by (induction n arbitrary: v) simp_all

lemma be_value_snoc [simp]: "be_value (bs @ [b]) = be_value bs * 256 + unat b"
  by (simp add: be_value_def)

lemma be_value_Nil [simp]: "be_value [] = 0"
  by (simp add: be_value_def)

lemma unat_byte_lt: "unat (b :: 8 word) < 256"
  using unsigned_less [of b, where ?'a = nat] by simp

lemma be_digits_value: "be_digits (length bs) (be_value bs) = bs"
proof (induction bs rule: rev_induct)
  case (snoc b bs)
  have "(be_value bs * 256 + unat b) div 256 = be_value bs" "(be_value bs * 256 + unat b) mod 256 = unat b"
    using unat_byte_lt [of b] by simp_all
  with snoc show ?case by simp
qed simp

lemma be_value_lt: "be_value bs < 256 ^ length bs"
proof (induction bs rule: rev_induct)
  case (snoc b bs)
  then show ?case using unat_byte_lt [of b] by simp
qed simp

lemma u128_roundtrip: "length bs = 16 \<Longrightarrow> u128_to_be_bytes (u128_from_be_bytes bs) = bs"
proof -
  assume l: "length bs = 16"
  have "be_value bs < 2 ^ 128" using be_value_lt [of bs] l by simp
  then have "unat (of_nat (be_value bs) :: 128 word) = be_value bs"
    by (simp add: unat_of_nat)
  then show ?thesis using be_digits_value [of bs] l
    by (simp add: u128_to_be_bytes_def u128_from_be_bytes_def)
qed

lemma current_from_bytes: "length bs = 12 \<Longrightarrow> NonceSequence_current (NonceSequence_from_bytes bs) = bs"
  by (simp add: NonceSequence_current_def NonceSequence_from_bytes_def u128_roundtrip
      SEQUENCE_NUMBER_START_INDEX_def)

lemma advance_current: "fst (NonceSequence_advance n) = NonceSequence_current n"
  by (simp add: NonceSequence_advance_def NonceSequence_current_def)

lemma length_current [simp]: "length (NonceSequence_current n) = 12"
  by (simp add: NonceSequence_current_def u128_to_be_bytes_def SEQUENCE_NUMBER_START_INDEX_def)

section \<open>What is relied on of the libraries\<close>

definition aes_ok :: "'w CryptoLibs \<Rightarrow> bool" where
  "aes_ok c =
     ((\<forall>k n p s. aes_key_ok c k \<longrightarrow> length n = NONCE_LEN \<longrightarrow> aes_seal c k n p = Ok s \<longrightarrow> aes_open c k n s = Ok p)
      \<and> (\<forall>k n s. aes_open c k n s \<noteq> Panic)
      \<and> (\<forall>n w bs w'. rng_fill c n w = (Ok bs, w') \<longrightarrow> length bs = n))"

text \<open>\<open>pair priv pub\<close>: the two PEM texts are the halves of one key.\<close>

definition jw_ok :: "'w CryptoLibs \<Rightarrow> (string \<Rightarrow> string \<Rightarrow> bool) \<Rightarrow> bool" where
  "jw_ok c pair =
     ((\<forall>p priv pub w t w'. pair priv pub \<longrightarrow> jws_serialize c p priv w = (Ok t, w') \<longrightarrow>
         jws_deserialize c t pub = Ok p \<and> length (split_on CHR ''.'' t) = 3)
      \<and> (\<forall>p priv pub alg w t w'. pair priv pub \<longrightarrow> jwe_serialize c p pub alg w = (Ok t, w') \<longrightarrow>
         jwe_deserialize c t priv alg = Ok p \<and> length (split_on CHR ''.'' t) = 5)
      \<and> (\<forall>b j. jws_body_to_json c b = Ok j \<longrightarrow>
         (\<exists>s. from_utf8 j = Some s \<and> jws_body_from_json c s = Ok b)))"

section \<open>Round trips\<close>

lemma GcmAes256_encrypt_Ok:
  assumes "GcmAes256_encrypt c k p w = (Ok ct, w')"
  obtains n s where "aes_key_ok c k" "aes_seal c k (NonceSequence_current n) p = Ok s"
    "ct = NonceSequence_current n @ s"
  using assms by (auto simp: GcmAes256_encrypt_def Let_def io_defs advance_current
      split: prod.splits result.splits if_splits)

lemma GcmAes256_roundtrip:
  assumes "aes_ok c" "GcmAes256_encrypt c k p w = (Ok ct, w')"
  shows "GcmAes256_decrypt c k ct = Ok p"
proof -
  from assms(2) obtain n s where "aes_key_ok c k" "aes_seal c k (NonceSequence_current n) p = Ok s"
      and ct: "ct = NonceSequence_current n @ s"
    by (rule GcmAes256_encrypt_Ok)
  then have "aes_open c k (NonceSequence_current n) s = Ok p"
    using assms(1) by (simp add: aes_ok_def NONCE_LEN_def)
  with \<open>aes_key_ok c k\<close> show ?thesis
    by (simp add: ct GcmAes256_decrypt_def NONCE_LEN_def current_from_bytes advance_current)
qed

section \<open>A concrete library\<close>

text \<open>
  A library that meets \<open>aes_ok\<close> and \<open>jw_ok\<close>: a ciphertext carries its key and nonce in front, a
  signature its key, and a key pair is a text and itself.
\<close>

definition example_crypto :: "'w CryptoLibs" where
  "example_crypto = \<lparr>
     rng_fill = (\<lambda>n. io_ret (replicate n 0)),
     aes_key_ok = (\<lambda>k. length k = 32),
     aes_seal = (\<lambda>k n p. Ok (k @ n @ p)),
     aes_open = (\<lambda>k n s. if take (length (k @ n)) s = k @ n then Ok (drop (length (k @ n)) s) else Err ()),
     sha512_digest = (\<lambda>bs. bs @ [0x51]),
     hmac_sha512_sign = (\<lambda>k bs. k @ bs),
     jws_serialize = (\<lambda>p k. io_ret (text_of k @ ''.'' @ text_of (of_bytes p) @ ''.'' @ text_of ''sig'')),
     jwe_serialize = (\<lambda>p k alg. io_ret (text_of (alg = RSA_OAEP) @ ''.'' @ text_of k @ ''.'' @ text_of ''iv''
       @ ''.'' @ text_of (of_bytes p) @ ''.'' @ text_of ''tag'')),
     jwe_deserialize = (\<lambda>t k alg. case split_on CHR ''.'' t of
       [a, b, i, p, g] \<Rightarrow> (if a = text_of (alg = RSA_OAEP) \<and> b = text_of k then Ok (into_bytes (of_text p)) else Err ''key'')
     | _ \<Rightarrow> Err ''format''),
     jws_deserialize = (\<lambda>t k. case split_on CHR ''.'' t of
       [a, p, g] \<Rightarrow> (if a = text_of k then Ok (into_bytes (of_text p)) else Err ''key'') | _ \<Rightarrow> Err ''format''),
     jws_body_to_json = (\<lambda>b. Ok (into_bytes (text_of (jws_header b, jws_payload b, jws_signature b)))),
     jws_body_from_json = (\<lambda>s. case of_text s of (h, p, g) \<Rightarrow>
       Ok \<lparr> jws_header = h, jws_payload = p, jws_signature = g \<rparr>) \<rparr>"

lemma example_aes_ok: "aes_ok (example_crypto :: 'w CryptoLibs)"
  by (auto simp: aes_ok_def example_crypto_def io_ret_def)

lemma example_jw_ok: "jw_ok (example_crypto :: 'w CryptoLibs) (=)"
  by (auto simp: jw_ok_def example_crypto_def io_ret_def split_on_append split_on_free)

lemma example_aes_encrypt:
  "GcmAes256_encrypt example_crypto (replicate 32 0) p w = (Ok (replicate 12 0 @ replicate 32 0 @ replicate 12 0 @ p), w)"
proof -
  have "NonceSequence_current (NonceSequence_from_bytes (replicate 12 0)) = replicate 12 0"
    by (rule current_from_bytes) simp
  then show ?thesis
    by (simp add: GcmAes256_encrypt_def NonceSequence_new_def example_crypto_def io_defs advance_current
        NonceSequence_from_bytes_def SEQUENCE_NUMBER_START_INDEX_def)
qed

definition example_keys :: JWEncryption where
  "example_keys = \<lparr> jw_private_key = ''k'', jw_public_key = ''k'', encryption_algo = RSA_OAEP, decryption_algo = RSA_OAEP \<rparr>"

lemma example_jwe_encrypt: "\<exists>body. JWEncryption_encrypt example_crypto keys p w = (Ok body, w)"
  by (simp add: JWEncryption_encrypt_def example_crypto_def jws_sign_payload_def encrypt_jwe_def io_defs
      JwsBody_from_dotted_str_def JweBody_from_str_def split_on_append split_on_free)

text \<open>C31. Decrypting an AES ciphertext with the key it was made with gives the plaintext back: the
  nonce that sealed it is the first twelve bytes, and reading it back from those bytes restores it.\<close>

theorem aes_encrypt_decrypt:
  assumes "aes_ok c" "GcmAes256_encrypt c k p w = (Ok ct, w')"
  shows "GcmAes256_decrypt c k ct = Ok p \<and> NONCE_LEN \<le> length ct
    \<and> NonceSequence_current (NonceSequence_from_bytes (take NONCE_LEN ct)) = take NONCE_LEN ct"
proof -
  from assms(2) obtain n s where "ct = NonceSequence_current n @ s" by (rule GcmAes256_encrypt_Ok)
  then show ?thesis using GcmAes256_roundtrip [OF assms]
    by (simp add: NONCE_LEN_def current_from_bytes)
qed

theorem aes_encrypt_decrypt_witness:
  "GcmAes256_decrypt (example_crypto :: unit CryptoLibs) (replicate 32 0) (replicate 12 0 @ replicate 32 0 @ replicate 12 0 @ [7]) = Ok [7]"
  using aes_encrypt_decrypt [OF example_aes_ok example_aes_encrypt [of "[7]" "()"]] by blast

text \<open>Decryption panics exactly on an input that is too short to hold a nonce, under a usable key.\<close>

lemma aes_decrypt_panics:
  assumes "aes_ok c"
  shows "GcmAes256_decrypt c k input = Panic \<longleftrightarrow> aes_key_ok c k \<and> length input < NONCE_LEN"
  using assms by (auto simp: GcmAes256_decrypt_def aes_ok_def Let_def)

lemma from_utf8_into_bytes: "from_utf8 p = Some s \<Longrightarrow> into_bytes s = p"
  by (rule from_utf8_Some)

lemma JwsBody_dotted: "length (split_on CHR ''.'' t) = 3 \<Longrightarrow>
  \<exists>b. JwsBody_from_dotted_str t = Some b \<and> get_dotted_jws b = t"
proof -
  assume "length (split_on CHR ''.'' t) = 3"
  then obtain x y z where s: "split_on CHR ''.'' t = [x, y, z]"
    by (auto simp: length_Suc_conv numeral_eq_Suc)
  then have "x @ ''.'' @ y @ ''.'' @ z = t" using join_on_split_on [of "CHR ''.''" t] by simp
  with s show ?thesis by (simp add: JwsBody_from_dotted_str_def get_dotted_jws_def)
qed

lemma JweBody_dotted: "length (split_on CHR ''.'' t) = 5 \<Longrightarrow>
  \<exists>b. JweBody_from_str t = Some b \<and> get_dotted_jwe b = t"
proof -
  assume "length (split_on CHR ''.'' t) = 5"
  then obtain x y z u v where s: "split_on CHR ''.'' t = [x, y, z, u, v]"
    by (auto simp: length_Suc_conv numeral_eq_Suc)
  then have "x @ ''.'' @ y @ ''.'' @ z @ ''.'' @ u @ ''.'' @ v = t"
    using join_on_split_on [of "CHR ''.''" t] by simp
  with s show ?thesis by (simp add: JweBody_from_str_def get_dotted_jwe_def)
qed

lemma JWEncryption_encrypt_Ok:
  assumes "JWEncryption_encrypt c keys p w = (Ok body, w')"
  obtains t w1 b j u w2 w3 where "jws_serialize c p (jw_private_key keys) w = (Ok t, w1)"
    "JwsBody_from_dotted_str t = Some b" "jws_body_to_json c b = Ok j"
    "jwe_serialize c j (jw_public_key keys) (encryption_algo keys) w2 = (Ok u, w3)"
    "JweBody_from_str u = Some body"
  using assms by (auto simp: JWEncryption_encrypt_def jws_sign_payload_def encrypt_jwe_def io_lift_def
      elim!: io_bind_Ok_E)

lemma jwe_roundtrip:
  assumes "jw_ok c pair"
    and "pair (jw_private_key sender) (jw_public_key receiver)"
    and "pair (jw_private_key receiver) (jw_public_key sender)"
    and "encryption_algo sender = decryption_algo receiver"
    and "from_utf8 p \<noteq> None"
    and "JWEncryption_encrypt c sender p w = (Ok body, w')"
  shows "JWEncryption_decrypt c receiver body = Ok p"
proof -
  from assms(6) obtain t w1 b j u w2 w3 where
      t: "jws_serialize c p (jw_private_key sender) w = (Ok t, w1)" "JwsBody_from_dotted_str t = Some b"
      and j: "jws_body_to_json c b = Ok j"
      and u: "jwe_serialize c j (jw_public_key sender) (encryption_algo sender) w2 = (Ok u, w3)"
        "JweBody_from_str u = Some body"
    by (rule JWEncryption_encrypt_Ok)
  have "get_dotted_jws b = t" "jws_deserialize c t (jw_public_key receiver) = Ok p"
    using assms(1,2) t JwsBody_dotted [of t] unfolding jw_ok_def by (metis option.inject)+
  moreover have "get_dotted_jwe body = u"
      "jwe_deserialize c u (jw_private_key receiver) (decryption_algo receiver) = Ok j"
    using assms(1,3,4) u JweBody_dotted [of u] unfolding jw_ok_def by (metis option.inject)+
  moreover obtain s where "from_utf8 j = Some s" "jws_body_from_json c s = Ok b"
    using assms(1) j unfolding jw_ok_def by blast
  moreover obtain q where "from_utf8 p = Some q" "into_bytes q = p"
    using assms(5) from_utf8_Some by blast
  ultimately show ?thesis
    by (simp add: JWEncryption_decrypt_def decrypt_jwe_def verify_sign_def)
qed

text \<open>C30. What one side signs and encrypts, the other side decrypts and verifies: with two matching
  key pairs and the same RSA algorithm on the sender's encryption and the receiver's decryption, a
  UTF-8 payload that \<open>encrypt\<close> turned into a JWE body comes back unchanged from \<open>decrypt\<close>.\<close>

theorem jwe_encrypt_decrypt:
  assumes "jw_ok c pair"
    and "pair (jw_private_key sender) (jw_public_key receiver)"
    and "pair (jw_private_key receiver) (jw_public_key sender)"
    and "encryption_algo sender = decryption_algo receiver"
    and "from_utf8 p \<noteq> None"
    and "JWEncryption_encrypt c sender p w = (Ok body, w')"
  shows "JWEncryption_decrypt c receiver body = Ok p"
  using assms by (rule jwe_roundtrip)

theorem jwe_encrypt_decrypt_witness:
  "\<exists>body. JWEncryption_encrypt (example_crypto :: unit CryptoLibs) example_keys (into_bytes ''hi'') () = (Ok body, ())
     \<and> JWEncryption_decrypt (example_crypto :: unit CryptoLibs) example_keys body = Ok (into_bytes ''hi'')"
proof -
  obtain body where b: "JWEncryption_encrypt (example_crypto :: unit CryptoLibs) example_keys (into_bytes ''hi'') () = (Ok body, ())"
    using example_jwe_encrypt [of example_keys "into_bytes ''hi''" "()"] by blast
  have "from_utf8 (into_bytes ''hi'') \<noteq> None" by code_simp
  then have "JWEncryption_decrypt (example_crypto :: unit CryptoLibs) example_keys body = Ok (into_bytes ''hi'')"
    by (intro jwe_encrypt_decrypt [OF example_jw_ok _ _ _ _ b]) (simp_all add: example_keys_def)
  with b show ?thesis by blast
qed

text \<open>C40. The HMAC of a fingerprint is \<open>N + 1\<close> applications of HMAC-SHA512 under the key: the code
  signs the data once and then \<open>N\<close> times the previous signature; it never fails.\<close>

theorem hmac_iterations:
  assumes "N > 0"
  shows "HmacSha512_encode c N k input = Ok ((hmac_sha512_sign c k ^^ (N + 1)) input)"
proof -
  have "foldl (\<lambda>signature _. f signature) x xs = (f ^^ length xs) x" for f :: "bytes \<Rightarrow> bytes" and x and xs :: "nat list"
    by (induction xs arbitrary: x) (simp_all add: funpow_swap1)
  then show ?thesis using assms
    by (simp only: HmacSha512_encode_def Let_def length_upt) (simp add: funpow_swap1)
qed

theorem hmac_iterations_witness:
  "HmacSha512_encode (example_crypto :: unit CryptoLibs) 2 [9] [7] = Ok [9, 9, 9, 7]"
  using hmac_iterations [of 2 "(example_crypto :: unit CryptoLibs)" "[9]" "[7]"] by (simp add: example_crypto_def numeral_eq_Suc)

text \<open>C7. The middleware is a gate: unless the request body decrypts and its signature verifies,
  the handlers do not run, the state is unchanged and the answer is a client error (400) or an
  encoding error; and the body that a response carries is one the tenant can decrypt to what
  the handler answered.\<close>

theorem middleware_gate:
  "(\<forall>e. JWEncryption_decrypt c \<lparr> jw_private_key = priv, jw_public_key = pub, encryption_algo = RSA_OAEP,
        decryption_algo = RSA_OAEP_256 \<rparr> body = Err e \<longrightarrow>
      middleware c priv pub next_run body w = (Err (ApiError_from_CryptoError e), w))
   \<and> (\<forall>resp w'. middleware c priv pub next_run body w = (Ok resp, w') \<longrightarrow>
      (\<exists>request answer w1. JWEncryption_decrypt c \<lparr> jw_private_key = priv, jw_public_key = pub,
          encryption_algo = RSA_OAEP, decryption_algo = RSA_OAEP_256 \<rparr> body = Ok request
        \<and> next_run request w = ((jr_status resp, Ok answer), w1)
        \<and> (\<forall>pair client. jw_ok c pair \<longrightarrow> pair priv (jw_public_key client) \<longrightarrow>
             pair (jw_private_key client) pub \<longrightarrow> decryption_algo client = RSA_OAEP \<longrightarrow>
             from_utf8 answer \<noteq> None \<longrightarrow> JWEncryption_decrypt c client (jr_body resp) = Ok answer)))"
proof -
  let ?keys = "\<lparr> jw_private_key = priv, jw_public_key = pub, encryption_algo = RSA_OAEP,
    decryption_algo = RSA_OAEP_256 \<rparr>"
  have "\<exists>request answer w1. JWEncryption_decrypt c ?keys body = Ok request
        \<and> next_run request w = ((jr_status resp, Ok answer), w1)
        \<and> (\<forall>pair client. jw_ok c pair \<longrightarrow> pair priv (jw_public_key client) \<longrightarrow>
             pair (jw_private_key client) pub \<longrightarrow> decryption_algo client = RSA_OAEP \<longrightarrow>
             from_utf8 answer \<noteq> None \<longrightarrow> JWEncryption_decrypt c client (jr_body resp) = Ok answer)"
    if ok: "middleware c priv pub next_run body w = (Ok resp, w')" for resp w'
  proof -
    from ok obtain request status answer w1 jwe w2 where
        "JWEncryption_decrypt c ?keys body = Ok request" "next_run request w = ((status, Ok answer), w1)"
        "JWEncryption_encrypt c ?keys answer w1 = (Ok jwe, w2)" "jr_status resp = status" "jr_body resp = jwe"
      by (auto simp: middleware_def Let_def io_lift_def io_of_def io_ret_def elim!: io_bind_Ok_E
          split: prod.splits)
    then show ?thesis using jwe_roundtrip [of c _ ?keys _ answer w1 jwe w2] by auto
  qed
  moreover have "JWEncryption_decrypt c ?keys body = Err e \<Longrightarrow>
      middleware c priv pub next_run body w = (Err (ApiError_from_CryptoError e), w)" for e
    by (simp add: middleware_def Let_def io_defs)
  ultimately show ?thesis by blast
qed

theorem middleware_gate_witness:
  "\<exists>body resp. middleware (example_crypto :: unit CryptoLibs) ''k'' ''k'' (\<lambda>r w. ((200, Ok r), w)) body () = (Ok resp, ())
     \<and> jr_status resp = 200 \<and> JWEncryption_decrypt (example_crypto :: unit CryptoLibs) example_keys (jr_body resp) = Ok (into_bytes ''hi'')"
proof -
  let ?client = "example_keys\<lparr> encryption_algo := RSA_OAEP_256 \<rparr>"
  let ?keys = "\<lparr> jw_private_key = ''k'', jw_public_key = ''k'', encryption_algo = RSA_OAEP, decryption_algo = RSA_OAEP_256 \<rparr>"
  have u: "from_utf8 (into_bytes ''hi'') \<noteq> None" by code_simp
  obtain body where b: "JWEncryption_encrypt (example_crypto :: unit CryptoLibs) ?client (into_bytes ''hi'') () = (Ok body, ())"
    using example_jwe_encrypt [of "example_keys\<lparr> encryption_algo := RSA_OAEP_256 \<rparr>" "into_bytes ''hi''" "()"] by blast
  have d: "JWEncryption_decrypt (example_crypto :: unit CryptoLibs) ?keys body = Ok (into_bytes ''hi'')"
    by (rule jwe_roundtrip [OF example_jw_ok _ _ _ u b]) (simp_all add: example_keys_def)
  obtain jwe where e: "JWEncryption_encrypt (example_crypto :: unit CryptoLibs) ?keys (into_bytes ''hi'') () = (Ok jwe, ())"
    using example_jwe_encrypt [of "\<lparr> jw_private_key = ''k'', jw_public_key = ''k'', encryption_algo = RSA_OAEP, decryption_algo = RSA_OAEP_256 \<rparr>" "into_bytes ''hi''" "()"] by blast
  let ?resp = "\<lparr> jr_status = 200, jr_headers = [(''content-type'', ''application/json'')], jr_body = jwe \<rparr>"
  let ?next = "\<lambda>r (w :: unit). ((200 :: nat, Ok r :: (bytes, string) result), w)"
  have m: "middleware (example_crypto :: unit CryptoLibs) ''k'' ''k'' ?next body () = (Ok ?resp, ())"
    using d e by (simp add: middleware_def Let_def io_defs)
  have "JWEncryption_decrypt (example_crypto :: unit CryptoLibs) example_keys (jr_body ?resp) = Ok (into_bytes ''hi'')"
    using middleware_gate [where c = "(example_crypto :: unit CryptoLibs)" and priv = "''k''" and pub = "''k''" and body = body
        and next_run = ?next and w = "()"] m d example_jw_ok u
    by (auto simp: example_keys_def)
  with m show ?thesis by (intro exI [of _ body] exI [of _ ?resp]) simp
qed

end
