(* ===== verification/StorageDb.thy ===== *)
theory StorageDb
  imports KvResources Crypto
begin

text \<open>
  The interfaces of the store: \<open>src/src/storage/db.rs\<close> and \<open>storage/storage_v2/db.rs\<close>.  Each
  trait method of \<open>Storage\<close> is one definition here, of the build with the \<open>kv\<close> feature; the
  suffix \<open>_plain\<close> marks the body of the build without it.
\<close>

section \<open>Merchants\<close>

text \<open>The merchant's data key is stored encrypted under the master key \<open>key\<close>.\<close>

definition MerchantInner_decrypt :: "'w CryptoLibs \<Rightarrow> bytes \<Rightarrow> MerchantInner \<Rightarrow> (Merchant, CryptoError) result" where
  "MerchantInner_decrypt c key self =
     res_bind (GcmAes256_decrypt c key (into_inner (mi_enc_key self))) (\<lambda>enc_key.
     Ok \<lparr> m_merchant_id = mi_merchant_id self, m_enc_key = enc_key, m_created_at = mi_created_at self \<rparr>)"

definition MerchantNew_encrypt ::
    "'w CryptoLibs \<Rightarrow> bytes \<Rightarrow> MerchantNew \<Rightarrow> ('w, MerchantNewInner, CryptoError) io" where
  "MerchantNew_encrypt c key self =
     io_bind (GcmAes256_encrypt c key (mn_enc_key self)) (\<lambda>enc_key.
     io_ret \<lparr> mni_merchant_id = mn_merchant_id self, mni_enc_key = Encrypted_new enc_key \<rparr>)"

definition find_by_merchant_id ::
    "'w CryptoLibs \<Rightarrow> 'w Storage \<Rightarrow> string \<Rightarrow> bytes \<Rightarrow> ('w, Merchant, MerchantDBError) io" where
  "find_by_merchant_id c self merchant_id key =
     io_bind (on_conn (route_conn self) MerchantDBError_from_StorageError MerchantDBError_from_diesel
       (\<lambda>conn. pg_merchant_find conn merchant_id)) (\<lambda>inner.
     io_lift (res_map_err MerchantDBError_from_CryptoError (MerchantInner_decrypt c key inner)))"

definition insert_merchant ::
    "'w CryptoLibs \<Rightarrow> 'w Storage \<Rightarrow> MerchantNew \<Rightarrow> bytes \<Rightarrow> ('w, Merchant, MerchantDBError) io" where
  "insert_merchant c self new key =
     io_bind (io_map_err MerchantDBError_from_StorageError (get_conn self)) (\<lambda>(conn, pool).
     io_bind (io_map_err MerchantDBError_from_CryptoError (MerchantNew_encrypt c key new)) (\<lambda>values.
     io_bind (io_map_err MerchantDBError_from_diesel (pg_merchant_insert conn values)) (\<lambda>inner.
     io_lift (res_map_err MerchantDBError_from_CryptoError (MerchantInner_decrypt c key inner)))))"

definition find_all_keys_excluding_entity_keys ::
    "'w CryptoLibs \<Rightarrow> 'w Storage \<Rightarrow> bytes \<Rightarrow> int \<Rightarrow> ('w, Merchant list, MerchantDBError) io" where
  "find_all_keys_excluding_entity_keys c self key max_rows =
     io_bind (on_conn (route_conn self) MerchantDBError_from_StorageError
       (\<lambda>_. MerchantDBError_from_StorageError StorageError.FindError)
       (\<lambda>conn. pg_merchants_without_entity conn max_rows)) (\<lambda>result.
     io_lift (res_traverse (\<lambda>inner.
       res_map_err (\<lambda>_. MerchantDBError.DEKDecryptionError) (MerchantInner_decrypt c key inner)) result))"

section \<open>Reverse lookups\<close>

definition find_by_lookup_id :: "'w Storage \<Rightarrow> string \<Rightarrow> ('w, ReverseLookup, ReverseLookupDBError) io" where
  "find_by_lookup_id self lookup_id = find_resource_by_id ReverseLookup_kv self \<lparr> rlpk_lookup_id = lookup_id \<rparr>"

definition insert_reverse_lookup ::
    "'w Storage \<Rightarrow> ReverseLookupNew \<Rightarrow> ('w, ReverseLookup, ReverseLookupDBError) io" where
  "insert_reverse_lookup self new =
     insert_resource ReverseLookup_kv self new (PartitionKey.ReverseLookup (rln_lookup_id new))"

definition delete_reverse_lookup :: "'w Storage \<Rightarrow> string \<Rightarrow> ('w, nat, ReverseLookupDBError) io" where
  "delete_reverse_lookup self lookup_id =
     delete_resource_by_id ReverseLookup_kv ReverseLookup_kv_delete self \<lparr> rlpk_lookup_id = lookup_id \<rparr>"

section \<open>Lockers\<close>

definition insert_locker :: "'w Storage \<Rightarrow> LockerNew \<Rightarrow> ('w, Locker, VaultDBError) io" where
  "insert_locker self new =
     insert_resource_with_reverse_lookup Locker_kv Locker_kv_lookup (insert_reverse_lookup self) self new
       (PartitionKey.Locker (ln_merchant_id new) (ln_customer_id new) (ln_locker_id new))"

definition find_by_locker_id_merchant_id_customer_id ::
    "'w Storage \<Rightarrow> string \<Rightarrow> string \<Rightarrow> string \<Rightarrow> ('w, Locker, VaultDBError) io" where
  "find_by_locker_id_merchant_id_customer_id self locker_id merchant_id customer_id =
     find_resource_by_id Locker_kv self
       \<lparr> lpk_locker_id = locker_id, lpk_merchant_id = merchant_id, lpk_customer_id = customer_id \<rparr>"

definition find_optional_by_hash_id_merchant_id_customer_id ::
    "'w Storage \<Rightarrow> string \<Rightarrow> string \<Rightarrow> string \<Rightarrow> ('w, Locker option, VaultDBError) io" where
  "find_optional_by_hash_id_merchant_id_customer_id self hash_id merchant_id customer_id =
     find_optional_resource_by_lookup_id Locker_kv Locker_kv_lookup (find_by_lookup_id self) self
       \<lparr> lhk_hash_id = hash_id, lhk_merchant_id = merchant_id, lhk_customer_id = customer_id \<rparr>"

definition delete_locker :: "'w Storage \<Rightarrow> string \<Rightarrow> string \<Rightarrow> string \<Rightarrow> ('w, nat, VaultDBError) io" where
  "delete_locker self locker_id merchant_id customer_id =
     delete_resource_by_id_with_reverse_lookup Locker_kv Locker_kv_delete
       Locker_get_reverse_lookup_key_from_resource (delete_reverse_lookup self) self
       \<lparr> lpk_locker_id = locker_id, lpk_merchant_id = merchant_id, lpk_customer_id = customer_id \<rparr>"

section \<open>Hashes\<close>

definition generate_uuid :: "'w Globals \<Rightarrow> 'w \<Rightarrow> string \<times> 'w" where
  "generate_uuid g = uuid_now_v7 g"

definition find_optional_by_data_hash :: "'w Storage \<Rightarrow> bytes \<Rightarrow> ('w, HashTable option, HashDBError) io" where
  "find_optional_by_data_hash self data_hash =
     find_optional_resource_by_id HashTable_kv self \<lparr> htpk_data_hash = data_hash \<rparr>"

definition insert_hash :: "'w Storage \<Rightarrow> bytes \<Rightarrow> ('w, HashTable, HashDBError) io" where
  "insert_hash self data_hash =
     io_bind (io_of (generate_uuid (globals self))) (\<lambda>hash_id.
     io_bind (io_of (date_time_now (globals self))) (\<lambda>created_at.
     insert_resource HashTable_kv self
       \<lparr> htn_hash_id = hash_id, htn_data_hash = data_hash, htn_created_at = created_at,
         htn_updated_by = Some PostgresOnly \<rparr>
       (PartitionKey.HashTable data_hash)))"

section \<open>Fingerprints\<close>

definition find_optional_by_fingerprint_hash ::
    "'w Storage \<Rightarrow> bytes \<Rightarrow> ('w, Fingerprint option, FingerprintDBError) io" where
  "find_optional_by_fingerprint_hash self fingerprint_hash =
     find_optional_resource_by_id Fingerprint_kv self \<lparr> fpk_fingerprint_hash = fingerprint_hash \<rparr>"

definition insert_fingerprint ::
    "'w Storage \<Rightarrow> bytes \<Rightarrow> string \<Rightarrow> ('w, Fingerprint, FingerprintDBError) io" where
  "insert_fingerprint self fingerprint_hash fingerprint_id =
     insert_resource Fingerprint_kv self
       \<lparr> fpn_fingerprint_hash = fingerprint_hash, fpn_fingerprint_id = fingerprint_id,
         fpn_updated_by = Some PostgresOnly \<rparr>
       (PartitionKey.Fingerprint fingerprint_hash)"

section \<open>Entities\<close>

definition find_by_entity_id :: "'w Storage \<Rightarrow> string \<Rightarrow> ('w, Entity, EntityDBError) io" where
  "find_by_entity_id self entity_id =
     on_conn (route_conn self) EntityDBError_from_StorageError EntityDBError_from_diesel
       (\<lambda>conn. pg_entity_find conn entity_id)"

definition insert_entity :: "'w Storage \<Rightarrow> string \<Rightarrow> string \<Rightarrow> ('w, Entity, EntityDBError) io" where
  "insert_entity self entity_id identifier =
     on_conn (get_conn self) EntityDBError_from_StorageError EntityDBError_from_diesel
       (\<lambda>conn. pg_entity_insert conn \<lparr> enn_entity_id = entity_id, enn_enc_key_id = identifier \<rparr>)"

section \<open>The vault (storage_v2/db.rs)\<close>

definition insert_vault :: "'w Storage \<Rightarrow> VaultNew \<Rightarrow> ('w, Vault, VaultDBError) io" where
  "insert_vault self new =
     insert_resource Vault_kv self (VaultNewInner_from_VaultNew new)
       (PartitionKey.Vault (vn_entity_id new) (vn_vault_id new))"

definition find_by_vault_id_entity_id :: "'w Storage \<Rightarrow> string \<Rightarrow> string \<Rightarrow> ('w, Vault, VaultDBError) io" where
  "find_by_vault_id_entity_id self vault_id entity_id =
     io_bind (find_optional_resource_by_id Vault_kv self
       \<lparr> vpk_entity_id = entity_id, vpk_vault_id = vault_id \<rparr>) (\<lambda>vault.
     io_lift (ok_or VaultDBError.NotFoundError vault))"

definition update_vault_data ::
    "'w Storage \<Rightarrow> string \<Rightarrow> string \<Rightarrow> VaultUpdate \<Rightarrow> ('w, Vault, VaultDBError) io" where
  "update_vault_data self vault_id entity_id update =
     update_resource_by_id Vault_kv Vault_kv_update self update
       \<lparr> vpk_entity_id = entity_id, vpk_vault_id = vault_id \<rparr>"

definition delete_from_vault :: "'w Storage \<Rightarrow> string \<Rightarrow> string \<Rightarrow> ('w, nat, VaultDBError) io" where
  "delete_from_vault self vault_id entity_id =
     delete_resource_by_id Vault_kv Vault_kv_delete self
       \<lparr> vpk_entity_id = entity_id, vpk_vault_id = vault_id \<rparr>"

section \<open>The self test\<close>

text \<open>
  The transaction of \<open>test\<close> is never committed; what the library answers is thrown away.
\<close>

definition test_queries :: "'w Storage \<Rightarrow> 'w PgConn \<Rightarrow> ('w, unit, TestDBError) io" where
  "test_queries self x =
     io_bind (io_map_err (\<lambda>_. TestDBError_from_StorageError StorageError.FindError)
       (pg_select_one_plus_one x)) (\<lambda>_.
     io_bind (io_of (date_time_now (globals self))) (\<lambda>created_at.
     io_bind (io_map_err (\<lambda>_. TestDBError_from_StorageError StorageError.InsertError)
       (pg_hash_table_insert_count x
         \<lparr> htn_hash_id = ''test'', htn_data_hash = into_bytes ''0'', htn_created_at = created_at,
           htn_updated_by = Some PostgresOnly \<rparr>)) (\<lambda>_.
     io_bind (io_map_err (\<lambda>_. TestDBError_from_StorageError StorageError.DeleteError)
       (pg_hash_table_delete_by_hash_id x ''test'')) (\<lambda>_.
     io_ret ()))))"

definition Storage_test :: "'w Storage \<Rightarrow> ('w, unit, TestDBError) io" where
  "Storage_test self =
     io_bind (io_map_err TestDBError_from_StorageError (get_conn self)) (\<lambda>(conn, pool).
     io_discard (\<lambda>w. pg_test_transaction conn (test_queries self conn) w))"

definition Storage_test_replica :: "'w Storage \<Rightarrow> ('w, unit, TestDBError) io" where
  "Storage_test_replica self =
     io_bind (io_map_err TestDBError_from_StorageError (get_replica_conn self)) (\<lambda>(conn, pool).
     io_bind (io_map_err (\<lambda>_. TestDBError_from_StorageError StorageError.FindError)
       (pg_select_one_plus_one conn)) (\<lambda>_. io_ret ()))"

section \<open>The build without the KV feature\<close>

definition insert_locker_plain :: "'w Storage \<Rightarrow> LockerNew \<Rightarrow> ('w, Locker, VaultDBError) io" where
  "insert_locker_plain self new =
     io_map Locker_from_LockerInner
       (on_conn (get_conn self) VaultDBError_from_StorageError VaultDBError_from_diesel
         (\<lambda>conn. pg_locker_insert conn new))"

definition find_by_locker_id_merchant_id_customer_id_plain ::
    "'w Storage \<Rightarrow> string \<Rightarrow> string \<Rightarrow> string \<Rightarrow> ('w, Locker, VaultDBError) io" where
  "find_by_locker_id_merchant_id_customer_id_plain self locker_id merchant_id customer_id =
     io_map Locker_from_LockerInner
       (on_conn (get_conn self) VaultDBError_from_StorageError VaultDBError_from_diesel
         (\<lambda>conn. pg_locker_find conn
           \<lparr> lpk_locker_id = locker_id, lpk_merchant_id = merchant_id, lpk_customer_id = customer_id \<rparr>))"

text \<open>\<open>get_result().await.optional()\<close>: a missing row is \<open>Ok(None)\<close>.\<close>

definition diesel_optional :: "('w, 'a, DieselError) io \<Rightarrow> ('w, 'a option, DieselError) io" where
  "diesel_optional query =
     io_try query (\<lambda>x. io_ret (Some x)) (\<lambda>e. if e = DieselError.NotFound then io_ret None else io_err e)"

definition find_optional_by_hash_id_merchant_id_customer_id_plain ::
    "'w Storage \<Rightarrow> string \<Rightarrow> string \<Rightarrow> string \<Rightarrow> ('w, Locker option, VaultDBError) io" where
  "find_optional_by_hash_id_merchant_id_customer_id_plain self hash_id merchant_id customer_id =
     io_map (map_option Locker_from_LockerInner)
       (on_conn (get_conn self) VaultDBError_from_StorageError VaultDBError_from_diesel
         (\<lambda>conn. diesel_optional (pg_locker_find_by_hash conn
           \<lparr> lhk_hash_id = hash_id, lhk_merchant_id = merchant_id, lhk_customer_id = customer_id \<rparr>)))"

definition delete_locker_plain :: "'w Storage \<Rightarrow> string \<Rightarrow> string \<Rightarrow> string \<Rightarrow> ('w, nat, VaultDBError) io" where
  "delete_locker_plain self locker_id merchant_id customer_id =
     on_conn (get_conn self) VaultDBError_from_StorageError VaultDBError_from_diesel
       (\<lambda>conn. pg_locker_delete conn
         \<lparr> lpk_locker_id = locker_id, lpk_merchant_id = merchant_id, lpk_customer_id = customer_id \<rparr>)"

definition find_optional_by_data_hash_plain :: "'w Storage \<Rightarrow> bytes \<Rightarrow> ('w, HashTable option, HashDBError) io" where
  "find_optional_by_data_hash_plain self data_hash =
     on_conn (get_conn self) HashDBError_from_StorageError HashDBError_from_diesel
       (\<lambda>conn. diesel_optional (pg_hash_table_find conn \<lparr> htpk_data_hash = data_hash \<rparr>))"

text \<open>Here the connection comes first, then the id and the time.\<close>

definition insert_hash_plain :: "'w Storage \<Rightarrow> bytes \<Rightarrow> ('w, HashTable, HashDBError) io" where
  "insert_hash_plain self data_hash =
     io_bind (io_map_err HashDBError_from_StorageError (get_conn self)) (\<lambda>(conn, pool).
     io_bind (io_of (generate_uuid (globals self))) (\<lambda>hash_id.
     io_bind (io_of (date_time_now (globals self))) (\<lambda>created_at.
     io_map_err HashDBError_from_diesel (pg_hash_table_insert conn
       \<lparr> htn_hash_id = hash_id, htn_data_hash = data_hash, htn_created_at = created_at,
         htn_updated_by = Some PostgresOnly \<rparr>))))"

definition find_optional_by_fingerprint_hash_plain ::
    "'w Storage \<Rightarrow> bytes \<Rightarrow> ('w, Fingerprint option, FingerprintDBError) io" where
  "find_optional_by_fingerprint_hash_plain self fingerprint_hash =
     on_conn (get_conn self) FingerprintDBError_from_StorageError FingerprintDBError_from_diesel
       (\<lambda>conn. diesel_optional (pg_fingerprint_find conn \<lparr> fpk_fingerprint_hash = fingerprint_hash \<rparr>))"

definition insert_fingerprint_plain ::
    "'w Storage \<Rightarrow> bytes \<Rightarrow> string \<Rightarrow> ('w, Fingerprint, FingerprintDBError) io" where
  "insert_fingerprint_plain self fingerprint_hash fingerprint_id =
     on_conn (get_conn self) FingerprintDBError_from_StorageError FingerprintDBError_from_diesel
       (\<lambda>conn. pg_fingerprint_insert conn
         \<lparr> fpn_fingerprint_hash = fingerprint_hash, fpn_fingerprint_id = fingerprint_id,
           fpn_updated_by = Some PostgresOnly \<rparr>)"

definition find_by_vault_id_entity_id_plain :: "'w Storage \<Rightarrow> string \<Rightarrow> string \<Rightarrow> ('w, Vault, VaultDBError) io" where
  "find_by_vault_id_entity_id_plain self vault_id entity_id =
     io_map Vault_from_VaultInner
       (on_conn (get_conn self) VaultDBError_from_StorageError VaultDBError_from_diesel
         (\<lambda>conn. pg_vault_find conn \<lparr> vpk_entity_id = entity_id, vpk_vault_id = vault_id \<rparr>))"

definition update_vault_data_plain ::
    "'w Storage \<Rightarrow> string \<Rightarrow> string \<Rightarrow> VaultUpdate \<Rightarrow> ('w, Vault, VaultDBError) io" where
  "update_vault_data_plain self vault_id entity_id update =
     io_map Vault_from_VaultInner
       (on_conn (get_conn self) VaultDBError_from_StorageError VaultDBError_from_diesel
         (\<lambda>conn. pg_vault_update conn \<lparr> vpk_entity_id = entity_id, vpk_vault_id = vault_id \<rparr> update))"

definition delete_from_vault_plain :: "'w Storage \<Rightarrow> string \<Rightarrow> string \<Rightarrow> ('w, nat, VaultDBError) io" where
  "delete_from_vault_plain self vault_id entity_id =
     on_conn (get_conn self) VaultDBError_from_StorageError VaultDBError_from_diesel
       (\<lambda>conn. pg_vault_delete conn \<lparr> vpk_entity_id = entity_id, vpk_vault_id = vault_id \<rparr>)"

end
