(* ===== verification/Caching.thy ===== *)
theory Caching
  imports StorageDb
begin

text \<open>
  The caching layer, \<open>src/src/storage/caching.rs\<close> and \<open>storage/caching/\<close>: a \<open>Caching\<close> wraps
  the store and answers the reads of four tables from a cache of found rows.  A cache is
  a parameter with two operations; it may drop any entry at any time (capacity, idle time).
\<close>

section \<open>The wrapper\<close>

record ('w, 'k, 'v) MokaCache =
  cache_get :: "'k \<Rightarrow> 'w \<Rightarrow> 'v option \<times> 'w"
  cache_insert :: "'k \<Rightarrow> 'v \<Rightarrow> 'w \<Rightarrow> 'w"

record 'w Caching =
  inner :: "'w Storage"
  merchant_cache :: "('w, string, Merchant) MokaCache"
  hash_table_cache :: "('w, bytes, HashTable) MokaCache"
  fingerprint_cache :: "('w, bytes, Fingerprint) MokaCache"
  entity_cache :: "('w, string, Entity) MokaCache"

text \<open>\<open>build name max_capacity tti\<close> is the cache the library builds from the settings.\<close>

definition new_cache :: "(string \<Rightarrow> nat \<Rightarrow> nat option \<Rightarrow> 'c) \<Rightarrow> Config.Cache \<Rightarrow> string \<Rightarrow> 'c" where
  "new_cache build config name = build name (max_capacity config) (tti config)"

record 'w CacheBuilders =
  build_merchant :: "string \<Rightarrow> nat \<Rightarrow> nat option \<Rightarrow> ('w, string, Merchant) MokaCache"
  build_hash_table :: "string \<Rightarrow> nat \<Rightarrow> nat option \<Rightarrow> ('w, bytes, HashTable) MokaCache"
  build_fingerprint :: "string \<Rightarrow> nat \<Rightarrow> nat option \<Rightarrow> ('w, bytes, Fingerprint) MokaCache"
  build_entity :: "string \<Rightarrow> nat \<Rightarrow> nat option \<Rightarrow> ('w, string, Entity) MokaCache"

definition implement_cache :: "'w CacheBuilders \<Rightarrow> Config.Cache \<Rightarrow> 'w Storage \<Rightarrow> 'w Caching" where
  "implement_cache b config store =
     \<lparr> inner = store,
       merchant_cache = new_cache (build_merchant b) config ''merchant'',
       hash_table_cache = new_cache (build_hash_table b) config ''hash_table'',
       fingerprint_cache = new_cache (build_fingerprint b) config ''fingerprint'',
       entity_cache = new_cache (build_entity b) config ''entity'' \<rparr>"

definition lookup :: "('w, 'k, 'v) MokaCache \<Rightarrow> 'k \<Rightarrow> ('w, 'v option, 'e) io" where
  "lookup c key = io_of (cache_get c key)"

definition cache_data :: "('w, 'k, 'v) MokaCache \<Rightarrow> 'k \<Rightarrow> 'v \<Rightarrow> ('w, unit, 'e) io" where
  "cache_data c key value = (\<lambda>w. (Ok (), cache_insert c key value w))"

section \<open>Merchants (caching/merchant.rs)\<close>

definition Caching_find_by_merchant_id ::
    "'w CryptoLibs \<Rightarrow> 'w Caching \<Rightarrow> string \<Rightarrow> bytes \<Rightarrow> ('w, Merchant, MerchantDBError) io" where
  "Caching_find_by_merchant_id c self merchant_id key =
     io_bind (lookup (merchant_cache self) merchant_id) (\<lambda>cached. case cached of
       Some value \<Rightarrow> io_ret value
     | None \<Rightarrow>
         io_bind (find_by_merchant_id c (inner self) merchant_id key) (\<lambda>merchant.
         io_bind (cache_data (merchant_cache self) merchant_id merchant) (\<lambda>_. io_ret merchant)))"

definition Caching_insert_merchant ::
    "'w CryptoLibs \<Rightarrow> 'w Caching \<Rightarrow> MerchantNew \<Rightarrow> bytes \<Rightarrow> ('w, Merchant, MerchantDBError) io" where
  "Caching_insert_merchant c self new key =
     (let merchant_id = mn_merchant_id new in
      io_bind (insert_merchant c (inner self) new key) (\<lambda>merchant.
      io_bind (cache_data (merchant_cache self) merchant_id merchant) (\<lambda>_. io_ret merchant)))"

definition Caching_find_all_keys_excluding_entity_keys ::
    "'w CryptoLibs \<Rightarrow> 'w Caching \<Rightarrow> bytes \<Rightarrow> int \<Rightarrow> ('w, Merchant list, MerchantDBError) io" where
  "Caching_find_all_keys_excluding_entity_keys c self key max_rows =
     find_all_keys_excluding_entity_keys c (inner self) key max_rows"

section \<open>Hashes (caching/hash_table.rs)\<close>

definition Caching_find_optional_by_data_hash ::
    "'w Caching \<Rightarrow> bytes \<Rightarrow> ('w, HashTable option, HashDBError) io" where
  "Caching_find_optional_by_data_hash self data_hash =
     io_bind (lookup (hash_table_cache self) data_hash) (\<lambda>cached. case cached of
       Some value \<Rightarrow> io_ret (Some value)
     | None \<Rightarrow>
         io_bind (find_optional_by_data_hash (inner self) data_hash) (\<lambda>found. case found of
           None \<Rightarrow> io_ret None
         | Some value \<Rightarrow>
             io_bind (cache_data (hash_table_cache self) data_hash value) (\<lambda>_. io_ret (Some value))))"

definition Caching_insert_hash :: "'w Caching \<Rightarrow> bytes \<Rightarrow> ('w, HashTable, HashDBError) io" where
  "Caching_insert_hash self data_hash =
     io_bind (insert_hash (inner self) data_hash) (\<lambda>row.
     io_bind (cache_data (hash_table_cache self) data_hash row) (\<lambda>_. io_ret row))"

section \<open>Fingerprints (caching/fingerprint.rs)\<close>

definition Caching_find_optional_by_fingerprint_hash ::
    "'w Caching \<Rightarrow> bytes \<Rightarrow> ('w, Fingerprint option, FingerprintDBError) io" where
  "Caching_find_optional_by_fingerprint_hash self fingerprint_hash =
     io_bind (lookup (fingerprint_cache self) fingerprint_hash) (\<lambda>cached. case cached of
       Some value \<Rightarrow> io_ret (Some value)
     | None \<Rightarrow>
         io_bind (find_optional_by_fingerprint_hash (inner self) fingerprint_hash) (\<lambda>found.
         io_bind (case found of
             Some fingerprint \<Rightarrow> cache_data (fingerprint_cache self) fingerprint_hash fingerprint
           | None \<Rightarrow> io_ret ()) (\<lambda>_.
         io_ret found)))"

definition Caching_insert_fingerprint ::
    "'w Caching \<Rightarrow> bytes \<Rightarrow> string \<Rightarrow> ('w, Fingerprint, FingerprintDBError) io" where
  "Caching_insert_fingerprint self fingerprint_hash fingerprint_id =
     io_bind (insert_fingerprint (inner self) fingerprint_hash fingerprint_id) (\<lambda>row.
     io_bind (cache_data (fingerprint_cache self) (fp_fingerprint_hash row) row) (\<lambda>_. io_ret row))"

section \<open>Entities (caching/entity.rs)\<close>

definition Caching_find_by_entity_id :: "'w Caching \<Rightarrow> string \<Rightarrow> ('w, Entity, EntityDBError) io" where
  "Caching_find_by_entity_id self entity_id =
     io_bind (lookup (entity_cache self) entity_id) (\<lambda>cached. case cached of
       Some value \<Rightarrow> io_ret value
     | None \<Rightarrow>
         io_bind (find_by_entity_id (inner self) entity_id) (\<lambda>row.
         io_bind (cache_data (entity_cache self) (en_entity_id row) row) (\<lambda>_. io_ret row)))"

definition Caching_insert_entity :: "'w Caching \<Rightarrow> string \<Rightarrow> string \<Rightarrow> ('w, Entity, EntityDBError) io" where
  "Caching_insert_entity self entity_id identifier =
     io_bind (insert_entity (inner self) entity_id identifier) (\<lambda>row.
     io_bind (cache_data (entity_cache self) entity_id row) (\<lambda>_. io_ret row))"

end
