(* ===== verification/Domain.thy ===== *)
theory Domain
  imports Caching
begin

text \<open>
  The domain layer, \<open>src/src/domain/\<close>: the read-or-insert compositions over the store, and the
  state of a tenant they run in (\<open>TenantAppState\<close> of \<open>src/src/app.rs\<close>).
  \<open>record_get_or_insert_outcome\<close> is kept as a step of the state, because which outcome is
  counted is part of what these functions do.
\<close>

section \<open>The state of a tenant\<close>

datatype Resource =
    Resource_Locker | Resource_Vault | Resource_HashTable | Resource_Fingerprint | Resource_Merchant | Resource_Entity

datatype DomainGetOrInsertOutcome =
    Created | FoundExisting | FoundExistingAfterDuplicateInsert | Updated | Outcome_Error

datatype Method = Get | Post

text \<open>
  \<open>http_send\<close> sends a request whose headers were accepted and answers a status and the body;
  the JSON codecs of the key manager's messages are added in \<open>KeyManager\<close>.
\<close>

record 'w ApiClient =
  url_parse_ok :: "string \<Rightarrow> bool"
  header_name_parse_ok :: "string \<Rightarrow> bool"
  header_value_parse_ok :: "string \<Rightarrow> bool"
  http_send :: "Method \<Rightarrow> string \<Rightarrow> (string \<times> string) list \<Rightarrow> string option \<Rightarrow> ('w, nat \<times> (bytes, string) result, string) io"

text \<open>The key-value commands of the Redis crate that the health check uses, and its probe (storage/redis.rs).\<close>

record 'w RedisStore =
  set_key_with_expiry :: "string \<Rightarrow> string \<Rightarrow> int \<Rightarrow> ('w, unit, RedisError) io"
  get_key :: "string \<Rightarrow> ('w, string, RedisError) io"
  delete_key :: "string \<Rightarrow> ('w, unit, RedisError) io"
  redis_conn :: "'w RedisPool"

definition REDIS_HEALTH_CHECK_KEY :: string where "REDIS_HEALTH_CHECK_KEY = ''health_check_redis''"

definition REDIS_HEALTH_CHECK_VALUE :: string where "REDIS_HEALTH_CHECK_VALUE = ''1''"

definition REDIS_HEALTH_CHECK_EXPIRY :: int where "REDIS_HEALTH_CHECK_EXPIRY = 5"

definition RedisStore_test :: "'w RedisStore \<Rightarrow> ('w, unit, RedisError) io" where
  "RedisStore_test self =
     (let key = REDIS_HEALTH_CHECK_KEY in
      io_bind (set_key_with_expiry self key REDIS_HEALTH_CHECK_VALUE REDIS_HEALTH_CHECK_EXPIRY) (\<lambda>_.
      io_bind (get_key self key) (\<lambda>value.
      if value \<noteq> REDIS_HEALTH_CHECK_VALUE then io_err UnknownResult
      else io_bind (delete_key self key) (\<lambda>_. io_ret ()))))"

record 'w TenantAppState =
  ts_db :: "'w Caching"
  ts_config :: TenantConfig
  ts_api_client :: "'w ApiClient"
  ts_redis :: "'w RedisStore option"
  ts_crypto :: "'w CryptoLibs"
  ts_record_outcome :: "Resource \<Rightarrow> DomainGetOrInsertOutcome \<Rightarrow> 'w \<Rightarrow> 'w"

definition ts_globals :: "'w TenantAppState \<Rightarrow> 'w Globals" where
  "ts_globals state = globals (inner (ts_db state))"

definition record_get_or_insert_outcome ::
    "'w TenantAppState \<Rightarrow> Resource \<Rightarrow> DomainGetOrInsertOutcome \<Rightarrow> ('w, unit, 'e) io" where
  "record_get_or_insert_outcome state resource outcome =
     (\<lambda>w. (Ok (), ts_record_outcome state resource outcome w))"

text \<open>Record an outcome, then answer.\<close>

definition answer_with ::
    "'w TenantAppState \<Rightarrow> Resource \<Rightarrow> DomainGetOrInsertOutcome \<Rightarrow> ('a, 'e) result \<Rightarrow> ('w, 'a, 'e) io" where
  "answer_with state resource outcome r =
     io_bind (record_get_or_insert_outcome state resource outcome) (\<lambda>_. io_lift r)"

section \<open>Identifiers (storage/utils.rs, storage/consts.rs)\<close>

definition ALPHABETS :: string where
  "ALPHABETS = ''0123456789abcdefghijklmnopqrstuvwxyzABCDEFGHIJKLMNOPQRSTUVWXYZ''"

definition ID_LENGTH :: nat where "ID_LENGTH = 20"

definition generate_nano_id :: "'w Globals \<Rightarrow> nat \<Rightarrow> 'w \<Rightarrow> string \<times> 'w" where
  "generate_nano_id g id_length = nanoid g id_length ALPHABETS"

section \<open>Fingerprints (domain/fingerprint.rs)\<close>

definition fingerprint_get_or_insert ::
    "'w TenantAppState \<Rightarrow> string \<Rightarrow> string \<Rightarrow> string option \<Rightarrow> ('w, Fingerprint, FingerprintDBError) io" where
  "fingerprint_get_or_insert state d key fingerprint_id =
     io_bind (io_lift (res_map_err FingerprintDBError_from_CryptoError
       (HmacSha512_encode (ts_crypto state) 1 (into_bytes key) (into_bytes d)))) (\<lambda>fingerprint_hash.
     io_bind (Caching_find_optional_by_fingerprint_hash (ts_db state) fingerprint_hash) (\<lambda>found. case found of
       Some fingerprint \<Rightarrow> answer_with state Resource_Fingerprint FoundExisting (Ok fingerprint)
     | None \<Rightarrow>
         io_bind (case fingerprint_id of
             Some supplied \<Rightarrow> io_ret supplied
           | None \<Rightarrow> io_of (generate_nano_id (ts_globals state) ID_LENGTH)) (\<lambda>new_id.
         io_try (Caching_insert_fingerprint (ts_db state) fingerprint_hash new_id)
           (\<lambda>fingerprint. answer_with state Resource_Fingerprint Created (Ok fingerprint))
           (\<lambda>err.
              if FingerprintDBError_is_duplicate err then
                io_try (Caching_find_optional_by_fingerprint_hash (ts_db state) fingerprint_hash)
                  (\<lambda>again. case again of
                     Some fingerprint \<Rightarrow>
                       answer_with state Resource_Fingerprint FoundExistingAfterDuplicateInsert (Ok fingerprint)
                   | None \<Rightarrow> answer_with state Resource_Fingerprint Outcome_Error
                       (Err FingerprintDBError.DBInsertError))
                  (\<lambda>err. answer_with state Resource_Fingerprint Outcome_Error (Err err))
              else answer_with state Resource_Fingerprint Outcome_Error (Err err)))))"

section \<open>Hashes (domain/hash.rs)\<close>

definition hash_insert_or_get :: "'w TenantAppState \<Rightarrow> bytes \<Rightarrow> ('w, HashTable, HashDBError) io" where
  "hash_insert_or_get state data_hash =
     io_try (Caching_insert_hash (ts_db state) data_hash)
       (\<lambda>hash. answer_with state Resource_HashTable Created (Ok hash))
       (\<lambda>err.
          if HashDBError_is_duplicate err then
            io_try (Caching_find_optional_by_data_hash (ts_db state) data_hash)
              (\<lambda>again. case again of
                 Some hash \<Rightarrow> answer_with state Resource_HashTable FoundExistingAfterDuplicateInsert (Ok hash)
               | None \<Rightarrow> answer_with state Resource_HashTable Outcome_Error (Err HashDBError.DBInsertError))
              (\<lambda>err. answer_with state Resource_HashTable Outcome_Error (Err err))
          else answer_with state Resource_HashTable Outcome_Error (Err err))"

section \<open>Lockers (domain/locker.rs)\<close>

definition locker_get_or_insert :: "'w TenantAppState \<Rightarrow> LockerNew \<Rightarrow> ('w, Locker, VaultDBError) io" where
  "locker_get_or_insert state new =
     (let db = inner (ts_db state) in
      io_try (insert_locker db new)
        (\<lambda>locker. answer_with state Resource_Locker Created (Ok locker))
        (\<lambda>err.
           if VaultDBError_is_duplicate err then
             io_try (find_by_locker_id_merchant_id_customer_id db
                 (ln_locker_id new) (ln_merchant_id new) (ln_customer_id new))
               (\<lambda>locker. answer_with state Resource_Locker FoundExistingAfterDuplicateInsert (Ok locker))
               (\<lambda>err. answer_with state Resource_Locker Outcome_Error (Err err))
           else answer_with state Resource_Locker Outcome_Error (Err err)))"

section \<open>Merchants (domain/merchant.rs)\<close>

definition merchant_find_or_create ::
    "'w TenantAppState \<Rightarrow> string \<Rightarrow> bytes \<Rightarrow> ('w, Merchant, MerchantDBError) io" where
  "merchant_find_or_create state merchant_id key =
     (let c = ts_crypto state; db = ts_db state in
      io_try (Caching_find_by_merchant_id c db merchant_id key)
        (\<lambda>merchant. answer_with state Resource_Merchant FoundExisting (Ok merchant))
        (\<lambda>err.
           if MerchantDBError_is_not_found err then
             io_bind (generate_aes256_key c) (\<lambda>dek.
             io_try (Caching_insert_merchant c db \<lparr> mn_merchant_id = merchant_id, mn_enc_key = dek \<rparr> key)
               (\<lambda>merchant. answer_with state Resource_Merchant Created (Ok merchant))
               (\<lambda>err.
                  if MerchantDBError_is_duplicate err then
                    io_try (Caching_find_by_merchant_id c db merchant_id key)
                      (\<lambda>merchant. answer_with state Resource_Merchant FoundExistingAfterDuplicateInsert (Ok merchant))
                      (\<lambda>err. answer_with state Resource_Merchant Outcome_Error (Err err))
                  else answer_with state Resource_Merchant Outcome_Error (Err err)))
           else answer_with state Resource_Merchant Outcome_Error (Err err)))"

section \<open>The vault (domain/vault.rs)\<close>

definition vault_get_or_insert :: "'w TenantAppState \<Rightarrow> VaultNew \<Rightarrow> ('w, Vault, VaultDBError) io" where
  "vault_get_or_insert state new =
     (let db = inner (ts_db state) in
      io_try (insert_vault db new)
        (\<lambda>vault. answer_with state Resource_Vault Created (Ok vault))
        (\<lambda>err.
           if VaultDBError_is_duplicate err then
             io_try (find_by_vault_id_entity_id db (vn_vault_id new) (vn_entity_id new))
               (\<lambda>vault. answer_with state Resource_Vault FoundExistingAfterDuplicateInsert (Ok vault))
               (\<lambda>err. answer_with state Resource_Vault Outcome_Error (Err err))
           else answer_with state Resource_Vault Outcome_Error (Err err)))"

definition vault_upsert :: "'w TenantAppState \<Rightarrow> VaultNew \<Rightarrow> ('w, Vault, VaultDBError) io" where
  "vault_upsert state new =
     (let db = inner (ts_db state); update = VaultUpdate_from_VaultNew new in
      io_try (insert_vault db new)
        (\<lambda>vault. answer_with state Resource_Vault Created (Ok vault))
        (\<lambda>err.
           if VaultDBError_is_duplicate err then
             io_try (update_vault_data db (vn_vault_id new) (vn_entity_id new) update)
               (\<lambda>vault. answer_with state Resource_Vault Updated (Ok vault))
               (\<lambda>err. answer_with state Resource_Vault Outcome_Error (Err err))
           else answer_with state Resource_Vault Outcome_Error (Err err)))"

end
