(* ===== verification/KeyManager.thy ===== *)
theory KeyManager
  imports Domain
begin

text \<open>
  The key managers, \<open>src/src/crypto/keymanager.rs\<close> and \<open>crypto/keymanager/\<close>, and the HTTP client
  they use, \<open>src/src/api_client.rs\<close>.  The internal manager keeps a data key per merchant in
  the \<open>merchant\<close> table, encrypted under the tenant's master key; the external one asks a
  service to create keys and to encrypt and decrypt, and keeps the key's name in the \<open>entity\<close>
  table.  The trait objects \<open>KeyProvider\<close> and \<open>CryptoOperationsManager\<close> are datatypes with one
  constructor for each implementation.
\<close>

section \<open>The HTTP client (api_client.rs)\<close>

text \<open>The set of headers is a list here; its order is not observable in the answer.\<close>

fun construct_header_map ::
    "'w ApiClient \<Rightarrow> (string \<times> string) list \<Rightarrow> ((string \<times> string) list, ApiClientError) result" where
  "construct_header_map client [] = Ok []"
| "construct_header_map client ((header_name, header_value) # rest) =
     (if \<not> header_name_parse_ok client header_name then Err ApiClientError.HeaderMapConstructionFailed
      else if \<not> header_value_parse_ok client header_value then Err ApiClientError.HeaderMapConstructionFailed
      else res_map ((#) (header_name, header_value)) (construct_header_map client rest))"

text \<open>An \<open>ApiResponse\<close> is the body of a response of status 200, which may fail to be read.\<close>

type_synonym ApiResponse = "(bytes, string) result"

definition response_bytes :: "(bytes, string) result \<Rightarrow> (string, ApiClientError) result" where
  "response_bytes body = res_map_err (\<lambda>_. ApiClientError.ResponseDecodingFailed) (res_map of_bytes body)"

definition send_request ::
    "'w ApiClient \<Rightarrow> string \<Rightarrow> (string \<times> string) list \<Rightarrow> Method \<Rightarrow> string \<Rightarrow> ('w, ApiResponse, ApiClientError) io" where
  "send_request self url_text hdrs meth request_body =
     (if \<not> url_parse_ok self url_text then io_err ApiClientError.UrlEncodingFailed
      else io_bind (io_lift (construct_header_map self hdrs)) (\<lambda>header_map.
        io_bind (io_map_err (\<lambda>_. ApiClientError.RequestNotSent)
          (http_send self meth url_text header_map
            (case meth of Get \<Rightarrow> None | Post \<Rightarrow> Some request_body))) (\<lambda>(status, body).
        if status = 200 then io_ret body
        else io_bind (io_lift (response_bytes body)) (\<lambda>message.
          io_err (if status = 500 then ApiClientError.InternalServerError message
                  else if status = 400 then ApiClientError.BadRequest message
                  else if status = 401 then ApiClientError.Unauthorized message
                  else ApiClientError.Unexpected status message)))))"

definition deserialize_json :: "(ApiClientError \<Rightarrow> 'e) \<Rightarrow> (bytes \<Rightarrow> 'r option) \<Rightarrow> ApiResponse \<Rightarrow> ('r, 'e) result" where
  "deserialize_json from_client parse self =
     (case self of
        Ok body \<Rightarrow> ok_or (from_client ApiClientError.ResponseDecodingFailed) (parse body)
      | Err e \<Rightarrow> Err (from_client ApiClientError.ResponseDecodingFailed)
      | Panic \<Rightarrow> Panic)"

section \<open>Messages of the key manager (external_keymanager/types.rs)\<close>

datatype Identifier = Identifier_Entity (get_identifier: string)

record DataKeyCreateRequest =
  kc_identifier :: Identifier

record DataKeyCreateResponse =
  kr_identifier :: Identifier
  kr_key_version :: string

record DataKeyTransferRequest =
  kt_identifier :: Identifier
  kt_key :: string

datatype EncryptedData = EncryptedData_from_secret (EncryptedData_inner: bytes)

datatype DecryptedData = DecryptedData_from_secret (DecryptedData_inner: bytes)

record DataEncryptionRequest =
  er_identifier :: Identifier
  er_data :: DecryptedData

record DataDecryptionRequest =
  dr_identifier :: Identifier
  dr_data :: EncryptedData

text \<open>
  The parameters: base64, and the JSON objects that serde derives, with the two \<open>data\<close> fields
  given as the strings that the serializers below make.
\<close>

record KmCodec =
  base64_encode :: "bytes \<Rightarrow> string"
  base64_decode :: "string \<Rightarrow> bytes option"
  key_create_json :: "Identifier \<Rightarrow> string"
  key_transfer_json :: "Identifier \<Rightarrow> string \<Rightarrow> string"
  data_json :: "Identifier \<Rightarrow> string \<Rightarrow> string"
  key_create_parse :: "bytes \<Rightarrow> DataKeyCreateResponse option"
  data_parse :: "bytes \<Rightarrow> string option"

definition DataKeyCreateRequest_create_request :: "'w Globals \<Rightarrow> 'w \<Rightarrow> DataKeyCreateRequest \<times> 'w" where
  "DataKeyCreateRequest_create_request g w =
     (case generate_nano_id g ID_LENGTH w of (i, w') \<Rightarrow> (\<lparr> kc_identifier = Identifier_Entity i \<rparr>, w'))"

definition DataKeyTransferRequest_create_request ::
    "KmCodec \<Rightarrow> 'w Globals \<Rightarrow> bytes \<Rightarrow> 'w \<Rightarrow> DataKeyTransferRequest \<times> 'w" where
  "DataKeyTransferRequest_create_request km g key w =
     (case generate_nano_id g ID_LENGTH w of (i, w') \<Rightarrow>
       (\<lparr> kt_identifier = Identifier_Entity i, kt_key = base64_encode km key \<rparr>, w'))"

definition DataEncryptionRequest_create_request :: "string \<Rightarrow> bytes \<Rightarrow> (DataEncryptionRequest, ApiError) result" where
  "DataEncryptionRequest_create_request key_identifier d =
     Ok \<lparr> er_identifier = Identifier_Entity key_identifier, er_data = DecryptedData_from_secret d \<rparr>"

definition DataDecryptionRequest_create_request :: "string \<Rightarrow> bytes \<Rightarrow> DataDecryptionRequest" where
  "DataDecryptionRequest_create_request key_identifier d =
     \<lparr> dr_identifier = Identifier_Entity key_identifier, dr_data = EncryptedData_from_secret d \<rparr>"

definition serialize_encryption_data :: "KmCodec \<Rightarrow> EncryptedData \<Rightarrow> string" where
  "serialize_encryption_data km encrypted_data =
     (let bs = EncryptedData_inner encrypted_data in
      case from_utf8 bs of Some s \<Rightarrow> s | None \<Rightarrow> ''v1:'' @ base64_encode km bs)"

definition EncryptedData_deserialize :: "string \<Rightarrow> EncryptedData" where
  "EncryptedData_deserialize value = EncryptedData_from_secret (into_bytes value)"

definition DecryptedData_serialize :: "KmCodec \<Rightarrow> DecryptedData \<Rightarrow> string" where
  "DecryptedData_serialize km self = base64_encode km (DecryptedData_inner self)"

definition DecryptedData_deserialize :: "KmCodec \<Rightarrow> string \<Rightarrow> DecryptedData option" where
  "DecryptedData_deserialize km value = map_option DecryptedData_from_secret (base64_decode km value)"

section \<open>Calls of the key manager\<close>

text \<open>utils.rs: the master key, split in two halves, is the credential.\<close>

definition get_key_manager_header :: "KmCodec \<Rightarrow> 'w TenantAppState \<Rightarrow> (string \<times> string) list" where
  "get_key_manager_header km state =
     (let key = master_key (tc_tenant_secrets (ts_config state));
          l = libs (inner (ts_db state));
          half = length key div 2;
          hex_left = hex_encode l (take half key);
          hex_right = hex_encode l (drop half key);
          broken_master_key = base64_encode km (into_bytes (hex_left @ '':'' @ hex_right)) in
      [(''content-type'', ''application/json''),
       (''authorization'', ''Basic '' @ broken_master_key),
       (''x-tenant-id'', tc_tenant_id (ts_config state))])"

definition call_encryption_service ::
    "(ApiClientError \<Rightarrow> 'e) \<Rightarrow> KmCodec \<Rightarrow> 'w TenantAppState \<Rightarrow> string \<Rightarrow> Method \<Rightarrow> string \<Rightarrow> ('w, ApiResponse, 'e) io" where
  "call_encryption_service from_client km state url_text meth request_body =
     io_map_err from_client
       (send_request (ts_api_client state) url_text (get_key_manager_header km state) meth request_body)"

text \<open>
  The common shape of the four calls: the service's URL must be configured, the request is
  sent, the answer is parsed; errors go through the error type of the operation.
\<close>

definition km_call ::
    "(ApiClientError \<Rightarrow> 'e) \<Rightarrow> ('e \<Rightarrow> KeyManagerError) \<Rightarrow> KmCodec \<Rightarrow> 'w TenantAppState \<Rightarrow> string \<Rightarrow> string \<Rightarrow>
     (bytes \<Rightarrow> 'r option) \<Rightarrow> ('w, 'r, KeyManagerError) io" where
  "km_call from_client to_km km state path_text request_body parse =
     io_bind (io_lift (get_url_required (tc_external_key_manager (ts_config state)))) (\<lambda>base.
     io_bind (io_map_err to_km
       (call_encryption_service from_client km state (base @ path_text) Post request_body)) (\<lambda>response.
     io_lift (res_map_err to_km (deserialize_json from_client parse response))))"

definition create_key_in_key_manager ::
    "KmCodec \<Rightarrow> 'w TenantAppState \<Rightarrow> DataKeyCreateRequest \<Rightarrow> ('w, DataKeyCreateResponse, KeyManagerError) io" where
  "create_key_in_key_manager km state request_body =
     km_call DataKeyCreationError_from_ApiClientError KeyManagerError_from_DataKeyCreationError km state
       ''/key/create'' (key_create_json km (kc_identifier request_body)) (key_create_parse km)"

definition transfer_key_to_key_manager ::
    "KmCodec \<Rightarrow> 'w TenantAppState \<Rightarrow> DataKeyTransferRequest \<Rightarrow> ('w, DataKeyCreateResponse, KeyManagerError) io" where
  "transfer_key_to_key_manager km state request_body =
     km_call DataKeyTransferError_from_ApiClientError KeyManagerError_from_DataKeyTransferError km state
       ''/key/transfer'' (key_transfer_json km (kt_identifier request_body) (kt_key request_body))
       (key_create_parse km)"

definition encrypt_data_using_key_manager ::
    "KmCodec \<Rightarrow> 'w TenantAppState \<Rightarrow> DataEncryptionRequest \<Rightarrow> ('w, EncryptedData, KeyManagerError) io" where
  "encrypt_data_using_key_manager km state request_body =
     km_call DataEncryptionError_from_ApiClientError KeyManagerError_from_DataEncryptionError km state
       ''/data/encrypt'' (data_json km (er_identifier request_body) (DecryptedData_serialize km (er_data request_body)))
       (\<lambda>body. map_option EncryptedData_deserialize (data_parse km body))"

definition decrypt_data_using_key_manager ::
    "KmCodec \<Rightarrow> 'w TenantAppState \<Rightarrow> DataDecryptionRequest \<Rightarrow> ('w, DecryptedData, KeyManagerError) io" where
  "decrypt_data_using_key_manager km state request_body =
     km_call DataDecryptionError_from_ApiClientError KeyManagerError_from_DataDecryptionError km state
       ''/data/decrypt'' (data_json km (dr_identifier request_body) (serialize_encryption_data km (dr_data request_body)))
       (\<lambda>body. Option.bind (data_parse km body) (DecryptedData_deserialize km))"

datatype HealthState = Working | Failing | HealthState_Disabled

definition health_check_keymanager ::
    "KmCodec \<Rightarrow> 'w TenantAppState \<Rightarrow> ('w, HealthState, KeyManagerHealthCheckError) io" where
  "health_check_keymanager km state =
     io_bind (io_lift (ok_or (KeyManagerHealthCheckError.MissingConfigurationError
         ''external_key_manager.url is required when external key manager is enabled'')
       (get_url (tc_external_key_manager (ts_config state))))) (\<lambda>base.
     io_bind (call_encryption_service KeyManagerHealthCheckError_from_ApiClientError km state
       (base @ ''/health'') Get []) (\<lambda>_.
     io_ret Working))"

section \<open>Crypto managers\<close>

datatype CryptoOperationsManager =
    InternalCryptoManager bytes
  | ExternalCryptoManager Entity

definition Internal_encrypt_data :: "'w TenantAppState \<Rightarrow> bytes \<Rightarrow> bytes \<Rightarrow> ('w, bytes, ApiError) io" where
  "Internal_encrypt_data state key decryted_data =
     io_map_err ApiError_from_CryptoError (GcmAes256_encrypt (ts_crypto state) key decryted_data)"

definition Internal_decrypt_data :: "'w TenantAppState \<Rightarrow> bytes \<Rightarrow> bytes \<Rightarrow> ('w, bytes, ApiError) io" where
  "Internal_decrypt_data state key encrypted_data =
     io_lift (res_map_err ApiError_from_CryptoError (GcmAes256_decrypt (ts_crypto state) key encrypted_data))"

definition External_encrypt_data ::
    "KmCodec \<Rightarrow> 'w TenantAppState \<Rightarrow> Entity \<Rightarrow> bytes \<Rightarrow> ('w, bytes, ApiError) io" where
  "External_encrypt_data km state entity decryted_data =
     io_bind (io_lift (DataEncryptionRequest_create_request (en_enc_key_id entity) decryted_data)) (\<lambda>encryption_req.
     io_map EncryptedData_inner (io_map_err ApiError_from_KeyManagerError
       (encrypt_data_using_key_manager km state encryption_req)))"

definition External_decrypt_data ::
    "KmCodec \<Rightarrow> 'w TenantAppState \<Rightarrow> Entity \<Rightarrow> bytes \<Rightarrow> ('w, bytes, ApiError) io" where
  "External_decrypt_data km state entity encrypted_data =
     io_map DecryptedData_inner (io_map_err ApiError_from_KeyManagerError
       (decrypt_data_using_key_manager km state
         (DataDecryptionRequest_create_request (en_enc_key_id entity) encrypted_data)))"

fun encrypt_data :: "KmCodec \<Rightarrow> 'w TenantAppState \<Rightarrow> CryptoOperationsManager \<Rightarrow> bytes \<Rightarrow> ('w, bytes, ApiError) io" where
  "encrypt_data km state (InternalCryptoManager key) d = Internal_encrypt_data state key d"
| "encrypt_data km state (ExternalCryptoManager entity) d = External_encrypt_data km state entity d"

fun decrypt_data :: "KmCodec \<Rightarrow> 'w TenantAppState \<Rightarrow> CryptoOperationsManager \<Rightarrow> bytes \<Rightarrow> ('w, bytes, ApiError) io" where
  "decrypt_data km state (InternalCryptoManager key) d = Internal_decrypt_data state key d"
| "decrypt_data km state (ExternalCryptoManager entity) d = External_decrypt_data km state entity d"

section \<open>Key providers\<close>

record CreatedEntity =
  ce_entity_id :: string
  ce_created_at :: time

datatype KeyProvider = InternalKeyManager | ExternalKeyManager

fun get_dek_manager :: "ExternalKeyManagerConfig \<Rightarrow> KeyProvider" where
  "get_dek_manager ExternalKeyManagerConfig.Disabled = InternalKeyManager"
| "get_dek_manager (ExternalKeyManagerConfig.Enabled u) = ExternalKeyManager"
| "get_dek_manager (EnabledWithMtls u ca) = ExternalKeyManager"

definition master_encryption :: "'w TenantAppState \<Rightarrow> bytes" where
  "master_encryption state = master_key (tc_tenant_secrets (ts_config state))"

definition Internal_find_by_entity_id ::
    "'w TenantAppState \<Rightarrow> string \<Rightarrow> ('w, CryptoOperationsManager, ApiError) io" where
  "Internal_find_by_entity_id state entity_id =
     io_bind (io_map_err ApiError_from_MerchantDBError
       (Caching_find_by_merchant_id (ts_crypto state) (ts_db state) entity_id (master_encryption state))) (\<lambda>merchant.
     io_ret (InternalCryptoManager (m_enc_key merchant)))"

definition Internal_find_or_create_entity ::
    "'w TenantAppState \<Rightarrow> string \<Rightarrow> ('w, CryptoOperationsManager, ApiError) io" where
  "Internal_find_or_create_entity state entity_id =
     io_bind (io_try
       (Caching_find_by_merchant_id (ts_crypto state) (ts_db state) entity_id (master_encryption state))
       io_ret
       (\<lambda>err.
          if MerchantDBError_is_not_found err
          then io_map_err ApiError_from_MerchantDBError
                 (merchant_find_or_create state entity_id (master_encryption state))
          else io_err (ApiError_from_MerchantDBError err))) (\<lambda>merchant.
     io_ret (InternalCryptoManager (m_enc_key merchant)))"

definition Internal_create_entity :: "'w TenantAppState \<Rightarrow> string \<Rightarrow> ('w, CreatedEntity, ApiError) io" where
  "Internal_create_entity state entity_id =
     io_bind (io_map_err ApiError_from_MerchantDBError
       (merchant_find_or_create state entity_id (master_encryption state))) (\<lambda>merchant.
     io_ret \<lparr> ce_entity_id = m_merchant_id merchant, ce_created_at = m_created_at merchant \<rparr>)"

definition External_find_by_entity_id ::
    "'w TenantAppState \<Rightarrow> string \<Rightarrow> ('w, CryptoOperationsManager, ApiError) io" where
  "External_find_by_entity_id state entity_id =
     io_map ExternalCryptoManager (io_map_err ApiError_from_EntityDBError
       (Caching_find_by_entity_id (ts_db state) entity_id))"

definition External_find_or_create_entity ::
    "KmCodec \<Rightarrow> 'w TenantAppState \<Rightarrow> string \<Rightarrow> ('w, CryptoOperationsManager, ApiError) io" where
  "External_find_or_create_entity km state entity_id =
     io_map ExternalCryptoManager (io_try (Caching_find_by_entity_id (ts_db state) entity_id)
       (\<lambda>entity. answer_with state Resource_Entity FoundExisting (Ok entity))
       (\<lambda>inner_err.
          if EntityDBError_is_not_found inner_err then
            io_bind (io_of (DataKeyCreateRequest_create_request (ts_globals state))) (\<lambda>req.
            io_bind (io_map_err ApiError_from_KeyManagerError (create_key_in_key_manager km state req)) (\<lambda>resp.
            io_try (Caching_insert_entity (ts_db state) entity_id (get_identifier (kr_identifier resp)))
              (\<lambda>entity. answer_with state Resource_Entity Created (Ok entity))
              (\<lambda>err. answer_with state Resource_Entity Outcome_Error (Err (ApiError_from_EntityDBError err)))))
          else answer_with state Resource_Entity Outcome_Error (Err (ApiError_from_EntityDBError inner_err))))"

definition External_create_entity ::
    "KmCodec \<Rightarrow> 'w TenantAppState \<Rightarrow> string \<Rightarrow> ('w, CreatedEntity, ApiError) io" where
  "External_create_entity km state entity_id =
     io_bind (io_try (Caching_find_by_entity_id (ts_db state) entity_id)
       io_ret
       (\<lambda>err.
          if EntityDBError_is_not_found err then
            io_bind (io_of (DataKeyCreateRequest_create_request (ts_globals state))) (\<lambda>req.
            io_bind (io_map_err ApiError_from_KeyManagerError (create_key_in_key_manager km state req)) (\<lambda>resp.
            io_map_err ApiError_from_EntityDBError
              (Caching_insert_entity (ts_db state) entity_id (get_identifier (kr_identifier resp)))))
          else io_err (ApiError_from_EntityDBError err))) (\<lambda>entity.
     io_ret \<lparr> ce_entity_id = en_entity_id entity, ce_created_at = en_created_at entity \<rparr>)"

text \<open>Dispatch on the trait object.\<close>

fun KeyProvider_find_by_entity_id ::
    "'w TenantAppState \<Rightarrow> KeyProvider \<Rightarrow> string \<Rightarrow> ('w, CryptoOperationsManager, ApiError) io" where
  "KeyProvider_find_by_entity_id state InternalKeyManager entity_id = Internal_find_by_entity_id state entity_id"
| "KeyProvider_find_by_entity_id state ExternalKeyManager entity_id = External_find_by_entity_id state entity_id"

fun KeyProvider_find_or_create_entity ::
    "KmCodec \<Rightarrow> 'w TenantAppState \<Rightarrow> KeyProvider \<Rightarrow> string \<Rightarrow> ('w, CryptoOperationsManager, ApiError) io" where
  "KeyProvider_find_or_create_entity km state InternalKeyManager entity_id =
     Internal_find_or_create_entity state entity_id"
| "KeyProvider_find_or_create_entity km state ExternalKeyManager entity_id =
     External_find_or_create_entity km state entity_id"

fun KeyProvider_create_entity ::
    "KmCodec \<Rightarrow> 'w TenantAppState \<Rightarrow> KeyProvider \<Rightarrow> string \<Rightarrow> ('w, CreatedEntity, ApiError) io" where
  "KeyProvider_create_entity km state InternalKeyManager entity_id = Internal_create_entity state entity_id"
| "KeyProvider_create_entity km state ExternalKeyManager entity_id = External_create_entity km state entity_id"

end
