(* ===== verification/Routes.thy ===== *)
theory Routes
  imports KeyManager
begin

text \<open>
  The handlers of the locker and vault APIs: \<open>src/src/routes/data.rs\<close> with its \<open>types\<close>,
  \<open>transformers\<close> and \<open>crypto_operation\<close>, \<open>routes/routes_v2/data.rs\<close> and \<open>routes/entity.rs\<close>.
  The JSON of stored values is a parameter (\<open>RouteCodec\<close>), as it is serde's.  A task that a handler
  spawns and does not await is returned beside the answer, for the runtime to run at any time.
\<close>

section \<open>Requests and responses (data/types.rs)\<close>

record Card =
  card_number :: CardNumber
  name_on_card :: "string option"
  card_exp_month :: "string option"
  card_exp_year :: "string option"
  card_brand :: "string option"
  card_isin :: "string option"
  nick_name :: "string option"

datatype Data = Data_EncData string | Data_Card Card

datatype StoredData = StoredData_EncData string | StoredData_CardData Card

datatype DataDuplicationCheck = Duplicated | MetaDataChanged

datatype Ttl = Ttl (ttl_at: "time option")

record DedupResponsePayload =
  hash1_reference :: "string option"
  hash2_reference :: "string option"

record StoreCardRespPayload =
  sp_card_reference :: string
  sp_duplication_check :: "DataDuplicationCheck option"
  sp_dedup :: "DedupResponsePayload option"

datatype Status = Status_Ok

record StoreCardRequest =
  sc_merchant_id :: string
  sc_merchant_customer_id :: string
  sc_requestor_card_reference :: "string option"
  sc_data :: Data
  sc_ttl :: Ttl

record StoreCardResponse =
  sr_status :: Status
  sr_payload :: "StoreCardRespPayload option"

record RetrieveCardRequest =
  rc_merchant_id :: string
  rc_merchant_customer_id :: string
  rc_card_reference :: string

record RetrieveCardRespPayload =
  rp_card :: "Card option"
  rp_enc_card_data :: "string option"

record RetrieveCardResponse =
  rr_status :: Status
  rr_payload :: "RetrieveCardRespPayload option"

record DeleteCardRequest =
  dc_merchant_id :: string
  dc_merchant_customer_id :: string
  dc_card_reference :: string

record DeleteCardResponse =
  dc_status :: Status

record FingerprintRequest =
  fr_data :: string
  fr_key :: string

record FingerprintResponse =
  fr_fingerprint_id :: string

text \<open>
  The untagged, flattened enum \<open>Data\<close> is read from the fields of the request: its variants are
  tried in the order of their declaration.
\<close>

definition Data_deserialize :: "string option \<Rightarrow> Card option \<Rightarrow> Data option" where
  "Data_deserialize enc_card_data card_object = (case enc_card_data of
     Some e \<Rightarrow> Some (Data_EncData e)
   | None \<Rightarrow> map_option Data_Card card_object)"

text \<open>\<open>PrimitiveDateTime::MAX\<close>, 9999-12-31 23:59:59.999999999, in nanoseconds since the epoch.\<close>

definition TIME_MAX :: time where
  "TIME_MAX = 253402300799999999999"

definition saturating_add_seconds :: "time \<Rightarrow> int \<Rightarrow> time" where
  "saturating_add_seconds t s = min TIME_MAX (t + s * 1000000000)"

text \<open>The duration is read as a \<open>usize\<close> and must fit an \<open>i64\<close>.\<close>

definition Ttl_deserialize :: "'w Globals \<Rightarrow> 64 word option \<Rightarrow> ('w, Ttl, string) io" where
  "Ttl_deserialize g duration_in_sec = (case duration_in_sec of
     None \<Rightarrow> io_ret (Ttl None)
   | Some secs \<Rightarrow>
       if uint secs > 9223372036854775807 then io_err ''out of range integral type conversion attempted''
       else io_bind (io_of (date_time_now g)) (\<lambda>current_time.
         io_ret (Ttl (Some (saturating_add_seconds current_time (uint secs))))))"

definition Ttl_validate :: "'w Globals \<Rightarrow> Ttl \<Rightarrow> ('w, unit, ApiError) io" where
  "Ttl_validate g self = (case ttl_at self of
     None \<Rightarrow> io_ret ()
   | Some ttl \<Rightarrow> io_bind (io_of (date_time_now g)) (\<lambda>now.
       if ttl \<le> now then io_err ApiError.InvalidTtl else io_ret ()))"

definition StoreCardRequest_validate :: "'w Globals \<Rightarrow> StoreCardRequest \<Rightarrow> ('w, unit, ApiError) io" where
  "StoreCardRequest_validate g self =
     io_bind (Ttl_validate g (sc_ttl self)) (\<lambda>_.
     (case sc_data self of
        Data_EncData e \<Rightarrow> io_ret ()
      | Data_Card c \<Rightarrow> io_lift (CardNumber_validate (card_number c))))"

definition Locker_set_decrypted_data :: "Locker \<Rightarrow> bytes \<Rightarrow> Locker" where
  "Locker_set_decrypted_data self d = self\<lparr> lk_data := from_decrypted_data d \<rparr>"

definition Vault_set_decrypted_data :: "Vault \<Rightarrow> bytes \<Rightarrow> Vault" where
  "Vault_set_decrypted_data self d = self\<lparr> v_data := from_decrypted_data d \<rparr>"

text \<open>A new row gets the requestor's reference or a fresh id, and the current time.\<close>

definition LockerNew_new :: "'w Globals \<Rightarrow> StoreCardRequest \<Rightarrow> string \<Rightarrow> Encrypted \<Rightarrow> ('w, LockerNew, 'e) io" where
  "LockerNew_new g request hash_id enc_data =
     io_bind (case sc_requestor_card_reference request of
         Some reference \<Rightarrow> io_ret reference
       | None \<Rightarrow> io_of (generate_uuid g)) (\<lambda>locker_id.
     io_bind (io_of (date_time_now g)) (\<lambda>created_at.
     io_ret \<lparr> ln_locker_id = locker_id, ln_merchant_id = sc_merchant_id request,
       ln_customer_id = sc_merchant_customer_id request, ln_enc_data = enc_data,
       ln_created_at = created_at, ln_hash_id = hash_id, ln_ttl = ttl_at (sc_ttl request),
       ln_updated_by = Some PostgresOnly \<rparr>))"

text \<open>\<open>serde_json::Value\<close>; a number is kept as its text.\<close>

datatype JsonValue =
    Json_Null | Json_Bool bool | Json_Number string | Json_String string
  | Json_Array "JsonValue list" | Json_Object "(string \<times> JsonValue) list"

datatype WriteMode = Insert | Upsert

record StoreDataRequest =
  sd_entity_id :: string
  sd_vault_id :: string
  sd_data :: JsonValue
  sd_ttl :: Ttl

record StoreDataResponse =
  sdr_entity_id :: string
  sdr_vault_id :: string

record RetrieveDataRequest =
  rd_entity_id :: string
  rd_vault_id :: string

record RetrieveDataResponse =
  rdr_data :: JsonValue

record DeleteDataRequest =
  dd_entity_id :: string
  dd_vault_id :: string

record DeleteDataResponse =
  ddr_entity_id :: string
  ddr_vault_id :: string

definition StoreDataRequest_validate :: "'w Globals \<Rightarrow> StoreDataRequest \<Rightarrow> ('w, unit, ApiError) io" where
  "StoreDataRequest_validate g self = Ttl_validate g (sd_ttl self)"

definition VaultNew_new :: "'w Globals \<Rightarrow> StoreDataRequest \<Rightarrow> Encrypted \<Rightarrow> ('w, VaultNew, 'e) io" where
  "VaultNew_new g request encrypted_data =
     io_bind (io_of (date_time_now g)) (\<lambda>created_at.
     io_ret \<lparr> vn_vault_id = sd_vault_id request, vn_entity_id = sd_entity_id request,
       vn_encrypted_data = encrypted_data, vn_created_at = created_at,
       vn_expires_at = ttl_at (sd_ttl request), vn_updated_by = PostgresOnly \<rparr>)"

section \<open>Transformers (data/transformers.rs)\<close>

record RouteCodec =
  str_to_json :: "string \<Rightarrow> (bytes, string) result"
  stored_data_to_json :: "StoredData \<Rightarrow> (bytes, string) result"
  stored_data_from_json :: "bytes \<Rightarrow> (StoredData, string) result"
  value_to_json :: "JsonValue \<Rightarrow> (bytes, string) result"
  value_from_json :: "bytes \<Rightarrow> (JsonValue, string) result"

definition StoreCardResponse_from :: "DataDuplicationCheck option \<times> Locker \<Rightarrow> StoreCardResponse" where
  "StoreCardResponse_from p = (case p of (duplication_check, v) \<Rightarrow>
     \<lparr> sr_status = Status_Ok,
       sr_payload = Some \<lparr> sp_card_reference = lk_locker_id v, sp_duplication_check = duplication_check,
         sp_dedup = None \<rparr> \<rparr>)"

definition StoreDataResponse_from :: "Vault \<Rightarrow> StoreDataResponse" where
  "StoreDataResponse_from v = \<lparr> sdr_entity_id = v_entity_id v, sdr_vault_id = v_vault_id v \<rparr>"

definition stored_data_of :: "RouteCodec \<Rightarrow> Locker \<Rightarrow> (StoredData, ApiError) result" where
  "stored_data_of rc v =
     res_bind (ok_or ApiError.DecodingError (get_decrypted_inner_value (lk_data v))) (\<lambda>decrypted_data.
     res_map_err (\<lambda>_. ApiError.DecodingError) (stored_data_from_json rc decrypted_data))"

definition RetrieveCardResponse_try_from :: "RouteCodec \<Rightarrow> Locker \<Rightarrow> (RetrieveCardResponse, ApiError) result" where
  "RetrieveCardResponse_try_from rc v =
     res_bind (stored_data_of rc v) (\<lambda>stored.
     Ok \<lparr> rr_status = Status_Ok,
          rr_payload = Some (case stored of
              StoredData_EncData d \<Rightarrow> \<lparr> rp_card = None, rp_enc_card_data = Some d \<rparr>
            | StoredData_CardData c \<Rightarrow> \<lparr> rp_card = Some c, rp_enc_card_data = None \<rparr>) \<rparr>)"

definition FingerprintResponse_from :: "Fingerprint \<Rightarrow> FingerprintResponse" where
  "FingerprintResponse_from v = \<lparr> fr_fingerprint_id = fp_fingerprint_id v \<rparr>"

fun StoredData_eq :: "StoredData \<Rightarrow> Data \<Rightarrow> bool" where
  "StoredData_eq (StoredData_EncData a) (Data_EncData b) = (a = b)"
| "StoredData_eq (StoredData_CardData a) (Data_Card b) = (a = b)"
| "StoredData_eq (StoredData_EncData a) (Data_Card b) = False"
| "StoredData_eq (StoredData_CardData a) (Data_EncData b) = False"

text \<open>The hash algorithm of the only call is \<open>Sha512\<close>.\<close>

definition get_hash :: "RouteCodec \<Rightarrow> 'w CryptoLibs \<Rightarrow> Data \<Rightarrow> (bytes, ApiError) result" where
  "get_hash rc cr request =
     (let d = (case request of
          Data_EncData enc_card_data \<Rightarrow> enc_card_data
        | Data_Card c \<Rightarrow> card_number_peek (card_number c)) in
      res_bind (res_map_err (\<lambda>_. ApiError.EncodingError) (str_to_json rc d)) (\<lambda>json_data.
      res_map_err ApiError_from_CryptoError (Sha512_encode cr json_data)))"

definition get_data_duplication_status ::
    "RouteCodec \<Rightarrow> Locker \<Rightarrow> Data \<Rightarrow> (DataDuplicationCheck, ApiError) result" where
  "get_data_duplication_status rc stored_payload request_data =
     res_map (\<lambda>stored_data. if StoredData_eq stored_data request_data then Duplicated else MetaDataChanged)
       (stored_data_of rc stored_payload)"

section \<open>Encrypt and store, decrypt (data/crypto_operation.rs)\<close>

fun StoredData_of_Data :: "Data \<Rightarrow> StoredData" where
  "StoredData_of_Data (Data_Card c) = StoredData_CardData c"
| "StoredData_of_Data (Data_EncData e) = StoredData_EncData e"

definition encrypt_data_and_insert_into_db ::
    "RouteCodec \<Rightarrow> KmCodec \<Rightarrow> 'w TenantAppState \<Rightarrow> CryptoOperationsManager \<Rightarrow> StoreCardRequest \<Rightarrow> string \<Rightarrow>
     ('w, Locker, ApiError) io" where
  "encrypt_data_and_insert_into_db rc km state crypto_operator request hash_id =
     io_bind (io_lift (res_map_err (\<lambda>_. ApiError.EncodingError)
       (stored_data_to_json rc (StoredData_of_Data (sc_data request))))) (\<lambda>data_to_be_encrypted.
     io_bind (encrypt_data km state crypto_operator data_to_be_encrypted) (\<lambda>encrypted_data.
     io_bind (LockerNew_new (ts_globals state) request hash_id (Encrypted_new encrypted_data)) (\<lambda>locker_new.
     io_map_err ApiError_from_VaultDBError (locker_get_or_insert state locker_new))))"

definition decrypt_locker ::
    "KmCodec \<Rightarrow> 'w TenantAppState \<Rightarrow> CryptoOperationsManager \<Rightarrow> Locker \<Rightarrow> ('w, Locker, ApiError) io" where
  "decrypt_locker km state crypto_operator d = (case get_encrypted_inner_value (lk_data d) of
     Some encrypted_data \<Rightarrow>
       io_map (Locker_set_decrypted_data d) (decrypt_data km state crypto_operator encrypted_data)
   | None \<Rightarrow> io_ret d)"

definition decrypt_vault ::
    "KmCodec \<Rightarrow> 'w TenantAppState \<Rightarrow> CryptoOperationsManager \<Rightarrow> Vault \<Rightarrow> ('w, Vault, ApiError) io" where
  "decrypt_vault km state crypto_operator d = (case get_encrypted_inner_value (v_data d) of
     Some encrypted_data \<Rightarrow>
       io_map (Vault_set_decrypted_data d) (decrypt_data km state crypto_operator encrypted_data)
   | None \<Rightarrow> io_ret d)"

definition encrypt_data_and_upsert_into_db_v2 ::
    "RouteCodec \<Rightarrow> KmCodec \<Rightarrow> 'w TenantAppState \<Rightarrow> CryptoOperationsManager \<Rightarrow> StoreDataRequest \<Rightarrow>
     WriteMode option \<Rightarrow> ('w, Vault, ApiError) io" where
  "encrypt_data_and_upsert_into_db_v2 rc km state crypto_operator request mode =
     io_bind (io_lift (res_map_err (\<lambda>_. ApiError.EncodingError)
       (value_to_json rc (sd_data request)))) (\<lambda>data_to_be_encrypted.
     io_bind (encrypt_data km state crypto_operator data_to_be_encrypted) (\<lambda>encrypted_data.
     io_bind (VaultNew_new (ts_globals state) request (Encrypted_new encrypted_data)) (\<lambda>vault_new.
     io_map_err ApiError_from_VaultDBError (case mode of
         Some Upsert \<Rightarrow> vault_upsert state vault_new
       | Some Insert \<Rightarrow> vault_get_or_insert state vault_new
       | None \<Rightarrow> vault_get_or_insert state vault_new))))"

section \<open>The locker API (data.rs)\<close>

definition dek_manager :: "'w TenantAppState \<Rightarrow> KeyProvider" where
  "dek_manager state = get_dek_manager (tc_external_key_manager (ts_config state))"

definition add_card ::
    "RouteCodec \<Rightarrow> KmCodec \<Rightarrow> 'w TenantAppState \<Rightarrow> StoreCardRequest \<Rightarrow> ('w, StoreCardResponse, ApiError) io" where
  "add_card rc km state request =
     (let db = ts_db state in
      io_bind (StoreCardRequest_validate (ts_globals state) request) (\<lambda>_.
      io_bind (io_lift (res_map_err (\<lambda>_. ApiError.EncodingError)
        (get_hash rc (ts_crypto state) (sc_data request)))) (\<lambda>hash_data.
      io_bind (io_map_err ApiError_from_HashDBError
        (Caching_find_optional_by_data_hash db hash_data)) (\<lambda>optional_hash_table.
      io_bind (KeyProvider_find_or_create_entity km state (dek_manager state) (sc_merchant_id request)) (\<lambda>crypto_manager.
      io_map StoreCardResponse_from (case optional_hash_table of
          Some hash_table \<Rightarrow>
            io_bind (io_map_err ApiError_from_VaultDBError
              (find_optional_by_hash_id_merchant_id_customer_id (inner db) (ht_hash_id hash_table)
                (sc_merchant_id request) (sc_merchant_customer_id request))) (\<lambda>stored_data. case stored_data of
                Some locker \<Rightarrow>
                  io_bind (decrypt_locker km state crypto_manager locker) (\<lambda>decrypted_locker_data.
                  io_bind (io_lift (get_data_duplication_status rc decrypted_locker_data (sc_data request)))
                    (\<lambda>duplication_check. io_ret (Some duplication_check, decrypted_locker_data)))
              | None \<Rightarrow>
                  io_map (\<lambda>encrypted_locker_data. (None, encrypted_locker_data))
                    (encrypt_data_and_insert_into_db rc km state crypto_manager request (ht_hash_id hash_table)))
        | None \<Rightarrow>
            io_bind (io_map_err ApiError_from_HashDBError (hash_insert_or_get state hash_data)) (\<lambda>hash_table.
            io_map (\<lambda>encrypted_locker_data. (None, encrypted_locker_data))
              (encrypt_data_and_insert_into_db rc km state crypto_manager request (ht_hash_id hash_table)))))))))"

definition delete_card ::
    "'w TenantAppState \<Rightarrow> DeleteCardRequest \<Rightarrow> ('w, DeleteCardResponse, ApiError) io" where
  "delete_card state request =
     io_bind (KeyProvider_find_by_entity_id state (dek_manager state) (dc_merchant_id request)) (\<lambda>_.
     io_bind (io_map_err ApiError_from_VaultDBError (delete_locker (inner (ts_db state))
       (dc_card_reference request) (dc_merchant_id request) (dc_merchant_customer_id request))) (\<lambda>_.
     io_ret \<lparr> dc_status = Status_Ok \<rparr>))"

text \<open>
  The end of both retrieve handlers: data past its time to live is not answered, and its
  deletion is spawned.
\<close>

definition unless_expired ::
    "'w Globals \<Rightarrow> time option \<Rightarrow> ('w \<Rightarrow> 'w) \<Rightarrow> ('a, ApiError) result \<Rightarrow> 'w \<Rightarrow>
     ((('a, ApiError) result \<times> 'w) \<times> ('w \<Rightarrow> 'w) list)" where
  "unless_expired g expires_at deletion answer w = (case expires_at of
     None \<Rightarrow> ((answer, w), [])
   | Some ttl \<Rightarrow> (case date_time_now g w of (now, w') \<Rightarrow>
       if now > ttl then ((Err ApiError.NotFoundError, w'), [deletion]) else ((answer, w'), [])))"

definition retrieve_card ::
    "RouteCodec \<Rightarrow> KmCodec \<Rightarrow> 'w TenantAppState \<Rightarrow> RetrieveCardRequest \<Rightarrow> 'w \<Rightarrow>
     (((RetrieveCardResponse, ApiError) result \<times> 'w) \<times> ('w \<Rightarrow> 'w) list)" where
  "retrieve_card rc km state request w =
     (let db = inner (ts_db state) in
      case (io_bind (KeyProvider_find_by_entity_id state (dek_manager state) (rc_merchant_id request)) (\<lambda>crypto_manager.
            io_bind (io_map_err ApiError_from_VaultDBError (find_by_locker_id_merchant_id_customer_id db
              (rc_card_reference request) (rc_merchant_id request) (rc_merchant_customer_id request))) (\<lambda>locker.
            decrypt_locker km state crypto_manager locker))) w of (decrypted, w') \<Rightarrow>
      (case decrypted of
         Ok decrypted_locker_data \<Rightarrow>
           unless_expired (ts_globals state) (lk_ttl decrypted_locker_data)
             (\<lambda>w. snd (delete_locker db (rc_card_reference request) (rc_merchant_id request)
                (rc_merchant_customer_id request) w))
             (RetrieveCardResponse_try_from rc decrypted_locker_data) w'
       | Err e \<Rightarrow> ((Err e, w'), [])
       | Panic \<Rightarrow> ((Panic, w'), [])))"

definition get_or_insert_fingerprint ::
    "'w TenantAppState \<Rightarrow> string option \<Rightarrow> FingerprintRequest \<Rightarrow> ('w, FingerprintResponse, ApiError) io" where
  "get_or_insert_fingerprint state fingerprint_id request =
     io_map FingerprintResponse_from (io_map_err ApiError_from_FingerprintDBError
       (fingerprint_get_or_insert state (fr_data request) (fr_key request) fingerprint_id))"

section \<open>The vault API (routes_v2/data.rs)\<close>

definition delete_data :: "'w TenantAppState \<Rightarrow> DeleteDataRequest \<Rightarrow> ('w, DeleteDataResponse, ApiError) io" where
  "delete_data state request =
     io_bind (KeyProvider_find_by_entity_id state (dek_manager state) (dd_entity_id request)) (\<lambda>_.
     io_bind (io_map_err ApiError_from_VaultDBError (delete_from_vault (inner (ts_db state))
       (dd_vault_id request) (dd_entity_id request))) (\<lambda>_.
     io_ret \<lparr> ddr_entity_id = dd_entity_id request, ddr_vault_id = dd_vault_id request \<rparr>))"

definition retrieve_answer :: "RouteCodec \<Rightarrow> Vault \<Rightarrow> (RetrieveDataResponse, ApiError) result" where
  "retrieve_answer rc decrypted_data =
     res_bind (ok_or ApiError.UnknownError (get_decrypted_inner_value (v_data decrypted_data))) (\<lambda>d.
     res_map (\<lambda>v. \<lparr> rdr_data = v \<rparr>) (res_map_err (\<lambda>_. ApiError.DecodingError) (value_from_json rc d)))"

definition retrieve_data ::
    "RouteCodec \<Rightarrow> KmCodec \<Rightarrow> 'w TenantAppState \<Rightarrow> RetrieveDataRequest \<Rightarrow> 'w \<Rightarrow>
     (((RetrieveDataResponse, ApiError) result \<times> 'w) \<times> ('w \<Rightarrow> 'w) list)" where
  "retrieve_data rc km state request w =
     (let db = inner (ts_db state) in
      case (io_bind (KeyProvider_find_by_entity_id state (dek_manager state) (rd_entity_id request)) (\<lambda>crypto_manager.
            io_bind (io_map_err ApiError_from_VaultDBError (find_by_vault_id_entity_id db
              (rd_vault_id request) (rd_entity_id request))) (\<lambda>vault_data.
            decrypt_vault km state crypto_manager vault_data))) w of (decrypted, w') \<Rightarrow>
      (case decrypted of
         Ok decrypted_data \<Rightarrow>
           unless_expired (ts_globals state) (v_expires_at decrypted_data)
             (\<lambda>w. snd (delete_from_vault db (rd_vault_id request) (rd_entity_id request) w))
             (retrieve_answer rc decrypted_data) w'
       | Err e \<Rightarrow> ((Err e, w'), [])
       | Panic \<Rightarrow> ((Panic, w'), [])))"

definition add_data ::
    "RouteCodec \<Rightarrow> KmCodec \<Rightarrow> 'w TenantAppState \<Rightarrow> WriteMode option \<Rightarrow> StoreDataRequest \<Rightarrow>
     ('w, StoreDataResponse, ApiError) io" where
  "add_data rc km state mode request =
     io_bind (StoreDataRequest_validate (ts_globals state) request) (\<lambda>_.
     io_bind (KeyProvider_find_or_create_entity km state (dek_manager state) (sd_entity_id request)) (\<lambda>crypto_manager.
     io_map StoreDataResponse_from
       (encrypt_data_and_upsert_into_db_v2 rc km state crypto_manager request mode)))"

section \<open>Entities (entity.rs)\<close>

record CreateEntityResponse =
  cer_entity_id :: string
  cer_created_at :: time

definition CreateEntityRequest_validate :: "string \<Rightarrow> (unit, ApiError) result" where
  "CreateEntityRequest_validate entity_id =
     (if trim entity_id = [] then Err (ApiError.ValidationError ''entity_id must not be empty'') else Ok ())"

definition create_entity ::
    "KmCodec \<Rightarrow> 'w TenantAppState \<Rightarrow> string \<Rightarrow> ('w, CreateEntityResponse, ApiError) io" where
  "create_entity km state entity_id =
     io_bind (io_lift (CreateEntityRequest_validate entity_id)) (\<lambda>_.
     io_bind (KeyProvider_create_entity km state (dek_manager state) entity_id) (\<lambda>created.
     io_ret \<lparr> cer_entity_id = ce_entity_id created, cer_created_at = ce_created_at created \<rparr>))"

end
