(* ===== verification/KeyMigration.thy ===== *)
theory KeyMigration
  imports Routes
begin

text \<open>
  The migration of merchant keys to the external key manager, \<open>src/src/routes/key_migration.rs\<close>.
  \<open>try_join_all\<close> drives one future per merchant; every future has two awaited calls (the
  transfer, the insert of the entity), and the futures are interleaved at those points.  The
  schedule is an argument: the list of the polls, each with the index of the future and the number
  of calls that are ready for it.
\<close>

section \<open>One future\<close>

datatype Migration =
    NotStarted Merchant
  | Transferred string DataKeyCreateResponse
  | Migrated Entity

text \<open>One awaited call, with the code after it up to the next await.\<close>

fun next_await :: "KmCodec \<Rightarrow> 'w TenantAppState \<Rightarrow> Migration \<Rightarrow> ('w, Migration, KeyManagerError) io" where
  "next_await km state (NotStarted key) =
     io_bind (io_of (DataKeyTransferRequest_create_request km (ts_globals state) (m_enc_key key))) (\<lambda>req.
     io_map (Transferred (m_merchant_id key)) (transfer_key_to_key_manager km state req))"
| "next_await km state (Transferred entity_id response) =
     io_map Migrated (io_map_err KeyManagerError_from_EntityDBError
       (Caching_insert_entity (ts_db state) entity_id (get_identifier (kr_identifier response))))"
| "next_await km state (Migrated entity) = io_ret (Migrated entity)"

text \<open>
  A poll runs the future past every await whose call is ready: past none when the call is pending, past
  both when neither has to wait.  The effects of a call are put at the poll that completes it.  A finished
  future is not polled again.
\<close>

fun poll_migration ::
    "KmCodec \<Rightarrow> 'w TenantAppState \<Rightarrow> nat \<Rightarrow> Migration \<Rightarrow> ('w, Migration, KeyManagerError) io" where
  "poll_migration km state 0 m = io_ret m"
| "poll_migration km state (Suc ready) m = io_bind (next_await km state m) (poll_migration km state ready)"

fun is_migrated :: "Migration \<Rightarrow> bool" where
  "is_migrated (Migrated e) = True"
| "is_migrated (NotStarted m) = False"
| "is_migrated (Transferred i r) = False"

section \<open>All of them\<close>

text \<open>
  The first error ends the join and drops the other futures where they are.  An index outside
  the list is skipped.
\<close>

fun poll_all ::
    "KmCodec \<Rightarrow> 'w TenantAppState \<Rightarrow> (nat \<times> nat) list \<Rightarrow> Migration list \<Rightarrow> ('w, Migration list, KeyManagerError) io" where
  "poll_all km state [] ms = io_ret ms"
| "poll_all km state ((i, ready) # schedule) ms =
     (if i < length ms
      then io_bind (poll_migration km state ready (ms ! i)) (\<lambda>m. poll_all km state schedule (ms[i := m]))
      else poll_all km state schedule ms)"

text \<open>
  \<open>None\<close>: the schedule ends before the join does.  The count is the number of the futures' values.
\<close>

definition send_request_to_key_service_for_merchant ::
    "KmCodec \<Rightarrow> 'w TenantAppState \<Rightarrow> (nat \<times> nat) list \<Rightarrow> Merchant list \<Rightarrow> ('w, nat option, ApiError) io" where
  "send_request_to_key_service_for_merchant km state schedule keys =
     io_map (\<lambda>ms. if list_all is_migrated ms then Some (length ms) else None)
       (io_map_err (\<lambda>_. ApiError.KeyManagerError ''Failed while migrating keys'')
         (poll_all km state schedule (map NotStarted keys)))"

definition transfer_keys ::
    "KmCodec \<Rightarrow> 'w TenantAppState \<Rightarrow> (nat \<times> nat) list \<Rightarrow> int \<Rightarrow> ('w, nat option, ApiError) io" where
  "transfer_keys km state schedule max_rows =
     io_bind (io_map_err ApiError_from_MerchantDBError
       (Caching_find_all_keys_excluding_entity_keys (ts_crypto state) (ts_db state) (master_encryption state) max_rows))
       (\<lambda>merchant_keys. send_request_to_key_service_for_merchant km state schedule merchant_keys)"

end
