(* ===== verification/KvLaws.thy ===== *)
theory KvLaws
  imports StorageDb
begin

text \<open>
  What the KV layer guarantees for a table whose rows are inserted without a reverse lookup,
  over the documented behaviour of Postgres and Redis.  \<open>kv_services\<close> states that behaviour
  through a view of the services' state: the table's rows by primary key, the entries of the
  Redis hashes, and the entries of the drainer streams.  Nothing is assumed of a call that
  fails in transit.
\<close>

section \<open>The view of a table\<close>

record ('w, 'pk, 'en) KvView =
  pg_row :: "'w \<Rightarrow> 'pk \<rightharpoonup> 'en"
  redis_row :: "'w \<Rightarrow> string \<rightharpoonup> 'en"
  drainer_entries :: "'w \<Rightarrow> (string \<times> (string \<times> string) list) list"

definition same_view :: "('w, 'pk, 'en) KvView \<Rightarrow> 'w Storage \<Rightarrow> 'w \<Rightarrow> 'w \<Rightarrow> bool" where
  "same_view V store w w' =
     (pg_row V w' = pg_row V w \<and> redis_row V w' = redis_row V w
      \<and> drainer_entries V w' = drainer_entries V w \<and> kv_settings store w' = kv_settings store w)"

text \<open>One part of the view changes, the rest stays.\<close>

definition pg_becomes :: "('w, 'pk, 'en) KvView \<Rightarrow> 'w Storage \<Rightarrow> 'w \<Rightarrow> 'w \<Rightarrow> ('pk \<rightharpoonup> 'en) \<Rightarrow> bool" where
  "pg_becomes V store w w' m =
     (pg_row V w' = m \<and> redis_row V w' = redis_row V w \<and> drainer_entries V w' = drainer_entries V w
      \<and> kv_settings store w' = kv_settings store w)"

definition redis_becomes :: "('w, 'pk, 'en) KvView \<Rightarrow> 'w Storage \<Rightarrow> 'w \<Rightarrow> 'w \<Rightarrow> (string \<rightharpoonup> 'en) \<Rightarrow> bool" where
  "redis_becomes V store w w' m =
     (redis_row V w' = m \<and> pg_row V w' = pg_row V w \<and> drainer_entries V w' = drainer_entries V w
      \<and> kv_settings store w' = kv_settings store w)"

definition entries_become ::
    "('w, 'pk, 'en) KvView \<Rightarrow> 'w Storage \<Rightarrow> 'w \<Rightarrow> 'w \<Rightarrow> (string \<times> (string \<times> string) list) list \<Rightarrow> bool" where
  "entries_become V store w w' m =
     (drainer_entries V w' = m \<and> pg_row V w' = pg_row V w \<and> redis_row V w' = redis_row V w
      \<and> kv_settings store w' = kv_settings store w)"

lemmas view_defs = same_view_def pg_becomes_def redis_becomes_def entries_become_def

text \<open>The queries of the table on one connection.\<close>

definition find_ok ::
    "('w, 'pk, 'en) KvView \<Rightarrow> 'w Storage \<Rightarrow> ('pk \<Rightarrow> ('w, 'en, DieselError) io) \<Rightarrow> bool" where
  "find_ok V store q =
     (\<forall>pk w r w'. q pk w = (r, w') \<longrightarrow> same_view V store w w'
        \<and> (\<forall>e. r = Ok e \<longrightarrow> pg_row V w pk = Some e)
        \<and> (r = Err DieselError.NotFound \<longrightarrow> pg_row V w pk = None))"

definition insert_ok ::
    "('w, 'pk, 'en) KvView \<Rightarrow> 'w Storage \<Rightarrow> ('new \<Rightarrow> 'pk) \<Rightarrow> ('new \<Rightarrow> ('w, 'en, DieselError) io) \<Rightarrow> bool" where
  "insert_ok V store pk_of_new q =
     (\<forall>n w r w'. q n w = (r, w') \<longrightarrow>
        (\<forall>e. r = Ok e \<longrightarrow> pg_row V w (pk_of_new n) = None
           \<and> pg_becomes V store w w' ((pg_row V w)(pk_of_new n \<mapsto> e)))
        \<and> (\<forall>i. r = Err (DieselError.DatabaseError UniqueViolation i) \<longrightarrow>
             same_view V store w w' \<and> pg_row V w (pk_of_new n) \<noteq> None)
        \<and> r \<noteq> Err DieselError.NotFound)"

definition conn_ok ::
    "('w, 'pk, 'en) KvView \<Rightarrow> 'w Storage \<Rightarrow> ('w PgConn \<Rightarrow> 'pk \<Rightarrow> ('w, 'en, DieselError) io) \<Rightarrow>
     ('w PgConn \<Rightarrow> 'new \<Rightarrow> ('w, 'en, DieselError) io) \<Rightarrow> ('new \<Rightarrow> 'pk) \<Rightarrow> 'w PgConn \<Rightarrow> bool" where
  "conn_ok V store q_find q_insert pk_of_new c =
     (find_ok V store (q_find c) \<and> insert_ok V store pk_of_new (q_insert c))"

text \<open>The Redis commands at the table's type; the code always uses the key as the field's name.\<close>

definition hget_ok :: "('w, 'pk, 'en) KvView \<Rightarrow> 'w Storage \<Rightarrow> ('w, 'en) KvValue \<Rightarrow> bool" where
  "hget_ok V store kvv =
     (\<forall>k w r w'. get_hash_field_and_deserialize kvv k k w = (r, w') \<longrightarrow> same_view V store w w'
        \<and> (\<forall>v. r = Ok v \<longrightarrow> redis_row V w k = Some v)
        \<and> (r = Err RedisError.NotFound \<longrightarrow> redis_row V w k = None))"

definition hsetnx_ok :: "('w, 'pk, 'en) KvView \<Rightarrow> 'w Storage \<Rightarrow> ('w, 'en) KvValue \<Rightarrow> bool" where
  "hsetnx_ok V store kvv =
     (\<forall>k v t w r w'. serialize_and_set_hash_field_if_not_exist kvv k k v t w = (Ok r, w') \<longrightarrow>
        (case r of
           KeySet \<Rightarrow> redis_row V w k = None \<and> redis_becomes V store w w' ((redis_row V w)(k \<mapsto> v))
         | KeyNotSet \<Rightarrow> redis_row V w k \<noteq> None \<and> same_view V store w w'))"

text \<open>
  \<open>SetNxFailed\<close>, \<open>SetAddMembersFailed\<close> and \<open>NotFound\<close> are failures of other commands (\<open>SET NX\<close>,
  \<open>SADD\<close>, reads).
\<close>

definition hsetnx_errors_ok :: "('w, 'en) KvValue \<Rightarrow> bool" where
  "hsetnx_errors_ok kvv =
     (\<forall>k v t w e. fst (serialize_and_set_hash_field_if_not_exist kvv k k v t w) = Err e \<longrightarrow>
        e \<noteq> SetNxFailed \<and> e \<noteq> SetAddMembersFailed \<and> e \<noteq> RedisError.NotFound)"

definition hset_ok :: "('w, 'pk, 'en) KvView \<Rightarrow> 'w Storage \<Rightarrow> ('w, 'en) KvValue \<Rightarrow> 'w RedisPool \<Rightarrow> bool" where
  "hset_ok V store kvv pool =
     (\<forall>k v s t w w'. to_json kvv v = Ok s \<and> set_hash_fields pool k [(k, s)] t w = (Ok (), w') \<longrightarrow>
        redis_becomes V store w w' ((redis_row V w)(k \<mapsto> v)))"

definition hdel_ok :: "('w, 'pk, 'en) KvView \<Rightarrow> 'w Storage \<Rightarrow> 'w RedisPool \<Rightarrow> bool" where
  "hdel_ok V store pool =
     (\<forall>k w n w'. delete_hash_fields pool k k w = (Ok n, w') \<longrightarrow>
        redis_becomes V store w w' ((redis_row V w)(k := None)))"

definition stream_ok :: "('w, 'pk, 'en) KvView \<Rightarrow> 'w Storage \<Rightarrow> 'w RedisPool \<Rightarrow> bool" where
  "stream_ok V store pool =
     (\<forall>name fs w w'. stream_append_entry pool name fs w = (Ok (), w') \<longrightarrow>
        entries_become V store w w' (drainer_entries V w @ [(name, fs)]))"

definition redis_ok ::
    "('w, 'pk, 'en) KvView \<Rightarrow> 'w Storage \<Rightarrow> ('w RedisPool \<Rightarrow> ('w, 'en) KvValue) \<Rightarrow> 'w RedisPool \<Rightarrow> bool" where
  "redis_ok V store sel pool =
     (hget_ok V store (sel pool) \<and> hsetnx_ok V store (sel pool) \<and> hsetnx_errors_ok (sel pool)
      \<and> hset_ok V store (sel pool) pool
      \<and> hdel_ok V store pool \<and> stream_ok V store pool)"

text \<open>
  No read replica (one may lag behind the primary), connections that work as above, and a
  clock that changes nothing.
\<close>

definition kv_services ::
    "('w, 'pk, 'en) KvView \<Rightarrow> 'w Storage \<Rightarrow> ('w PgConn \<Rightarrow> 'pk \<Rightarrow> ('w, 'en, DieselError) io) \<Rightarrow>
     ('w PgConn \<Rightarrow> 'new \<Rightarrow> ('w, 'en, DieselError) io) \<Rightarrow> ('new \<Rightarrow> 'pk) \<Rightarrow>
     ('w RedisPool \<Rightarrow> ('w, 'en) KvValue) \<Rightarrow> bool" where
  "kv_services V store q_find q_insert pk_of_new sel =
     (replica_pg_pool store = None
      \<and> (\<forall>w r w'. primary_pg_pool store w = (r, w') \<longrightarrow> same_view V store w w'
          \<and> (\<forall>c. r = Ok c \<longrightarrow> conn_ok V store q_find q_insert pk_of_new c))
      \<and> (\<forall>pool. st_redis store = Some pool \<longrightarrow> redis_ok V store sel pool)
      \<and> (\<forall>w. same_view V store w (snd (unix_timestamp_now (globals store) w))))"

lemma same_view_refl [simp]: "same_view V store w w"
  by (simp add: same_view_def)

lemma same_view_trans: "same_view V store w w' \<Longrightarrow> same_view V store w' w'' \<Longrightarrow> same_view V store w w''"
  by (simp add: same_view_def)

section \<open>Consequences for the wrapper\<close>

text \<open>One entry was appended for a key and a query, on the stream of the key's shard.\<close>

definition drained ::
    "('w, 'pk, 'en) KvView \<Rightarrow> 'w Storage \<Rightarrow> PartitionKey \<Rightarrow> SerializableQuery \<Rightarrow> 'w \<Rightarrow> 'w \<Rightarrow> bool" where
  "drained V store key query w w' =
     (\<exists>shard json t. shard_key (libs store) key (drainer_num_partitions (kv_config store)) = Ok shard
        \<and> query_to_json (libs store) query = Ok json
        \<and> drainer_entries V w' = drainer_entries V w @
            [(KvConfig_drainer_stream_name (kv_config store) shard,
              [(''query'', json), (''global_id'', PartitionKey_to_string (libs store) key),
               (''request_id'', REQUEST_ID), (''pushed_at'', t)])])"

lemma redis_error_from_ref_NotFound [simp]:
  "redis_error_from_ref e = RedisError.NotFound \<longleftrightarrow> e = RedisError.NotFound"
  by (cases e) (simp_all add: redis_error_from_ref_def)

lemma redis_error_from_ref_NotFound' [simp]:
  "RedisError.NotFound = redis_error_from_ref e \<longleftrightarrow> e = RedisError.NotFound"
  using redis_error_from_ref_NotFound by metis

lemma bridge_Ok [simp]: "bridge m w = (Ok x, w') \<longleftrightarrow> m w = (Ok x, w')"
  by (simp add: bridge_def)

lemma with_redis:
  "io_bind (io_lift (get_redis_conn store)) f w =
     (case st_redis store of None \<Rightarrow> (Err RedisConnectionError, w) | Some pool \<Rightarrow> f pool w)"
  by (simp add: get_redis_conn_def io_defs split: option.splits)

lemma kv_wrapper_HSetNx:
  assumes "st_redis store = Some pool" "ks = PartitionKey_to_string (libs store) key"
  shows "kv_wrapper store sel (HSetNx ks v query) key w =
    io_bind (bridge (serialize_and_set_hash_field_if_not_exist (sel pool) ks ks v
      (Some (ttl_for_kv (kv_config store))))) (\<lambda>reply. if reply = KeySet
        then io_bind (push_to_drainer_stream store query key) (\<lambda>_. io_ret (HSetNx_result reply))
        else io_ret (HSetNx_result KeyNotSet)) w"
  using assms by (simp add: kv_wrapper_def with_redis Let_def)

lemma not_KeySet [simp]: "r \<noteq> KeySet \<longleftrightarrow> r = KeyNotSet"
  by (cases r) simp_all

lemma hsetnx_okD:
  assumes "hsetnx_ok V store kvv" "serialize_and_set_hash_field_if_not_exist kvv k k v t w = (Ok r, w')"
  shows "case r of
       KeySet \<Rightarrow> redis_row V w k = None \<and> redis_becomes V store w w' ((redis_row V w)(k \<mapsto> v))
     | KeyNotSet \<Rightarrow> redis_row V w k \<noteq> None \<and> same_view V store w w'"
  using assms(1) [unfolded hsetnx_ok_def, rule_format, OF assms(2)] .

lemma services_redis:
  "kv_services V store f i p sel \<Longrightarrow> st_redis store = Some pool \<Longrightarrow> redis_ok V store sel pool"
  by (simp add: kv_services_def)

lemma services_clock:
  "kv_services V store f i p sel \<Longrightarrow> unix_timestamp_now (globals store) w = (t, w') \<Longrightarrow> same_view V store w w'"
  unfolding kv_services_def by (metis snd_conv)

lemma push_Ok:
  assumes "kv_services V store f i p sel"
    and "push_to_drainer_stream store query key w = (Ok x, w')"
  shows "drained V store key query w w' \<and> pg_row V w' = pg_row V w \<and> redis_row V w' = redis_row V w
    \<and> kv_settings store w' = kv_settings store w"
proof -
  from assms(2) obtain shard pool t w1 json where
      shard: "shard_key (libs store) key (drainer_num_partitions (kv_config store)) = Ok shard"
      and pool: "st_redis store = Some pool"
      and t: "unix_timestamp_now (globals store) w = (t, w1)"
      and json: "query_to_json (libs store) query = Ok json"
      and app: "stream_append_entry pool (KvConfig_drainer_stream_name (kv_config store) shard)
        [(''query'', json), (''global_id'', PartitionKey_to_string (libs store) key),
         (''request_id'', REQUEST_ID), (''pushed_at'', show_nat t)] w1 = (Ok (), w')"
    by (auto simp: push_to_drainer_stream_def Let_def io_lift_def io_of_def io_ret_def get_redis_conn_def
        to_field_value_pairs_def bridge_def elim!: io_bind_Ok_E split: prod.splits)
  have "same_view V store w w1" using services_clock [OF assms(1) t] .
  moreover have "stream_ok V store pool" using services_redis [OF assms(1) pool] by (simp add: redis_ok_def)
  then have "entries_become V store w1 w' (drainer_entries V w1 @ [(KvConfig_drainer_stream_name (kv_config store) shard,
      [(''query'', json), (''global_id'', PartitionKey_to_string (libs store) key),
       (''request_id'', REQUEST_ID), (''pushed_at'', show_nat t)])])"
    using app unfolding stream_ok_def by blast
  ultimately show ?thesis
    using shard json by (auto simp: drained_def view_defs)
qed

lemma hget_result:
  assumes "kv_services V store f i p sel"
    and "kv_wrapper store sel (HGet (PartitionKey_to_string (libs store) key)) key w = (r, w')"
  shows "same_view V store w w'
    \<and> (\<forall>x. r = Ok x \<longrightarrow> (\<exists>v. x = HGet_result v
        \<and> redis_row V w (PartitionKey_to_string (libs store) key) = Some v))
    \<and> (r = Err RedisError.NotFound \<longrightarrow> redis_row V w (PartitionKey_to_string (libs store) key) = None)"
proof (cases "st_redis store")
  case None
  then show ?thesis using assms(2)
    by (auto simp: kv_wrapper_def get_redis_conn_def io_defs)
next
  case (Some pool)
  obtain r1 w1 where g: "get_hash_field_and_deserialize (sel pool) (PartitionKey_to_string (libs store) key)
      (PartitionKey_to_string (libs store) key) w = (r1, w1)" by force
  then have "r = res_map HGet_result (res_map_err redis_error_from_ref r1)" "w' = w1"
    using assms(2) Some by (auto simp: kv_wrapper_def get_redis_conn_def io_defs bridge_def Let_def)
  moreover have "hget_ok V store (sel pool)" using services_redis [OF assms(1) Some] by (simp add: redis_ok_def)
  then have "same_view V store w w1 \<and> (\<forall>v. r1 = Ok v \<longrightarrow>
        redis_row V w (PartitionKey_to_string (libs store) key) = Some v)
      \<and> (r1 = Err RedisError.NotFound \<longrightarrow> redis_row V w (PartitionKey_to_string (libs store) key) = None)"
    using g unfolding hget_ok_def by blast
  ultimately show ?thesis by auto
qed

lemma hsetnx_KeySet:
  assumes "kv_services V store f i p sel" and "ks = PartitionKey_to_string (libs store) key"
    and "kv_wrapper store sel (HSetNx ks v query) key w = (Ok (HSetNx_result KeySet), w')"
  shows "redis_row V w ks = None \<and> redis_row V w' = (redis_row V w)(ks \<mapsto> v) \<and> pg_row V w' = pg_row V w
    \<and> drained V store key query w w' \<and> kv_settings store w' = kv_settings store w"
proof -
  from assms(3) obtain pool where pool: "st_redis store = Some pool"
    by (auto simp: kv_wrapper_def with_redis split: option.splits)
  obtain rr w1 where s': "serialize_and_set_hash_field_if_not_exist (sel pool) ks ks v
      (Some (ttl_for_kv (kv_config store))) w = (rr, w1)" by force
  then have s: "serialize_and_set_hash_field_if_not_exist (sel pool) ks ks v
      (Some (ttl_for_kv (kv_config store))) w = (Ok KeySet, w1)"
    and push: "push_to_drainer_stream store query key w1 = (Ok (), w')"
    using assms(3) [unfolded kv_wrapper_HSetNx [OF pool assms(2)]]
    by (auto simp: io_bind_def io_ret_def bridge_def io_map_err_def split: result.splits prod.splits if_splits)
  have "hsetnx_ok V store (sel pool)" using services_redis [OF assms(1) pool] by (simp add: redis_ok_def)
  then have "redis_row V w ks = None \<and> redis_becomes V store w w1 ((redis_row V w)(ks \<mapsto> v))"
    using hsetnx_okD [OF _ s] by simp
  then show ?thesis using push_Ok [OF assms(1) push] by (simp add: drained_def view_defs)
qed

lemma hsetnx_KeyNotSet:
  assumes "kv_services V store f i p sel" and "ks = PartitionKey_to_string (libs store) key"
    and "kv_wrapper store sel (HSetNx ks v query) key w = (Ok (HSetNx_result KeyNotSet), w')"
  shows "redis_row V w ks \<noteq> None \<and> same_view V store w w'"
proof -
  from assms(3) obtain pool where pool: "st_redis store = Some pool"
    by (auto simp: kv_wrapper_def with_redis split: option.splits)
  obtain rr w1 where s': "serialize_and_set_hash_field_if_not_exist (sel pool) ks ks v
      (Some (ttl_for_kv (kv_config store))) w = (rr, w1)" by force
  have s: "serialize_and_set_hash_field_if_not_exist (sel pool) ks ks v
      (Some (ttl_for_kv (kv_config store))) w = (Ok KeyNotSet, w')"
    using assms(3) [unfolded kv_wrapper_HSetNx [OF pool assms(2)]] s'
    by (auto simp: io_bind_def io_ret_def bridge_def io_map_err_def
        split: result.splits prod.splits if_splits)
  have "hsetnx_ok V store (sel pool)" using services_redis [OF assms(1) pool] by (simp add: redis_ok_def)
  then show ?thesis using hsetnx_okD [OF _ s] by simp
qed

lemma push_error:
  "fst (push_to_drainer_stream store query key w) = Err e \<Longrightarrow>
   e \<noteq> SetNxFailed \<and> e \<noteq> SetAddMembersFailed \<and> e \<noteq> RedisError.NotFound"
  by (auto simp: push_to_drainer_stream_def Let_def io_lift_def io_bind_def io_map_err_def get_redis_conn_def
      shard_key_def partition_number_def ok_or_def split: prod.splits result.splits if_splits option.splits)

lemma hsetnx_error:
  assumes "kv_services V store f i p sel" and "ks = PartitionKey_to_string (libs store) key"
    and "kv_wrapper store sel (HSetNx ks v query) key w = (Err e, w')"
  shows "e \<noteq> SetNxFailed \<and> e \<noteq> SetAddMembersFailed \<and> e \<noteq> RedisError.NotFound"
proof (cases "st_redis store")
  case None
  then show ?thesis using assms(3) by (auto simp: kv_wrapper_def with_redis)
next
  case (Some pool)
  obtain rr w1 where s: "serialize_and_set_hash_field_if_not_exist (sel pool) ks ks v
      (Some (ttl_for_kv (kv_config store))) w = (rr, w1)" by force
  note run = assms(3) [unfolded kv_wrapper_HSetNx [OF Some assms(2)]]
  show ?thesis
  proof (cases rr)
    case (Ok reply)
    then have "push_to_drainer_stream store query key w1 = (Err e, w')"
      using run s by (cases reply) (auto simp: io_bind_def io_ret_def bridge_def io_map_err_def
          split: result.splits prod.splits)
    then show ?thesis using push_error [of store query key w1 e] by simp
  next
    case (Err e')
    have "hsetnx_errors_ok (sel pool)" using services_redis [OF assms(1) Some] by (simp add: redis_ok_def)
    then have "e' \<noteq> SetNxFailed \<and> e' \<noteq> SetAddMembersFailed \<and> e' \<noteq> RedisError.NotFound"
      using s Err unfolding hsetnx_errors_ok_def by (metis fst_conv)
    moreover have "e = redis_error_from_ref e'" using run s Err by (auto simp: io_bind_def bridge_def io_map_err_def)
    ultimately show ?thesis by (cases e') (simp_all add: redis_error_from_ref_def)
  qed (use run s in \<open>simp add: io_bind_def bridge_def io_map_err_def\<close>)
qed

lemma hset_Ok:
  assumes "kv_services V store f i p sel" and "ks = PartitionKey_to_string (libs store) key"
    and "kv_wrapper store sel (Hset ks v query) key w = (Ok x, w')"
  shows "redis_row V w' = (redis_row V w)(ks \<mapsto> v) \<and> pg_row V w' = pg_row V w
    \<and> drained V store key query w w' \<and> kv_settings store w' = kv_settings store w"
proof -
  from assms(3) obtain pool where pool: "st_redis store = Some pool"
    by (auto simp: kv_wrapper_def with_redis split: option.splits)
  have "io_bind (io_lift (res_map_err (\<lambda>_. JsonSerializationFailed) (to_json (sel pool) v))) (\<lambda>json.
      io_bind (bridge (set_hash_fields pool ks [(ks, json)] (Some (ttl_for_kv (kv_config store))))) (\<lambda>_.
      io_bind (push_to_drainer_stream store query key) (\<lambda>_. io_ret Hset_result))) w = (Ok x, w')"
    using assms(3) by (simp add: kv_wrapper_def with_redis pool Let_def assms(2) [symmetric])
  then obtain json w1 where j: "to_json (sel pool) v = Ok json"
      and s: "set_hash_fields pool ks [(ks, json)] (Some (ttl_for_kv (kv_config store))) w = (Ok (), w1)"
      and push: "push_to_drainer_stream store query key w1 = (Ok (), w')"
    by (auto simp: io_lift_def io_ret_def elim!: io_bind_Ok_E)
  have "hset_ok V store (sel pool) pool" using services_redis [OF assms(1) pool] by (simp add: redis_ok_def)
  then have "redis_becomes V store w w1 ((redis_row V w)(ks \<mapsto> v))"
    using j s unfolding hset_ok_def by blast
  then show ?thesis using push_Ok [OF assms(1) push] by (simp add: drained_def view_defs)
qed

lemma hdel_Ok:
  assumes "kv_services V store f i p sel" and "ks = PartitionKey_to_string (libs store) key"
    and "kv_wrapper store sel (HDel ks query) key w = (Ok x, w')"
  shows "redis_row V w' = (redis_row V w)(ks := None) \<and> pg_row V w' = pg_row V w
    \<and> drained V store key query w w' \<and> kv_settings store w' = kv_settings store w"
proof -
  from assms(3) obtain pool where pool: "st_redis store = Some pool"
    by (auto simp: kv_wrapper_def with_redis split: option.splits)
  have "io_bind (bridge (delete_hash_fields pool ks ks)) (\<lambda>deleted.
      io_bind (push_to_drainer_stream store query key) (\<lambda>_. io_ret (HDel_result deleted))) w = (Ok x, w')"
    using assms(3) by (simp add: kv_wrapper_def with_redis pool Let_def assms(2) [symmetric])
  then obtain n w1 where s: "delete_hash_fields pool ks ks w = (Ok n, w1)"
      and push: "push_to_drainer_stream store query key w1 = (Ok (), w')"
    by (auto simp: io_ret_def elim!: io_bind_Ok_E)
  have "hdel_ok V store pool" using services_redis [OF assms(1) pool] by (simp add: redis_ok_def)
  then have "redis_becomes V store w w1 ((redis_row V w)(ks := None))"
    using s unfolding hdel_ok_def by blast
  then show ?thesis using push_Ok [OF assms(1) push] by (simp add: drained_def view_defs)
qed

section \<open>A table as a finite map\<close>

text \<open>
  The row that a read answers: in mode \<open>Disabled\<close> the row of Postgres, in the other modes the entry
  of Redis if there is one.
\<close>

definition row_key :: "('w, 'n, 'en, 'm, 'pk, 'e) KvResource \<Rightarrow> 'w Storage \<Rightarrow> 'pk \<Rightarrow> string" where
  "row_key M store pk = PartitionKey_to_string (libs store) (get_partition_key M pk)"

definition visible ::
    "('w, 'n, 'en, 'm, 'pk, 'e) KvResource \<Rightarrow> ('w, 'pk, 'en) KvView \<Rightarrow> 'w Storage \<Rightarrow> 'w \<Rightarrow> 'pk \<rightharpoonup> 'en" where
  "visible M V store w pk = (case kv_settings store w of
     KvState.Disabled \<Rightarrow> pg_row V w pk
   | _ \<Rightarrow> (case redis_row V w (row_key M store pk) of Some e \<Rightarrow> Some e | None \<Rightarrow> pg_row V w pk))"

lemma same_view_visible: "same_view V store w w' \<Longrightarrow> visible M V store w' = visible M V store w"
  by (rule ext) (cases "kv_settings store w"; simp add: same_view_def visible_def split: option.split)

lemma visible_Disabled [simp]: "kv_settings store w = KvState.Disabled \<Longrightarrow> visible M V store w pk = pg_row V w pk"
  by (simp add: visible_def)

lemma visible_redis:
  "kv_settings store w \<noteq> KvState.Disabled \<Longrightarrow> redis_row V w (row_key M store pk) = Some e \<Longrightarrow>
   visible M V store w pk = Some e"
  by (cases "kv_settings store w") (simp_all add: visible_def)

lemma visible_no_redis:
  "redis_row V w (row_key M store pk) = None \<Longrightarrow> visible M V store w pk = pg_row V w pk"
  by (cases "kv_settings store w") (simp_all add: visible_def)

text \<open>
  What a successful insert of \<open>n\<close> leaves: in mode \<open>Enabled\<close> the entry of Redis, which was free, and
  one query for the drainer; in the other modes the row of Postgres, which was free.
\<close>

definition inserted ::
    "('w, 'new, 'entity, 'm, 'pk, 'e) KvResource \<Rightarrow> ('w, 'pk, 'entity) KvView \<Rightarrow> 'w Storage \<Rightarrow> 'pk \<Rightarrow> PartitionKey \<Rightarrow>
     'new \<Rightarrow> 'entity \<Rightarrow> 'w \<Rightarrow> 'w \<Rightarrow> bool" where
  "inserted M V store pk key n x w w' = (kv_settings store w' = kv_settings store w \<and>
     (if kv_settings store w = KvState.Enabled
      then x = into_entity M (set_storage_scheme M n RedisKv)
        \<and> redis_row V w (row_key M store pk) = None
        \<and> redis_row V w' = (redis_row V w)(row_key M store pk \<mapsto> x) \<and> pg_row V w' = pg_row V w
        \<and> (\<exists>query. generate_insert_drainer_query M (libs store) (set_storage_scheme M n RedisKv) = Ok query
              \<and> drained V store key query w w')
      else pg_row V w pk = None \<and> pg_becomes V store w w' ((pg_row V w)(pk \<mapsto> x))))"

text \<open>
  The contract of a table without reverse lookups: its reads and inserts are single queries,
  on the routed and on the primary connection.
\<close>

locale kv_table = kv_resource M is_duplicate from_diesel pk_of_new pk_of_entity scheme_of
  for M :: "('w, 'new, 'entity, 'm, 'pk, 'e) KvResource"
    and is_duplicate :: "'e \<Rightarrow> bool" and from_diesel :: "DieselError \<Rightarrow> 'e"
    and pk_of_new :: "'new \<Rightarrow> 'pk" and pk_of_entity :: "'entity \<Rightarrow> 'pk"
    and scheme_of :: "'entity \<Rightarrow> StorageScheme option" +
  fixes from_storage :: "StorageError \<Rightarrow> 'e"
    and q_find :: "'w PgConn \<Rightarrow> 'pk \<Rightarrow> ('w, 'entity, DieselError) io"
    and q_insert :: "'w PgConn \<Rightarrow> 'new \<Rightarrow> ('w, 'entity, DieselError) io"
  assumes find_eq: "storage_find M store pk = on_conn (route_conn store) from_storage from_diesel (\<lambda>c. q_find c pk)"
    and insert_eq: "storage_insert M n store = on_conn (get_conn store) from_storage from_diesel (\<lambda>c. q_insert c n)"
    and pool_failure: "\<not> error_is_not_found M (from_storage StorageError.PoolClientFailure)"
      "\<not> is_duplicate (from_storage StorageError.PoolClientFailure)"
    and query_errors: "generate_insert_drainer_query M l n \<noteq> Err (KvError.DuplicateValue k)"
      "generate_insert_drainer_query M l n \<noteq> Err (KvError.ValueNotFound k)"
begin

lemma route_is_primary:
  assumes "kv_services V store q_find q_insert pk_of_new (kv_value M)"
  shows "route_conn store = get_conn store"
  using assms by (auto simp: kv_services_def route_conn_def should_use_replica_def has_replica_def)

lemma get_conn_cases:
  assumes "kv_services V store q_find q_insert pk_of_new (kv_value M)" "get_conn store w = (r, w1)"
  shows "same_view V store w w1 \<and> (\<forall>c. r = Ok c \<longrightarrow> conn_ok V store q_find q_insert pk_of_new (fst c))
    \<and> (\<forall>e. r = Err e \<longrightarrow> e = StorageError.PoolClientFailure)"
proof -
  obtain rr w2 where p: "primary_pg_pool store w = (rr, w2)" by force
  then have "same_view V store w w2 \<and> (\<forall>c. rr = Ok c \<longrightarrow> conn_ok V store q_find q_insert pk_of_new c)"
    using assms(1) unfolding kv_services_def by blast
  then show ?thesis using assms(2) p by (cases rr) (auto simp: get_conn_def io_map_def io_map_err_def)
qed

lemma find_pg:
  assumes ok: "kv_services V store q_find q_insert pk_of_new (kv_value M)"
    and run: "storage_find M store pk w = (r, w')"
  shows "same_view V store w w' \<and> (\<forall>e. r = Ok e \<longrightarrow> pg_row V w pk = Some e)
    \<and> (\<forall>x. r = Err x \<longrightarrow> error_is_not_found M x \<longrightarrow> pg_row V w pk = None)"
proof -
  obtain rc w1 where c: "get_conn store w = (rc, w1)" by force
  note c' = get_conn_cases [OF ok c]
  show ?thesis
  proof (cases rc)
    case (Ok cp)
    obtain rq w2 where q: "q_find (fst cp) pk w1 = (rq, w2)" by force
    have "find_ok V store (q_find (fst cp))" using c' Ok by (simp add: conn_ok_def)
    then have "same_view V store w1 w2 \<and> (\<forall>e. rq = Ok e \<longrightarrow> pg_row V w1 pk = Some e)
        \<and> (rq = Err DieselError.NotFound \<longrightarrow> pg_row V w1 pk = None)"
      using q unfolding find_ok_def by blast
    moreover have "r = res_map_err from_diesel rq" "w' = w2"
      using run c q Ok by (auto simp: find_eq route_is_primary [OF ok] on_conn_def io_bind_def io_map_err_def
          split: prod.splits)
    ultimately show ?thesis using c' by (auto simp: same_view_def not_found_iff)
  qed (use run c c' pool_failure in \<open>auto simp: find_eq route_is_primary [OF ok] on_conn_def io_bind_def io_map_err_def\<close>)
qed

lemma insert_pg:
  assumes ok: "kv_services V store q_find q_insert pk_of_new (kv_value M)"
    and run: "storage_insert M n store w = (r, w')"
  shows "(\<forall>e. r = Ok e \<longrightarrow> pg_row V w (pk_of_new n) = None \<and> pg_becomes V store w w' ((pg_row V w)(pk_of_new n \<mapsto> e)))
    \<and> (\<forall>x. r = Err x \<longrightarrow> is_duplicate x \<longrightarrow> same_view V store w w' \<and> pg_row V w (pk_of_new n) \<noteq> None)
    \<and> (\<forall>x. r = Err x \<longrightarrow> \<not> error_is_not_found M x)"
proof -
  obtain rc w1 where c: "get_conn store w = (rc, w1)" by force
  note c' = get_conn_cases [OF ok c]
  show ?thesis
  proof (cases rc)
    case (Ok cp)
    obtain rq w2 where q: "q_insert (fst cp) n w1 = (rq, w2)" by force
    have "insert_ok V store pk_of_new (q_insert (fst cp))" using c' Ok by (simp add: conn_ok_def)
    then have "(\<forall>e. rq = Ok e \<longrightarrow> pg_row V w1 (pk_of_new n) = None
          \<and> pg_becomes V store w1 w2 ((pg_row V w1)(pk_of_new n \<mapsto> e)))
        \<and> (\<forall>i. rq = Err (DieselError.DatabaseError UniqueViolation i) \<longrightarrow>
             same_view V store w1 w2 \<and> pg_row V w1 (pk_of_new n) \<noteq> None)
        \<and> rq \<noteq> Err DieselError.NotFound"
      using q unfolding insert_ok_def by blast
    moreover have "r = res_map_err from_diesel rq" "w' = w2"
      using run c q Ok by (auto simp: insert_eq on_conn_def io_bind_def io_map_err_def split: prod.splits)
    ultimately show ?thesis using c' by (auto simp: view_defs duplicate_iff not_found_iff)
  qed (use run c c' pool_failure in \<open>auto simp: insert_eq on_conn_def io_bind_def io_map_err_def\<close>)
qed

text \<open>A read changes nothing and answers the visible row; it misses only when there is none.\<close>

lemma find_visible:
  assumes ok: "kv_services V store q_find q_insert pk_of_new (kv_value M)"
    and run: "find_resource_by_id_inner M store pk w = (r, w')"
  shows "same_view V store w w' \<and> (\<forall>e. r = Ok e \<longrightarrow> visible M V store w pk = Some e)
    \<and> (\<forall>x. r = Err x \<longrightarrow> error_is_not_found M x \<longrightarrow> visible M V store w pk = None)"
proof (cases "kv_settings store w = KvState.Disabled")
  case True
  then show ?thesis using find_pg [OF ok, of pk w r w'] run by (simp add: find_postgres)
next
  case False
  let ?key = "get_partition_key M pk" and ?ks = "row_key M store pk"
  have run': "kv_hget M store ?key ?ks io_ret (storage_find M store pk) w = (r, w')"
    using run False by (cases "kv_settings store w")
      (simp_all add: find_resource_by_id_inner_def decide_storage_scheme_for_find_operation_def Let_def row_key_def)
  obtain rk w1 where k: "kv_wrapper store (kv_value M) (HGet ?ks) ?key w = (rk, w1)" by force
  note k' = hget_result [OF ok k [unfolded row_key_def], folded row_key_def]
  show ?thesis
  proof (cases "rk = Err RedisError.NotFound")
    case True
    then have f: "storage_find M store pk w1 = (r, w')" using run' k by (simp add: hget_cases)
    have "pg_row V w1 pk = visible M V store w pk"
      using k' True visible_no_redis [of V w M store pk] by (simp add: same_view_def)
    then show ?thesis using find_pg [OF ok f] k' True by (auto simp: same_view_def)
  next
    case nf: False
    show ?thesis
    proof (cases rk)
      case (Ok x)
      then obtain v where "x = HGet_result v" "redis_row V w ?ks = Some v" using k' by blast
      then show ?thesis using run' k k' Ok visible_redis [OF False, of V M pk v]
        by (auto simp: hget_cases io_ret_def)
    next
      case (Err e)
      then show ?thesis using run' k k' nf redis_not_found_iff [of e ?ks] by (auto simp: hget_cases)
    qed (use run' k k' in \<open>simp add: hget_cases\<close>)
  qed
qed

lemma insert_redis:
  assumes "kv_settings store w = KvState.Enabled"
  shows "insert_resource_inner M irl store n key (\<lambda>_ _. None) w =
    (case generate_insert_drainer_query M (libs store) (set_storage_scheme M n RedisKv) of
       Err e \<Rightarrow> (Err (error_from_kv M e), w)
     | Panic \<Rightarrow> (Panic, w)
     | Ok query \<Rightarrow>
         (case kv_wrapper store (kv_value M) (HSetNx (PartitionKey_to_string (libs store) key)
             (into_entity M (set_storage_scheme M n RedisKv)) query) key w of (r, w') \<Rightarrow>
           (case r of
              Ok (HSetNx_result KeySet) \<Rightarrow> (Ok (into_entity M (set_storage_scheme M n RedisKv)), w')
            | Ok (HSetNx_result KeyNotSet) \<Rightarrow>
                (Err (kv_duplicate_error M (PartitionKey_to_string (libs store) key)), w')
            | Ok _ \<Rightarrow> (Err (error_from_kv M KvError.Backend), w')
            | Err e \<Rightarrow> (Err (error_from_kv M
                (to_redis_failed_response e (PartitionKey_to_string (libs store) key))), w')
            | Panic \<Rightarrow> (Panic, w'))))"
  using assms by (simp add: insert_resource_inner_def decide_storage_scheme_for_insert_operation_def Let_def
      io_defs kv_backend_error_def split: prod.splits result.splits KvResult.splits HsetnxReply.splits)

lemma insert_Ok:
  assumes ok: "kv_services V store q_find q_insert pk_of_new (kv_value M)"
    and key: "key = get_partition_key M (pk_of_new n)"
    and run: "insert_resource_inner M irl store n key (\<lambda>_ _. None) w = (Ok x, w')"
  shows "inserted M V store (pk_of_new n) key n x w w'"
proof (cases "kv_settings store w = KvState.Enabled")
  case True
  let ?x = "into_entity M (set_storage_scheme M n RedisKv)"
  from run obtain query where q: "generate_insert_drainer_query M (libs store) (set_storage_scheme M n RedisKv) = Ok query"
      and h: "kv_wrapper store (kv_value M) (HSetNx (PartitionKey_to_string (libs store) key) ?x query) key w
        = (Ok (HSetNx_result KeySet), w')" and x: "x = ?x"
    unfolding insert_redis [OF True]
    by (auto split: result.splits prod.splits KvResult.splits HsetnxReply.splits)
  note h' = hsetnx_KeySet [OF ok refl h]
  show ?thesis using True q x h' by (auto simp: inserted_def row_key_def key)
next
  case False
  then have i: "storage_insert M (set_storage_scheme M n PostgresOnly) store w = (Ok x, w')"
    using run by (simp add: insert_postgres)
  show ?thesis using insert_pg [OF ok i] False by (simp add: inserted_def view_defs)
qed

text \<open>A duplicate is only reported for a row that a read sees, and changes nothing.\<close>

lemma insert_duplicate:
  assumes ok: "kv_services V store q_find q_insert pk_of_new (kv_value M)"
    and key: "key = get_partition_key M (pk_of_new n)"
    and run: "insert_resource_inner M irl store n key (\<lambda>_ _. None) w = (Err x, w')"
    and dup: "is_duplicate x"
  shows "same_view V store w w' \<and> visible M V store w (pk_of_new n) \<noteq> None"
proof (cases "kv_settings store w = KvState.Enabled")
  case True
  let ?ks = "PartitionKey_to_string (libs store) key"
  let ?x = "into_entity M (set_storage_scheme M n RedisKv)"
  show ?thesis
  proof (cases "generate_insert_drainer_query M (libs store) (set_storage_scheme M n RedisKv)")
    case (Ok query)
    obtain r w1 where h: "kv_wrapper store (kv_value M) (HSetNx ?ks ?x query) key w = (r, w1)" by force
    have "r = Ok (HSetNx_result KeyNotSet) \<and> w1 = w'"
    proof (cases r)
      case (Err e)
      then show ?thesis using run h Ok dup hsetnx_error [OF ok refl h [unfolded Err]]
        by (auto simp: insert_redis [OF True] redis_duplicate_iff)
    qed (use run h Ok dup in \<open>auto simp: insert_redis [OF True] kv_duplicate
      split: KvResult.splits HsetnxReply.splits\<close>)
    then have "redis_row V w ?ks \<noteq> None \<and> same_view V store w w'"
      using hsetnx_KeyNotSet [OF ok refl] h by blast
    then show ?thesis using True by (auto simp: visible_def row_key_def key)
  next
    case (Err e)
    then show ?thesis using run dup query_errors by (auto simp: insert_redis [OF True] kv_duplicate)
  qed (use run in \<open>simp add: insert_redis [OF True]\<close>)
next
  case False
  then have i: "storage_insert M (set_storage_scheme M n PostgresOnly) store w = (Err x, w')"
    using run by (simp add: insert_postgres)
  then have "same_view V store w w' \<and> pg_row V w (pk_of_new n) \<noteq> None" using insert_pg [OF ok i] dup by simp
  then show ?thesis by (auto simp: visible_def split: KvState.splits option.splits)
qed

text \<open>An insert never reports a missing row.\<close>

lemma insert_not_found:
  assumes ok: "kv_services V store q_find q_insert pk_of_new (kv_value M)"
    and run: "insert_resource_inner M irl store n key (\<lambda>_ _. None) w = (Err x, w')"
  shows "\<not> error_is_not_found M x"
proof (cases "kv_settings store w = KvState.Enabled")
  case True
  let ?ks = "PartitionKey_to_string (libs store) key"
  let ?x = "into_entity M (set_storage_scheme M n RedisKv)"
  show ?thesis
  proof (cases "generate_insert_drainer_query M (libs store) (set_storage_scheme M n RedisKv)")
    case (Ok query)
    obtain r w1 where h: "kv_wrapper store (kv_value M) (HSetNx ?ks ?x query) key w = (r, w1)" by force
    show ?thesis
    proof (cases r)
      case (Err e)
      then show ?thesis using run h Ok hsetnx_error [OF ok refl h [unfolded Err]]
        by (auto simp: insert_redis [OF True] redis_not_found_iff)
    qed (use run h Ok in \<open>auto simp: insert_redis [OF True] kv_not_found kv_duplicate_error_def kv_backend_error_def
      split: KvResult.splits HsetnxReply.splits\<close>)
  next
    case (Err e)
    then show ?thesis using run query_errors by (auto simp: insert_redis [OF True] kv_not_found)
  qed (use run in \<open>simp add: insert_redis [OF True]\<close>)
next
  case False
  then have i: "storage_insert M (set_storage_scheme M n PostgresOnly) store w = (Err x, w')"
    using run by (simp add: insert_postgres)
  then show ?thesis using insert_pg [OF ok i] by simp
qed

end

section \<open>Updates and deletes\<close>

text \<open>An update of a row that exists answers the updated row; a delete removes the row.\<close>

definition update_ok ::
    "('w, 'pk, 'en) KvView \<Rightarrow> 'w Storage \<Rightarrow> ('upd \<Rightarrow> 'en \<Rightarrow> 'en) \<Rightarrow> ('pk \<Rightarrow> 'upd \<Rightarrow> ('w, 'en, DieselError) io) \<Rightarrow> bool" where
  "update_ok V store upd q =
     (\<forall>pk u w e w'. q pk u w = (Ok e, w') \<longrightarrow>
        (\<exists>current. pg_row V w pk = Some current \<and> e = upd u current)
        \<and> pg_becomes V store w w' ((pg_row V w)(pk \<mapsto> e)))"

definition delete_ok :: "('w, 'pk, 'en) KvView \<Rightarrow> 'w Storage \<Rightarrow> ('pk \<Rightarrow> ('w, nat, DieselError) io) \<Rightarrow> bool" where
  "delete_ok V store q =
     (\<forall>pk w n w'. q pk w = (Ok n, w') \<longrightarrow> pg_becomes V store w w' ((pg_row V w)(pk := None)))"

definition mutations_ok ::
    "('w, 'pk, 'en) KvView \<Rightarrow> 'w Storage \<Rightarrow> ('upd \<Rightarrow> 'en \<Rightarrow> 'en) \<Rightarrow>
     ('w PgConn \<Rightarrow> 'pk \<Rightarrow> 'upd \<Rightarrow> ('w, 'en, DieselError) io) \<Rightarrow> ('w PgConn \<Rightarrow> 'pk \<Rightarrow> ('w, nat, DieselError) io) \<Rightarrow> bool" where
  "mutations_ok V store upd q_update q_delete =
     (\<forall>w c w'. primary_pg_pool store w = (Ok c, w') \<longrightarrow>
        update_ok V store upd (q_update c) \<and> delete_ok V store (q_delete c))"

lemma mutations_okD:
  "mutations_ok V store upd q_update q_delete \<Longrightarrow> primary_pg_pool store w = (Ok c, w') \<Longrightarrow>
   update_ok V store upd (q_update c) \<and> delete_ok V store (q_delete c)"
  unfolding mutations_ok_def by blast

text \<open>A row goes to the store the scheme names, the other store stays.\<close>

definition written ::
    "('w, 'new, 'entity, 'm, 'pk, 'e) KvResource \<Rightarrow> ('w, 'pk, 'entity) KvView \<Rightarrow> 'w Storage \<Rightarrow> 'pk \<Rightarrow>
     StorageScheme \<Rightarrow> 'entity option \<Rightarrow> 'w \<Rightarrow> 'w \<Rightarrow> bool" where
  "written M V store pk scheme e w w' = (kv_settings store w' = kv_settings store w \<and> (case scheme of
     RedisKv \<Rightarrow> (kv_settings store w = KvState.Enabled
         \<or> kv_settings store w = SoftKill \<and> redis_row V w (row_key M store pk) \<noteq> None)
       \<and> pg_row V w' = pg_row V w
       \<and> redis_row V w' = (redis_row V w)(row_key M store pk := e)
       \<and> (\<exists>query. drained V store (get_partition_key M pk) query w w')
   | PostgresOnly \<Rightarrow> (kv_settings store w = KvState.Disabled
         \<or> kv_settings store w = SoftKill \<and> redis_row V w (row_key M store pk) = None)
       \<and> pg_becomes V store w w' ((pg_row V w)(pk := e))))"

lemma written_other:
  assumes "written M V store pk scheme e w w'" "row_key M store pk' \<noteq> row_key M store pk"
  shows "visible M V store w' pk' = visible M V store w pk'"
proof -
  have "pk' \<noteq> pk" using assms(2) by auto
  then show ?thesis using assms
    by (cases scheme; cases "kv_settings store w")
      (simp_all add: written_def visible_def view_defs split: option.split)
qed

lemma written_same:
  assumes "written M V store pk scheme (Some e) w w'"
  shows "visible M V store w' pk = Some e"
  using assms by (cases scheme; cases "kv_settings store w") (auto simp: written_def visible_def view_defs)

lemma written_None:
  assumes "written M V store pk scheme None w w'"
  shows "visible M V store w' pk = (if scheme = RedisKv then pg_row V w pk else None)"
  using assms by (cases scheme; cases "kv_settings store w") (auto simp: written_def visible_def view_defs)

text \<open>The new content of a row: the column assignments in Postgres, the code's own update in Redis.\<close>

definition updated ::
    "('w, 'upd, 'entity, 'm, 'pk, 'e) KvUpdatableResource \<Rightarrow> ('upd \<Rightarrow> 'entity \<Rightarrow> 'entity) \<Rightarrow> StorageScheme \<Rightarrow>
     'upd \<Rightarrow> 'entity \<Rightarrow> 'entity" where
  "updated U changeset scheme u current = (case scheme of
     PostgresOnly \<Rightarrow> changeset (set_update_storage_scheme U u scheme) current
   | RedisKv \<Rightarrow> apply_update U (set_update_storage_scheme U u scheme) current)"

text \<open>
  The assignments diesel derives from \<open>VaultUpdate\<close> (\<open>AsChangeset\<close>): an optional field that is
  \<open>None\<close> is left out, so the column keeps its value.
\<close>

definition vault_changeset :: "VaultUpdate \<Rightarrow> VaultInner \<Rightarrow> VaultInner" where
  "vault_changeset u current = current\<lparr> vi_encrypted_data := vu_encrypted_data u,
     vi_expires_at := (case vu_expires_at u of None \<Rightarrow> vi_expires_at current | Some t \<Rightarrow> Some t),
     vi_updated_by := Some (vu_updated_by u) \<rparr>"

locale kv_mutable_table =
    kv_table M is_duplicate from_diesel pk_of_new pk_of_entity scheme_of from_storage q_find q_insert
  for M :: "('w, 'new, 'entity, 'm, 'pk, 'e) KvResource"
    and is_duplicate :: "'e \<Rightarrow> bool" and from_diesel :: "DieselError \<Rightarrow> 'e"
    and pk_of_new :: "'new \<Rightarrow> 'pk" and pk_of_entity :: "'entity \<Rightarrow> 'pk"
    and scheme_of :: "'entity \<Rightarrow> StorageScheme option" and from_storage :: "StorageError \<Rightarrow> 'e"
    and q_find :: "'w PgConn \<Rightarrow> 'pk \<Rightarrow> ('w, 'entity, DieselError) io"
    and q_insert :: "'w PgConn \<Rightarrow> 'new \<Rightarrow> ('w, 'entity, DieselError) io" +
  fixes U :: "('w, 'upd, 'entity, 'm, 'pk, 'e) KvUpdatableResource" and D :: "('w, 'pk, 'e) KvDeletableResource"
    and q_update :: "'w PgConn \<Rightarrow> 'pk \<Rightarrow> 'upd \<Rightarrow> ('w, 'entity, DieselError) io"
    and q_delete :: "'w PgConn \<Rightarrow> 'pk \<Rightarrow> ('w, nat, DieselError) io"
    and changeset :: "'upd \<Rightarrow> 'entity \<Rightarrow> 'entity"
  assumes update_eq: "storage_update U store u pk =
      io_map (into_model M) (on_conn (get_conn store) from_storage from_diesel (\<lambda>c. q_update c pk u))"
    and delete_eq: "storage_delete D store pk =
      on_conn (get_conn store) from_storage from_diesel (\<lambda>c. q_delete c pk)"
begin

lemma on_primary:
  assumes ok: "kv_services V store q_find q_insert pk_of_new (kv_value M)"
    and run: "on_conn (get_conn store) from_storage from_diesel q w = (Ok x, w')"
  obtains c w0 w1 where "primary_pg_pool store w0 = (Ok c, w1)" "same_view V store w w1" "q c w1 = (Ok x, w')"
proof -
  from run obtain cp w1 where c: "get_conn store w = (Ok cp, w1)" and q: "q (fst cp) w1 = (Ok x, w')"
    by (auto simp: on_conn_def elim!: io_bind_Ok_E split: prod.splits)
  from c have "primary_pg_pool store w = (Ok (fst cp), w1)"
    by (auto simp: get_conn_def)
  with get_conn_cases [OF ok c] q show ?thesis by (intro that) auto
qed

lemma update_pg:
  assumes ok: "kv_services V store q_find q_insert pk_of_new (kv_value M)"
    and mut: "mutations_ok V store changeset q_update q_delete"
    and run: "storage_update U store u pk w = (Ok m, w')"
  shows "\<exists>current. pg_row V w pk = Some current \<and> m = into_model M (changeset u current)
    \<and> pg_becomes V store w w' ((pg_row V w)(pk \<mapsto> changeset u current))"
proof -
  from run obtain e where "on_conn (get_conn store) from_storage from_diesel (\<lambda>c. q_update c pk u) w = (Ok e, w')"
      and m: "m = into_model M e" by (auto simp: update_eq)
  then obtain c w0 w1 where c: "primary_pg_pool store w0 = (Ok c, w1)" "same_view V store w w1"
      "q_update c pk u w1 = (Ok e, w')" using on_primary [OF ok] by metis
  have "update_ok V store changeset (q_update c)" using mutations_okD [OF mut c(1)] by simp
  note this [unfolded update_ok_def, rule_format, OF c(3)]
  then show ?thesis using c(2) m by (auto simp: view_defs)
qed

lemma delete_pg:
  assumes ok: "kv_services V store q_find q_insert pk_of_new (kv_value M)"
    and mut: "mutations_ok V store changeset q_update q_delete"
    and run: "storage_delete D store pk w = (Ok n, w')"
  shows "pg_becomes V store w w' ((pg_row V w)(pk := None))"
proof -
  obtain c w0 w1 where c: "primary_pg_pool store w0 = (Ok c, w1)" "same_view V store w w1"
      "q_delete c pk w1 = (Ok n, w')" using on_primary [OF ok run [unfolded delete_eq]] by metis
  have "delete_ok V store (q_delete c)" using mutations_okD [OF mut c(1)] by simp
  note this [unfolded delete_ok_def, rule_format, OF c(3)]
  then show ?thesis using c(2) by (auto simp: view_defs)
qed

lemma mutate_scheme:
  assumes ok: "kv_services V store q_find q_insert pk_of_new (kv_value M)"
    and run: "decide_storage_scheme_for_mutate_operation M store (get_partition_key M pk) w = (Ok (scheme, cached), w')"
  shows "same_view V store w w' \<and> (case scheme of
      RedisKv \<Rightarrow> (kv_settings store w = KvState.Enabled
          \<or> kv_settings store w = SoftKill \<and> redis_row V w (row_key M store pk) \<noteq> None)
        \<and> (\<forall>v. cached = Some v \<longrightarrow> redis_row V w (row_key M store pk) = Some v)
    | PostgresOnly \<Rightarrow> kv_settings store w = KvState.Disabled
        \<or> kv_settings store w = SoftKill \<and> redis_row V w (row_key M store pk) = None)"
proof (cases "kv_settings store w")
  case SoftKill
  let ?key = "get_partition_key M pk" and ?ks = "row_key M store pk"
  obtain rk w1 where k: "kv_wrapper store (kv_value M) (HGet ?ks) ?key w = (rk, w1)" by force
  note k' = hget_result [OF ok k [unfolded row_key_def], folded row_key_def]
  have run': "kv_hget M store ?key ?ks (\<lambda>v. io_ret (RedisKv, Some v)) (io_ret (PostgresOnly, None)) w
      = (Ok (scheme, cached), w')"
    using run SoftKill by (simp add: decide_storage_scheme_for_mutate_operation_def row_key_def)
  show ?thesis
  proof (cases rk)
    case (Ok x)
    then obtain v where "x = HGet_result v" "redis_row V w ?ks = Some v" using k' by blast
    then show ?thesis using run' k k' Ok SoftKill by (auto simp: hget_cases io_ret_def dest: sym)
  next
    case (Err e)
    then show ?thesis using run' k k' SoftKill by (auto simp: hget_cases io_ret_def split: if_splits)
  qed (use run' k in \<open>simp add: hget_cases\<close>)
qed (use run in \<open>auto simp: decide_storage_scheme_for_mutate_operation_def io_ret_def\<close>)

text \<open>
  An update applies to the row a read sees and writes it to the store the mode chose, marked with
  that store; a delete removes the row from that store only.
\<close>

lemma update_Ok:
  assumes ok: "kv_services V store q_find q_insert pk_of_new (kv_value M)"
    and mut: "mutations_ok V store changeset q_update q_delete"
    and run: "update_resource_by_id M U store u pk w = (Ok m, w')"
  shows "\<exists>scheme current. visible M V store w pk = Some current
    \<and> m = into_model M (updated U changeset scheme u current)
    \<and> written M V store pk scheme (Some (updated U changeset scheme u current)) w w'"
proof -
  let ?key = "get_partition_key M pk" and ?ks = "row_key M store pk"
  from run obtain scheme cached w1 where s: "decide_storage_scheme_for_mutate_operation M store ?key w
      = (Ok (scheme, cached), w1)"
    by (auto simp: update_resource_by_id_def Let_def elim!: io_bind_Ok_E)
  note s' = mutate_scheme [OF ok s]
  show ?thesis
  proof (cases scheme)
    case PostgresOnly
    then have "storage_update U store (set_update_storage_scheme U u scheme) pk w1 = (Ok m, w')"
      using run s by (simp add: update_resource_by_id_def Let_def io_bind_def)
    note u = update_pg [OF ok mut this]
    then obtain current where c: "pg_row V w1 pk = Some current"
        "m = into_model M (updated U changeset scheme u current)"
        "pg_becomes V store w1 w' ((pg_row V w1)(pk \<mapsto> updated U changeset scheme u current))"
      using PostgresOnly by (auto simp: updated_def)
    have "visible M V store w pk = Some current"
      using s' c(1) PostgresOnly visible_no_redis [of V w M store pk] by (auto simp: same_view_def)
    moreover have "written M V store pk scheme (Some (updated U changeset scheme u current)) w w'"
      using s' c(3) PostgresOnly by (auto simp: written_def view_defs)
    ultimately show ?thesis using c(2) by blast
  next
    case RedisKv
    let ?u = "set_update_storage_scheme U u scheme"
    have "io_bind (case cached of Some resource \<Rightarrow> io_ret resource | None \<Rightarrow> find_resource_by_id_inner M store pk)
        (\<lambda>current. io_bind (io_lift (res_map_err (kv_backend_error M)
            (generate_update_drainer_query U (libs store) ?u pk))) (\<lambda>update_query.
          io_bind (io_map_err (\<lambda>e. kv_backend_error M (to_redis_failed_response e ?ks))
            (kv_wrapper store (kv_value M) (Hset ?ks (apply_update U ?u current) update_query) ?key)) (\<lambda>reply.
          io_bind (io_lift (res_map_err (\<lambda>e. kv_backend_error M KvError.Backend) (try_into_hset reply))) (\<lambda>_.
          io_ret (into_model M (apply_update U ?u current)))))) w1 = (Ok m, w')"
      using run s RedisKv by (simp add: update_resource_by_id_def Let_def io_bind_Ok row_key_def)
    then obtain current w2 reply query where
        f: "(case cached of Some resource \<Rightarrow> io_ret resource | None \<Rightarrow> find_resource_by_id_inner M store pk) w1
          = (Ok current, w2)"
        and h: "kv_wrapper store (kv_value M) (Hset ?ks (apply_update U ?u current) query) ?key w2 = (Ok reply, w')"
        and m: "m = into_model M (apply_update U ?u current)"
      by (auto simp: io_lift_def io_ret_def elim!: io_bind_Ok_E)
    have fv: "same_view V store w1 w2 \<and> visible M V store w1 pk = Some current"
    proof (cases cached)
      case None
      then show ?thesis using find_visible [OF ok, of pk w1 "Ok current" w2] f by simp
    next
      case (Some v)
      moreover have "kv_settings store w \<noteq> KvState.Disabled" using s' RedisKv by auto
      ultimately show ?thesis using f s' RedisKv visible_redis [of store w V M pk v] same_view_visible [of V store w w1 M]
        by (simp add: io_ret_def)
    qed
    note h' = hset_Ok [OF ok row_key_def h]
    have "written M V store pk scheme (Some (apply_update U ?u current)) w w'"
      using h' fv s' RedisKv by (auto simp: written_def same_view_def drained_def)
    moreover have "visible M V store w pk = Some current" using fv s' same_view_visible [of V store w w1 M] by simp
    moreover have "updated U changeset scheme u current = apply_update U ?u current"
      using RedisKv by (simp add: updated_def)
    ultimately show ?thesis using m by metis
  qed
qed

lemma delete_Ok:
  assumes ok: "kv_services V store q_find q_insert pk_of_new (kv_value M)"
    and mut: "mutations_ok V store changeset q_update q_delete"
    and run: "delete_resource_by_id M D store pk w = (Ok n, w')"
  shows "\<exists>scheme. written M V store pk scheme None w w'"
proof -
  let ?key = "get_partition_key M pk" and ?ks = "row_key M store pk"
  from run obtain scheme cached w1 where s: "decide_storage_scheme_for_mutate_operation M store ?key w
      = (Ok (scheme, cached), w1)"
    by (auto simp: delete_resource_by_id_def delete_resource_by_id_inner_def Let_def elim!: io_bind_Ok_E)
  note s' = mutate_scheme [OF ok s]
  show ?thesis
  proof (cases scheme)
    case PostgresOnly
    then have "storage_delete D store pk w1 = (Ok n, w')"
      using run s by (simp add: delete_resource_by_id_def delete_resource_by_id_inner_def Let_def io_bind_def)
    note d = delete_pg [OF ok mut this]
    have "written M V store pk scheme None w w'"
      using d s' PostgresOnly by (auto simp: written_def view_defs)
    then show ?thesis by blast
  next
    case RedisKv
    have "io_bind (io_lift (res_map_err (kv_backend_error M) (generate_delete_drainer_query D (libs store) pk)))
        (\<lambda>delete_query. io_bind (io_map_err (\<lambda>e. kv_backend_error M (to_redis_failed_response e ?ks))
            (kv_wrapper store (kv_value M) (HDel ?ks delete_query) ?key)) (\<lambda>reply.
          io_lift (res_map_err (\<lambda>e. kv_backend_error M KvError.Backend) (try_into_hdel reply)))) w1 = (Ok n, w')"
      using run s RedisKv by (simp add: delete_resource_by_id_def delete_resource_by_id_inner_def Let_def
          io_bind_Ok row_key_def)
    then obtain query reply where
        "kv_wrapper store (kv_value M) (HDel ?ks query) ?key w1 = (Ok reply, w')"
      by (auto simp: io_lift_def io_ret_def elim!: io_bind_Ok_E)
    note h' = hdel_Ok [OF ok row_key_def this]
    have "written M V store pk scheme None w w'"
      using h' s' RedisKv by (auto simp: written_def same_view_def drained_def)
    then show ?thesis by blast
  qed
qed

end

section \<open>The tables\<close>

lemma from_query_error: "from_query l q e k \<noteq> Err (KvError.DuplicateValue x)"
  "from_query l q e k \<noteq> Err (KvError.ValueNotFound x)"
  by (auto simp: from_query_def)

lemmas table_defs = kv_dictionaries generate_insert_query_def from_query_error
  Vault_storage_find_def Vault_storage_insert_def Vault_storage_update_def Vault_storage_delete_def
  HashTable_storage_find_def HashTable_storage_insert_def
  Fingerprint_storage_find_def Fingerprint_storage_insert_def

interpretation vault_table: kv_mutable_table "Vault_kv :: ('w, _, _, _, _, _) KvResource"
    VaultDBError_is_duplicate VaultDBError_from_diesel
    "\<lambda>n. \<lparr> vpk_entity_id = vni_entity_id n, vpk_vault_id = vni_vault_id n \<rparr>"
    "\<lambda>e. \<lparr> vpk_entity_id = vi_entity_id e, vpk_vault_id = vi_vault_id e \<rparr>"
    vi_updated_by VaultDBError_from_StorageError pg_vault_find pg_vault_insert
    Vault_kv_update Vault_kv_delete pg_vault_update pg_vault_delete vault_changeset
  by (intro kv_mutable_table.intro kv_table.intro kv_table_axioms.intro kv_mutable_table_axioms.intro
      vault_kv.kv_resource_axioms;
      simp add: table_defs storage_error_is_def VaultDBError_is_not_found_def VaultDBError_is_duplicate_def)

interpretation hash_table_table: kv_table "HashTable_kv :: ('w, _, _, _, _, _) KvResource"
    HashDBError_is_duplicate HashDBError_from_diesel
    "\<lambda>n. \<lparr> htpk_data_hash = htn_data_hash n \<rparr>" "\<lambda>e. \<lparr> htpk_data_hash = ht_data_hash e \<rparr>" ht_updated_by
    HashDBError_from_StorageError pg_hash_table_find pg_hash_table_insert
  by (intro kv_table.intro kv_table_axioms.intro hash_table_kv.kv_resource_axioms;
      simp add: table_defs storage_error_is_def HashDBError_is_not_found_def HashDBError_is_duplicate_def)

interpretation fingerprint_table: kv_table "Fingerprint_kv :: ('w, _, _, _, _, _) KvResource"
    FingerprintDBError_is_duplicate FingerprintDBError_from_diesel
    "\<lambda>n. \<lparr> fpk_fingerprint_hash = fpn_fingerprint_hash n \<rparr>"
    "\<lambda>e. \<lparr> fpk_fingerprint_hash = fp_fingerprint_hash e \<rparr>" fp_updated_by
    FingerprintDBError_from_StorageError pg_fingerprint_find pg_fingerprint_insert
  by (intro kv_table.intro kv_table_axioms.intro fingerprint_kv.kv_resource_axioms;
      simp add: table_defs storage_error_is_def FingerprintDBError_is_not_found_def FingerprintDBError_is_duplicate_def
        )

end
