(* ===== verification/ExampleServices.thy ===== *)
theory ExampleServices
  imports Routes KvLaws
begin

text \<open>
  Concrete services, on which the properties with hypotheses are witnessed: Postgres tables that
  are lists of rows, a Redis of text entries, the drainer's streams, caches, a clock that stands
  still, and ids drawn from a counter.  Nothing here models code of the program; the lemmas
  show that these services meet the laws the properties assume.
\<close>

section \<open>Values as texts\<close>

instance word :: (len) countable
  by (rule countable_classI [of unat]) (simp add: word_unat_eq_iff)

instance StorageScheme :: countable by countable_datatype
instance KvState :: countable by countable_datatype
instance Encrypted :: countable by countable_datatype

instance LockerInner_ext :: (countable) countable
  by (rule countable_classI [of "\<lambda>r. to_nat (li_id r, li_locker_id r, li_merchant_id r, li_customer_id r, li_enc_data r, li_created_at r, li_hash_id r, li_ttl r, li_updated_by r, LockerInner.more r)"])
    (auto intro: LockerInner.equality)

instance VaultInner_ext :: (countable) countable
  by (rule countable_classI [of "\<lambda>r. to_nat (vi_id r, vi_entity_id r, vi_vault_id r, vi_encrypted_data r, vi_created_at r, vi_expires_at r, vi_updated_by r, VaultInner.more r)"])
    (auto intro: VaultInner.equality)

instance HashTable_ext :: (countable) countable
  by (rule countable_classI [of "\<lambda>r. to_nat (ht_id r, ht_hash_id r, ht_data_hash r, ht_created_at r, ht_updated_by r, HashTable.more r)"])
    (auto intro: HashTable.equality)

instance Fingerprint_ext :: (countable) countable
  by (rule countable_classI [of "\<lambda>r. to_nat (fp_id r, fp_fingerprint_hash r, fp_fingerprint_id r, fp_updated_by r, Fingerprint.more r)"])
    (auto intro: Fingerprint.equality)

instance ReverseLookup_ext :: (countable) countable
  by (rule countable_classI [of "\<lambda>r. to_nat (rl_lookup_id r, rl_secondary_key r, rl_partition_key r, rl_source r, rl_updated_by r, ReverseLookup.more r)"])
    (auto intro: ReverseLookup.equality)

instance RuntimeConfigValues_ext :: (countable) countable
  by (rule countable_classI [of "\<lambda>r. to_nat (enable_kv r, use_replica r, RuntimeConfigValues.more r)"])
    (auto intro: RuntimeConfigValues.equality)

section \<open>Tables\<close>

definition rows_find :: "('r \<Rightarrow> bool) \<Rightarrow> 'r list \<Rightarrow> ('r, DieselError) result" where
  "rows_find p rows = ok_or DieselError.NotFound (List.find p rows)"

definition rows_insert ::
    "('r \<Rightarrow> bool) \<Rightarrow> 'r \<Rightarrow> ('w \<Rightarrow> 'r list) \<Rightarrow> ('r list \<Rightarrow> 'w \<Rightarrow> 'w) \<Rightarrow> ('w, 'r, DieselError) io" where
  "rows_insert same row get put = (\<lambda>w.
     if List.find same (get w) = None then (Ok row, put (get w @ [row]) w)
     else (Err (DieselError.DatabaseError UniqueViolation ''unique''), w))"

definition rows_delete ::
    "('r \<Rightarrow> bool) \<Rightarrow> ('w \<Rightarrow> 'r list) \<Rightarrow> ('r list \<Rightarrow> 'w \<Rightarrow> 'w) \<Rightarrow> ('w, nat, DieselError) io" where
  "rows_delete p get put = (\<lambda>w. (Ok (length (filter p (get w))), put (filter (Not \<circ> p) (get w)) w))"

lemma find_append: "List.find p (xs @ ys) = (case List.find p xs of None \<Rightarrow> List.find p ys | Some x \<Rightarrow> Some x)"
  by (induction xs) auto

lemma find_filter_key:
  "List.find (\<lambda>r. k r = x) (filter (\<lambda>r. k r \<noteq> y) rows) = (if x = y then None else List.find (\<lambda>r. k r = x) rows)"
  by (induction rows) auto

lemma find_map_key:
  assumes "\<And>r. k (f r) = k r"
  shows "List.find (\<lambda>r. k r = x) (map (\<lambda>r. if k r = y then f r else r) rows)
    = (if x = y then map_option f (List.find (\<lambda>r. k r = x) rows) else List.find (\<lambda>r. k r = x) rows)"
  by (induction rows) (auto simp: assms)

section \<open>The state of the services\<close>

record World =
  w_merchants :: "MerchantInner list"
  w_lockers :: "LockerInner list"
  w_vaults :: "VaultInner list"
  w_hashes :: "HashTable list"
  w_fingerprints :: "Fingerprint list"
  w_lookups :: "ReverseLookup list"
  w_entities :: "Entity list"
  w_redis :: "string \<times> string \<rightharpoonup> string"
  w_streams :: "(string \<times> (string \<times> string) list) list"
  w_config :: "string option"
  w_time :: time
  w_counter :: nat
  w_merchant_cache :: "string \<rightharpoonup> Merchant"
  w_hash_cache :: "bytes \<rightharpoonup> HashTable"
  w_fingerprint_cache :: "bytes \<rightharpoonup> Fingerprint"
  w_entity_cache :: "string \<rightharpoonup> Entity"
  w_outcomes :: "(Resource \<times> DomainGetOrInsertOutcome) list"

definition empty_world :: World where
  "empty_world = \<lparr> w_merchants = [], w_lockers = [], w_vaults = [], w_hashes = [], w_fingerprints = [],
     w_lookups = [], w_entities = [], w_redis = Map.empty, w_streams = [], w_config = None, w_time = 1000000000,
     w_counter = 0, w_merchant_cache = Map.empty, w_hash_cache = Map.empty, w_fingerprint_cache = Map.empty,
     w_entity_cache = Map.empty, w_outcomes = [] \<rparr>"

text \<open>The same services with the KV layer in a mode.\<close>

definition in_mode :: "KvState \<Rightarrow> World \<Rightarrow> World" where
  "in_mode mode w = w\<lparr> w_config := Some (text_of \<lparr> enable_kv = mode, use_replica = False \<rparr>) \<rparr>"

section \<open>Postgres\<close>

definition locker_key :: "LockerInner \<Rightarrow> LockerPrimaryKeyType" where
  "locker_key e = \<lparr> lpk_locker_id = li_locker_id e, lpk_merchant_id = li_merchant_id e, lpk_customer_id = li_customer_id e \<rparr>"

definition locker_hash_key :: "LockerInner \<Rightarrow> LockerHashLookupKey" where
  "locker_hash_key e = \<lparr> lhk_hash_id = li_hash_id e, lhk_merchant_id = li_merchant_id e, lhk_customer_id = li_customer_id e \<rparr>"

definition vault_key :: "VaultInner \<Rightarrow> VaultPrimaryKey" where
  "vault_key e = \<lparr> vpk_entity_id = vi_entity_id e, vpk_vault_id = vi_vault_id e \<rparr>"

definition hash_key :: "HashTable \<Rightarrow> HashTablePrimaryKey" where
  "hash_key e = \<lparr> htpk_data_hash = ht_data_hash e \<rparr>"

definition fingerprint_key :: "Fingerprint \<Rightarrow> FingerprintPrimaryKey" where
  "fingerprint_key e = \<lparr> fpk_fingerprint_hash = fp_fingerprint_hash e \<rparr>"

definition example_conn :: "World PgConn" where
  "example_conn = \<lparr>
     pg_merchant_find = (\<lambda>m w. (rows_find (\<lambda>r. mi_merchant_id r = m) (w_merchants w), w)),
     pg_merchant_insert = (\<lambda>n w. rows_insert (\<lambda>r. mi_merchant_id r = mni_merchant_id n)
       \<lparr> mi_id = 1, mi_merchant_id = mni_merchant_id n, mi_enc_key = mni_enc_key n, mi_created_at = w_time w \<rparr>
       w_merchants (\<lambda>rs. w_merchants_update (\<lambda>_. rs)) w),
     pg_merchants_without_entity = (\<lambda>k w. (Ok (take (nat k) (filter (\<lambda>m.
       \<not> list_ex (\<lambda>e. en_entity_id e = mi_merchant_id m) (w_entities w)) (w_merchants w))), w)),
     pg_locker_insert = (\<lambda>n. let row = (LockerInner_from_LockerNew n)\<lparr> li_id := 1 \<rparr> in
       rows_insert (\<lambda>r. locker_key r = locker_key row) row w_lockers (\<lambda>rs. w_lockers_update (\<lambda>_. rs))),
     pg_locker_find = (\<lambda>pk w. (rows_find (\<lambda>r. locker_key r = pk) (w_lockers w), w)),
     pg_locker_find_by_hash = (\<lambda>pk w. (rows_find (\<lambda>r. locker_hash_key r = pk) (w_lockers w), w)),
     pg_locker_delete = (\<lambda>pk. rows_delete (\<lambda>r. locker_key r = pk) w_lockers (\<lambda>rs. w_lockers_update (\<lambda>_. rs))),
     pg_vault_insert = (\<lambda>n. let row = (VaultInner_from_VaultNewInner n)\<lparr> vi_id := 1 \<rparr> in
       rows_insert (\<lambda>r. vault_key r = vault_key row) row w_vaults (\<lambda>rs. w_vaults_update (\<lambda>_. rs))),
     pg_vault_find = (\<lambda>pk w. (rows_find (\<lambda>r. vault_key r = pk) (w_vaults w), w)),
     pg_vault_update = (\<lambda>pk u w. (case List.find (\<lambda>r. vault_key r = pk) (w_vaults w) of
         None \<Rightarrow> (Err DieselError.NotFound, w)
       | Some r \<Rightarrow> (Ok (vault_changeset u r),
           w\<lparr> w_vaults := map (\<lambda>r. if vault_key r = pk then vault_changeset u r else r) (w_vaults w) \<rparr>))),
     pg_vault_delete = (\<lambda>pk. rows_delete (\<lambda>r. vault_key r = pk) w_vaults (\<lambda>rs. w_vaults_update (\<lambda>_. rs))),
     pg_hash_table_insert = (\<lambda>n. let row = (HashTable_from_HashTableNew n)\<lparr> ht_id := 1 \<rparr> in
       rows_insert (\<lambda>r. hash_key r = hash_key row) row w_hashes (\<lambda>rs. w_hashes_update (\<lambda>_. rs))),
     pg_hash_table_find = (\<lambda>pk w. (rows_find (\<lambda>r. hash_key r = pk) (w_hashes w), w)),
     pg_hash_table_insert_count = (\<lambda>n w. (Ok 1, w\<lparr> w_hashes := w_hashes w @ [HashTable_from_HashTableNew n] \<rparr>)),
     pg_hash_table_delete_by_hash_id = (\<lambda>i.
       rows_delete (\<lambda>r. ht_hash_id r = i) w_hashes (\<lambda>rs. w_hashes_update (\<lambda>_. rs))),
     pg_fingerprint_insert = (\<lambda>n. let row = (Fingerprint_from_FingerprintTableNew n)\<lparr> fp_id := 1 \<rparr> in
       rows_insert (\<lambda>r. fingerprint_key r = fingerprint_key row) row w_fingerprints
         (\<lambda>rs. w_fingerprints_update (\<lambda>_. rs))),
     pg_fingerprint_find = (\<lambda>pk w.
       (rows_find (\<lambda>r. fingerprint_key r = pk) (w_fingerprints w), w)),
     pg_reverse_lookup_insert = (\<lambda>n. let row = ReverseLookup_from_ReverseLookupNew n in
       rows_insert (\<lambda>r. rl_lookup_id r = rln_lookup_id n) row w_lookups (\<lambda>rs. w_lookups_update (\<lambda>_. rs))),
     pg_reverse_lookup_find = (\<lambda>pk w. (rows_find (\<lambda>r. rl_lookup_id r = rlpk_lookup_id pk) (w_lookups w), w)),
     pg_reverse_lookup_delete = (\<lambda>pk.
       rows_delete (\<lambda>r. rl_lookup_id r = rlpk_lookup_id pk) w_lookups (\<lambda>rs. w_lookups_update (\<lambda>_. rs))),
     pg_entity_find = (\<lambda>i w. (rows_find (\<lambda>r. en_entity_id r = i) (w_entities w), w)),
     pg_entity_insert = (\<lambda>n w. rows_insert (\<lambda>r. en_entity_id r = enn_entity_id n)
       \<lparr> en_id = 1, en_entity_id = enn_entity_id n, en_enc_key_id = enn_enc_key_id n, en_created_at = w_time w \<rparr>
       w_entities (\<lambda>rs. w_entities_update (\<lambda>_. rs)) w),
     pg_select_one_plus_one = io_ret 2,
     pg_test_transaction = (\<lambda>m w. (case m w of (r, w') \<Rightarrow> (res_map_err (\<lambda>_. ()) r, w))) \<rparr>"

section \<open>Redis\<close>

definition example_kv_value :: "(World, 'e :: countable) KvValue" where
  "example_kv_value = \<lparr>
     to_json = (\<lambda>v. Ok (text_of v)),
     serialize_and_set_hash_field_if_not_exist = (\<lambda>k f v t w. if w_redis w (k, f) = None
       then (Ok KeySet, w\<lparr> w_redis := (w_redis w)((k, f) \<mapsto> text_of v) \<rparr>) else (Ok KeyNotSet, w)),
     get_hash_field_and_deserialize = (\<lambda>k f w. (case w_redis w (k, f) of
       None \<Rightarrow> (Err RedisError.NotFound, w) | Some s \<Rightarrow> (Ok (of_text s), w))) \<rparr>"

definition example_redis :: "World RedisPool" where
  "example_redis = \<lparr>
     set_hash_fields = (\<lambda>k fs t w. (Ok (), w\<lparr> w_redis := (\<lambda>kf. if fst kf = k \<and> map_of fs (snd kf) \<noteq> None
       then map_of fs (snd kf) else w_redis w kf) \<rparr>)),
     delete_hash_fields = (\<lambda>k f w. (Ok (if w_redis w (k, f) = None then 0 else 1),
       w\<lparr> w_redis := (w_redis w)((k, f) := None) \<rparr>)),
     stream_append_entry = (\<lambda>s fs w. (Ok (), w\<lparr> w_streams := w_streams w @ [(s, fs)] \<rparr>)),
     kv_locker = example_kv_value, kv_vault = example_kv_value, kv_hash_table = example_kv_value,
     kv_fingerprint = example_kv_value, kv_reverse_lookup = example_kv_value \<rparr>"

section \<open>The store and the tenant\<close>

definition example_libs :: Libs where
  "example_libs = \<lparr>
     hex_encode = text_of, crc32_hash = (\<lambda>bs. of_nat (length bs)),
     diesel_to_sql = (\<lambda>st. Ok ''sql''), diesel_is_safe_to_cache = (\<lambda>st. Ok True),
     diesel_collect_binds = (\<lambda>st. Ok ([], [])), query_to_json = (\<lambda>q. Ok (sq_entity_type q)),
     runtime_values_from_json = (\<lambda>s. Some (of_text s)) \<rparr>"

definition example_globals :: "World Globals" where
  "example_globals = \<lparr>
     date_time_now = (\<lambda>w. (w_time w, w)), unix_timestamp_now = (\<lambda>w. (nat (w_time w), w)),
     uuid_now_v7 = (\<lambda>w. (CHR ''u'' # replicate (w_counter w) CHR ''1'', w\<lparr> w_counter := w_counter w + 1 \<rparr>)),
     nanoid = (\<lambda>n a w. (CHR ''n'' # replicate (w_counter w) CHR ''1'', w\<lparr> w_counter := w_counter w + 1 \<rparr>)) \<rparr>"

definition example_manager :: "World RuntimeConfigManager" where
  "example_manager = \<lparr> rcm_state = RuntimeConfigState.Enabled ''http://config'' ''/kv'' ''key''
     \<lparr> client_get = (\<lambda>u h w. (Err ''offline'', w)), json_valid = (\<lambda>s. True) \<rparr> 60
     \<lparr> cell_read = w_config, cell_write = (\<lambda>v w. w\<lparr> w_config := v \<rparr>) \<rparr> \<rparr>"

definition example_store :: "World Storage" where
  "example_store = \<lparr> primary_pg_pool = io_ret example_conn, replica_pg_pool = None,
     runtime_config_manager = example_manager, st_redis = Some example_redis, kv_config = KvConfig_default,
     libs = example_libs, globals = example_globals \<rparr>"

definition example_caching :: "World Caching" where
  "example_caching = \<lparr> inner = example_store,
     merchant_cache = \<lparr> cache_get = (\<lambda>k w. (w_merchant_cache w k, w)),
       cache_insert = (\<lambda>k v w. w\<lparr> w_merchant_cache := (w_merchant_cache w)(k \<mapsto> v) \<rparr>) \<rparr>,
     hash_table_cache = \<lparr> cache_get = (\<lambda>k w. (w_hash_cache w k, w)),
       cache_insert = (\<lambda>k v w. w\<lparr> w_hash_cache := (w_hash_cache w)(k \<mapsto> v) \<rparr>) \<rparr>,
     fingerprint_cache = \<lparr> cache_get = (\<lambda>k w. (w_fingerprint_cache w k, w)),
       cache_insert = (\<lambda>k v w. w\<lparr> w_fingerprint_cache := (w_fingerprint_cache w)(k \<mapsto> v) \<rparr>) \<rparr>,
     entity_cache = \<lparr> cache_get = (\<lambda>k w. (w_entity_cache w k, w)),
       cache_insert = (\<lambda>k v w. w\<lparr> w_entity_cache := (w_entity_cache w)(k \<mapsto> v) \<rparr>) \<rparr> \<rparr>"

definition example_client :: "World ApiClient" where
  "example_client = \<lparr> url_parse_ok = (\<lambda>s. True), header_name_parse_ok = (\<lambda>s. True),
     header_value_parse_ok = (\<lambda>s. True), http_send = (\<lambda>m u h b. io_err ''offline'') \<rparr>"

definition example_tenant :: "World TenantAppState" where
  "example_tenant = \<lparr> ts_db = example_caching,
     ts_config = \<lparr> tc_tenant_id = ''t1'', tc_locker_secrets = \<lparr> locker_private_key = ''k'' \<rparr>,
       tc_tenant_secrets = \<lparr> master_key = replicate 32 0, public_key = ''k'', schema = ''public'',
         redis_key_prefix = [] \<rparr>,
       tc_external_key_manager = ExternalKeyManagerConfig.Disabled, tc_redis_key_prefix = [] \<rparr>,
     ts_api_client = example_client, ts_redis = None, ts_crypto = example_crypto,
     ts_record_outcome = (\<lambda>r out w. w\<lparr> w_outcomes := w_outcomes w @ [(r, out)] \<rparr>) \<rparr>"

lemma example_tenant_simps [simp]:
  "ts_db example_tenant = example_caching" "inner example_caching = example_store"
  by (simp_all add: example_tenant_def example_caching_def)

section \<open>The laws\<close>

definition example_view :: "(World \<Rightarrow> 'pk \<rightharpoonup> 'en) \<Rightarrow> (World, 'pk, 'en :: countable) KvView" where
  "example_view rows = \<lparr> pg_row = rows, redis_row = (\<lambda>w k. map_option of_text (w_redis w (k, k))),
     drainer_entries = w_streams \<rparr>"

definition vault_view :: "(World, VaultPrimaryKey, VaultInner) KvView" where
  "vault_view = example_view (\<lambda>w pk. List.find (\<lambda>r. vault_key r = pk) (w_vaults w))"

definition hash_view :: "(World, HashTablePrimaryKey, HashTable) KvView" where
  "hash_view = example_view (\<lambda>w pk. List.find (\<lambda>r. hash_key r = pk) (w_hashes w))"

definition fingerprint_view :: "(World, FingerprintPrimaryKey, Fingerprint) KvView" where
  "fingerprint_view =
     example_view (\<lambda>w pk. List.find (\<lambda>r. fingerprint_key r = pk) (w_fingerprints w))"

lemma example_mode [simp]:
  "kv_settings example_store w = (case w_config w of None \<Rightarrow> KvState.Disabled
     | Some s \<Rightarrow> enable_kv (of_text s :: RuntimeConfigValues))"
  by (simp add: kv_settings_def runtime_values_def RuntimeConfigManager_get_def example_store_def
      example_manager_def example_libs_def split: option.split)

lemma example_store_simps [simp]:
  "primary_pg_pool example_store = io_ret example_conn" "replica_pg_pool example_store = None"
  "st_redis example_store = Some example_redis" "libs example_store = example_libs"
  "globals example_store = example_globals" "kv_config example_store = KvConfig_default"
  by (simp_all add: example_store_def)

lemma example_on_conn [simp]:
  "on_conn (get_conn example_store) f g q = io_map_err g (q example_conn)"
  "on_conn (route_conn example_store) f g q = io_map_err g (q example_conn)"
  by (rule ext, simp add: on_conn_def get_conn_def route_conn_def should_use_replica_def has_replica_def io_defs)+

lemma example_outcome [simp]:
  "ts_record_outcome example_tenant r out w = w\<lparr> w_outcomes := w_outcomes w @ [(r, out)] \<rparr>"
  by (simp add: example_tenant_def)

lemma in_mode_simps [simp]:
  "w_vaults (in_mode k w) = w_vaults w" "w_hashes (in_mode k w) = w_hashes w"
  "w_fingerprints (in_mode k w) = w_fingerprints w" "w_redis (in_mode k w) = w_redis w"
  "w_streams (in_mode k w) = w_streams w"
  "w_config (in_mode k w) = Some (text_of \<lparr> enable_kv = k, use_replica = False \<rparr>)"
  by (simp_all add: in_mode_def)

lemma example_redis_ok:
  fixes rows :: "World \<Rightarrow> 'pk \<rightharpoonup> 'en :: countable"
  assumes "sel example_redis = example_kv_value"
    and "\<And>w f. rows (w\<lparr> w_redis := f \<rparr>) = rows w" "\<And>w f. rows (w\<lparr> w_streams := f \<rparr>) = rows w"
  shows "redis_ok (example_view rows) example_store sel example_redis"
proof -
  have "hget_ok (example_view rows) example_store (example_kv_value :: (World, 'en) KvValue)"
    by (auto simp: hget_ok_def example_kv_value_def example_view_def split: option.splits)
  moreover have "hsetnx_ok (example_view rows) example_store (example_kv_value :: (World, 'en) KvValue)"
    using assms(2) by (auto simp: hsetnx_ok_def example_kv_value_def example_view_def view_defs
        split: if_splits)
  moreover have "hset_ok (example_view rows) example_store (example_kv_value :: (World, 'en) KvValue) example_redis"
    using assms(2) by (auto simp: hset_ok_def example_kv_value_def example_redis_def example_view_def view_defs
        fun_eq_iff)
  moreover have "hdel_ok (example_view rows) example_store example_redis"
    using assms(2) by (auto simp: hdel_ok_def example_redis_def example_view_def view_defs fun_eq_iff)
  moreover have "stream_ok (example_view rows) example_store example_redis"
    using assms(3) by (auto simp: stream_ok_def example_redis_def example_view_def view_defs)
  moreover have "hsetnx_errors_ok (example_kv_value :: (World, 'en) KvValue)"
    by (simp add: hsetnx_errors_ok_def example_kv_value_def)
  ultimately show ?thesis by (simp add: redis_ok_def assms(1))
qed

lemma example_clock: "same_view V example_store w (snd (unix_timestamp_now example_globals w))"
  by (simp add: example_globals_def same_view_def)

lemma example_services:
  assumes "conn_ok (example_view rows) example_store q_find q_insert pk_of_new example_conn"
    and "redis_ok (example_view rows) example_store sel example_redis"
  shows "kv_services (example_view rows) example_store q_find q_insert pk_of_new sel"
  using assms example_clock by (auto simp: kv_services_def io_ret_def)

lemma rows_find_ok:
  assumes "\<And>pk w. q pk w = (rows_find (\<lambda>r. k r = pk) (get w), w)"
  shows "find_ok (example_view (\<lambda>w pk. List.find (\<lambda>r. k r = pk) (get w))) store q"
  by (auto simp: find_ok_def assms rows_find_def example_view_def ok_or_def split: option.splits)

lemma rows_insert_ok:
  assumes "\<And>n. q n = rows_insert (\<lambda>r. k r = pk_of_new n) (row n) get put" "\<And>n. k (row n) = pk_of_new n"
    and "\<And>rs w. get (put rs w) = rs" "\<And>rs w. w_redis (put rs w) = w_redis w"
    and "\<And>rs w. w_streams (put rs w) = w_streams w" "\<And>rs w. kv_settings store (put rs w) = kv_settings store w"
  shows "insert_ok (example_view (\<lambda>w pk. List.find (\<lambda>r. k r = pk) (get w))) store pk_of_new q"
  by (auto simp: insert_ok_def rows_insert_def assms example_view_def view_defs find_append fun_eq_iff
      split: if_splits option.splits)

lemma pool_values [simp]:
  "kv_vault example_redis = example_kv_value" "kv_hash_table example_redis = example_kv_value"
  "kv_fingerprint example_redis = example_kv_value" "kv_locker example_redis = example_kv_value"
  "kv_reverse_lookup example_redis = example_kv_value"
  by (simp_all add: example_redis_def)

lemma vault_services:
  "kv_services vault_view example_store pg_vault_find pg_vault_insert
     (\<lambda>n. \<lparr> vpk_entity_id = vni_entity_id n, vpk_vault_id = vni_vault_id n \<rparr>) (kv_value Vault_kv)"
  unfolding vault_view_def
proof (rule example_services)
  show "redis_ok (example_view (\<lambda>w pk. List.find (\<lambda>r. vault_key r = pk) (w_vaults w))) example_store
      (kv_value Vault_kv) example_redis"
    by (rule example_redis_ok) (simp_all add: Vault_kv_def)
  show "conn_ok (example_view (\<lambda>w pk. List.find (\<lambda>r. vault_key r = pk) (w_vaults w))) example_store
      pg_vault_find pg_vault_insert (\<lambda>n. \<lparr> vpk_entity_id = vni_entity_id n, vpk_vault_id = vni_vault_id n \<rparr>) example_conn"
    unfolding conn_ok_def
    by (intro conjI rows_find_ok rows_insert_ok [where row = "\<lambda>n. (VaultInner_from_VaultNewInner n)\<lparr> vi_id := 1 \<rparr>"
          and put = "\<lambda>rs. w_vaults_update (\<lambda>_. rs)"])
      (simp_all add: example_conn_def vault_key_def type_conversions Let_def)
qed

lemma hash_services:
  "kv_services hash_view example_store pg_hash_table_find pg_hash_table_insert
     (\<lambda>n. \<lparr> htpk_data_hash = htn_data_hash n \<rparr>) (kv_value HashTable_kv)"
  unfolding hash_view_def
proof (rule example_services)
  show "redis_ok (example_view (\<lambda>w pk. List.find (\<lambda>r. hash_key r = pk) (w_hashes w))) example_store
      (kv_value HashTable_kv) example_redis"
    by (rule example_redis_ok) (simp_all add: HashTable_kv_def)
  show "conn_ok (example_view (\<lambda>w pk. List.find (\<lambda>r. hash_key r = pk) (w_hashes w))) example_store
      pg_hash_table_find pg_hash_table_insert (\<lambda>n. \<lparr> htpk_data_hash = htn_data_hash n \<rparr>) example_conn"
    unfolding conn_ok_def
    by (intro conjI rows_find_ok rows_insert_ok [where row = "\<lambda>n. (HashTable_from_HashTableNew n)\<lparr> ht_id := 1 \<rparr>"
          and put = "\<lambda>rs. w_hashes_update (\<lambda>_. rs)"])
      (simp_all add: example_conn_def hash_key_def type_conversions Let_def)
qed

lemma fingerprint_services:
  "kv_services fingerprint_view example_store pg_fingerprint_find pg_fingerprint_insert
     (\<lambda>n. \<lparr> fpk_fingerprint_hash = fpn_fingerprint_hash n \<rparr>) (kv_value Fingerprint_kv)"
  unfolding fingerprint_view_def
proof (rule example_services)
  show "redis_ok (example_view (\<lambda>w pk. List.find (\<lambda>r. fingerprint_key r = pk) (w_fingerprints w))) example_store
      (kv_value Fingerprint_kv) example_redis"
    by (rule example_redis_ok) (simp_all add: Fingerprint_kv_def)
  show "conn_ok (example_view (\<lambda>w pk. List.find (\<lambda>r. fingerprint_key r = pk) (w_fingerprints w))) example_store
      pg_fingerprint_find pg_fingerprint_insert (\<lambda>n. \<lparr> fpk_fingerprint_hash = fpn_fingerprint_hash n \<rparr>) example_conn"
    unfolding conn_ok_def
    by (intro conjI rows_find_ok rows_insert_ok [where row = "\<lambda>n. (Fingerprint_from_FingerprintTableNew n)\<lparr> fp_id := 1 \<rparr>"
          and put = "\<lambda>rs. w_fingerprints_update (\<lambda>_. rs)"])
      (simp_all add: example_conn_def fingerprint_key_def type_conversions Let_def)
qed

lemma vault_mutations:
  "mutations_ok vault_view example_store vault_changeset pg_vault_update pg_vault_delete"
proof -
  have k: "vault_key (vault_changeset u r) = vault_key r" for u r by (simp add: vault_key_def vault_changeset_def)
  have "update_ok vault_view example_store vault_changeset (pg_vault_update example_conn)"
    by (auto simp: update_ok_def example_conn_def vault_view_def example_view_def view_defs
        find_map_key [where k = vault_key, OF k] fun_eq_iff split: option.splits)
  moreover have "delete_ok vault_view example_store (pg_vault_delete example_conn)"
    by (auto simp: delete_ok_def example_conn_def vault_view_def example_view_def view_defs rows_delete_def comp_def
        find_filter_key fun_eq_iff)
  ultimately show ?thesis by (simp add: mutations_ok_def io_ret_def)
qed

end
