(* ===== verification/VaultLaws.thy ===== *)
theory VaultLaws
  imports ExampleServices
begin

text \<open>
  What the vault table promises to the handlers above it, in every KV mode: \<open>insert_vault\<close>,
  \<open>find_by_vault_id_entity_id\<close>, \<open>update_vault_data\<close> and \<open>delete_from_vault\<close> of
  \<open>src/src/storage/storage_v2/db.rs\<close>, and \<open>get_or_insert\<close> and \<open>upsert\<close> of \<open>src/src/domain/vault.rs\<close>.
\<close>

section \<open>The laws of the services\<close>

text \<open>An inserted row has the values it was given; the database chooses the id only.\<close>

definition vault_insert_values :: "'w Storage \<Rightarrow> bool" where
  "vault_insert_values store =
     (\<forall>w0 c w1 n w e w'. primary_pg_pool store w0 = (Ok c, w1) \<and> pg_vault_insert c n w = (Ok e, w') \<longrightarrow>
        e\<lparr> vi_id := 0 \<rparr> = VaultInner_from_VaultNewInner n)"

definition vault_laws :: "('w, VaultPrimaryKey, VaultInner) KvView \<Rightarrow> 'w Storage \<Rightarrow> bool" where
  "vault_laws V store =
     (kv_services V store pg_vault_find pg_vault_insert
        (\<lambda>n. \<lparr> vpk_entity_id = vni_entity_id n, vpk_vault_id = vni_vault_id n \<rparr>) (kv_value Vault_kv)
      \<and> mutations_ok V store vault_changeset pg_vault_update pg_vault_delete
      \<and> vault_insert_values store)"

lemma example_vault_laws: "vault_laws vault_view example_store"
proof -
  have "vault_insert_values example_store"
    by (auto simp: vault_insert_values_def io_ret_def example_conn_def rows_insert_def Let_def type_conversions
        split: if_splits)
  then show ?thesis by (simp add: vault_laws_def vault_services vault_mutations)
qed

text \<open>The row of the vault that a read answers.\<close>

definition vault_row :: "('w, VaultPrimaryKey, VaultInner) KvView \<Rightarrow> 'w Storage \<Rightarrow> string \<Rightarrow> string \<Rightarrow> 'w \<Rightarrow> Vault option" where
  "vault_row V store vault_id entity_id w = map_option Vault_from_VaultInner
     (visible Vault_kv V store w \<lparr> vpk_entity_id = entity_id, vpk_vault_id = vault_id \<rparr>)"

definition vault_redis_entry :: "('w, VaultPrimaryKey, VaultInner) KvView \<Rightarrow> 'w Storage \<Rightarrow> string \<Rightarrow> string \<Rightarrow> 'w \<Rightarrow> VaultInner option" where
  "vault_redis_entry V store vault_id entity_id w =
     redis_row V w (PartitionKey_to_string (libs store) (PartitionKey.Vault entity_id vault_id))"

lemma Vault_kv_simps [simp]:
  "get_partition_key Vault_kv pk = PartitionKey.Vault (vpk_entity_id pk) (vpk_vault_id pk)"
  "into_model Vault_kv = Vault_from_VaultInner" "into_entity Vault_kv = VaultInner_from_VaultNewInner"
  "set_storage_scheme Vault_kv = VaultNewInner_set_updated_by"
  "error_is_not_found Vault_kv = VaultDBError_is_not_found"
  by (simp_all add: Vault_kv_def Vault_get_partition_key_def)

section \<open>Reads\<close>

lemma find_vault_cases:
  assumes "vault_laws V store" "find_by_vault_id_entity_id store vault_id entity_id w = (r, w')"
  shows "same_view V store w w'
    \<and> (\<forall>v. r = Ok v \<longrightarrow> vault_row V store vault_id entity_id w = Some v)
    \<and> (r = Err VaultDBError.NotFoundError \<longrightarrow> vault_row V store vault_id entity_id w = None)"
proof -
  let ?pk = "\<lparr> vpk_entity_id = entity_id, vpk_vault_id = vault_id \<rparr>"
  obtain r1 w1 where f: "find_resource_by_id_inner Vault_kv store ?pk w = (r1, w1)" by force
  have ok: "kv_services V store pg_vault_find pg_vault_insert
        (\<lambda>n. \<lparr> vpk_entity_id = vni_entity_id n, vpk_vault_id = vni_vault_id n \<rparr>) (kv_value Vault_kv)"
    using assms(1) by (simp add: vault_laws_def)
  note f' = vault_table.find_visible [OF ok f]
  have "w' = w1 \<and> r = (case r1 of Ok e \<Rightarrow> Ok (Vault_from_VaultInner e)
      | Err x \<Rightarrow> Err (if VaultDBError_is_not_found x then VaultDBError.NotFoundError else x) | Panic \<Rightarrow> Panic)"
    using assms(2) f by (cases r1) (auto simp: find_by_vault_id_entity_id_def find_optional_resource_by_id_def
        find_resource_by_id_def optional_def io_defs split: if_splits)
  then show ?thesis using f' by (cases r1)
    (auto simp: vault_row_def VaultDBError_is_not_found_def storage_error_is_def split: if_splits)
qed

section \<open>Inserts\<close>

definition stored_vault :: "VaultNew \<Rightarrow> StorageScheme \<Rightarrow> Vault" where
  "stored_vault new scheme = \<lparr> v_vault_id = vn_vault_id new, v_entity_id = vn_entity_id new,
     v_data = Encrypted (into_inner (vn_encrypted_data new)), v_created_at = vn_created_at new,
     v_expires_at = vn_expires_at new, v_updated_by = Some scheme \<rparr>"

definition insert_scheme :: "'w Storage \<Rightarrow> 'w \<Rightarrow> StorageScheme" where
  "insert_scheme store w = (if kv_settings store w = KvState.Enabled then RedisKv else PostgresOnly)"

lemma insert_vault_inner:
  "insert_vault store new w = (r, w') \<longleftrightarrow>
     (\<exists>r1. insert_resource_inner Vault_kv no_reverse_lookup store (VaultNewInner_from_VaultNew new)
        (PartitionKey.Vault (vn_entity_id new) (vn_vault_id new)) (\<lambda>_ _. None) w = (r1, w')
      \<and> res_map Vault_from_VaultInner r1 = r)"
  by (auto simp: insert_vault_def insert_resource_def io_map_def split: prod.splits)

lemma vault_pk_new [simp]:
  "vni_entity_id (VaultNewInner_from_VaultNew new) = vn_entity_id new"
  "vni_vault_id (VaultNewInner_from_VaultNew new) = vn_vault_id new"
  by (simp_all add: type_conversions)

lemma pg_vault_values:
  assumes laws: "vault_laws V store" and run: "Vault_storage_insert n store w = (Ok e, w')"
  shows "e\<lparr> vi_id := 0 \<rparr> = VaultInner_from_VaultNewInner n"
proof -
  have ok: "kv_services V store pg_vault_find pg_vault_insert
        (\<lambda>n. \<lparr> vpk_entity_id = vni_entity_id n, vpk_vault_id = vni_vault_id n \<rparr>) (kv_value Vault_kv)"
    and vals: "vault_insert_values store"
    using laws by (simp_all add: vault_laws_def)
  obtain c w0 w1 where "primary_pg_pool store w0 = (Ok c, w1)" "pg_vault_insert c n w1 = (Ok e, w')"
    using vault_table.on_primary [OF ok run [unfolded Vault_storage_insert_def]] by metis
  then show ?thesis using vals unfolding vault_insert_values_def by blast
qed

lemma Vault_ignores_id: "Vault_from_VaultInner (e\<lparr> vi_id := i \<rparr>) = Vault_from_VaultInner e"
  by (simp add: type_conversions)

lemma insert_vault_Ok:
  assumes laws: "vault_laws V store" and run: "insert_vault store new w = (Ok v, w')"
  shows "v = stored_vault new (insert_scheme store w)"
    and "\<exists>x. v = Vault_from_VaultInner x
      \<and> inserted Vault_kv V store \<lparr> vpk_entity_id = vn_entity_id new, vpk_vault_id = vn_vault_id new \<rparr>
          (PartitionKey.Vault (vn_entity_id new) (vn_vault_id new)) (VaultNewInner_from_VaultNew new) x w w'"
proof -
  have ok: "kv_services V store pg_vault_find pg_vault_insert
        (\<lambda>n. \<lparr> vpk_entity_id = vni_entity_id n, vpk_vault_id = vni_vault_id n \<rparr>) (kv_value Vault_kv)"
    using laws by (simp add: vault_laws_def)
  from run obtain x where i: "insert_resource_inner Vault_kv no_reverse_lookup store (VaultNewInner_from_VaultNew new)
        (PartitionKey.Vault (vn_entity_id new) (vn_vault_id new)) (\<lambda>_ _. None) w = (Ok x, w')"
      and v: "v = Vault_from_VaultInner x"
    by (auto simp: insert_vault_inner)
  note ins = vault_table.insert_Ok [OF ok _ i, simplified]
  then show "\<exists>x. v = Vault_from_VaultInner x
      \<and> inserted Vault_kv V store \<lparr> vpk_entity_id = vn_entity_id new, vpk_vault_id = vn_vault_id new \<rparr>
          (PartitionKey.Vault (vn_entity_id new) (vn_vault_id new)) (VaultNewInner_from_VaultNew new) x w w'"
    using v by blast
  show "v = stored_vault new (insert_scheme store w)"
  proof (cases "kv_settings store w = KvState.Enabled")
    case True
    then show ?thesis using ins v by (simp add: inserted_def stored_vault_def insert_scheme_def type_conversions)
  next
    case False
    then have "Vault_storage_insert (VaultNewInner_set_updated_by (VaultNewInner_from_VaultNew new) PostgresOnly) store w
        = (Ok x, w')"
      using i vault_kv.insert_postgres [OF False, of no_reverse_lookup] by (simp add: Vault_kv_def)
    note pg_vault_values [OF laws this]
    then have "v = Vault_from_VaultInner (VaultInner_from_VaultNewInner
        (VaultNewInner_set_updated_by (VaultNewInner_from_VaultNew new) PostgresOnly))"
      using v Vault_ignores_id [where e = x and i = 0] by simp
    then show ?thesis using False by (simp add: stored_vault_def insert_scheme_def type_conversions)
  qed
qed

lemma inserted_visible:
  assumes "inserted M V store pk key n x w w'"
    and "kv_settings store w = SoftKill \<Longrightarrow> redis_row V w (row_key M store pk) = None"
  shows "visible M V store w' pk = Some x"
  using assms by (cases "kv_settings store w") (auto simp: inserted_def visible_def view_defs)

lemma inserted_other:
  assumes "inserted M V store pk key n x w w'" "row_key M store pk' \<noteq> row_key M store pk"
  shows "visible M V store w' pk' = visible M V store w pk'"
proof -
  have "pk' \<noteq> pk" using assms(2) by auto
  then show ?thesis using assms by (cases "kv_settings store w")
    (simp_all add: inserted_def visible_def view_defs split: option.split)
qed

lemma insert_vault_duplicate:
  assumes laws: "vault_laws V store" and run: "insert_vault store new w = (Err e, w')"
    and dup: "VaultDBError_is_duplicate e"
  shows "same_view V store w w' \<and> vault_row V store (vn_vault_id new) (vn_entity_id new) w \<noteq> None"
proof -
  have ok: "kv_services V store pg_vault_find pg_vault_insert
        (\<lambda>n. \<lparr> vpk_entity_id = vni_entity_id n, vpk_vault_id = vni_vault_id n \<rparr>) (kv_value Vault_kv)"
    using laws by (simp add: vault_laws_def)
  from run have i: "insert_resource_inner Vault_kv no_reverse_lookup store (VaultNewInner_from_VaultNew new)
        (PartitionKey.Vault (vn_entity_id new) (vn_vault_id new)) (\<lambda>_ _. None) w = (Err e, w')"
    by (auto simp: insert_vault_inner)
  show ?thesis using vault_table.insert_duplicate [OF ok _ i dup] by (simp add: vault_row_def)
qed

lemma inserted_stale:
  assumes "inserted M V store pk key n x w w'"
    and "kv_settings store w = SoftKill" "redis_row V w (row_key M store pk) = Some old"
  shows "visible M V store w' pk = Some old"
  using assms by (simp add: inserted_def visible_def view_defs)


definition example_new :: VaultNew where
  "example_new = \<lparr> vn_vault_id = ''v1'', vn_entity_id = ''m1'', vn_encrypted_data = Encrypted_new [1, 2],
     vn_created_at = 5, vn_expires_at = Some 7, vn_updated_by = PostgresOnly \<rparr>"

lemma example_new_keys [simp]: "vn_vault_id example_new = ''v1''" "vn_entity_id example_new = ''m1''"
  by (simp_all add: example_new_def)

lemmas example_run = insert_vault_def insert_resource_def insert_resource_inner_def
  decide_storage_scheme_for_insert_operation_def find_by_vault_id_entity_id_def find_optional_resource_by_id_def
  find_resource_by_id_def find_resource_by_id_inner_def decide_storage_scheme_for_find_operation_def optional_def
  kv_hget_def kv_wrapper_def bridge_def push_to_drainer_stream_def to_field_value_pairs_def get_redis_conn_def
  kv_dictionaries generate_insert_query_def generate_delete_query_def generate_update_query_def from_query_def
  update_vault_data_def update_resource_by_id_def delete_from_vault_def delete_resource_by_id_def
  delete_resource_by_id_inner_def decide_storage_scheme_for_mutate_operation_def Vault_get_partition_key_def

lemmas example_parts = example_libs_def example_globals_def example_redis_def example_kv_value_def example_conn_def
  rows_find_def rows_insert_def rows_delete_def shard_key_def partition_number_def PartitionKey_to_string_def
  vault_key_def type_conversions Let_def io_defs

lemma example_insert:
  "\<exists>w. insert_vault example_store example_new (in_mode KvState.Enabled empty_world) = (Ok (stored_vault example_new RedisKv), w)"
  by (simp add: example_run example_parts example_new_def empty_world_def stored_vault_def
      KvConfig_default_def default_drainer_num_partitions_def)


section \<open>Read or insert\<close>

text \<open>Counting an outcome changes no row.\<close>

lemmas vault_storage_defs = Vault_storage_insert_def Vault_storage_find_def Vault_storage_update_def Vault_storage_delete_def

definition outcomes_ok :: "('w, 'pk, 'en) KvView \<Rightarrow> 'w TenantAppState \<Rightarrow> bool" where
  "outcomes_ok V state =
     (\<forall>r outcome w. same_view V (inner (ts_db state)) w (ts_record_outcome state r outcome w))"

text \<open>A row that Postgres has under the key of \<open>example_new\<close>, with other data and an expiry.\<close>

definition example_row :: VaultInner where
  "example_row = \<lparr> vi_id = 1, vi_entity_id = ''m1'', vi_vault_id = ''v1'', vi_encrypted_data = Encrypted_new [9],
     vi_created_at = 3, vi_expires_at = Some 4, vi_updated_by = Some PostgresOnly \<rparr>"

definition example_world :: World where
  "example_world = (in_mode KvState.Disabled empty_world)\<lparr> w_vaults := [example_row] \<rparr>"

lemma example_outcomes_ok: "outcomes_ok vault_view example_tenant"
  by (simp add: outcomes_ok_def same_view_def vault_view_def example_view_def)

lemma answer_with_eq: "answer_with state r out x w = (x, ts_record_outcome state r out w)"
  by (simp add: answer_with_def record_get_or_insert_outcome_def io_defs)

lemma insert_vault_not_found:
  assumes laws: "vault_laws V store" and run: "insert_vault store new w = (Err e, w')"
  shows "e \<noteq> VaultDBError.NotFoundError"
proof -
  have ok: "kv_services V store pg_vault_find pg_vault_insert
        (\<lambda>n. \<lparr> vpk_entity_id = vni_entity_id n, vpk_vault_id = vni_vault_id n \<rparr>) (kv_value Vault_kv)"
    using laws by (simp add: vault_laws_def)
  from run have i: "insert_resource_inner Vault_kv no_reverse_lookup store (VaultNewInner_from_VaultNew new)
        (PartitionKey.Vault (vn_entity_id new) (vn_vault_id new)) (\<lambda>_ _. None) w = (Err e, w')"
    by (auto simp: insert_vault_inner)
  show ?thesis using vault_table.insert_not_found [OF ok i] by (auto simp: VaultDBError_is_not_found_def storage_error_is_def)
qed

lemma vault_get_or_insert_eq:
  "vault_get_or_insert state new w =
     (case insert_vault (inner (ts_db state)) new w of (r, w1) \<Rightarrow> (case r of
        Ok v \<Rightarrow> (Ok v, ts_record_outcome state Resource_Vault Created w1)
      | Panic \<Rightarrow> (Panic, w1)
      | Err e \<Rightarrow>
          if VaultDBError_is_duplicate e then
            (case find_by_vault_id_entity_id (inner (ts_db state)) (vn_vault_id new) (vn_entity_id new) w1 of (r2, w2) \<Rightarrow>
              (case r2 of Panic \<Rightarrow> (Panic, w2)
               | Ok v \<Rightarrow> (Ok v, ts_record_outcome state Resource_Vault FoundExistingAfterDuplicateInsert w2)
               | Err e \<Rightarrow> (Err e, ts_record_outcome state Resource_Vault Outcome_Error w2)))
          else (Err e, ts_record_outcome state Resource_Vault Outcome_Error w1)))"
  by (simp add: vault_get_or_insert_def io_try_def answer_with_eq Let_def split: prod.split result.split)



section \<open>Updates, upserts and deletes\<close>

text \<open>The row an update leaves, by the store it is written to.\<close>

definition vault_updated :: "StorageScheme \<Rightarrow> VaultUpdate \<Rightarrow> VaultInner \<Rightarrow> VaultInner" where
  "vault_updated scheme update current = (case scheme of
     PostgresOnly \<Rightarrow> vault_changeset (update\<lparr> vu_updated_by := PostgresOnly \<rparr>) current
   | RedisKv \<Rightarrow> VaultInner_from_update (update\<lparr> vu_updated_by := RedisKv \<rparr>) current)"

lemma updated_vault: "updated Vault_kv_update vault_changeset scheme update current = vault_updated scheme update current"
  by (cases scheme) (simp_all add: updated_def vault_updated_def Vault_kv_update_def)

lemma update_vault_Ok:
  assumes laws: "vault_laws V store" and run: "update_vault_data store vault_id entity_id update w = (Ok v, w')"
  shows "\<exists>scheme current. visible Vault_kv V store w \<lparr> vpk_entity_id = entity_id, vpk_vault_id = vault_id \<rparr> = Some current
    \<and> v = Vault_from_VaultInner (vault_updated scheme update current)
    \<and> written Vault_kv V store \<lparr> vpk_entity_id = entity_id, vpk_vault_id = vault_id \<rparr> scheme
        (Some (vault_updated scheme update current)) w w'"
proof -
  have ok: "kv_services V store pg_vault_find pg_vault_insert
        (\<lambda>n. \<lparr> vpk_entity_id = vni_entity_id n, vpk_vault_id = vni_vault_id n \<rparr>) (kv_value Vault_kv)"
    and mut: "mutations_ok V store vault_changeset pg_vault_update pg_vault_delete"
    using laws by (simp_all add: vault_laws_def)
  show ?thesis using vault_table.update_Ok [OF ok mut run [unfolded update_vault_data_def]]
    by (simp add: updated_vault)
qed

lemma Vault_updated:
  "Vault_from_VaultInner (vault_updated scheme update current) =
     (Vault_from_VaultInner current)\<lparr> v_data := Encrypted (into_inner (vu_encrypted_data update)),
       v_expires_at := (if scheme = PostgresOnly \<and> vu_expires_at update = None then vi_expires_at current
         else vu_expires_at update), v_updated_by := Some scheme \<rparr>"
  by (cases scheme) (auto simp: vault_updated_def vault_changeset_def type_conversions split: option.split)


definition example_update :: VaultUpdate where
  "example_update = \<lparr> vu_encrypted_data = Encrypted_new [8], vu_expires_at = None, vu_updated_by = PostgresOnly \<rparr>"


lemma delete_vault_Ok:
  assumes laws: "vault_laws V store" and run: "delete_from_vault store vault_id entity_id w = (Ok n, w')"
  shows "\<exists>scheme. written Vault_kv V store \<lparr> vpk_entity_id = entity_id, vpk_vault_id = vault_id \<rparr> scheme None w w'"
proof -
  have ok: "kv_services V store pg_vault_find pg_vault_insert
        (\<lambda>n. \<lparr> vpk_entity_id = vni_entity_id n, vpk_vault_id = vni_vault_id n \<rparr>) (kv_value Vault_kv)"
    and mut: "mutations_ok V store vault_changeset pg_vault_update pg_vault_delete"
    using laws by (simp_all add: vault_laws_def)
  show ?thesis using vault_table.delete_Ok [OF ok mut run [unfolded delete_from_vault_def]] .
qed

lemma written_scheme:
  assumes "written M V store pk scheme e w w'"
  shows "scheme = RedisKv \<longleftrightarrow> kv_settings store w = KvState.Enabled
    \<or> kv_settings store w = SoftKill \<and> redis_row V w (row_key M store pk) \<noteq> None"
  using assms by (cases scheme) (auto simp: written_def)

text \<open>C16. After a delete that succeeded the row is gone from the store the mode chose.  With the KV
  layer disabled the next read misses.  With it enabled only the Redis entry is removed and a
  query is queued: until that is drained, a row that Postgres has of the key is read again.\<close>

theorem vault_delete_then_find:
  assumes laws: "vault_laws V store"
    and del: "delete_from_vault store vault_id entity_id w = (Ok n, w')"
    and find: "find_by_vault_id_entity_id store vault_id entity_id w' = (r, w'')"
  shows "(\<forall>v. r = Ok v \<longrightarrow> kv_settings store w \<noteq> KvState.Disabled
        \<and> map_option Vault_from_VaultInner (pg_row V w \<lparr> vpk_entity_id = entity_id, vpk_vault_id = vault_id \<rparr>) = Some v)
    \<and> vault_row V store vault_id entity_id w' = (if kv_settings store w = KvState.Enabled
        \<or> kv_settings store w = SoftKill \<and> vault_redis_entry V store vault_id entity_id w \<noteq> None
      then map_option Vault_from_VaultInner (pg_row V w \<lparr> vpk_entity_id = entity_id, vpk_vault_id = vault_id \<rparr>)
      else None)"
proof -
  let ?pk = "\<lparr> vpk_entity_id = entity_id, vpk_vault_id = vault_id \<rparr>"
  obtain scheme where d: "written Vault_kv V store ?pk scheme None w w'"
    using delete_vault_Ok [OF laws del] by blast
  have redis: "row_key Vault_kv store ?pk = PartitionKey_to_string (libs store) (PartitionKey.Vault entity_id vault_id)"
    by (simp add: row_key_def)
  have "vault_row V store vault_id entity_id w' = (if scheme = RedisKv
      then map_option Vault_from_VaultInner (pg_row V w ?pk) else None)"
    using written_None [OF d] by (simp add: vault_row_def)
  moreover have "scheme = RedisKv \<longleftrightarrow> kv_settings store w = KvState.Enabled
        \<or> kv_settings store w = SoftKill \<and> vault_redis_entry V store vault_id entity_id w \<noteq> None"
    using written_scheme [OF d] by (simp add: vault_redis_entry_def redis)
  ultimately show ?thesis using find_vault_cases [OF laws find] by auto
qed

theorem vault_delete_then_find_witness:
  "\<exists>w w'. delete_from_vault example_store ''v1'' ''m1'' example_world = (Ok 1, w)
     \<and> find_by_vault_id_entity_id example_store ''v1'' ''m1'' w = (Err VaultDBError.NotFoundError, w')"
proof -
  have "\<exists>w. delete_from_vault example_store ''v1'' ''m1'' example_world = (Ok 1, w)
      \<and> fst (find_by_vault_id_entity_id example_store ''v1'' ''m1'' w) = Err VaultDBError.NotFoundError"
    by (simp add: example_run example_parts vault_storage_defs example_row_def example_world_def empty_world_def
        in_mode_def VaultDBError_from_diesel_def storage_error_from_diesel_def VaultDBError_is_not_found_def
        storage_error_is_def)
  then obtain w r w' where d: "delete_from_vault example_store ''v1'' ''m1'' example_world = (Ok 1, w)"
      and f: "find_by_vault_id_entity_id example_store ''v1'' ''m1'' w = (r, w')"
      and r: "r = Err VaultDBError.NotFoundError" by (metis eq_fst_iff)
  have "vault_row vault_view example_store ''v1'' ''m1'' w = None"
    using vault_delete_then_find [OF example_vault_laws d f] by (simp add: example_world_def)
  then show ?thesis using d f r by blast
qed

lemma vault_upsert_eq:
  "vault_upsert state new w =
     (case insert_vault (inner (ts_db state)) new w of (r, w1) \<Rightarrow> (case r of
        Ok v \<Rightarrow> (Ok v, ts_record_outcome state Resource_Vault Created w1)
      | Panic \<Rightarrow> (Panic, w1)
      | Err e \<Rightarrow>
          if VaultDBError_is_duplicate e then
            (case update_vault_data (inner (ts_db state)) (vn_vault_id new) (vn_entity_id new)
                (VaultUpdate_from_VaultNew new) w1 of (r2, w2) \<Rightarrow>
              (case r2 of Panic \<Rightarrow> (Panic, w2)
               | Ok v \<Rightarrow> (Ok v, ts_record_outcome state Resource_Vault Updated w2)
               | Err e \<Rightarrow> (Err e, ts_record_outcome state Resource_Vault Outcome_Error w2)))
          else (Err e, ts_record_outcome state Resource_Vault Outcome_Error w1)))"
  by (simp add: vault_upsert_def io_try_def answer_with_eq Let_def split: prod.split result.split)

text \<open>Every branch of an upsert that answers.\<close>

lemma upsert_answer:
  assumes laws: "vault_laws V (inner (ts_db state))" and out: "outcomes_ok V state"
    and soft: "kv_settings (inner (ts_db state)) w = SoftKill \<Longrightarrow>
      vault_redis_entry V (inner (ts_db state)) (vn_vault_id new) (vn_entity_id new) w = None"
    and run: "vault_upsert state new w = (Ok v, w')"
  shows "vault_row V (inner (ts_db state)) (vn_vault_id new) (vn_entity_id new) w' = Some v
    \<and> v_data v = Encrypted (into_inner (vn_encrypted_data new))
    \<and> (v = stored_vault new (insert_scheme (inner (ts_db state)) w)
      \<or> (\<exists>old. vault_row V (inner (ts_db state)) (vn_vault_id new) (vn_entity_id new) w = Some old
          \<and> v_created_at v = v_created_at old
          \<and> v_expires_at v = (if v_updated_by v = Some PostgresOnly \<and> vn_expires_at new = None
               then v_expires_at old else vn_expires_at new)))"
proof -
  let ?db = "inner (ts_db state)" and ?vid = "vn_vault_id new" and ?eid = "vn_entity_id new"
  let ?pk = "\<lparr> vpk_entity_id = ?eid, vpk_vault_id = ?vid \<rparr>" and ?u = "VaultUpdate_from_VaultNew new"
  obtain r1 w1 where i: "insert_vault ?db new w = (r1, w1)" by force
  have row: "vault_row V ?db ?vid ?eid (ts_record_outcome state a b w) = vault_row V ?db ?vid ?eid w" for a b w
    using out same_view_visible [of V ?db w "ts_record_outcome state a b w" Vault_kv]
    by (simp add: outcomes_ok_def vault_row_def)
  show ?thesis
  proof (cases r1)
    case (Ok x)
    then have v: "v = x" "w' = ts_record_outcome state Resource_Vault Created w1"
      using run i by (simp_all add: vault_upsert_eq)
    note ins = insert_vault_Ok [OF laws i [unfolded Ok]]
    obtain y where y: "x = Vault_from_VaultInner y" "visible Vault_kv V ?db w1 ?pk = Some y"
      using ins(2) inserted_visible [where pk = ?pk] soft by (force simp: vault_redis_entry_def row_key_def)
    have "v_data v = Encrypted (into_inner (vn_encrypted_data new))" using v ins(1) by (simp add: stored_vault_def)
    moreover have "vault_row V ?db ?vid ?eid w' = Some v" using y v row by (simp add: vault_row_def)
    ultimately show ?thesis using v(1) ins(1) by simp
  next
    case (Err e)
    then have dup: "VaultDBError_is_duplicate e" using run i by (simp add: vault_upsert_eq split: if_splits)
    obtain r2 w2 where u: "update_vault_data ?db ?vid ?eid ?u w1 = (r2, w2)" by force
    have r2: "r2 = Ok v" "w' = ts_record_outcome state Resource_Vault Updated w2"
      using run i Err dup u by (auto simp: vault_upsert_eq split: result.splits)
    note d = insert_vault_duplicate [OF laws i [unfolded Err] dup]
    have same: "visible Vault_kv V ?db w1 = visible Vault_kv V ?db w" using d by (simp add: same_view_visible)
    obtain scheme current where c: "visible Vault_kv V ?db w1 ?pk = Some current"
        "v = Vault_from_VaultInner (vault_updated scheme ?u current)"
        "written Vault_kv V ?db ?pk scheme (Some (vault_updated scheme ?u current)) w1 w2"
      using update_vault_Ok [OF laws u [unfolded r2(1)]] by blast
    have "vault_row V ?db ?vid ?eid w2 = Some v" using written_same [OF c(3)] c(2) by (simp add: vault_row_def)
    then have "vault_row V ?db ?vid ?eid w' = Some v" using r2(2) row by simp
    moreover have old: "vault_row V ?db ?vid ?eid w = Some (Vault_from_VaultInner current)"
      using c(1) same by (simp add: vault_row_def)
    moreover have "v = (Vault_from_VaultInner current)\<lparr> v_data := Encrypted (into_inner (vn_encrypted_data new)),
        v_expires_at := (if scheme = PostgresOnly \<and> vn_expires_at new = None then vi_expires_at current
          else vn_expires_at new), v_updated_by := Some scheme \<rparr>"
      using c(2) by (simp add: Vault_updated VaultUpdate_from_VaultNew_def)
    moreover have "v_expires_at (Vault_from_VaultInner current) = vi_expires_at current" by (simp add: type_conversions)
    ultimately show ?thesis by simp
  qed (use run i in \<open>simp add: vault_upsert_eq\<close>)
qed



end
