(* ===== verification/Tenant.thy ===== *)
theory Tenant
  imports Routes
begin

text \<open>
  Tenants: the state of the process (\<open>src/src/tenant.rs\<close>), the construction of a tenant's state
  (\<open>TenantAppState::new\<close> of \<open>src/src/app.rs\<close>), the extractors (\<open>src/src/custom_extractors.rs\<close>),
  the key custodian (\<open>routes/key_custodian.rs\<close>) and the health routes (\<open>routes/health.rs\<close>).  A
  handler that takes the write lock of a table of tenants is a function on the whole state.
\<close>

section \<open>Building a tenant (app.rs)\<close>

text \<open>What the libraries provide to a new tenant; \<open>clone_with_prefix\<close> is the shared pool's handle.\<close>

record 'w AppEnv =
  env_pool_build :: "string \<Rightarrow> nat option \<Rightarrow> (('w, 'w PgConn, string) io, string) result"
  env_libs :: Libs
  env_globals :: "'w Globals"
  env_caches :: "'w CacheBuilders"
  env_crypto :: "'w CryptoLibs"
  env_record_outcome :: "Resource \<Rightarrow> DomainGetOrInsertOutcome \<Rightarrow> 'w \<Rightarrow> 'w"
  env_hex_decode :: "string \<Rightarrow> bytes option"

record 'w RedisShared =
  clone_with_prefix :: "string \<Rightarrow> 'w RedisStore"

definition TenantAppState_new ::
    "'w AppEnv \<Rightarrow> 'redis GlobalConfig \<Rightarrow> TenantConfig \<Rightarrow> 'w ApiClient \<Rightarrow> 'w RedisShared option \<Rightarrow>
     'w RuntimeConfigManager \<Rightarrow> ('w TenantAppState, ConfigurationError) result" where
  "TenantAppState_new env global_config tenant_config client shared_redis manager =
     (let tenant_redis = map_option (\<lambda>store. clone_with_prefix store (trim (tc_redis_key_prefix tenant_config))) shared_redis in
      res_map (\<lambda>db. \<lparr> ts_db = db, ts_config = tenant_config, ts_api_client = client, ts_redis = tenant_redis,
          ts_crypto = env_crypto env, ts_record_outcome = env_record_outcome env \<rparr>)
        (res_map_err (\<lambda>_. ConfigurationError.DatabaseError)
          (res_map (implement_cache (env_caches env) (cache global_config))
            (Storage_new (env_pool_build env) (env_libs env) (env_globals env) (database global_config)
              (read_replica global_config) (schema (tc_tenant_secrets tenant_config)) manager
              (map_option redis_conn tenant_redis) (kv global_config)))))"

section \<open>The state of the process (tenant.rs)\<close>

record CustodianKeyState =
  key1 :: "string option"
  key2 :: "string option"

definition CustodianKeyState_default :: CustodianKeyState where
  "CustodianKeyState_default = \<lparr> key1 = None, key2 = None \<rparr>"

record ('w, 'redis) GlobalAppState =
  tenants_app_state :: "string \<rightharpoonup> 'w TenantAppState"
  tenants_key_state :: "string \<rightharpoonup> CustodianKeyState"
  g_api_client :: "'w ApiClient"
  known_tenants :: "string list"
  global_config :: "'redis GlobalConfig"
  redis_store :: "'w RedisShared option"
  runtime_manager :: "'w RuntimeConfigManager"

text \<open>
  The client and the runtime configuration manager are built before (they panic on an error);
  an unreachable Redis is no Redis.
\<close>

definition GlobalAppState_new ::
    "'redis GlobalConfig \<Rightarrow> ('w ApiClient, ApiClientError) result \<Rightarrow> ('redis \<Rightarrow> ('w RedisShared, RedisError) result) \<Rightarrow>
     ('w RuntimeConfigManager, ConfigurationError) result \<Rightarrow> (('w, 'redis) GlobalAppState, 'e) result" where
  "GlobalAppState_new config client connect manager =
     (let known = map fst (tenant_secrets config) in
      case client of Ok c \<Rightarrow>
        (let store = (case redis config of
             Some conf \<Rightarrow> (case connect conf of Ok s \<Rightarrow> Some s | _ \<Rightarrow> None)
           | None \<Rightarrow> None) in
         case manager of Ok m \<Rightarrow>
           Ok \<lparr> tenants_app_state = (\<lambda>_. None),
                tenants_key_state = (\<lambda>t. if t \<in> set known then Some CustodianKeyState_default else None),
                g_api_client = c, known_tenants = known, global_config = config, redis_store = store,
                runtime_manager = m \<rparr>
         | Err e \<Rightarrow> Panic | Panic \<Rightarrow> Panic)
      | Err e \<Rightarrow> Panic | Panic \<Rightarrow> Panic)"

definition get_app_state_of_tenant ::
    "('w, 'redis) GlobalAppState \<Rightarrow> string \<Rightarrow> ('w TenantAppState, ApiError) result" where
  "get_app_state_of_tenant self tenant_id = ok_or ApiError.CustodianLocked (tenants_app_state self tenant_id)"

definition is_known_tenant :: "('w, 'redis) GlobalAppState \<Rightarrow> string \<Rightarrow> (unit, ApiError) result" where
  "is_known_tenant self tenant_id =
     (if tenant_id \<in> set (known_tenants self) then Ok () else Err (ApiError.TenantError ''Invalid x-tenant-id''))"

definition set_app_state ::
    "('w, 'redis) GlobalAppState \<Rightarrow> 'w TenantAppState \<Rightarrow> ('w, 'redis) GlobalAppState" where
  "set_app_state self state =
     self\<lparr> tenants_app_state := (tenants_app_state self)(tc_tenant_id (ts_config state) \<mapsto> state) \<rparr>"

definition is_custodian_unlocked :: "('w, 'redis) GlobalAppState \<Rightarrow> string \<Rightarrow> (unit, ApiError) result" where
  "is_custodian_unlocked self tenant_id =
     (if tenants_app_state self tenant_id \<noteq> None then Err ApiError.CustodianUnlocked else Ok ())"

section \<open>Extractors (custom_extractors.rs)\<close>

text \<open>
  \<open>header\<close> is the value of a request header: absent, not visible ASCII (its \<open>to_str\<close> fails), or text.
\<close>

type_synonym headers = "string \<rightharpoonup> string option"

definition header_text :: "headers \<Rightarrow> string \<Rightarrow> string option" where
  "header_text hs name = (case hs name of Some (Some s) \<Rightarrow> Some s | _ \<Rightarrow> None)"

definition X_TENANT_ID :: string where "X_TENANT_ID = ''x-tenant-id''"

definition X_FINGERPRINT_ID :: string where "X_FINGERPRINT_ID = ''x-fingerprint-id''"

definition TenantStateResolver ::
    "('w, 'redis) GlobalAppState \<Rightarrow> headers \<Rightarrow> ('w TenantAppState, ApiError) result" where
  "TenantStateResolver state hs =
     res_bind (ok_or (ApiError.TenantError ''x-tenant-id not found in headers'') (header_text hs X_TENANT_ID)) (\<lambda>tenant_id.
     res_bind (is_known_tenant state tenant_id) (\<lambda>_.
     get_app_state_of_tenant state tenant_id))"

definition TenantId :: "('w, 'redis) GlobalAppState \<Rightarrow> headers \<Rightarrow> (string, ApiError) result" where
  "TenantId state hs =
     res_bind (ok_or (ApiError.TenantError ''x-tenant-id not found in header'') (header_text hs X_TENANT_ID)) (\<lambda>tenant_id.
     res_bind (is_known_tenant state tenant_id) (\<lambda>_.
     res_bind (is_custodian_unlocked state tenant_id) (\<lambda>_.
     Ok tenant_id)))"

definition is_ascii_alphanumeric :: "char \<Rightarrow> bool" where
  "is_ascii_alphanumeric c =
     (let n = (of_char c :: nat) in (48 \<le> n \<and> n \<le> 57) \<or> (65 \<le> n \<and> n \<le> 90) \<or> (97 \<le> n \<and> n \<le> 122))"

definition OptionalFingerprintId :: "headers \<Rightarrow> (string option, ApiError) result" where
  "OptionalFingerprintId hs = (case header_text hs X_FINGERPRINT_ID of
     None \<Rightarrow> Ok None
   | Some s \<Rightarrow>
       if length s \<noteq> ID_LENGTH \<or> \<not> list_all is_ascii_alphanumeric s
       then Err (ApiError.ValidationError ''x-fingerprint-id must be exactly 20 alphanumeric characters'')
       else Ok (Some s))"

section \<open>The key custodian (routes/key_custodian.rs)\<close>

definition KEY_LENGTH :: nat where "KEY_LENGTH = 16"

definition key_validation :: "(string \<Rightarrow> bytes option) \<Rightarrow> string \<Rightarrow> (string, string) result" where
  "key_validation hex s = (case hex s of
     None \<Rightarrow> Err ''error while parsing hex''
   | Some hex_data \<Rightarrow> if length hex_data = KEY_LENGTH then Ok s else Err ''Error while validating key'')"

definition handle_key1 :: "('w, 'redis) GlobalAppState \<Rightarrow> string \<Rightarrow> string \<Rightarrow> string \<times> ('w, 'redis) GlobalAppState" where
  "handle_key1 state tenant_id key =
     (''Received Key1'', state\<lparr> tenants_key_state := (case tenants_key_state state tenant_id of
        Some key_state_data \<Rightarrow> (tenants_key_state state)(tenant_id \<mapsto> key_state_data\<lparr> key1 := Some key \<rparr>)
      | None \<Rightarrow> tenants_key_state state) \<rparr>)"

definition handle_key2 :: "('w, 'redis) GlobalAppState \<Rightarrow> string \<Rightarrow> string \<Rightarrow> string \<times> ('w, 'redis) GlobalAppState" where
  "handle_key2 state tenant_id key =
     (''Received Key2'', state\<lparr> tenants_key_state := (case tenants_key_state state tenant_id of
        Some key_state_data \<Rightarrow> (tenants_key_state state)(tenant_id \<mapsto> key_state_data\<lparr> key2 := Some key \<rparr>)
      | None \<Rightarrow> tenants_key_state state) \<rparr>)"

definition aes_decrypt_custodian_key ::
    "'w AppEnv \<Rightarrow> TenantConfig \<Rightarrow> string \<Rightarrow> string \<Rightarrow> (TenantConfig, ApiError) result" where
  "aes_decrypt_custodian_key env tenant_config inner_key1 inner_key2 =
     (let custodian_key = inner_key1 @ inner_key2 in
      res_bind (ok_or (ApiError.DecryptingKeysFailed ''Hex dcoding failed'') (env_hex_decode env custodian_key)) (\<lambda>key.
      res_bind (res_map_err (\<lambda>_. ApiError.DecryptingKeysFailed ''AES decryption failed'')
        (GcmAes256_decrypt (env_crypto env) key (master_key (tc_tenant_secrets tenant_config)))) (\<lambda>aes_decrypted_master_key.
      Ok (tenant_config\<lparr> tc_tenant_secrets :=
        (tc_tenant_secrets tenant_config)\<lparr> master_key := aes_decrypted_master_key \<rparr> \<rparr>))))"

text \<open>
  \<open>decrypt\<close>: an error inside the branch that has both keys leaves the function at once; only
  the branch without both keys reaches the reset.
\<close>

definition handle_decrypt ::
    "'w AppEnv \<Rightarrow> ('w, 'redis) GlobalAppState \<Rightarrow> string \<Rightarrow> (string, ApiError) result \<times> ('w, 'redis) GlobalAppState" where
  "handle_decrypt env state tenant_id = (case tenants_key_state state tenant_id of
     None \<Rightarrow> (Err (ApiError.TenantError ''Tenant not found''), state)
   | Some key_state_for_tenant \<Rightarrow>
      (case (key1 key_state_for_tenant, key2 key_state_for_tenant) of
         (Some inner_key1, Some inner_key2) \<Rightarrow>
           (case res_bind (TenantConfig_from_global_config (global_config state) tenant_id) (\<lambda>tenant_config.
                 res_bind (aes_decrypt_custodian_key env tenant_config inner_key1 inner_key2) (\<lambda>tenant_config.
                 res_map_err (\<lambda>_. ApiError.TenantError ''Failed while creating AppState for tenant'')
                   (TenantAppState_new env (global_config state) tenant_config (g_api_client state)
                     (redis_store state) (runtime_manager state)))) of
              Ok tenant_app_state \<Rightarrow>
                (Ok ''Decryption of Custodian key is successful'', set_app_state state tenant_app_state)
            | Err e \<Rightarrow> (Err e, state)
            | Panic \<Rightarrow> (Panic, state))
       | _ \<Rightarrow>
           (Err (ApiError.DecryptingKeysFailed ''Both the custodain keys are not present to decrypt''),
            state\<lparr> tenants_key_state := (tenants_key_state state)(tenant_id \<mapsto>
              key_state_for_tenant\<lparr> key1 := None, key2 := None \<rparr>) \<rparr>)))"

section \<open>Health (routes/health.rs)\<close>

record DatabaseHealth =
  database_connection :: HealthState
  database_read :: HealthState
  database_write :: HealthState
  database_delete :: HealthState
  database_replica :: HealthState

record Diagnostics =
  key_custodian_locked :: bool
  diag_database :: DatabaseHealth
  keymanager_status :: HealthState
  redis_status :: HealthState

definition HealthState_default :: HealthState where "HealthState_default = Failing"

definition DatabaseHealth_default :: DatabaseHealth where
  "DatabaseHealth_default =
     \<lparr> database_connection = HealthState_default, database_read = HealthState_default,
       database_write = HealthState_default, database_delete = HealthState_default,
       database_replica = HealthState_default \<rparr>"

definition health :: string where "health = ''Health is good''"

definition database_health :: "(unit, TestDBError) result \<Rightarrow> HealthState \<Rightarrow> DatabaseHealth" where
  "database_health test replica = (case test of
     Ok u \<Rightarrow> \<lparr> database_connection = Working, database_read = Working, database_write = Working,
       database_delete = Working, database_replica = replica \<rparr>
   | Err TestDBError.DBReadError \<Rightarrow>
       DatabaseHealth_default\<lparr> database_connection := Working, database_replica := replica \<rparr>
   | Err TestDBError.DBWriteError \<Rightarrow>
       DatabaseHealth_default\<lparr> database_connection := Working, database_read := Working, database_replica := replica \<rparr>
   | Err TestDBError.DBDeleteError \<Rightarrow>
       DatabaseHealth_default\<lparr> database_connection := Working, database_write := Working,
         database_read := Working, database_replica := replica \<rparr>
   | _ \<Rightarrow> DatabaseHealth_default\<lparr> database_replica := replica \<rparr>)"

text \<open>Run a check and go on with its result; a panic ends the request.\<close>

definition checked :: "('w, 'a, 'e) io \<Rightarrow> (('a, 'e) result \<Rightarrow> ('w, 'b, 'f) io) \<Rightarrow> ('w, 'b, 'f) io" where
  "checked m f = io_try m (\<lambda>x. f (Ok x)) (\<lambda>e. f (Err e))"

definition diagnostics :: "KmCodec \<Rightarrow> 'w TenantAppState \<Rightarrow> ('w, Diagnostics, ApiError) io" where
  "diagnostics km state =
     (let db = inner (ts_db state) in
      checked (Storage_test db) (\<lambda>db_test_output.
      io_bind (if has_replica db
               then checked (Storage_test_replica db) (\<lambda>r. io_ret (if is_ok r then Working else Failing))
               else io_ret HealthState_Disabled) (\<lambda>replica_database_health.
      let db_health = database_health db_test_output replica_database_health in
      io_bind (case tc_external_key_manager (ts_config state) of
          ExternalKeyManagerConfig.Disabled \<Rightarrow> io_ret HealthState_Disabled
        | _ \<Rightarrow> checked (health_check_keymanager km state)
            (\<lambda>r. io_ret (case r of Ok s \<Rightarrow> s | _ \<Rightarrow> HealthState_default))) (\<lambda>km_status.
      io_bind (case ts_redis state of
          None \<Rightarrow> io_ret HealthState_Disabled
        | Some rs \<Rightarrow> checked (RedisStore_test rs) (\<lambda>r. io_ret (if is_ok r then Working else Failing))) (\<lambda>rd_status.
      io_ret \<lparr> key_custodian_locked = False, diag_database = db_health, keymanager_status = km_status,
               redis_status = rd_status \<rparr>)))))"

end
