(* ===== verification/RouteLaws.thy ===== *)
theory RouteLaws
  imports VaultLaws Tenant
begin

text \<open>
  What the handlers of the vault promise about time: how a time to live is read and checked when data is
  stored, and that data past it is not answered; and what damaged data does to a retrieval (\<open>routes/data/types.rs\<close>, \<open>routes/data.rs\<close>,
  \<open>routes/routes_v2/data.rs\<close>).
\<close>

section \<open>Reading\<close>

text \<open>\<open>alive g t w\<close>: the clock, read in the state \<open>w\<close>, has not passed \<open>t\<close>.\<close>

definition alive :: "'w Globals \<Rightarrow> time option \<Rightarrow> 'w \<Rightarrow> bool" where
  "alive g expires_at w = (case expires_at of None \<Rightarrow> True | Some t \<Rightarrow> fst (date_time_now g w) \<le> t)"

lemma unless_expired_cases:
  "unless_expired g expires_at deletion answer w = ((r, w'), tasks) \<longleftrightarrow>
     (if alive g expires_at w
      then r = answer \<and> tasks = [] \<and> w' = (if expires_at = None then w else snd (date_time_now g w))
      else r = Err ApiError.NotFoundError \<and> tasks = [deletion] \<and> w' = snd (date_time_now g w))"
  by (auto simp: unless_expired_def alive_def split: option.splits prod.splits)

text \<open>
  The row a retrieval is about: the key of the entity, then the stored row, then its data decrypted.
\<close>

definition retrieval_row :: "KmCodec \<Rightarrow> 'w TenantAppState \<Rightarrow> RetrieveDataRequest \<Rightarrow> ('w, Vault, ApiError) io" where
  "retrieval_row km state req =
     io_bind (KeyProvider_find_by_entity_id state (dek_manager state) (rd_entity_id req)) (\<lambda>crypto_manager.
     io_bind (io_map_err ApiError_from_VaultDBError (find_by_vault_id_entity_id (inner (ts_db state))
       (rd_vault_id req) (rd_entity_id req))) (\<lambda>vault_data.
     decrypt_vault km state crypto_manager vault_data))"

definition retrieval_card :: "KmCodec \<Rightarrow> 'w TenantAppState \<Rightarrow> RetrieveCardRequest \<Rightarrow> ('w, Locker, ApiError) io" where
  "retrieval_card km state req =
     io_bind (KeyProvider_find_by_entity_id state (dek_manager state) (rc_merchant_id req)) (\<lambda>crypto_manager.
     io_bind (io_map_err ApiError_from_VaultDBError (find_by_locker_id_merchant_id_customer_id (inner (ts_db state))
       (rc_card_reference req) (rc_merchant_id req) (rc_merchant_customer_id req))) (\<lambda>locker.
     decrypt_locker km state crypto_manager locker))"

text \<open>
  How an answer must follow from what was read: the answer of a row that is alive when the clock is
  read after it, with nothing left to do; \<open>NotFoundError\<close> for a row that is not, with one deletion left
  to the runtime; and an error of the reading as it is, with nothing left to do.
\<close>

definition answered_in_time ::
    "'w Globals \<Rightarrow> ('row, ApiError) result \<times> 'w \<Rightarrow> ('row \<Rightarrow> time option) \<Rightarrow> ('row \<Rightarrow> ('a, ApiError) result) \<Rightarrow>
     ('w \<Rightarrow> 'w) \<Rightarrow> ('a, ApiError) result \<Rightarrow> ('w \<Rightarrow> 'w) list \<Rightarrow> bool" where
  "answered_in_time g read expires_at answer deletion r tasks \<longleftrightarrow> (case read of
     (Ok row, w) \<Rightarrow>
       if alive g (expires_at row) w then r = answer row \<and> tasks = []
       else r = Err ApiError.NotFoundError \<and> tasks = [deletion]
   | (Err e, w) \<Rightarrow> r = Err e \<and> tasks = []
   | (Panic, w) \<Rightarrow> r = Panic \<and> tasks = [])"

lemma retrieve_data_in_time:
  assumes "retrieve_data rc km state req w = ((r, w'), tasks)"
  shows "answered_in_time (ts_globals state) (retrieval_row km state req w) v_expires_at (retrieve_answer rc)
    (\<lambda>x. snd (delete_from_vault (inner (ts_db state)) (rd_vault_id req) (rd_entity_id req) x)) r tasks"
  using assms unfolding retrieve_data_def Let_def retrieval_row_def [symmetric]
  by (auto simp: answered_in_time_def unless_expired_cases split: prod.splits result.splits)

lemma retrieve_card_in_time:
  assumes "retrieve_card rc km state req w = ((r, w'), tasks)"
  shows "answered_in_time (ts_globals state) (retrieval_card km state req w) lk_ttl (RetrieveCardResponse_try_from rc)
    (\<lambda>x. snd (delete_locker (inner (ts_db state)) (rc_card_reference req) (rc_merchant_id req)
      (rc_merchant_customer_id req) x)) r tasks"
  using assms unfolding retrieve_card_def Let_def retrieval_card_def [symmetric]
  by (auto simp: answered_in_time_def unless_expired_cases split: prod.splits result.splits)

text \<open>Decrypting keeps everything of a row but its data.\<close>

lemma decrypt_vault_Ok:
  "decrypt_vault km state cm enc w = (Ok row, w') \<Longrightarrow> row = enc\<lparr> v_data := v_data row \<rparr>"
  by (auto simp: decrypt_vault_def io_ret_def Vault_set_decrypted_data_def split: option.splits)

lemma decrypt_locker_Ok:
  "decrypt_locker km state cm enc w = (Ok row, w') \<Longrightarrow> row = enc\<lparr> lk_data := lk_data row \<rparr>"
  by (auto simp: decrypt_locker_def io_ret_def Locker_set_decrypted_data_def split: option.splits)

lemma retrieval_row_Ok:
  assumes "retrieval_row km state req w = (Ok row, w3)"
  obtains cm w1 enc w2 where
    "KeyProvider_find_by_entity_id state (dek_manager state) (rd_entity_id req) w = (Ok cm, w1)"
    "find_by_vault_id_entity_id (inner (ts_db state)) (rd_vault_id req) (rd_entity_id req) w1 = (Ok enc, w2)"
    "decrypt_vault km state cm enc w2 = (Ok row, w3)"
  using assms unfolding retrieval_row_def by (auto elim!: io_bind_Ok_E)

lemma retrieval_card_Ok:
  assumes "retrieval_card km state req w = (Ok row, w3)"
  obtains cm w1 enc w2 where
    "KeyProvider_find_by_entity_id state (dek_manager state) (rc_merchant_id req) w = (Ok cm, w1)"
    "find_by_locker_id_merchant_id_customer_id (inner (ts_db state)) (rc_card_reference req) (rc_merchant_id req)
      (rc_merchant_customer_id req) w1 = (Ok enc, w2)"
    "decrypt_locker km state cm enc w2 = (Ok row, w3)"
  using assms unfolding retrieval_card_def by (auto elim!: io_bind_Ok_E)

lemma retrieved_answer:
  assumes "retrieve_data rc km state req w = ((Ok a, w'), tasks)"
  obtains row w3 where "retrieval_row km state req w = (Ok row, w3)"
    "alive (ts_globals state) (v_expires_at row) w3" "retrieve_answer rc row = Ok a" "tasks = []"
  using retrieve_data_in_time [OF assms] by (auto simp: answered_in_time_def split: prod.splits result.splits if_splits)

lemma retrieved_card_answer:
  assumes "retrieve_card rc km state req w = ((Ok a, w'), tasks)"
  obtains row w3 where "retrieval_card km state req w = (Ok row, w3)"
    "alive (ts_globals state) (lk_ttl row) w3" "RetrieveCardResponse_try_from rc row = Ok a" "tasks = []"
  using retrieve_card_in_time [OF assms] by (auto simp: answered_in_time_def split: prod.splits result.splits if_splits)

text \<open>A deletion that succeeds in mode \<open>Disabled\<close> leaves no row of the key.\<close>

lemma deleted_disabled:
  assumes laws: "vault_laws V store" and mode: "kv_settings store x = KvState.Disabled"
    and run: "delete_from_vault store vault_id entity_id x = (Ok n, y)"
  shows "vault_row V store vault_id entity_id y = None"
proof -
  obtain scheme where d: "written Vault_kv V store \<lparr> vpk_entity_id = entity_id, vpk_vault_id = vault_id \<rparr> scheme None x y"
    using delete_vault_Ok [OF laws run] by blast
  then have "scheme \<noteq> RedisKv" using mode written_scheme [OF d] by auto
  then show ?thesis using written_None [OF d] by (simp add: vault_row_def)
qed

text \<open>C13. Data past its time to live is never answered, and data before it always is, by the vault and by
  the cards API: once the stored row was read and decrypted, the answer is the row's if the clock, read
  after that, has not passed the expiry stored with the row, with nothing left to do; otherwise it
  is \<open>NotFoundError\<close>, and exactly then one task is left to the runtime, the deletion of that
  row.  If the reading itself fails, its error is answered and nothing is left to do.  The expiry is the one of the row
  the store has under the key, and the deletion, when it succeeds with the KV layer disabled, leaves no
  row of the key.\<close>

theorem expired_data_is_not_answered:
  assumes laws: "vault_laws V (inner (ts_db state))"
    and data: "retrieve_data rc km state req w = ((r, w'), tasks)"
    and card: "retrieve_card rc km state creq w = ((cr, cw), ctasks)"
  shows "answered_in_time (ts_globals state) (retrieval_row km state req w) v_expires_at (retrieve_answer rc)
      (\<lambda>x. snd (delete_from_vault (inner (ts_db state)) (rd_vault_id req) (rd_entity_id req) x)) r tasks
    \<and> answered_in_time (ts_globals state) (retrieval_card km state creq w) lk_ttl (RetrieveCardResponse_try_from rc)
      (\<lambda>x. snd (delete_locker (inner (ts_db state)) (rc_card_reference creq) (rc_merchant_id creq)
        (rc_merchant_customer_id creq) x)) cr ctasks
    \<and> (\<forall>row w3. retrieval_row km state req w = (Ok row, w3) \<longrightarrow>
        (\<exists>cm w1 v. KeyProvider_find_by_entity_id state (dek_manager state) (rd_entity_id req) w = (Ok cm, w1)
          \<and> vault_row V (inner (ts_db state)) (rd_vault_id req) (rd_entity_id req) w1 = Some v
          \<and> row = v\<lparr> v_data := v_data row \<rparr>))
    \<and> (\<forall>row w3. retrieval_card km state creq w = (Ok row, w3) \<longrightarrow>
        (\<exists>cm w1 l w2. KeyProvider_find_by_entity_id state (dek_manager state) (rc_merchant_id creq) w = (Ok cm, w1)
          \<and> find_by_locker_id_merchant_id_customer_id (inner (ts_db state)) (rc_card_reference creq)
            (rc_merchant_id creq) (rc_merchant_customer_id creq) w1 = (Ok l, w2)
          \<and> row = l\<lparr> lk_data := lk_data row \<rparr>))
    \<and> (\<forall>task\<in>set tasks. \<forall>x. kv_settings (inner (ts_db state)) x = KvState.Disabled
        \<and> is_ok (fst (delete_from_vault (inner (ts_db state)) (rd_vault_id req) (rd_entity_id req) x)) \<longrightarrow>
        vault_row V (inner (ts_db state)) (rd_vault_id req) (rd_entity_id req) (task x) = None)"
proof (intro conjI allI impI ballI)
  show data': "answered_in_time (ts_globals state) (retrieval_row km state req w) v_expires_at (retrieve_answer rc)
      (\<lambda>x. snd (delete_from_vault (inner (ts_db state)) (rd_vault_id req) (rd_entity_id req) x)) r tasks"
    by (rule retrieve_data_in_time [OF data])
  show "answered_in_time (ts_globals state) (retrieval_card km state creq w) lk_ttl (RetrieveCardResponse_try_from rc)
      (\<lambda>x. snd (delete_locker (inner (ts_db state)) (rc_card_reference creq) (rc_merchant_id creq)
        (rc_merchant_customer_id creq) x)) cr ctasks"
    by (rule retrieve_card_in_time [OF card])
  show "\<exists>cm w1 v. KeyProvider_find_by_entity_id state (dek_manager state) (rd_entity_id req) w = (Ok cm, w1)
      \<and> vault_row V (inner (ts_db state)) (rd_vault_id req) (rd_entity_id req) w1 = Some v
      \<and> row = v\<lparr> v_data := v_data row \<rparr>" if "retrieval_row km state req w = (Ok row, w3)" for row w3
    using that
  proof (rule retrieval_row_Ok)
    fix cm w1 enc w2
    assume "KeyProvider_find_by_entity_id state (dek_manager state) (rd_entity_id req) w = (Ok cm, w1)"
      "find_by_vault_id_entity_id (inner (ts_db state)) (rd_vault_id req) (rd_entity_id req) w1 = (Ok enc, w2)"
      "decrypt_vault km state cm enc w2 = (Ok row, w3)"
    note read = this
    have "vault_row V (inner (ts_db state)) (rd_vault_id req) (rd_entity_id req) w1 = Some enc"
      using find_vault_cases [OF laws read(2)] by simp
    with read(1) decrypt_vault_Ok [OF read(3)] show ?thesis by blast
  qed
  show "\<exists>cm w1 l w2. KeyProvider_find_by_entity_id state (dek_manager state) (rc_merchant_id creq) w = (Ok cm, w1)
      \<and> find_by_locker_id_merchant_id_customer_id (inner (ts_db state)) (rc_card_reference creq) (rc_merchant_id creq)
        (rc_merchant_customer_id creq) w1 = (Ok l, w2) \<and> row = l\<lparr> lk_data := lk_data row \<rparr>"
    if "retrieval_card km state creq w = (Ok row, w3)" for row w3
    using that
  proof (rule retrieval_card_Ok)
    fix cm w1 enc w2
    assume "KeyProvider_find_by_entity_id state (dek_manager state) (rc_merchant_id creq) w = (Ok cm, w1)"
      "find_by_locker_id_merchant_id_customer_id (inner (ts_db state)) (rc_card_reference creq) (rc_merchant_id creq)
        (rc_merchant_customer_id creq) w1 = (Ok enc, w2)"
      and dec: "decrypt_locker km state cm enc w2 = (Ok row, w3)"
    then show ?thesis using decrypt_locker_Ok [OF dec] by blast
  qed
  fix task x
  assume "task \<in> set tasks" and x: "kv_settings (inner (ts_db state)) x = KvState.Disabled
    \<and> is_ok (fst (delete_from_vault (inner (ts_db state)) (rd_vault_id req) (rd_entity_id req) x))"
  then have task: "task x = snd (delete_from_vault (inner (ts_db state)) (rd_vault_id req) (rd_entity_id req) x)"
    using data' by (auto simp: answered_in_time_def split: prod.splits result.splits if_splits)
  obtain n y where "delete_from_vault (inner (ts_db state)) (rd_vault_id req) (rd_entity_id req) x = (Ok n, y)"
    using x by (metis is_ok_iff surjective_pairing)
  then show "vault_row V (inner (ts_db state)) (rd_vault_id req) (rd_entity_id req) (task x) = None"
    using deleted_disabled [OF laws] x by (simp add: task)
qed

text \<open>Codecs, and a row of the entity \<open>m1\<close> that expired at time 4.\<close>

instance JsonValue :: countable by countable_datatype

definition example_route_codec :: RouteCodec where
  "example_route_codec = \<lparr> str_to_json = (\<lambda>s. Ok (into_bytes s)), stored_data_to_json = (\<lambda>d. Err ''unused''),
     stored_data_from_json = (\<lambda>bs. Err ''unused''), value_to_json = (\<lambda>v. Ok (into_bytes (text_of v))),
     value_from_json = (\<lambda>bs. Ok (of_text (of_bytes bs))) \<rparr>"

definition example_km_codec :: KmCodec where
  "example_km_codec = \<lparr> base64_encode = (\<lambda>bs. of_bytes bs), base64_decode = (\<lambda>s. Some (into_bytes s)),
     key_create_json = (\<lambda>i. ''{}''), key_transfer_json = (\<lambda>i k. ''{}''), data_json = (\<lambda>i d. ''{}''),
     key_create_parse = (\<lambda>bs. None), data_parse = (\<lambda>bs. None) \<rparr>"

definition example_merchant :: Merchant where
  "example_merchant = \<lparr> m_merchant_id = ''m1'', m_enc_key = replicate 32 0, m_created_at = 0 \<rparr>"

definition example_expired_world :: World where
  "example_expired_world = empty_world\<lparr> w_merchant_cache := [''m1'' \<mapsto> example_merchant],
     w_vaults := [example_row\<lparr> vi_encrypted_data := Encrypted_new (replicate 12 0 @ replicate 32 0 @ replicate 12 0 @ [7]),
       vi_expires_at := Some 4 \<rparr>] \<rparr>"

definition example_retrieve :: RetrieveDataRequest where
  "example_retrieve = \<lparr> rd_entity_id = ''m1'', rd_vault_id = ''v1'' \<rparr>"

lemma example_merchant_found:
  "w_merchant_cache w ''m1'' = Some example_merchant \<Longrightarrow>
   KeyProvider_find_by_entity_id example_tenant (dek_manager example_tenant) ''m1'' w = (Ok (InternalCryptoManager (replicate 32 0)), w)"
  by (simp add: dek_manager_def example_tenant_def Internal_find_by_entity_id_def Caching_find_by_merchant_id_def
      lookup_def example_caching_def example_merchant_def io_defs)

lemma example_opened:
  "GcmAes256_decrypt example_crypto (replicate 32 0) (replicate 12 0 @ replicate 32 0 @ replicate 12 0 @ p) = Ok p"
proof -
  have n: "NonceSequence_current (NonceSequence_from_bytes (replicate 12 0)) = replicate 12 0"
    by (rule current_from_bytes) simp
  show ?thesis
    by (simp add: GcmAes256_decrypt_def NONCE_LEN_def example_crypto_def advance_current n)
qed

lemma example_expired_read:
  "\<exists>row. retrieval_row example_km_codec example_tenant example_retrieve example_expired_world = (Ok row, example_expired_world)
     \<and> v_expires_at row = Some 4"
proof -
  have key: "KeyProvider_find_by_entity_id example_tenant (dek_manager example_tenant) ''m1'' example_expired_world
      = (Ok (InternalCryptoManager (replicate 32 0)), example_expired_world)"
    by (rule example_merchant_found) (simp add: example_expired_world_def)
  have "\<exists>v. find_by_vault_id_entity_id example_store ''v1'' ''m1'' example_expired_world = (Ok v, example_expired_world)
      \<and> v_expires_at v = Some 4 \<and> v_data v = Encrypted (replicate 12 0 @ replicate 32 0 @ replicate 12 0 @ [7])"
    by (simp add: example_run example_parts vault_storage_defs example_row_def example_expired_world_def empty_world_def)
  then obtain v where v: "find_by_vault_id_entity_id example_store ''v1'' ''m1'' example_expired_world = (Ok v, example_expired_world)"
      "v_expires_at v = Some 4" "v_data v = Encrypted (replicate 12 0 @ replicate 32 0 @ replicate 12 0 @ [7])" by blast
  have dec: "decrypt_vault example_km_codec example_tenant (InternalCryptoManager (replicate 32 0)) v w
      = (Ok (Vault_set_decrypted_data v [7]), w)" for w
    by (simp add: example_opened decrypt_vault_def v(3) Internal_decrypt_data_def example_tenant_def io_defs)
  have "v_expires_at (Vault_set_decrypted_data v [7]) = Some 4"
    by (simp add: Vault_set_decrypted_data_def v(2))
  then show ?thesis
    by (simp add: retrieval_row_def example_retrieve_def io_bind_def io_map_err_def key v(1) dec)
qed

theorem expired_data_is_not_answered_witness:
  "\<exists>w task. retrieve_data example_route_codec example_km_codec example_tenant example_retrieve example_expired_world
     = ((Err ApiError.NotFoundError, w), [task])"
proof -
  obtain r w tasks where run: "retrieve_data example_route_codec example_km_codec example_tenant example_retrieve
      example_expired_world = ((r, w), tasks)" by (metis surj_pair)
  obtain cr cw ctasks where card: "retrieve_card example_route_codec example_km_codec example_tenant
      \<lparr> rc_merchant_id = ''m1'', rc_merchant_customer_id = ''c1'', rc_card_reference = ''l1'' \<rparr> example_expired_world
      = ((cr, cw), ctasks)" by (metis surj_pair)
  have laws: "vault_laws vault_view (inner (ts_db example_tenant))" using example_vault_laws by simp
  obtain row where row: "retrieval_row example_km_codec example_tenant example_retrieve example_expired_world
      = (Ok row, example_expired_world)" "v_expires_at row = Some 4" using example_expired_read by blast
  have "\<not> alive (ts_globals example_tenant) (Some 4) example_expired_world"
    by (simp add: alive_def ts_globals_def example_store_def example_globals_def example_expired_world_def empty_world_def)
  then show ?thesis
    using expired_data_is_not_answered [OF laws run card, THEN conjunct1] run row by (simp add: answered_in_time_def)
qed

section \<open>Damaged data\<close>

text \<open>C39. A stored ciphertext that is too short to hold a nonce makes the request panic instead of
  answering an error: with the internal key manager and an entity whose key is usable for AES, the
  retrieval of a row panics exactly if its data has less than twelve bytes.  What the cipher itself
  produced under that key is never such data, and with an unusable key the answer is an error.\<close>

theorem retrieval_panics_on_short_ciphertext:
  assumes aes: "aes_ok (ts_crypto state)" and codec: "\<And>bs. value_from_json rc bs \<noteq> Panic"
    and key: "KeyProvider_find_by_entity_id state (dek_manager state) (rd_entity_id req) w = (Ok (InternalCryptoManager k), w1)"
    and find: "find_by_vault_id_entity_id (inner (ts_db state)) (rd_vault_id req) (rd_entity_id req) w1 = (Ok enc, w2)"
    and data: "v_data enc = Encrypted ct"
    and run: "retrieve_data rc km state req w = ((r, w'), tasks)"
  shows "(r = Panic \<longleftrightarrow> aes_key_ok (ts_crypto state) k \<and> length ct < NONCE_LEN)
    \<and> (\<forall>p x y. GcmAes256_encrypt (ts_crypto state) k p x = (Ok ct, y) \<longrightarrow> r \<noteq> Panic)
    \<and> (\<not> aes_key_ok (ts_crypto state) k \<longrightarrow> r = Err (ApiError_from_CryptoError CryptoError.DecryptionError))"
proof -
  have row: "retrieval_row km state req w =
      (res_map (Vault_set_decrypted_data enc) (res_map_err ApiError_from_CryptoError
        (GcmAes256_decrypt (ts_crypto state) k ct)), w2)"
    by (simp add: retrieval_row_def io_bind_def io_map_err_def key find decrypt_vault_def data Internal_decrypt_data_def
        io_map_def io_lift_def)
  have answer: "retrieve_answer rc v \<noteq> Panic" for v
    using codec by (auto simp: retrieve_answer_def ok_or_def split: option.split result.split)
  have opened: "GcmAes256_decrypt (ts_crypto state) k ct = Panic \<longleftrightarrow> aes_key_ok (ts_crypto state) k \<and> length ct < NONCE_LEN"
    using aes_decrypt_panics [OF aes] .
  have panic: "r = Panic \<longleftrightarrow> GcmAes256_decrypt (ts_crypto state) k ct = Panic"
    using retrieve_data_in_time [OF run] answer
    by (cases "GcmAes256_decrypt (ts_crypto state) k ct") (auto simp: answered_in_time_def row split: if_splits)
  have "r \<noteq> Panic" if "GcmAes256_encrypt (ts_crypto state) k p x = (Ok ct, y)" for p x y
    using panic GcmAes256_roundtrip [OF aes that] by simp
  moreover have "r = Err (ApiError_from_CryptoError CryptoError.DecryptionError)" if "\<not> aes_key_ok (ts_crypto state) k"
    using retrieve_data_in_time [OF run] that by (simp add: answered_in_time_def row GcmAes256_decrypt_def)
  ultimately show ?thesis using panic opened by blast
qed

definition example_damaged_world :: World where
  "example_damaged_world = example_expired_world
     \<lparr> w_vaults := [example_row\<lparr> vi_encrypted_data := Encrypted_new [1, 2, 3] \<rparr>] \<rparr>"

theorem retrieval_panics_on_short_ciphertext_witness:
  "fst (fst (retrieve_data example_route_codec example_km_codec example_tenant example_retrieve example_damaged_world)) = Panic"
proof -
  have key: "KeyProvider_find_by_entity_id example_tenant (dek_manager example_tenant) (rd_entity_id example_retrieve)
      example_damaged_world = (Ok (InternalCryptoManager (replicate 32 0)), example_damaged_world)"
    unfolding example_retrieve_def
    by (simp, rule example_merchant_found) (simp add: example_damaged_world_def example_expired_world_def)
  have "\<exists>v. find_by_vault_id_entity_id (inner (ts_db example_tenant)) (rd_vault_id example_retrieve)
        (rd_entity_id example_retrieve) example_damaged_world = (Ok v, example_damaged_world)
      \<and> v_data v = Encrypted [1, 2, 3]"
    by (simp add: example_run example_parts vault_storage_defs example_row_def example_damaged_world_def
        example_expired_world_def empty_world_def example_retrieve_def)
  then obtain v where v: "find_by_vault_id_entity_id (inner (ts_db example_tenant)) (rd_vault_id example_retrieve)
        (rd_entity_id example_retrieve) example_damaged_world = (Ok v, example_damaged_world)"
      "v_data v = Encrypted [1, 2, 3]" by blast
  obtain r w tasks where run: "retrieve_data example_route_codec example_km_codec example_tenant example_retrieve
      example_damaged_world = ((r, w), tasks)" by (metis surj_pair)
  have aes: "aes_ok (ts_crypto example_tenant)" by (simp add: example_tenant_def example_aes_ok)
  have "r = Panic"
    using retrieval_panics_on_short_ciphertext [OF aes _ key v run]
    by (simp add: example_route_codec_def example_tenant_def example_crypto_def NONCE_LEN_def)
  with run show ?thesis by simp
qed

section \<open>Storing\<close>

text \<open>C28. A time to live is kept within bounds: a duration that is read and then validated, at
  a clock that does not go back, gives an expiry between the time it was read and the last representable time,
  exactly the duration later unless it saturates; it is accepted exactly if it is still ahead when it is
  validated, so a duration of zero never is, and the clock can stop nothing else.\<close>

theorem ttl_bounds:
  assumes read: "Ttl_deserialize g (Some secs) w = (Ok ttl, w1)"
    and clock: "fst (date_time_now g w) \<le> fst (date_time_now g w1)" "fst (date_time_now g w) \<le> TIME_MAX"
  shows "\<exists>t. ttl = Ttl (Some t) \<and> fst (date_time_now g w) \<le> t \<and> t \<le> TIME_MAX
    \<and> (t < TIME_MAX \<longrightarrow> t = fst (date_time_now g w) + uint secs * 1000000000)
    \<and> uint secs < 2 ^ 63
    \<and> Ttl_validate g ttl w1 = (if fst (date_time_now g w1) < t then Ok () else Err ApiError.InvalidTtl, snd (date_time_now g w1))
    \<and> (secs = 0 \<longrightarrow> fst (Ttl_validate g ttl w1) = Err ApiError.InvalidTtl)"
proof -
  let ?now = "fst (date_time_now g w)"
  from read have small: "uint secs \<le> 9223372036854775807"
    and ttl: "ttl = Ttl (Some (saturating_add_seconds ?now (uint secs)))"
    by (auto simp: Ttl_deserialize_def io_bind_def io_of_def io_ret_def io_err_def split: if_splits prod.splits)
  have "0 \<le> uint secs" by simp
  then show ?thesis using small clock
    by (auto simp: ttl saturating_add_seconds_def Ttl_validate_def io_bind_def io_of_def io_ret_def io_err_def
        split: prod.splits)
qed

theorem ttl_bounds_witness:
  "Ttl_deserialize example_globals (Some 0) empty_world = (Ok (Ttl (Some 1000000000)), empty_world)
   \<and> fst (Ttl_validate example_globals (Ttl (Some 1000000000)) empty_world) = Err ApiError.InvalidTtl"
proof -
  have read: "Ttl_deserialize example_globals (Some 0) empty_world = (Ok (Ttl (Some 1000000000)), empty_world)"
    by (simp add: Ttl_deserialize_def example_globals_def empty_world_def saturating_add_seconds_def TIME_MAX_def io_defs)
  from ttl_bounds [OF read] have "fst (Ttl_validate example_globals (Ttl (Some 1000000000)) empty_world) = Err ApiError.InvalidTtl"
    by (simp add: example_globals_def empty_world_def TIME_MAX_def)
  with read show ?thesis by blast
qed

section \<open>Health\<close>

text \<open>C29. The self test of the database tells a lost connection from nothing else: its only error is the
  one of the connection pool, so the database in the answer of the health route is
  reported either as working or as failing altogether, never as failing to read, write or delete.\<close>

theorem self_test_errors:
  assumes "Storage_test db w = (r, w')"
  shows "(\<forall>e. r = Err e \<longrightarrow> e = TestDBError.DBError \<and> \<not> is_ok (fst (get_conn db w)))
    \<and> (r \<noteq> Panic \<longrightarrow> database_health r replica \<in>
        {\<lparr> database_connection = Working, database_read = Working, database_write = Working,
           database_delete = Working, database_replica = replica \<rparr>,
         \<lparr> database_connection = Failing, database_read = Failing, database_write = Failing,
           database_delete = Failing, database_replica = replica \<rparr>})"
proof -
  have "e = TestDBError.DBError \<and> \<not> is_ok (fst (get_conn db w))" if "r = Err e" for e
    using assms that
    by (auto simp: Storage_test_def io_bind_def io_map_err_def io_discard_def get_conn_def io_map_def
        split: prod.splits result.splits)
  then show ?thesis
    by (cases r) (auto simp: database_health_def DatabaseHealth_default_def HealthState_default_def)
qed

theorem self_test_errors_witness:
  "fst (Storage_test (example_store\<lparr> primary_pg_pool := io_err ''down'' \<rparr>) empty_world) = Err TestDBError.DBError"
proof -
  obtain r w' where run: "Storage_test (example_store\<lparr> primary_pg_pool := io_err ''down'' \<rparr>) empty_world = (r, w')" by force
  then have "\<exists>e. r = Err e" by (auto simp: Storage_test_def get_conn_def io_defs)
  with self_test_errors [OF run] run show ?thesis by auto
qed

end
