(* ===== verification/MigrationLaws.thy ===== *)
theory MigrationLaws
  imports KeyMigration RouteLaws
begin

text \<open>
  The migration of keys (\<open>routes/key_migration.rs\<close>) under every order in which its futures are polled:
  that it ends, and that no future takes the key of another.
\<close>

section \<open>When it ends\<close>

fun awaits_left :: "Migration \<Rightarrow> nat" where
  "awaits_left (NotStarted key) = 2"
| "awaits_left (Transferred entity_id response) = 1"
| "awaits_left (Migrated entity) = 0"

definition calls_ready :: "(nat \<times> nat) list \<Rightarrow> nat \<Rightarrow> nat" where
  "calls_ready schedule i = sum_list (map snd (filter (\<lambda>(j, ready). j = i) schedule))"

lemma calls_ready_simps [simp]:
  "calls_ready [] i = 0" "calls_ready ((j, ready) # schedule) i = (if j = i then ready else 0) + calls_ready schedule i"
  "calls_ready (s @ t) i = calls_ready s i + calls_ready t i"
  by (simp_all add: calls_ready_def)

lemma is_migrated_awaits: "is_migrated m \<longleftrightarrow> awaits_left m = 0"
  by (cases m) simp_all

lemma next_await_left: "next_await km state m w = (Ok m', w') \<Longrightarrow> awaits_left m' = awaits_left m - 1"
  by (cases m) (auto simp: io_ret_def elim!: io_bind_Ok_E)

lemma poll_migration_left:
  "poll_migration km state ready m w = (Ok m', w') \<Longrightarrow> awaits_left m' = awaits_left m - ready"
proof (induction ready arbitrary: m w)
  case (Suc ready)
  then obtain m1 w1 where "next_await km state m w = (Ok m1, w1)" "poll_migration km state ready m1 w1 = (Ok m', w')"
    by (auto elim!: io_bind_Ok_E)
  then show ?case using Suc.IH next_await_left by fastforce
qed (simp add: io_ret_def)

lemma poll_all_left:
  "poll_all km state schedule ms w = (Ok ms', w') \<Longrightarrow>
   length ms' = length ms \<and> (\<forall>i < length ms. awaits_left (ms' ! i) = awaits_left (ms ! i) - calls_ready schedule i)"
proof (induction km state schedule ms arbitrary: w rule: poll_all.induct)
  case (2 km state i ready schedule ms)
  show ?case
  proof (cases "i < length ms")
    case True
    then obtain m w1 where m: "poll_migration km state ready (ms ! i) w = (Ok m, w1)"
        "poll_all km state schedule (ms[i := m]) w1 = (Ok ms', w')"
      using 2(3) by (auto elim!: io_bind_Ok_E)
    show ?thesis using 2(1) [OF True m(2)] poll_migration_left [OF m(1)] by (auto simp: nth_list_update)
  next
    case False
    then show ?thesis using 2(2) [OF False] 2(3) by auto
  qed
qed (simp add: io_ret_def)

lemma migrated_iff:
  assumes "poll_all km state schedule (map NotStarted keys) w = (Ok ms, w')"
  shows "list_all is_migrated ms \<longleftrightarrow> (\<forall>i < length keys. 2 \<le> calls_ready schedule i)"
    "length ms = length keys"
  using poll_all_left [OF assms] by (auto simp: list_all_length is_migrated_awaits)

text \<open>A join that is done, or has failed, is not changed by further polls.\<close>

lemma poll_migrated: "poll_migration km state ready (Migrated e) = io_ret (Migrated e)"
  by (induction ready) simp_all

lemma poll_all_done: "list_all is_migrated ms \<Longrightarrow> poll_all km state schedule ms = io_ret ms"
proof (induction km state schedule ms rule: poll_all.induct)
  case (2 km state i ready schedule ms)
  show ?case
  proof (cases "i < length ms")
    case True
    then obtain e where e: "ms ! i = Migrated e" using 2(3) by (cases "ms ! i") (auto simp: list_all_length)
    then have "ms[i := Migrated e] = ms" by (metis list_update_id)
    then show ?thesis using 2(1) [OF True, of "Migrated e"] 2(3) True e by (simp add: poll_migrated)
  qed (use 2 in simp)
qed simp

lemma poll_all_append:
  "poll_all km state (s @ t) ms w = io_bind (poll_all km state s ms) (poll_all km state t) w"
proof (induction km state s ms arbitrary: w rule: poll_all.induct)
  case (2 km state i ready s ms)
  show ?case
  proof (cases "i < length ms")
    case True
    show ?thesis
      using True 2(1) [OF True] by (simp add: io_bind_def split: prod.split result.split)
  qed (use 2(2) in simp)
qed simp

lemma poll_all_settled:
  assumes "poll_all km state s ms w = (r, w')" "\<forall>ms'. r = Ok ms' \<longrightarrow> list_all is_migrated ms'"
  shows "poll_all km state (s @ t) ms w = (r, w')"
  using assms by (cases r) (simp_all add: poll_all_append io_bind_def poll_all_done io_ret_def)

text \<open>Under a fair executor every future passes both of its awaits.\<close>

abbreviation first_polls :: "(nat \<Rightarrow> nat \<times> nat) \<Rightarrow> nat \<Rightarrow> (nat \<times> nat) list" where
  "first_polls schedule n \<equiv> map schedule [0..<n]"

lemma first_polls_split: "n \<le> m \<Longrightarrow> first_polls schedule m = first_polls schedule n @ map schedule [n..<m]"
  using upt_add_eq_append [of 0 n "m - n"] by simp

lemma calls_ready_grow:
  "calls_ready (first_polls schedule (Suc n)) i
     = calls_ready (first_polls schedule n) i + (if fst (schedule n) = i then snd (schedule n) else 0)"
  by (cases "schedule n") simp

lemma calls_ready_mono: "m \<le> n \<Longrightarrow> calls_ready (first_polls schedule m) i \<le> calls_ready (first_polls schedule n) i"
  by (rule lift_Suc_mono_le [where f = "\<lambda>n. calls_ready (first_polls schedule n) i"])
    (simp_all only: calls_ready_grow le_add1)

lemma fair_passes_both:
  assumes fair: "\<forall>n. \<exists>m \<ge> n. \<exists>r. schedule m = (i, Suc r)"
  shows "\<exists>n. 2 \<le> calls_ready (first_polls schedule n) i"
proof -
  obtain m1 r1 where m1: "schedule m1 = (i, Suc r1)" using fair by blast
  obtain m2 r2 where m2: "Suc m1 \<le> m2" "schedule m2 = (i, Suc r2)" using fair by blast
  have "1 \<le> calls_ready (first_polls schedule (Suc m1)) i" unfolding calls_ready_grow m1 by simp
  also have "\<dots> \<le> calls_ready (first_polls schedule m2) i" by (rule calls_ready_mono [OF m2(1)])
  finally have "2 \<le> calls_ready (first_polls schedule (Suc m2)) i" unfolding calls_ready_grow m2 by simp
  then show ?thesis ..
qed

lemma fair_passes_all:
  assumes "\<forall>i < k. \<forall>n. \<exists>m \<ge> n. \<exists>r. schedule m = (i, Suc r)"
  shows "\<exists>n. \<forall>i < k. 2 \<le> calls_ready (first_polls schedule n) i"
  using assms
proof (induction k)
  case (Suc k)
  obtain n where n: "\<forall>i < k. 2 \<le> calls_ready (first_polls schedule n) i" using Suc by auto
  obtain n' where n': "2 \<le> calls_ready (first_polls schedule n') k" using fair_passes_both Suc.prems by blast
  have "2 \<le> calls_ready (first_polls schedule (max n n')) i" if "i < Suc k" for i
    using n n' that calls_ready_mono [of n "max n n'" schedule i] calls_ready_mono [of n' "max n n'" schedule i]
    by (cases "i = k") (use that less_Suc_eq [of i k] in auto)
  then show ?case by blast
qed simp

text \<open>C21. The migration ends.  Under every executor that is fair, that is, under which each merchant's
  future is polled again and again with a call that is ready, there is a point from which on the request
  has one and the same result: the number of all the merchants, or the error of a call that failed
  (or its panic).  It reports the number only when every future has passed both of its awaits.\<close>

theorem migration_ends:
  assumes fair: "\<forall>i < length keys. \<forall>n. \<exists>m \<ge> n. \<exists>r. schedule m = (i, Suc r)"
  shows "(\<exists>n r w'. (\<forall>m \<ge> n. send_request_to_key_service_for_merchant km state (first_polls schedule m) keys w = (r, w'))
      \<and> r \<in> {Ok (Some (length keys)), Err (ApiError.KeyManagerError ''Failed while migrating keys''), Panic})
    \<and> (\<forall>m c. fst (send_request_to_key_service_for_merchant km state (first_polls schedule m) keys w) = Ok (Some c) \<longrightarrow>
        (\<forall>i < length keys. 2 \<le> calls_ready (first_polls schedule m) i))"
proof -
  let ?run = "\<lambda>m. poll_all km state (first_polls schedule m) (map NotStarted keys) w"
  obtain n where n: "\<forall>i < length keys. 2 \<le> calls_ready (first_polls schedule n) i"
    using fair_passes_all [OF fair] by blast
  obtain r w' where run: "?run n = (r, w')" by force
  have finished: "\<forall>ms. r = Ok ms \<longrightarrow> list_all is_migrated ms \<and> length ms = length keys"
    using migrated_iff [of km state "first_polls schedule n" keys w _ w'] run n by auto
  have settled: "?run m = (r, w')" if "n \<le> m" for m
  proof -
    show ?thesis unfolding first_polls_split [OF that] using poll_all_settled [OF run] finished by simp
  qed
  define out where "out = res_map (\<lambda>ms. if list_all is_migrated ms then Some (length ms) else None)
      (res_map_err (\<lambda>_. ApiError.KeyManagerError ''Failed while migrating keys'') r)"
  have "out \<in> {Ok (Some (length keys)), Err (ApiError.KeyManagerError ''Failed while migrating keys''), Panic}"
    using finished by (cases r) (simp_all add: out_def)
  moreover have "\<forall>m \<ge> n. send_request_to_key_service_for_merchant km state (first_polls schedule m) keys w = (out, w')"
    using settled by (simp add: send_request_to_key_service_for_merchant_def out_def io_map_def io_map_err_def)
  moreover have "\<forall>i < length keys. 2 \<le> calls_ready (first_polls schedule m) i"
    if counted: "fst (send_request_to_key_service_for_merchant km state (first_polls schedule m) keys w) = Ok (Some c)" for m c
  proof -
    obtain ms v where ms: "?run m = (Ok ms, v)" "list_all is_migrated ms"
      using counted by (cases "?run m"; cases "fst (?run m)")
        (auto simp: send_request_to_key_service_for_merchant_def io_map_def io_map_err_def split: if_splits)
    show ?thesis using migrated_iff(1) [OF ms(1)] ms(2) by blast
  qed
  ultimately show ?thesis by blast
qed

section \<open>Whose key it is\<close>

text \<open>The futures of a merchant: the transfer sends its key, the row binds its id to what was answered.\<close>

inductive migration_of :: "KmCodec \<Rightarrow> 'w TenantAppState \<Rightarrow> Merchant \<Rightarrow> Migration \<Rightarrow> bool" for km state key where
  not_started: "migration_of km state key (NotStarted key)"
| transferred: "transfer_key_to_key_manager km state
      \<lparr> kt_identifier = ident, kt_key = base64_encode km (m_enc_key key) \<rparr> w = (Ok resp, w') \<Longrightarrow>
    migration_of km state key (Transferred (m_merchant_id key) resp)"
| migrated: "migration_of km state key (Transferred (m_merchant_id key) resp) \<Longrightarrow>
    Caching_insert_entity (ts_db state) (m_merchant_id key) (get_identifier (kr_identifier resp)) w = (Ok e, w') \<Longrightarrow>
    migration_of km state key (Migrated e)"

inductive_cases migration_of_cases [elim!]:
  "migration_of km state key (NotStarted key')" "migration_of km state key (Transferred i resp)"
  "migration_of km state key (Migrated e)"

lemma next_await_of:
  assumes "migration_of km state key m" "next_await km state m w = (Ok m', w')"
  shows "migration_of km state key m'"
proof (cases m)
  case (NotStarted key')
  then show ?thesis using assms by (auto simp: DataKeyTransferRequest_create_request_def io_of_def
      elim!: io_bind_Ok_E intro: transferred split: prod.splits)
next
  case (Transferred i resp)
  then show ?thesis using assms by (auto intro: migration_of.intros)
next
  case (Migrated e)
  then show ?thesis using assms by (simp add: io_ret_def)
qed

lemma poll_migration_of:
  "migration_of km state key m \<Longrightarrow> poll_migration km state ready m w = (Ok m', w') \<Longrightarrow> migration_of km state key m'"
  by (induction ready arbitrary: m w) (auto simp: io_ret_def elim!: io_bind_Ok_E dest: next_await_of)

lemma poll_all_of:
  "poll_all km state schedule ms w = (Ok ms', w') \<Longrightarrow> list_all2 (migration_of km state) keys ms \<Longrightarrow>
   list_all2 (migration_of km state) keys ms'"
proof (induction km state schedule ms arbitrary: w rule: poll_all.induct)
  case (2 km state i ready schedule ms)
  show ?case
  proof (cases "i < length ms")
    case True
    then obtain m w1 where m: "poll_migration km state ready (ms ! i) w = (Ok m, w1)"
        "poll_all km state schedule (ms[i := m]) w1 = (Ok ms', w')"
      using 2(3) by (auto elim!: io_bind_Ok_E)
    have "migration_of km state (keys ! i) (ms ! i)" using 2(4) True by (simp add: list_all2_conv_all_nth)
    from list_all2_update_cong [OF 2(4) poll_migration_of [OF this m(1)], of i]
    have "list_all2 (migration_of km state) keys (ms[i := m])" by (simp add: list_update_id)
    then show ?thesis using 2(1) [OF True m(2)] by blast
  next
    case False
    then show ?thesis using 2(2) [OF False] 2(3,4) by auto
  qed
qed (simp add: io_ret_def)

text \<open>C20. However the futures interleave, none takes the key of another: when the migration is done,
  every merchant has a row under its own id, with the identifier that the key manager answered when
  this merchant's key was sent to it.\<close>

theorem migration_keeps_keys_apart:
  assumes "poll_all km state schedule (map NotStarted keys) w = (Ok ms, w')" "list_all is_migrated ms" "i < length keys"
  shows "\<exists>ident w1 resp w2 w3 e w4. ms ! i = Migrated e
    \<and> transfer_key_to_key_manager km state
        \<lparr> kt_identifier = ident, kt_key = base64_encode km (m_enc_key (keys ! i)) \<rparr> w1 = (Ok resp, w2)
    \<and> Caching_insert_entity (ts_db state) (m_merchant_id (keys ! i)) (get_identifier (kr_identifier resp)) w3 = (Ok e, w4)"
proof -
  have "list_all2 (migration_of km state) keys (map NotStarted keys)"
    by (simp add: list_all2_conv_all_nth not_started)
  from poll_all_of [OF assms(1) this] have of: "migration_of km state (keys ! i) (ms ! i)" "is_migrated (ms ! i)"
    using assms(2,3) by (auto simp: list_all2_conv_all_nth list_all_length)
  then show ?thesis by (cases "ms ! i") (simp_all, blast)
qed

section \<open>The example services\<close>

text \<open>A key manager that is on line.\<close>

definition example_online :: "World TenantAppState" where
  "example_online = example_tenant
     \<lparr> ts_config := (ts_config example_tenant)\<lparr> tc_external_key_manager := ExternalKeyManagerConfig.Enabled ''http://km'' \<rparr>,
       ts_api_client := example_client\<lparr> http_send := (\<lambda>m u h b. io_ret (200, Ok [])) \<rparr> \<rparr>"

definition example_online_codec :: KmCodec where
  "example_online_codec = example_km_codec
     \<lparr> key_create_parse := (\<lambda>bs. Some \<lparr> kr_identifier = Identifier_Entity ''k1'', kr_key_version = ''v1'' \<rparr>) \<rparr>"

definition example_keys_to_move :: "Merchant list" where
  "example_keys_to_move = [example_merchant, example_merchant\<lparr> m_merchant_id := ''m2'' \<rparr>]"

lemma example_transfer:
  "transfer_key_to_key_manager example_online_codec example_online req v
    = (Ok \<lparr> kr_identifier = Identifier_Entity ''k1'', kr_key_version = ''v1'' \<rparr>, v)"
  by (simp add: transfer_key_to_key_manager_def km_call_def call_encryption_service_def send_request_def get_url_required_def
      example_online_def example_online_codec_def example_client_def get_key_manager_header_def deserialize_json_def ok_or_def
      Let_def io_defs)

lemma example_bind_entity:
  assumes "List.find (\<lambda>r. en_entity_id r = i) (w_entities v) = None"
  shows "\<exists>e v'. Caching_insert_entity (ts_db example_online) i k v = (Ok e, v') \<and> w_entities v' = w_entities v @ [e] \<and> en_entity_id e = i"
  using assms by (simp add: Caching_insert_entity_def insert_entity_def on_conn_def get_conn_def example_online_def
      example_conn_def rows_insert_def cache_data_def io_defs) (simp add: example_caching_def)

lemma example_start:
  "\<exists>v'. next_await example_online_codec example_online (NotStarted key) v
      = (Ok (Transferred (m_merchant_id key) \<lparr> kr_identifier = Identifier_Entity ''k1'', kr_key_version = ''v1'' \<rparr>), v')
    \<and> w_entities v' = w_entities v"
proof -
  have "ts_globals example_online = example_globals" by (simp add: ts_globals_def example_online_def example_store_def)
  then show ?thesis
    by (simp add: example_transfer DataKeyTransferRequest_create_request_def io_defs generate_nano_id_def example_globals_def)
qed

lemma example_migration:
  "\<exists>e e' w. poll_all example_online_codec example_online [(0, 1), (1, 1), (1, 1), (0, 1)] (map NotStarted example_keys_to_move) empty_world
      = (Ok [Migrated e, Migrated e'], w)"
proof -
  let ?resp = "\<lparr> kr_identifier = Identifier_Entity ''k1'', kr_key_version = ''v1'' \<rparr>" and ?m = example_merchant
  let ?m2 = "example_merchant\<lparr> m_merchant_id := ''m2'' \<rparr>"
  obtain v1 where v1: "next_await example_online_codec example_online (NotStarted ?m) empty_world
      = (Ok (Transferred ''m1'' ?resp), v1)" "w_entities v1 = []"
    using example_start [of ?m empty_world] by (auto simp: example_merchant_def empty_world_def)
  obtain v2 where v2: "next_await example_online_codec example_online (NotStarted ?m2) v1
      = (Ok (Transferred ''m2'' ?resp), v2)" "w_entities v2 = []"
    using example_start [of ?m2 v1] v1(2) by (auto simp: example_merchant_def)
  obtain e v3 where v3: "Caching_insert_entity (ts_db example_online) ''m2'' ''k1'' v2 = (Ok e, v3)"
      "w_entities v3 = [e]" "en_entity_id e = ''m2''"
    using example_bind_entity [of "''m2''" v2 "''k1''"] v2(2) by auto
  obtain e' v4 where v4: "Caching_insert_entity (ts_db example_online) ''m1'' ''k1'' v3 = (Ok e', v4)"
    using example_bind_entity [of "''m1''" v3 "''k1''"] v3(2,3) by auto
  show ?thesis
    using v1(1) v2(1) v3(1) v4
    by (simp add: example_keys_to_move_def io_bind_def io_map_def io_map_err_def io_ret_def del: next_await.simps(1))
qed

text \<open>An executor that polls the two futures in the order 0, 1, 1, 0, again and again.\<close>

definition example_executor :: "nat \<Rightarrow> nat \<times> nat" where
  "example_executor m = ([0, 1, 1, 0] ! (m mod 4), 1)"

theorem migration_ends_witness:
  "\<exists>n w. \<forall>m \<ge> n. send_request_to_key_service_for_merchant example_online_codec example_online
      (first_polls example_executor m) example_keys_to_move empty_world = (Ok (Some 2), w)"
proof -
  have two: "length example_keys_to_move = 2" by (simp add: example_keys_to_move_def)
  have "example_executor (4 * n + i) = (i, Suc 0)" if "i < 2" for n i
    using that by (auto simp: example_executor_def less_2_cases_iff)
  moreover have "n \<le> 4 * n + i" for n i :: nat by simp
  ultimately have fair: "\<forall>i < length example_keys_to_move. \<forall>n. \<exists>m \<ge> n. \<exists>r. example_executor m = (i, Suc r)"
    unfolding two by blast
  obtain n r w where ends: "\<forall>m \<ge> n. send_request_to_key_service_for_merchant example_online_codec example_online
      (first_polls example_executor m) example_keys_to_move empty_world = (r, w)"
    and r: "r \<in> {Ok (Some 2), Err (ApiError.KeyManagerError ''Failed while migrating keys''), Panic}"
    using migration_ends [OF fair, of example_online_codec example_online empty_world] two by auto
  have polls: "first_polls example_executor 4 = [(0, 1), (1, 1), (1, 1), (0, 1)]" by code_simp
  obtain e e' v where "poll_all example_online_codec example_online (first_polls example_executor 4)
      (map NotStarted example_keys_to_move) empty_world = (Ok [Migrated e, Migrated e'], v)"
    using example_migration by (simp only: polls) blast
  then have "poll_all example_online_codec example_online (first_polls example_executor 4 @ map example_executor [4..<max n 4])
      (map NotStarted example_keys_to_move) empty_world = (Ok [Migrated e, Migrated e'], v)"
    by (rule poll_all_settled) simp
  moreover have "first_polls example_executor 4 @ map example_executor [4..<max n 4] = first_polls example_executor (max n 4)"
    by (rule first_polls_split [symmetric]) simp
  ultimately have "is_ok r"
    using ends [THEN spec, of "max n 4"] by (auto simp: send_request_to_key_service_for_merchant_def io_map_def io_map_err_def)
  then have "r = Ok (Some 2)" using r by auto
  then show ?thesis using ends by blast
qed

theorem migration_keeps_keys_apart_witness:
  "\<exists>ms w e ident w1 resp w2. poll_all example_online_codec example_online [(0, 1), (1, 1), (1, 1), (0, 1)] (map NotStarted example_keys_to_move) empty_world
      = (Ok ms, w)
    \<and> ms ! 1 = Migrated e
    \<and> transfer_key_to_key_manager example_online_codec example_online
        \<lparr> kt_identifier = ident, kt_key = base64_encode example_online_codec (replicate 32 0) \<rparr> w1 = (Ok resp, w2)"
proof -
  obtain e e' w where run: "poll_all example_online_codec example_online [(0, 1), (1, 1), (1, 1), (0, 1)] (map NotStarted example_keys_to_move) empty_world
      = (Ok [Migrated e, Migrated e'], w)" using example_migration by blast
  have "1 < length example_keys_to_move" "m_enc_key (example_keys_to_move ! 1) = replicate 32 0"
    by (simp_all add: example_keys_to_move_def example_merchant_def)
  then show ?thesis using migration_keeps_keys_apart [OF run, of 1] run by simp blast
qed

end
