(* ===== verification/Frame.thy ===== *)
theory Frame
  imports Caching
begin

text \<open>
  Parts of the state that an operation leaves alone: \<open>stays R m\<close> says that every run of \<open>m\<close>, also one
  that fails, relates the states before and after it by \<open>R\<close>.  The rules of \<open>stays_intros\<close> derive it
  for the operations of the KV layer from the same fact about the services' calls they make.
\<close>

section \<open>Rules\<close>

definition stays :: "('w \<Rightarrow> 'w \<Rightarrow> bool) \<Rightarrow> ('w, 'a, 'e) io \<Rightarrow> bool" where
  "stays R m = (\<forall>w. R w (snd (m w)))"

definition preorder_on_states :: "('w \<Rightarrow> 'w \<Rightarrow> bool) \<Rightarrow> bool" where
  "preorder_on_states R = ((\<forall>w. R w w) \<and> (\<forall>u v w. R u v \<longrightarrow> R v w \<longrightarrow> R u w))"

named_theorems stays_intros "what an operation leaves alone, from what its parts leave alone"

lemma staysD: "stays R m \<Longrightarrow> m w = (r, w') \<Longrightarrow> R w w'"
  unfolding stays_def by (metis snd_conv)

lemma preorder_refl: "preorder_on_states R \<Longrightarrow> R w w"
  by (simp add: preorder_on_states_def)

lemma preorder_trans: "preorder_on_states R \<Longrightarrow> R u v \<Longrightarrow> R v w \<Longrightarrow> R u w"
  unfolding preorder_on_states_def by blast

lemma stays_basic [stays_intros]:
  assumes "preorder_on_states R"
  shows "stays R (io_ret x)" "stays R (io_err e)" "stays R (io_lift r)"
  using preorder_refl [OF assms] by (simp_all add: stays_def io_ret_def io_err_def io_lift_def)

lemma stays_bind [stays_intros]:
  assumes "preorder_on_states R" "stays R m" "\<And>x. stays R (f x)"
  shows "stays R (io_bind m f)"
  using assms(2,3) preorder_trans [OF assms(1)]
  by (auto simp: stays_def io_bind_def split: prod.splits result.splits) (metis snd_conv)+

lemma stays_try [stays_intros]:
  assumes "preorder_on_states R" "stays R m" "\<And>x. stays R (f x)" "\<And>e. stays R (g e)"
  shows "stays R (io_try m f g)"
  using assms(2-4) preorder_trans [OF assms(1)]
  by (auto simp: stays_def io_try_def split: prod.splits result.splits) (metis snd_conv)+

lemma stays_map [stays_intros]:
  "stays R m \<Longrightarrow> stays R (io_map f m)" "stays R m \<Longrightarrow> stays R (io_map_err g m)"
  by (auto simp: stays_def io_map_def io_map_err_def split: prod.splits) (metis snd_conv)+

lemma stays_of [stays_intros]: "(\<And>w. R w (snd (f w))) \<Longrightarrow> stays R (io_of f)"
  by (auto simp: stays_def io_of_def split: prod.splits) (metis snd_conv)

lemma stays_lift_bind [stays_intros]:
  assumes "preorder_on_states R" "\<And>x. v = Ok x \<Longrightarrow> stays R (f x)"
  shows "stays R (io_bind (io_lift v) f)"
  using assms by (cases v) (auto simp: io_bind_def io_lift_def stays_def preorder_refl)

lemma stays_if [stays_intros]: "stays R m \<Longrightarrow> stays R n \<Longrightarrow> stays R (if b then m else n)"
  by simp

lemma stays_option [stays_intros]:
  "stays R m \<Longrightarrow> (\<And>x. stays R (f x)) \<Longrightarrow> stays R (case v of None \<Rightarrow> m | Some x \<Rightarrow> f x)"
  by (cases v) simp_all

lemma stays_at: "stays R m \<Longrightarrow> R w (snd (m w))"
  by (simp add: stays_def)

section \<open>The KV layer\<close>

text \<open>The calls that a table's operations make.\<close>

definition services_stay ::
    "('w \<Rightarrow> 'w \<Rightarrow> bool) \<Rightarrow> 'w Storage \<Rightarrow> ('w RedisPool \<Rightarrow> ('w, 'en) KvValue) \<Rightarrow> bool" where
  "services_stay R store sel =
     (stays R (primary_pg_pool store)
      \<and> (\<forall>m. replica_pg_pool store = Some m \<longrightarrow> stays R m)
      \<and> (\<forall>w. R w (snd (unix_timestamp_now (globals store) w)))
      \<and> (\<forall>pool. st_redis store = Some pool \<longrightarrow>
           (\<forall>k f. stays R (get_hash_field_and_deserialize (sel pool) k f))
           \<and> (\<forall>k f v t. stays R (serialize_and_set_hash_field_if_not_exist (sel pool) k f v t))
           \<and> (\<forall>k fs t. stays R (set_hash_fields pool k fs t))
           \<and> (\<forall>k f. stays R (delete_hash_fields pool k f))
           \<and> (\<forall>n fs. stays R (stream_append_entry pool n fs))))"

lemma stays_conn:
  assumes "preorder_on_states R" "services_stay R store sel"
  shows "stays R (get_conn store)" "stays R (route_conn store)"
proof -
  show g: "stays R (get_conn store)"
    using assms by (auto simp: get_conn_def services_stay_def intro!: stays_intros)
  have r: "stays R (get_replica_conn store)"
    using assms by (auto simp: get_replica_conn_def services_stay_def intro!: stays_intros split: option.split)
  show "stays R (route_conn store)" using g r by (simp add: route_conn_def stays_def)
qed

lemma get_conn_Ok: "get_conn store w = (Ok c, w') \<Longrightarrow> primary_pg_pool store w = (Ok (fst c), w')"
  by (auto simp: get_conn_def)

lemma stays_on_conn:
  assumes "preorder_on_states R" "stays R conn" "\<And>w c w'. conn w = (Ok c, w') \<Longrightarrow> stays R (q (fst c))"
  shows "stays R (on_conn conn f g q)"
  unfolding stays_def
proof
  fix w
  obtain r w1 where c: "conn w = (r, w1)" by force
  have R1: "R w w1" using staysD [OF assms(2) c] .
  show "R w (snd (on_conn conn f g q w))"
  proof (cases r)
    case (Ok cp)
    have "R w1 (snd (q (fst cp) w1))" using stays_at [OF assms(3)] c Ok by blast
    then show ?thesis using preorder_trans [OF assms(1) R1] c Ok
      by (auto simp: on_conn_def io_bind_def io_map_err_def split: prod.split)
  qed (use c R1 in \<open>simp_all add: on_conn_def io_bind_def io_map_err_def\<close>)
qed

lemma stays_push:
  assumes "preorder_on_states R" "services_stay R store sel"
  shows "stays R (push_to_drainer_stream store query key)"
  unfolding push_to_drainer_stream_def to_field_value_pairs_def bridge_def Let_def
  using assms by (intro stays_intros) (auto simp: services_stay_def get_redis_conn_def)

lemma stays_kv_wrapper:
  assumes "preorder_on_states R" "services_stay R store sel"
  shows "stays R (kv_wrapper store sel op key)"
  unfolding kv_wrapper_def Let_def bridge_def
  using assms stays_push [OF assms]
  by (intro stays_lift_bind; cases op)
    (auto simp: services_stay_def get_redis_conn_def intro!: stays_intros)

lemma stays_hget:
  assumes "preorder_on_states R" "services_stay R store (kv_value M)" "\<And>v. stays R (hit v)" "stays R miss"
  shows "stays R (kv_hget M store key ks hit miss)"
  unfolding kv_hget_def using assms stays_kv_wrapper [OF assms(1,2)]
  by (intro stays_intros) (auto split: KvResult.split intro!: stays_intros)

lemma stays_find:
  assumes "preorder_on_states R" "services_stay R store (kv_value M)" "\<And>pk. stays R (storage_find M store pk)"
  shows "stays R (find_resource_by_id_inner M store pk)" "stays R (find_resource_by_id M store pk)"
    "stays R (find_optional_resource_by_id M store pk)"
proof -
  have h: "stays R (kv_hget M store (get_partition_key M pk)
      (PartitionKey_to_string (libs store) (get_partition_key M pk)) io_ret (storage_find M store pk))"
    using assms by (intro stays_hget stays_basic)
  show "stays R (find_resource_by_id_inner M store pk)"
    unfolding stays_def
  proof
    fix w
    show "R w (snd (find_resource_by_id_inner M store pk w))"
      using stays_at [OF h] stays_at [OF assms(3)] by (cases "decide_storage_scheme_for_find_operation store w")
        (simp_all add: find_resource_by_id_inner_def Let_def)
  qed
  then show f: "stays R (find_resource_by_id M store pk)"
    unfolding find_resource_by_id_def by (intro stays_intros)
  show "stays R (find_optional_resource_by_id M store pk)"
    unfolding find_optional_resource_by_id_def optional_def using f assms(1) by (intro stays_intros)
qed

lemma stays_insert:
  assumes "preorder_on_states R" "services_stay R store (kv_value M)" "\<And>n. stays R (storage_insert M n store)"
  shows "stays R (insert_resource_inner M irl store n key (\<lambda>_ _. None))" "stays R (insert_resource M store n key)"
proof -
  let ?ks = "PartitionKey_to_string (libs store) key"
  have "R w (snd (insert_resource_inner M irl' store n key (\<lambda>_ _. None) w))" for w irl'
  proof (cases "decide_storage_scheme_for_insert_operation store w")
    case PostgresOnly
    then show ?thesis using stays_at [OF assms(3)] by (simp add: insert_resource_inner_def Let_def)
  next
    case RedisKv
    show ?thesis
    proof (cases "generate_insert_drainer_query M (libs store) (set_storage_scheme M n RedisKv)")
      case (Ok query)
      obtain r w1 where k: "kv_wrapper store (kv_value M)
          (HSetNx ?ks (into_entity M (set_storage_scheme M n RedisKv)) query) key w = (r, w1)" by force
      then have "R w w1" using staysD [OF stays_kv_wrapper [OF assms(1,2)]] by blast
      moreover have "snd (insert_resource_inner M irl' store n key (\<lambda>_ _. None) w) = w1"
        using RedisKv Ok k by (cases r) (auto simp: insert_resource_inner_def Let_def io_bind_def io_lift_def io_ret_def
            io_err_def io_map_err_def split: result.split HsetnxReply.split)
      ultimately show ?thesis by simp
    qed (use RedisKv preorder_refl [OF assms(1)] in
        \<open>simp_all add: insert_resource_inner_def Let_def io_bind_def io_lift_def\<close>)
  qed
  then show "stays R (insert_resource_inner M irl store n key (\<lambda>_ _. None))"
      "stays R (insert_resource M store n key)"
    by (simp_all add: stays_def insert_resource_def io_map_def split: prod.split) (metis snd_conv)
qed

lemma stays_decide_mutate:
  assumes "preorder_on_states R" "services_stay R store (kv_value M)"
  shows "stays R (decide_storage_scheme_for_mutate_operation M store key)"
proof -
  have "stays R (kv_hget M store key ks (\<lambda>v. io_ret (RedisKv, Some v)) (io_ret (PostgresOnly, None)))" for ks
    by (intro stays_hget [OF assms] stays_basic [OF assms(1)])
  then show ?thesis
    using preorder_refl [OF assms(1)]
    by (auto simp: stays_def decide_storage_scheme_for_mutate_operation_def Let_def io_ret_def split: KvState.split)
qed

lemma stays_update:
  assumes R: "preorder_on_states R" and s: "services_stay R store (kv_value M)"
    and "\<And>pk. stays R (storage_find M store pk)" "\<And>u pk. stays R (storage_update U store u pk)"
  shows "stays R (update_resource_by_id M U store update pk)"
  unfolding update_resource_by_id_def Let_def
proof (rule stays_bind [OF R stays_decide_mutate [OF R s]], clarify)
  fix scheme and cached
  note parts = assms(4) stays_find(1) [OF R s assms(3)] stays_kv_wrapper [OF R s] R
  show "stays R (case scheme of
        PostgresOnly \<Rightarrow> storage_update U store (set_update_storage_scheme U update scheme) pk
      | RedisKv \<Rightarrow>
          io_bind (case cached of Some resource \<Rightarrow> io_ret resource | None \<Rightarrow> find_resource_by_id_inner M store pk) (\<lambda>current.
          io_bind (io_lift (res_map_err (kv_backend_error M)
            (generate_update_drainer_query U (libs store) (set_update_storage_scheme U update scheme) pk))) (\<lambda>update_query.
          io_bind (io_map_err (\<lambda>e. kv_backend_error M (to_redis_failed_response e
              (PartitionKey_to_string (libs store) (get_partition_key M pk))))
            (kv_wrapper store (kv_value M) (Hset (PartitionKey_to_string (libs store) (get_partition_key M pk))
              (apply_update U (set_update_storage_scheme U update scheme) current) update_query) (get_partition_key M pk))) (\<lambda>reply.
          io_bind (io_lift (res_map_err (\<lambda>e. kv_backend_error M KvError.Backend) (try_into_hset reply))) (\<lambda>_.
          io_ret (into_model M (apply_update U (set_update_storage_scheme U update scheme) current)))))))"
    by (cases scheme) (simp_all add: parts, intro stays_intros parts)
qed

end
