(* ===== verification/DedupLaws.thy ===== *)
theory DedupLaws
  imports Frame VaultLaws
begin

text \<open>
  The two tables that give a value one id for ever, hashes and fingerprints, as the domain layer
  uses them: reads through a cache, inserts that fill it, and the answer to a concurrent
  insert (\<open>src/src/storage/caching/\<close>, \<open>src/src/domain/hash.rs\<close>, \<open>domain/fingerprint.rs\<close>).
\<close>

section \<open>A read-through cache\<close>

text \<open>
  \<open>content w\<close> is what the cache holds.  Reading may drop entries, an insert may drop entries
  or not keep its own, and both leave the services alone.
\<close>

definition cache_ok ::
    "('w \<Rightarrow> 'k \<rightharpoonup> 'v) \<Rightarrow> ('w \<Rightarrow> 'w \<Rightarrow> bool) \<Rightarrow> ('w, 'k, 'v) MokaCache \<Rightarrow> bool" where
  "cache_ok content same c =
     (\<forall>k w. (case cache_get c k w of (r, w') \<Rightarrow>
          same w w' \<and> content w' \<subseteq>\<^sub>m content w \<and> (\<forall>v. r = Some v \<longrightarrow> content w k = Some v))
        \<and> (\<forall>v. same w (cache_insert c k v w) \<and> content (cache_insert c k v w) \<subseteq>\<^sub>m (content w)(k \<mapsto> v)))"

definition shrinks :: "('w \<Rightarrow> 'k \<rightharpoonup> 'v) \<Rightarrow> 'w \<Rightarrow> 'w \<Rightarrow> bool" where
  "shrinks content w w' = (content w' \<subseteq>\<^sub>m content w)"

lemma shrinks_preorder: "preorder_on_states (shrinks content)"
  by (auto simp: preorder_on_states_def shrinks_def intro: map_le_trans)

text \<open>Every cached row is the row a read answers.\<close>

definition coherent :: "('w \<Rightarrow> 'k \<rightharpoonup> 'v) \<Rightarrow> ('w \<Rightarrow> 'k \<rightharpoonup> 'v) \<Rightarrow> 'w \<Rightarrow> bool" where
  "coherent content row w = (content w \<subseteq>\<^sub>m row w)"

lemma coherent_mono:
  "coherent content row w \<Longrightarrow> shrinks content w w' \<Longrightarrow> row w' = row w \<Longrightarrow> coherent content row w'"
  by (auto simp: coherent_def shrinks_def intro: map_le_trans)

section \<open>Tables that are found or inserted\<close>

text \<open>
  The contract of a cached table whose rows are never changed: a find answers the row, an
  insert of a row that is not there makes it the row, a duplicate changes nothing.
\<close>

locale dedup_table =
  fixes row :: "'w \<Rightarrow> 'k \<rightharpoonup> 'v" and inv :: "'w \<Rightarrow> bool"
    and find :: "'k \<Rightarrow> ('w, 'v option, 'e) io" and insert :: "'k \<Rightarrow> 'x \<Rightarrow> ('w, 'v, 'e) io"
    and is_dup :: "'e \<Rightarrow> bool"
  assumes find_row: "inv w \<Longrightarrow> find k w = (Ok found, w') \<Longrightarrow> inv w' \<and> row w' = row w \<and> found = row w k"
    and insert_row: "inv w \<Longrightarrow> row w k = None \<Longrightarrow> insert k x w = (Ok v, w') \<Longrightarrow> inv w' \<and> row w' k = Some v"
    and insert_dup: "inv w \<Longrightarrow> insert k x w = (Err e, w') \<Longrightarrow> is_dup e \<Longrightarrow>
      inv w' \<and> row w' = row w \<and> row w k \<noteq> None"
begin

text \<open>What is done after a failed insert: a duplicate is answered with the row that is there.\<close>

lemma after_duplicate:
  assumes "inv w" "insert k x w = (Err e, w1)" "is_dup e" "find k w1 = (Ok v, w2)"
  shows "inv w2 \<and> row w2 = row w \<and> v = row w k \<and> v \<noteq> None"
proof -
  from insert_dup [OF assms(1,2,3)] have i: "inv w1" "row w1 = row w" "row w k \<noteq> None" by auto
  from find_row [OF i(1) assms(4)] i(2,3) show ?thesis by simp
qed

lemma found_is_stable:
  assumes "inv w" "row w k = Some v" "find k w = (Ok v', w')"
  shows "v' = Some v \<and> inv w' \<and> row w' k = Some v"
  using find_row [OF assms(1,3)] assms(2) by simp

end

section \<open>Fingerprints\<close>

definition fingerprint_row ::
    "('w, FingerprintPrimaryKey, Fingerprint) KvView \<Rightarrow> 'w Storage \<Rightarrow> 'w \<Rightarrow> bytes \<rightharpoonup> Fingerprint" where
  "fingerprint_row V store w h = visible Fingerprint_kv V store w \<lparr> fpk_fingerprint_hash = h \<rparr>"

definition fingerprint_laws ::
    "('w, FingerprintPrimaryKey, Fingerprint) KvView \<Rightarrow> ('w \<Rightarrow> bytes \<rightharpoonup> Fingerprint) \<Rightarrow> 'w Caching \<Rightarrow> bool" where
  "fingerprint_laws V content db =
     (kv_services V (inner db) pg_fingerprint_find pg_fingerprint_insert
        (\<lambda>n. \<lparr> fpk_fingerprint_hash = fpn_fingerprint_hash n \<rparr>) (kv_value Fingerprint_kv)
      \<and> inj (hex_encode (libs (inner db)))
      \<and> (\<forall>w0 c w1 n w e w'. primary_pg_pool (inner db) w0 = (Ok c, w1) \<and> pg_fingerprint_insert c n w = (Ok e, w') \<longrightarrow>
           e\<lparr> fp_id := 0 \<rparr> = Fingerprint_from_FingerprintTableNew n)
      \<and> cache_ok content (same_view V (inner db)) (fingerprint_cache db)
      \<and> services_stay (shrinks content) (inner db) (kv_value Fingerprint_kv)
      \<and> (\<forall>w c w'. primary_pg_pool (inner db) w = (Ok c, w') \<longrightarrow>
           (\<forall>pk. stays (shrinks content) (pg_fingerprint_find c pk))
           \<and> (\<forall>n. stays (shrinks content) (pg_fingerprint_insert c n))))"

lemma Fingerprint_kv_simps [simp]:
  "get_partition_key Fingerprint_kv pk = PartitionKey.Fingerprint (fpk_fingerprint_hash pk)"
  "into_model Fingerprint_kv = id" "into_entity Fingerprint_kv = Fingerprint_from_FingerprintTableNew"
  "error_is_not_found Fingerprint_kv = FingerprintDBError_is_not_found"
  by (simp_all add: Fingerprint_kv_def Fingerprint_get_partition_key_def)

lemma fingerprint_storage_stays:
  assumes "fingerprint_laws V content db"
  shows "stays (shrinks content) (storage_find Fingerprint_kv (inner db) pk)"
    "stays (shrinks content) (storage_insert Fingerprint_kv n (inner db))"
proof -
  have ok: "kv_services V (inner db) pg_fingerprint_find pg_fingerprint_insert
        (\<lambda>n. \<lparr> fpk_fingerprint_hash = fpn_fingerprint_hash n \<rparr>) (kv_value Fingerprint_kv)"
    and stay: "services_stay (shrinks content) (inner db) (kv_value Fingerprint_kv)"
    and q: "\<And>w c w' pk. primary_pg_pool (inner db) w = (Ok c, w') \<Longrightarrow> stays (shrinks content) (pg_fingerprint_find c pk)"
      "\<And>w c w' n. primary_pg_pool (inner db) w = (Ok c, w') \<Longrightarrow> stays (shrinks content) (pg_fingerprint_insert c n)"
    using assms unfolding fingerprint_laws_def by blast+
  have r: "route_conn (inner db) = get_conn (inner db)" using fingerprint_table.route_is_primary [OF ok] .
  note c = stays_conn(1) [OF shrinks_preorder stay]
  show "stays (shrinks content) (storage_find Fingerprint_kv (inner db) pk)"
    using q(1) [OF get_conn_Ok] by (auto simp: Fingerprint_kv_def Fingerprint_storage_find_def r
      intro!: stays_on_conn [OF shrinks_preorder c])
  show "stays (shrinks content) (storage_insert Fingerprint_kv n (inner db))"
    using q(2) [OF get_conn_Ok] by (auto simp: Fingerprint_kv_def Fingerprint_storage_insert_def
      intro!: stays_on_conn [OF shrinks_preorder c])
qed

lemma cache_get_ok:
  assumes "cache_ok content same c" "cache_get c k w = (r, w')"
  shows "same w w' \<and> shrinks content w w' \<and> (\<forall>v. r = Some v \<longrightarrow> content w k = Some v)"
proof -
  have "case cache_get c k w of (r, w') \<Rightarrow> same w w' \<and> content w' \<subseteq>\<^sub>m content w \<and> (\<forall>v. r = Some v \<longrightarrow> content w k = Some v)"
    by (rule assms(1) [unfolded cache_ok_def, THEN spec, THEN spec, THEN conjunct1])
  then show ?thesis using assms(2) by (simp add: shrinks_def)
qed

lemma cache_insert_ok:
  assumes "cache_ok content same c"
  shows "same w (cache_insert c k v w) \<and> content (cache_insert c k v w) \<subseteq>\<^sub>m (content w)(k \<mapsto> v)"
  by (rule assms [unfolded cache_ok_def, THEN spec, THEN spec, THEN conjunct2, THEN spec])

lemma coherent_insert:
  assumes "coherent content row w" "content w' \<subseteq>\<^sub>m (content w)(k \<mapsto> v)" "row w' = row w" "row w k = Some v"
  shows "coherent content row w'"
proof -
  have "(content w)(k \<mapsto> v) \<subseteq>\<^sub>m row w"
    using assms(1,4) by (auto simp: coherent_def map_le_def)
  then show ?thesis using assms(2,3) by (auto simp: coherent_def intro: map_le_trans)
qed

lemma fingerprint_row_same: "same_view V store w w' \<Longrightarrow> fingerprint_row V store w' = fingerprint_row V store w"
  by (auto simp: fingerprint_row_def same_view_visible)

lemma find_optional_visible:
  assumes run: "find_optional_resource_by_id M store pk w = (Ok found, w')" and id: "into_model M = id"
    and f: "\<And>r w'. find_resource_by_id_inner M store pk w = (r, w') \<Longrightarrow>
      same_view V store w w' \<and> (\<forall>e. r = Ok e \<longrightarrow> visible M V store w pk = Some e)
        \<and> (\<forall>x. r = Err x \<longrightarrow> error_is_not_found M x \<longrightarrow> visible M V store w pk = None)"
  shows "same_view V store w w' \<and> found = visible M V store w pk"
proof -
  obtain r w1 where i: "find_resource_by_id_inner M store pk w = (r, w1)" by force
  then show ?thesis using f [OF i] run
    by (cases r) (auto simp: find_optional_resource_by_id_def find_resource_by_id_def id io_map_id optional_def
        io_defs split: if_splits)
qed

lemma fingerprint_find_row:
  assumes laws: "fingerprint_laws V content db" and inv: "coherent content (fingerprint_row V (inner db)) w"
    and run: "Caching_find_optional_by_fingerprint_hash db h w = (Ok found, w')"
  shows "same_view V (inner db) w w' \<and> coherent content (fingerprint_row V (inner db)) w'
    \<and> found = fingerprint_row V (inner db) w h"
proof -
  let ?row = "fingerprint_row V (inner db)"
  have ok: "kv_services V (inner db) pg_fingerprint_find pg_fingerprint_insert
        (\<lambda>n. \<lparr> fpk_fingerprint_hash = fpn_fingerprint_hash n \<rparr>) (kv_value Fingerprint_kv)"
    and cache: "cache_ok content (same_view V (inner db)) (fingerprint_cache db)"
    and stay: "services_stay (shrinks content) (inner db) (kv_value Fingerprint_kv)"
    using laws by (simp_all add: fingerprint_laws_def)
  obtain c w1 where g: "cache_get (fingerprint_cache db) h w = (c, w1)" by force
  note g' = cache_get_ok [OF cache g]
  then have row1: "?row w1 = ?row w" and coh1: "coherent content ?row w1"
    using fingerprint_row_same [of V "inner db" w w1] coherent_mono [OF inv, of w1] by auto
  show ?thesis
  proof (cases c)
    case (Some v)
    have "?row w h = Some v" using g' inv Some by (auto simp: coherent_def map_le_def dom_def)
    then show ?thesis using run g g' Some coh1
      by (simp add: Caching_find_optional_by_fingerprint_hash_def lookup_def io_defs)
  next
    case None
    obtain r w2 where f: "find_optional_by_fingerprint_hash (inner db) h w1 = (r, w2)" by force
    obtain found' where r: "r = Ok found'" using run g None f
      by (cases r) (auto simp: Caching_find_optional_by_fingerprint_hash_def lookup_def io_defs)
    have fv: "same_view V (inner db) w1 w2 \<and> found' = ?row w1 h"
      unfolding fingerprint_row_def
      using f [unfolded r find_optional_by_fingerprint_hash_def] fingerprint_table.find_visible [OF ok]
      by (intro find_optional_visible) auto
    have sh: "shrinks content w1 w2"
      using staysD [OF stays_find(3) [OF shrinks_preorder stay fingerprint_storage_stays(1) [OF laws]]
          f [unfolded find_optional_by_fingerprint_hash_def]] .
    have row2: "?row w2 = ?row w" using fv row1 fingerprint_row_same [of V "inner db" w1 w2] by simp
    have coh2: "coherent content ?row w2" using coherent_mono [OF coh1 sh] row1 row2 by simp
    show ?thesis
    proof (cases found')
      case None': None
      then show ?thesis using run g None f r fv row1 coh2 g' same_view_trans [of V "inner db" w w1 w2]
        by (auto simp: Caching_find_optional_by_fingerprint_hash_def lookup_def io_defs)
    next
      case (Some v)
      let ?w3 = "cache_insert (fingerprint_cache db) h v w2"
      have i: "same_view V (inner db) w2 ?w3" "content ?w3 \<subseteq>\<^sub>m (content w2)(h \<mapsto> v)"
        using cache_insert_ok [OF cache] by blast+
      have "coherent content ?row ?w3"
        using coherent_insert [OF coh2 i(2)] fingerprint_row_same [OF i(1)] fv Some row1 row2 by simp
      moreover have "found = Some v" "w' = ?w3"
        using run g None f r Some by (auto simp: Caching_find_optional_by_fingerprint_hash_def lookup_def
            cache_data_def io_defs)
      moreover have "same_view V (inner db) w ?w3"
        using g' fv i(1) same_view_trans [of V "inner db"] by blast
      ultimately show ?thesis using fv Some row1 by simp
    qed
  qed
qed

lemma visible_None_redis:
  "visible M V store w pk = None \<Longrightarrow> kv_settings store w \<noteq> KvState.Disabled \<Longrightarrow> redis_row V w (row_key M store pk) = None"
  by (cases "kv_settings store w") (auto simp: visible_def split: option.splits)

text \<open>An insert of a row that is not readable adds exactly this row to what is readable.\<close>

lemma inserted_row:
  assumes ins: "inserted M V store pk key n x w w'" and none: "visible M V store w pk = None"
    and inj: "\<And>pk'. row_key M store pk' = row_key M store pk \<Longrightarrow> pk' = pk"
  shows "visible M V store w' = (visible M V store w)(pk \<mapsto> x)"
proof
  fix pk'
  have "visible M V store w' pk = Some x"
    using inserted_visible [OF ins] visible_None_redis [OF none] by auto
  then show "visible M V store w' pk' = ((visible M V store w)(pk \<mapsto> x)) pk'"
    using inserted_other [OF ins] inj by (cases "pk' = pk") auto
qed

lemma insert_fingerprint_row:
  assumes laws: "fingerprint_laws V content db" and none: "fingerprint_row V (inner db) w h = None"
    and run: "insert_fingerprint (inner db) h i w = (Ok x, w')"
  shows "fp_fingerprint_hash x = h \<and> fp_fingerprint_id x = i
    \<and> fingerprint_row V (inner db) w' = (fingerprint_row V (inner db) w)(h \<mapsto> x)"
proof -
  let ?db = "inner db" and ?pk = "\<lparr> fpk_fingerprint_hash = h \<rparr>"
  let ?n = "\<lparr> fpn_fingerprint_hash = h, fpn_fingerprint_id = i, fpn_updated_by = Some PostgresOnly \<rparr>"
  have ok: "kv_services V ?db pg_fingerprint_find pg_fingerprint_insert
        (\<lambda>n. \<lparr> fpk_fingerprint_hash = fpn_fingerprint_hash n \<rparr>) (kv_value Fingerprint_kv)"
    and inj: "inj (hex_encode (libs ?db))"
    and vals: "\<And>w0 c w1 n w e w'. primary_pg_pool ?db w0 = (Ok c, w1) \<Longrightarrow> pg_fingerprint_insert c n w = (Ok e, w') \<Longrightarrow>
           e\<lparr> fp_id := 0 \<rparr> = Fingerprint_from_FingerprintTableNew n"
    using laws unfolding fingerprint_laws_def by blast+
  have i: "insert_resource_inner Fingerprint_kv no_reverse_lookup ?db ?n (PartitionKey.Fingerprint h) (\<lambda>_ _. None) w = (Ok x, w')"
    using run by (simp add: insert_fingerprint_def insert_resource_def io_map_id)
  have ins: "inserted Fingerprint_kv V ?db ?pk (PartitionKey.Fingerprint h) ?n x w w'"
    using fingerprint_table.insert_Ok [OF ok _ i] by simp
  have key: "pk' = ?pk" if "row_key Fingerprint_kv ?db pk' = row_key Fingerprint_kv ?db ?pk" for pk'
    using that injD [OF inj] by (simp add: row_key_def PartitionKey_to_string_def)
  have vis: "visible Fingerprint_kv V ?db w' = (visible Fingerprint_kv V ?db w)(?pk \<mapsto> x)"
    using inserted_row [OF ins _ key] none by (simp add: fingerprint_row_def)
  have "fp_fingerprint_hash x = h \<and> fp_fingerprint_id x = i"
  proof (cases "kv_settings ?db w = KvState.Enabled")
    case True
    then show ?thesis using ins by (simp add: inserted_def Fingerprint_kv_def type_conversions)
  next
    case False
    let ?m = "?n\<lparr> fpn_updated_by := Some PostgresOnly \<rparr>"
    have "Fingerprint_storage_insert ?m ?db w = (Ok x, w')"
      using i fingerprint_kv.insert_postgres [OF False, of no_reverse_lookup] by (simp add: Fingerprint_kv_def)
    then obtain cp w1 where c: "get_conn ?db w = (Ok cp, w1)" and q: "pg_fingerprint_insert (fst cp) ?m w1 = (Ok x, w')"
      by (auto simp: Fingerprint_storage_insert_def on_conn_def elim!: io_bind_Ok_E split: prod.splits)
    have "primary_pg_pool ?db w = (Ok (fst cp), w1)" using c by (auto simp: get_conn_def)
    note vals [OF this q]
    then show ?thesis by (cases x) (simp add: type_conversions)
  qed
  moreover have "fingerprint_row V ?db w' = (fingerprint_row V ?db w)(h \<mapsto> x)"
    by (rule ext) (simp add: fingerprint_row_def vis)
  ultimately show ?thesis by blast
qed

lemma fingerprint_insert_row:
  assumes laws: "fingerprint_laws V content db" and inv: "coherent content (fingerprint_row V (inner db)) w"
    and none: "fingerprint_row V (inner db) w h = None"
    and run: "Caching_insert_fingerprint db h i w = (Ok x, w')"
  shows "coherent content (fingerprint_row V (inner db)) w'
    \<and> fingerprint_row V (inner db) w' = (fingerprint_row V (inner db) w)(h \<mapsto> x) \<and> fp_fingerprint_id x = i"
proof -
  let ?row = "fingerprint_row V (inner db)"
  have cache: "cache_ok content (same_view V (inner db)) (fingerprint_cache db)"
    and stay: "services_stay (shrinks content) (inner db) (kv_value Fingerprint_kv)"
    using laws by (simp_all add: fingerprint_laws_def)
  from run obtain w1 where ins: "insert_fingerprint (inner db) h i w = (Ok x, w1)"
      and w': "w' = cache_insert (fingerprint_cache db) (fp_fingerprint_hash x) x w1"
    by (auto simp: Caching_insert_fingerprint_def cache_data_def io_ret_def io_bind_def split: prod.splits result.splits)
  note row = insert_fingerprint_row [OF laws none ins]
  have "shrinks content w w1"
    using staysD [OF stays_insert(2) [OF shrinks_preorder stay fingerprint_storage_stays(2) [OF laws]]
        ins [unfolded insert_fingerprint_def]] .
  then have "content w1 \<subseteq>\<^sub>m ?row w" using inv by (auto simp: shrinks_def coherent_def intro: map_le_trans)
  moreover have "?row w \<subseteq>\<^sub>m ?row w1" using row none by (auto simp: map_le_def)
  ultimately have coh: "coherent content ?row w1" by (auto simp: coherent_def intro: map_le_trans)
  note ci = cache_insert_ok [OF cache, of w1 h x]
  have "?row w' = ?row w1" using fingerprint_row_same [OF ci [THEN conjunct1]] w' row by simp
  then show ?thesis using coherent_insert [OF coh, of w' h x] ci w' row by simp
qed

lemma fingerprint_insert_dup:
  assumes laws: "fingerprint_laws V content db" and inv: "coherent content (fingerprint_row V (inner db)) w"
    and run: "Caching_insert_fingerprint db h i w = (Err e, w')" and dup: "FingerprintDBError_is_duplicate e"
  shows "coherent content (fingerprint_row V (inner db)) w' \<and> fingerprint_row V (inner db) w' = fingerprint_row V (inner db) w
    \<and> fingerprint_row V (inner db) w h \<noteq> None"
proof -
  let ?db = "inner db"
  let ?n = "\<lparr> fpn_fingerprint_hash = h, fpn_fingerprint_id = i, fpn_updated_by = Some PostgresOnly \<rparr>"
  have ok: "kv_services V ?db pg_fingerprint_find pg_fingerprint_insert
        (\<lambda>n. \<lparr> fpk_fingerprint_hash = fpn_fingerprint_hash n \<rparr>) (kv_value Fingerprint_kv)"
    and stay: "services_stay (shrinks content) ?db (kv_value Fingerprint_kv)"
    using laws by (simp_all add: fingerprint_laws_def)
  have ins: "insert_fingerprint ?db h i w = (Err e, w')"
    using run by (auto simp: Caching_insert_fingerprint_def cache_data_def io_ret_def io_bind_def split: prod.splits result.splits)
  then have i: "insert_resource_inner Fingerprint_kv no_reverse_lookup ?db ?n (PartitionKey.Fingerprint h) (\<lambda>_ _. None) w = (Err e, w')"
    by (simp add: insert_fingerprint_def insert_resource_def io_map_id)
  note d = fingerprint_table.insert_duplicate [OF ok _ i dup]
  have "shrinks content w w'"
    using staysD [OF stays_insert(2) [OF shrinks_preorder stay fingerprint_storage_stays(2) [OF laws]]
        ins [unfolded insert_fingerprint_def]] .
  then show ?thesis using d fingerprint_row_same [of V ?db w w'] coherent_mono [OF inv, of w']
    by (auto simp: fingerprint_row_def)
qed

interpretation fingerprint_dedup: dedup_table "fingerprint_row V (inner db)"
    "\<lambda>w. fingerprint_laws V content db \<and> coherent content (fingerprint_row V (inner db)) w"
    "Caching_find_optional_by_fingerprint_hash db" "Caching_insert_fingerprint db" FingerprintDBError_is_duplicate
  for V content db
proof (unfold_locales, goal_cases)
  case (1 w k found w')
  then show ?case using fingerprint_find_row [of V content db w k found w'] fingerprint_row_same by auto
next
  case (2 w k x v w')
  then show ?case using fingerprint_insert_row [of V content db w k x v w'] by auto
next
  case (3 w k x e w')
  then show ?case using fingerprint_insert_dup [of V content db w k x e w'] by auto
qed

text \<open>Counting an outcome and drawing an id concern neither the rows nor the cache.\<close>

definition aside_ok :: "('w, 'pk, 'en) KvView \<Rightarrow> ('w \<Rightarrow> 'k \<rightharpoonup> 'v) \<Rightarrow> 'w TenantAppState \<Rightarrow> bool" where
  "aside_ok V content state =
     ((\<forall>r out w. same_view V (inner (ts_db state)) w (ts_record_outcome state r out w)
         \<and> shrinks content w (ts_record_outcome state r out w))
      \<and> (\<forall>n a w. same_view V (inner (ts_db state)) w (snd (nanoid (ts_globals state) n a w))
         \<and> shrinks content w (snd (nanoid (ts_globals state) n a w))))"

lemma aside_fingerprint:
  assumes "aside_ok V content state" "coherent content (fingerprint_row V (inner (ts_db state))) w"
  shows "coherent content (fingerprint_row V (inner (ts_db state))) (ts_record_outcome state r out w)
      \<and> fingerprint_row V (inner (ts_db state)) (ts_record_outcome state r out w) = fingerprint_row V (inner (ts_db state)) w"
    and "coherent content (fingerprint_row V (inner (ts_db state))) (snd (nanoid (ts_globals state) n a w))
      \<and> fingerprint_row V (inner (ts_db state)) (snd (nanoid (ts_globals state) n a w)) = fingerprint_row V (inner (ts_db state)) w"
proof -
  have step: "coherent content (fingerprint_row V (inner (ts_db state))) w'
      \<and> fingerprint_row V (inner (ts_db state)) w' = fingerprint_row V (inner (ts_db state)) w"
    if "same_view V (inner (ts_db state)) w w'" "shrinks content w w'" for w'
    using coherent_mono [OF assms(2) that(2)] fingerprint_row_same [OF that(1)] by simp
  show "coherent content (fingerprint_row V (inner (ts_db state))) (ts_record_outcome state r out w)
      \<and> fingerprint_row V (inner (ts_db state)) (ts_record_outcome state r out w) = fingerprint_row V (inner (ts_db state)) w"
    using assms(1) unfolding aside_ok_def by (intro step) blast+
  show "coherent content (fingerprint_row V (inner (ts_db state))) (snd (nanoid (ts_globals state) n a w))
      \<and> fingerprint_row V (inner (ts_db state)) (snd (nanoid (ts_globals state) n a w)) = fingerprint_row V (inner (ts_db state)) w"
    using assms(1) unfolding aside_ok_def by (intro step) blast+
qed

lemma io_bind_lift_Ok: "io_bind (io_lift (Ok x)) f = f x"
  by (rule ext) (simp add: io_bind_def io_lift_def)

lemma chosen_id_step:
  "io_bind (case fid of Some s \<Rightarrow> io_ret s | None \<Rightarrow> io_of g) k w1 =
     (case (case fid of Some i \<Rightarrow> (i, w1) | None \<Rightarrow> g w1) of (i, w2) \<Rightarrow> k i w2)"
  by (cases fid) (simp_all add: io_bind_def io_ret_def io_of_def split: prod.split)

text \<open>What follows a failed read: the insert, and the read again after a duplicate.\<close>

definition fingerprint_insert_step ::
    "'w TenantAppState \<Rightarrow> bytes \<Rightarrow> string \<Rightarrow> 'w \<Rightarrow> (Fingerprint, FingerprintDBError) result \<times> 'w" where
  "fingerprint_insert_step state h i w2 =
     (case Caching_insert_fingerprint (ts_db state) h i w2 of (r, w3) \<Rightarrow> (case r of
        Ok f \<Rightarrow> (Ok f, ts_record_outcome state Resource_Fingerprint Created w3)
      | Panic \<Rightarrow> (Panic, w3)
      | Err e \<Rightarrow>
          if FingerprintDBError_is_duplicate e then
            (case Caching_find_optional_by_fingerprint_hash (ts_db state) h w3 of (r, w4) \<Rightarrow> (case r of
               Ok (Some f) \<Rightarrow> (Ok f, ts_record_outcome state Resource_Fingerprint FoundExistingAfterDuplicateInsert w4)
             | Ok None \<Rightarrow> (Err FingerprintDBError.DBInsertError, ts_record_outcome state Resource_Fingerprint Outcome_Error w4)
             | Err e \<Rightarrow> (Err e, ts_record_outcome state Resource_Fingerprint Outcome_Error w4)
             | Panic \<Rightarrow> (Panic, w4)))
          else (Err e, ts_record_outcome state Resource_Fingerprint Outcome_Error w3)))"

lemma fingerprint_get_or_insert_eq:
  assumes "HmacSha512_encode (ts_crypto state) 1 (into_bytes key) (into_bytes d) = Ok h"
  shows "fingerprint_get_or_insert state d key fid w =
     (case Caching_find_optional_by_fingerprint_hash (ts_db state) h w of (r, w1) \<Rightarrow> (case r of
        Err e \<Rightarrow> (Err e, w1)
      | Panic \<Rightarrow> (Panic, w1)
      | Ok found \<Rightarrow> (case found of
          Some f \<Rightarrow> (Ok f, ts_record_outcome state Resource_Fingerprint FoundExisting w1)
        | None \<Rightarrow>
            (case (case fid of Some i \<Rightarrow> (i, w1) | None \<Rightarrow> nanoid (ts_globals state) ID_LENGTH ALPHABETS w1) of
               (i, w2) \<Rightarrow> fingerprint_insert_step state h i w2))))"
proof -
  have step: "io_try (Caching_insert_fingerprint (ts_db state) h i)
           (\<lambda>fingerprint. answer_with state Resource_Fingerprint Created (Ok fingerprint))
           (\<lambda>err.
              if FingerprintDBError_is_duplicate err then
                io_try (Caching_find_optional_by_fingerprint_hash (ts_db state) h)
                  (\<lambda>again. case again of
                     Some fingerprint \<Rightarrow>
                       answer_with state Resource_Fingerprint FoundExistingAfterDuplicateInsert (Ok fingerprint)
                   | None \<Rightarrow> answer_with state Resource_Fingerprint Outcome_Error
                       (Err FingerprintDBError.DBInsertError))
                  (\<lambda>err. answer_with state Resource_Fingerprint Outcome_Error (Err err))
              else answer_with state Resource_Fingerprint Outcome_Error (Err err)) w2
      = fingerprint_insert_step state h i w2" for i w2
    by (simp add: fingerprint_insert_step_def io_try_def answer_with_eq split: prod.split result.split option.split)
  have gen: "generate_nano_id (ts_globals state) ID_LENGTH = nanoid (ts_globals state) ID_LENGTH ALPHABETS"
    by (rule ext) (simp add: generate_nano_id_def)
  have "fingerprint_get_or_insert state d key fid w =
      io_bind (Caching_find_optional_by_fingerprint_hash (ts_db state) h) (\<lambda>found. case found of
       Some fingerprint \<Rightarrow> answer_with state Resource_Fingerprint FoundExisting (Ok fingerprint)
     | None \<Rightarrow> io_bind (case fid of
             Some supplied \<Rightarrow> io_ret supplied
           | None \<Rightarrow> io_of (generate_nano_id (ts_globals state) ID_LENGTH)) (fingerprint_insert_step state h)) w"
    by (simp only: fingerprint_get_or_insert_def assms res_map_err.simps io_bind_lift_Ok step [symmetric, abs_def])
  also have "\<dots> = (case Caching_find_optional_by_fingerprint_hash (ts_db state) h w of (r, w1) \<Rightarrow> (case r of
        Err e \<Rightarrow> (Err e, w1)
      | Panic \<Rightarrow> (Panic, w1)
      | Ok found \<Rightarrow> (case found of
          Some f \<Rightarrow> (Ok f, ts_record_outcome state Resource_Fingerprint FoundExisting w1)
        | None \<Rightarrow>
            (case (case fid of Some i \<Rightarrow> (i, w1) | None \<Rightarrow> nanoid (ts_globals state) ID_LENGTH ALPHABETS w1) of
               (i, w2) \<Rightarrow> fingerprint_insert_step state h i w2))))"
    unfolding gen chosen_id_step io_bind_def [of "Caching_find_optional_by_fingerprint_hash (ts_db state) h"]
    by (auto simp: answer_with_eq chosen_id_step split: prod.split result.split option.split)
  finally show ?thesis .
qed

lemma fingerprint_answer:
  assumes laws: "fingerprint_laws V content (ts_db state)" and aside: "aside_ok V content state"
    and hash: "HmacSha512_encode (ts_crypto state) 1 (into_bytes key) (into_bytes d) = Ok h"
    and inv: "coherent content (fingerprint_row V (inner (ts_db state))) w"
    and run: "fingerprint_get_or_insert state d key fid w = (Ok f, w')"
  shows "coherent content (fingerprint_row V (inner (ts_db state))) w'
    \<and> fingerprint_row V (inner (ts_db state)) w' h = Some f
    \<and> fingerprint_row V (inner (ts_db state)) w \<subseteq>\<^sub>m fingerprint_row V (inner (ts_db state)) w'
    \<and> (case fingerprint_row V (inner (ts_db state)) w h of
         Some g \<Rightarrow> f = g
       | None \<Rightarrow> (case fid of Some i \<Rightarrow> fp_fingerprint_id f = i | None \<Rightarrow> True))"
proof -
  let ?db = "ts_db state" and ?row = "fingerprint_row V (inner (ts_db state))"
  note eq = run [unfolded fingerprint_get_or_insert_eq [OF hash]]
  obtain found w1 where f1: "Caching_find_optional_by_fingerprint_hash ?db h w = (Ok found, w1)"
    using eq by (cases "Caching_find_optional_by_fingerprint_hash ?db h w"; cases "fst (Caching_find_optional_by_fingerprint_hash ?db h w)") auto
  from fingerprint_dedup.find_row [OF conjI [OF laws inv] f1]
  have i1: "coherent content ?row w1" "?row w1 = ?row w" "found = ?row w h" by auto
  show ?thesis
  proof (cases found)
    case (Some g)
    then show ?thesis using eq f1 i1 aside_fingerprint(1) [OF aside i1(1)] by auto
  next
    case None
    define p where "p = (case fid of Some i \<Rightarrow> (i, w1) | None \<Rightarrow> nanoid (ts_globals state) ID_LENGTH ALPHABETS w1)"
    have i2: "coherent content ?row (snd p)" "?row (snd p) = ?row w"
      using aside_fingerprint(2) [OF aside i1(1)] i1 by (auto simp: p_def split: option.split)
    have fidp: "fid = Some i \<Longrightarrow> fst p = i" for i by (simp add: p_def)
    obtain r w3 where ins: "Caching_insert_fingerprint ?db h (fst p) (snd p) = (r, w3)" by force
    have none: "?row (snd p) h = None" using i1(3) i2(2) None by simp
    note eq' = eq [unfolded f1 None, simplified, folded p_def]
    show ?thesis
    proof (cases r)
      case (Ok x)
      note ir = fingerprint_insert_row [OF laws i2(1) none ins [unfolded Ok]]
      then have "f = x" "w' = ts_record_outcome state Resource_Fingerprint Created w3"
        using eq' ins Ok by (auto simp: fingerprint_insert_step_def split: prod.splits)
      moreover have "?row w \<subseteq>\<^sub>m ?row w3" using ir i2(2) none by (auto simp: map_le_def)
      ultimately show ?thesis using ir aside_fingerprint(1) [OF aside, of w3] i1(3) None fidp by (auto split: option.split)
    next
      case (Err e)
      then show ?thesis using eq' ins fingerprint_insert_dup [OF laws i2(1) ins [unfolded Err]] none
        by (auto simp: fingerprint_insert_step_def split: prod.splits if_splits)
    qed (use eq' ins in \<open>auto simp: fingerprint_insert_step_def split: prod.splits\<close>)
  qed
qed

text \<open>
  What can happen between two calls: calls with any data and key that are answered, and anything that
  changes neither the fingerprints nor the KV setting and adds nothing to their cache (other tables, evictions).
\<close>

inductive fingerprint_step ::
    "('w, FingerprintPrimaryKey, Fingerprint) KvView \<Rightarrow> ('w \<Rightarrow> bytes \<rightharpoonup> Fingerprint) \<Rightarrow> 'w TenantAppState \<Rightarrow> 'w \<Rightarrow> 'w \<Rightarrow> bool"
  for V content state where
  answered: "fingerprint_get_or_insert state d key fid w = (Ok f, w') \<Longrightarrow> fingerprint_step V content state w w'"
| elsewhere: "same_view V (inner (ts_db state)) w w' \<Longrightarrow> shrinks content w w' \<Longrightarrow> fingerprint_step V content state w w'"

lemma fingerprint_steps:
  assumes laws: "fingerprint_laws V content (ts_db state)" and aside: "aside_ok V content state"
    and inv: "coherent content (fingerprint_row V (inner (ts_db state))) w"
    and steps: "(fingerprint_step V content state)\<^sup>*\<^sup>* w w'"
  shows "coherent content (fingerprint_row V (inner (ts_db state))) w'
    \<and> fingerprint_row V (inner (ts_db state)) w \<subseteq>\<^sub>m fingerprint_row V (inner (ts_db state)) w'"
  using steps
proof (induction rule: rtranclp_induct)
  case base
  then show ?case using inv by simp
next
  case (step y z)
  let ?row = "fingerprint_row V (inner (ts_db state))"
  from step.hyps(2) have "coherent content ?row z \<and> ?row y \<subseteq>\<^sub>m ?row z"
  proof cases
    case (answered d key fid f)
    obtain h where h: "HmacSha512_encode (ts_crypto state) 1 (into_bytes key) (into_bytes d) = Ok h"
      by (simp add: HmacSha512_encode_def Let_def)
    show ?thesis using fingerprint_answer [OF laws aside h _ answered] step.IH by blast
  next
    case elsewhere
    then show ?thesis using fingerprint_row_same [OF elsewhere(1)] coherent_mono [of content ?row y z] step.IH by simp
  qed
  then show ?case using step.IH map_le_trans by blast
qed

text \<open>C5. A fingerprint is stable: once a call with some data and key has answered a fingerprint,
  every later call with the same data and key that succeeds answers the same one, whatever id
  it proposes, and whatever answered calls, with the same or other data and keys, and whatever work elsewhere
  come between; the first call takes the proposed id.  Cached and stored fingerprints agree at
  every point.\<close>

theorem fingerprint_is_stable:
  assumes laws: "fingerprint_laws V content (ts_db state)" and aside: "aside_ok V content state"
    and inv: "coherent content (fingerprint_row V (inner (ts_db state))) w"
    and first: "fingerprint_get_or_insert state d key fid w = (Ok f, w1)"
    and between: "(fingerprint_step V content state)\<^sup>*\<^sup>* w1 w2"
    and later: "fingerprint_get_or_insert state d key fid' w2 = (Ok f', w3)"
  shows "f' = f \<and> coherent content (fingerprint_row V (inner (ts_db state))) w3
    \<and> (\<exists>h. HmacSha512_encode (ts_crypto state) 1 (into_bytes key) (into_bytes d) = Ok h
        \<and> fingerprint_row V (inner (ts_db state)) w3 h = Some f
        \<and> (\<forall>i. fid = Some i \<longrightarrow> fingerprint_row V (inner (ts_db state)) w h = None \<longrightarrow> fp_fingerprint_id f = i))"
proof -
  let ?row = "fingerprint_row V (inner (ts_db state))"
  obtain h where h: "HmacSha512_encode (ts_crypto state) 1 (into_bytes key) (into_bytes d) = Ok h"
    by (simp add: HmacSha512_encode_def Let_def)
  note one = fingerprint_answer [OF laws aside h inv first]
  have two: "coherent content ?row w2" "?row w1 \<subseteq>\<^sub>m ?row w2"
    using fingerprint_steps [OF laws aside _ between] one by blast+
  have "?row w2 h = Some f" using one two(2) by (auto simp: map_le_def dom_def)
  moreover note fingerprint_answer [OF laws aside h two(1) later]
  ultimately show ?thesis using one h by (auto split: option.splits)
qed

section \<open>The example services\<close>

lemma example_map_cache:
  assumes "\<And>w k v. same w (put ((content w)(k \<mapsto> v)) w)" "\<And>w. same w w"
    and "\<And>w m. content (put m w) = m"
  shows "cache_ok content same \<lparr> cache_get = \<lambda>k w. (content w k, w), cache_insert = \<lambda>k v w. put ((content w)(k \<mapsto> v)) w \<rparr>"
  by (simp add: cache_ok_def assms)

lemma shrinks_same: "content w' = content w \<Longrightarrow> shrinks content w w'"
  by (simp add: shrinks_def)

lemma example_services_stay:
  assumes "sel example_redis = example_kv_value"
    and "\<And>w f. content (w\<lparr> w_redis := f \<rparr>) = content w" "\<And>w f. content (w\<lparr> w_streams := f \<rparr>) = content w"
  shows "services_stay (shrinks content) example_store sel"
  using assms by (simp add: services_stay_def stays_def io_ret_def shrinks_same example_globals_def example_redis_def
      example_kv_value_def split: option.split)

lemma example_fingerprint_laws: "fingerprint_laws fingerprint_view w_fingerprint_cache example_caching"
proof -
  have "cache_ok w_fingerprint_cache (same_view fingerprint_view example_store) (fingerprint_cache example_caching)"
    by (simp add: cache_ok_def example_caching_def same_view_def fingerprint_view_def example_view_def)
  moreover have "inj (hex_encode example_libs)" by (simp add: inj_def example_libs_def)
  moreover have "services_stay (shrinks w_fingerprint_cache) example_store (kv_value Fingerprint_kv)"
    by (rule example_services_stay) (simp_all add: Fingerprint_kv_def)
  moreover have "stays (shrinks w_fingerprint_cache) (pg_fingerprint_find example_conn pk)"
    "stays (shrinks w_fingerprint_cache) (pg_fingerprint_insert example_conn n)" for pk n
    by (simp_all add: stays_def example_conn_def rows_insert_def shrinks_same Let_def)
  moreover have "e\<lparr> fp_id := 0 \<rparr> = Fingerprint_from_FingerprintTableNew n"
    if "pg_fingerprint_insert example_conn n w = (Ok e, w')" for n w e w'
    using that by (auto simp: example_conn_def rows_insert_def Let_def type_conversions split: if_splits)
  ultimately show ?thesis using fingerprint_services by (auto simp: fingerprint_laws_def io_ret_def)
qed

lemma example_aside: "aside_ok fingerprint_view w_fingerprint_cache example_tenant"
  by (simp add: aside_ok_def same_view_def fingerprint_view_def example_view_def shrinks_same ts_globals_def example_globals_def)

definition first_fingerprint :: "bytes \<Rightarrow> Fingerprint" where
  "first_fingerprint h = \<lparr> fp_id = 1, fp_fingerprint_hash = h, fp_fingerprint_id = ''first'', fp_updated_by = Some PostgresOnly \<rparr>"

lemma example_coherent: "coherent w_fingerprint_cache row (in_mode k empty_world)"
  by (simp add: coherent_def in_mode_def empty_world_def map_le_def)

text \<open>The run on the example services, step by step: a miss, an insert, then a hit of the cache.\<close>

lemma example_fingerprint_miss:
  assumes "kv_settings example_store w = KvState.Disabled" "w_fingerprints w = []" "w_fingerprint_cache w = Map.empty"
  shows "Caching_find_optional_by_fingerprint_hash example_caching h w = (Ok None, w)"
proof -
  have "Fingerprint_storage_find example_store \<lparr> fpk_fingerprint_hash = h \<rparr> w = (Err FingerprintDBError.DBFilterError, w)"
    using assms(2) by (simp add: Fingerprint_storage_find_def io_map_err_def example_conn_def rows_find_def
        FingerprintDBError_from_diesel_def storage_error_from_diesel_def)
  then have "find_resource_by_id_inner Fingerprint_kv example_store \<lparr> fpk_fingerprint_hash = h \<rparr> w
      = (Err FingerprintDBError.DBFilterError, w)"
    using fingerprint_kv.find_postgres [OF assms(1)] by (simp add: Fingerprint_kv_def)
  then have "find_optional_by_fingerprint_hash example_store h w = (Ok None, w)"
    by (simp add: find_optional_by_fingerprint_hash_def find_optional_resource_by_id_def find_resource_by_id_def
        io_map_id optional_def io_try_def io_ret_def FingerprintDBError_is_not_found_def storage_error_is_def)
  then show ?thesis using assms(3)
    by (simp add: Caching_find_optional_by_fingerprint_hash_def lookup_def example_caching_def io_bind_def io_of_def io_ret_def)
qed

lemma example_fingerprint_insert:
  assumes "kv_settings example_store w = KvState.Disabled" "w_fingerprints w = []"
  shows "Caching_insert_fingerprint example_caching h ''first'' w = (Ok (first_fingerprint h),
    w\<lparr> w_fingerprints := [first_fingerprint h], w_fingerprint_cache := (w_fingerprint_cache w)(h \<mapsto> first_fingerprint h) \<rparr>)"
proof -
  have "insert_resource_inner Fingerprint_kv no_reverse_lookup example_store
      \<lparr> fpn_fingerprint_hash = h, fpn_fingerprint_id = ''first'', fpn_updated_by = Some PostgresOnly \<rparr>
      (PartitionKey.Fingerprint h) (\<lambda>_ _. None) w = (Ok (first_fingerprint h), w\<lparr> w_fingerprints := [first_fingerprint h] \<rparr>)"
    using assms fingerprint_kv.insert_postgres [of example_store w no_reverse_lookup]
    by (simp add: Fingerprint_kv_def Fingerprint_storage_insert_def io_map_err_def example_conn_def rows_insert_def Let_def
        Fingerprint_from_FingerprintTableNew_def first_fingerprint_def)
  then show ?thesis
    by (simp add: Caching_insert_fingerprint_def insert_fingerprint_def insert_resource_def io_map_id io_bind_def
        cache_data_def io_ret_def example_caching_def first_fingerprint_def)
qed

lemma example_hash:
  "HmacSha512_encode (ts_crypto example_tenant) 1 (into_bytes ''key'') (into_bytes ''4111'') = Ok (into_bytes ''keykey4111'')"
  by (simp add: HmacSha512_encode_def example_tenant_def example_crypto_def into_bytes_def)

lemma example_first_fingerprint:
  "\<exists>w. fingerprint_get_or_insert example_tenant ''4111'' ''key'' (Some ''first'') (in_mode KvState.Disabled empty_world)
        = (Ok (first_fingerprint (into_bytes ''keykey4111'')), w)
     \<and> w_fingerprint_cache w (into_bytes ''keykey4111'') = Some (first_fingerprint (into_bytes ''keykey4111''))"
proof -
  let ?w = "in_mode KvState.Disabled empty_world" and ?h = "into_bytes ''keykey4111''"
  have m: "kv_settings example_store ?w = KvState.Disabled" "w_fingerprints ?w = []" "w_fingerprint_cache ?w = Map.empty"
    by (simp_all add: empty_world_def) (simp add: in_mode_def)
  show ?thesis
    by (simp add: fingerprint_get_or_insert_eq [OF example_hash] example_fingerprint_miss [OF m] fingerprint_insert_step_def
        example_fingerprint_insert [OF m(1,2)] del: example_mode)
qed

lemma example_fingerprint_hit:
  assumes "w_fingerprint_cache w (into_bytes ''keykey4111'') = Some f"
  shows "\<exists>w'. fingerprint_get_or_insert example_tenant ''4111'' ''key'' fid w = (Ok f, w')
    \<and> w_fingerprint_cache w' (into_bytes ''keykey4111'') = Some f"
proof -
  have "Caching_find_optional_by_fingerprint_hash example_caching (into_bytes ''keykey4111'') w = (Ok (Some f), w)"
    using assms by (simp add: Caching_find_optional_by_fingerprint_hash_def lookup_def example_caching_def io_bind_def io_of_def io_ret_def)
  then show ?thesis using assms by (simp add: fingerprint_get_or_insert_eq [OF example_hash])
qed

theorem fingerprint_is_stable_witness:
  "\<exists>w w' w'' g. fingerprint_get_or_insert example_tenant ''4111'' ''key'' (Some ''first'') (in_mode KvState.Disabled empty_world)
        = (Ok (first_fingerprint (into_bytes ''keykey4111'')), w)
     \<and> fingerprint_get_or_insert example_tenant ''4111'' ''key'' None w = (Ok g, w')
     \<and> fingerprint_get_or_insert example_tenant ''4111'' ''key'' (Some ''second'') w'
        = (Ok (first_fingerprint (into_bytes ''keykey4111'')), w'')"
proof -
  let ?f = "first_fingerprint (into_bytes ''keykey4111'')"
  obtain w where a: "fingerprint_get_or_insert example_tenant ''4111'' ''key'' (Some ''first'') (in_mode KvState.Disabled empty_world)
        = (Ok ?f, w)" and cached: "w_fingerprint_cache w (into_bytes ''keykey4111'') = Some ?f"
    using example_first_fingerprint by blast
  obtain w' where b: "fingerprint_get_or_insert example_tenant ''4111'' ''key'' None w = (Ok ?f, w')"
      and cached': "w_fingerprint_cache w' (into_bytes ''keykey4111'') = Some ?f"
    using example_fingerprint_hit [OF cached] by blast
  obtain r w'' where c: "fingerprint_get_or_insert example_tenant ''4111'' ''key'' (Some ''second'') w' = (r, w'')" by force
  have "is_ok r" using example_fingerprint_hit [OF cached', of "Some ''second''"] c by auto
  then obtain f' where r: "r = Ok f'" by (auto simp: is_ok_iff)
  have "(fingerprint_step fingerprint_view w_fingerprint_cache example_tenant)\<^sup>*\<^sup>* w w'"
    using fingerprint_step.answered [OF b] by blast
  then have "f' = ?f"
    using fingerprint_is_stable [where state = example_tenant, OF _ example_aside _ a _ c [unfolded r]]
      example_fingerprint_laws example_coherent by auto
  then show ?thesis using a b c r by blast
qed

end
