(* ===== verification/CustodianLaws.thy ===== *)
theory CustodianLaws
  imports Tenant ExampleServices
begin

text \<open>
  The key custodian as a state machine.  A request is accepted by its extractors, which look at the
  state without a lock that lasts, and is executed later, under the write lock of the table of
  keys: any number of accepted requests may be waiting, and they are executed in any order.  The
  lemmas say what the unlocked tenants of a reachable state have in common, whatever the order.
\<close>

section \<open>Requests and steps\<close>

datatype CustodianRequest = PostKey1 string | PostKey2 string | PostDecrypt

datatype CustodianCall = Key1 string string | Key2 string string | Decrypt string

primrec call_tenant :: "CustodianCall \<Rightarrow> string" where
  "call_tenant (Key1 t k) = t"
| "call_tenant (Key2 t k) = t"
| "call_tenant (Decrypt t) = t"

text \<open>The extractors of a custodian route, in the order of the handler's arguments.\<close>

fun custodian_body :: "(string \<Rightarrow> bytes option) \<Rightarrow> string \<Rightarrow> CustodianRequest \<Rightarrow> (CustodianCall, string) result" where
  "custodian_body hex t (PostKey1 k) = res_map (Key1 t) (key_validation hex k)"
| "custodian_body hex t (PostKey2 k) = res_map (Key2 t) (key_validation hex k)"
| "custodian_body hex t PostDecrypt = Ok (Decrypt t)"

fun custodian_run ::
    "'w AppEnv \<Rightarrow> CustodianCall \<Rightarrow> ('w, 'redis) GlobalAppState \<Rightarrow> (string, ApiError) result \<times> ('w, 'redis) GlobalAppState" where
  "custodian_run env (Key1 t k) state = (case handle_key1 state t k of (m, state') \<Rightarrow> (Ok m, state'))"
| "custodian_run env (Key2 t k) state = (case handle_key2 state t k of (m, state') \<Rightarrow> (Ok m, state'))"
| "custodian_run env (Decrypt t) state = handle_decrypt env state t"

record ('w, 'redis) Custody =
  app_state :: "('w, 'redis) GlobalAppState"
  waiting :: "CustodianCall list"
  executed :: "CustodianCall list"

inductive custody_step ::
    "'w AppEnv \<Rightarrow> ('w, 'redis) Custody \<Rightarrow> ('w, 'redis) Custody \<Rightarrow> bool" for env where
  accept: "\<lbrakk>TenantId (app_state r) hs = Ok t; custodian_body (env_hex_decode env) t req = Ok c\<rbrakk>
    \<Longrightarrow> custody_step env r (r\<lparr>waiting := waiting r @ [c]\<rparr>)"
| execute: "waiting r = xs @ c # ys
    \<Longrightarrow> custody_step env r \<lparr>app_state = snd (custodian_run env c (app_state r)), waiting = xs @ ys,
          executed = executed r @ [c]\<rparr>"

inductive custody_steps ::
    "'w AppEnv \<Rightarrow> ('w, 'redis) Custody \<Rightarrow> ('w, 'redis) Custody \<Rightarrow> bool" for env start where
  steps_refl: "custody_steps env start start"
| steps_step: "\<lbrakk>custody_steps env start r; custody_step env r r'\<rbrakk> \<Longrightarrow> custody_steps env start r'"

definition custody_start :: "('w, 'redis) GlobalAppState \<Rightarrow> ('w, 'redis) Custody" where
  "custody_start g = \<lparr>app_state = g, waiting = [], executed = []\<rparr>"

section \<open>What one request does\<close>

text \<open>A request never changes the configuration, nor the list of tenants.\<close>

lemma handle_decrypt_cases:
  obtains (no_tenant) "tenants_key_state state t = None"
      "handle_decrypt env state t = (Err (ApiError.TenantError ''Tenant not found''), state)"
  | (missing) ks where "tenants_key_state state t = Some ks" "key1 ks = None \<or> key2 ks = None"
      "handle_decrypt env state t =
        (Err (ApiError.DecryptingKeysFailed ''Both the custodain keys are not present to decrypt''),
         state\<lparr> tenants_key_state := (tenants_key_state state)(t \<mapsto> ks\<lparr> key1 := None, key2 := None \<rparr>) \<rparr>)"
  | (failed) ks k1 k2 x where "tenants_key_state state t = Some ks" "key1 ks = Some k1" "key2 ks = Some k2"
      "handle_decrypt env state t = (x, state)" "\<not> is_ok x"
  | (unlocked) ks k1 k2 tc tc' s where "tenants_key_state state t = Some ks" "key1 ks = Some k1" "key2 ks = Some k2"
      "TenantConfig_from_global_config (global_config state) t = (Ok tc :: (TenantConfig, ApiError) result)"
      "aes_decrypt_custodian_key env tc k1 k2 = Ok tc'"
      "TenantAppState_new env (global_config state) tc' (g_api_client state) (redis_store state)
         (runtime_manager state) = Ok s"
      "handle_decrypt env state t = (Ok ''Decryption of Custodian key is successful'', set_app_state state s)"
proof (cases "tenants_key_state state t")
  case None
  then show ?thesis by (intro no_tenant) (simp_all add: handle_decrypt_def)
next
  case (Some ks)
  show ?thesis
  proof (cases "\<exists>k1 k2. key1 ks = Some k1 \<and> key2 ks = Some k2")
    case False
    with Some show ?thesis
      by (intro missing) (auto simp: handle_decrypt_def split: option.split)
  next
    case True
    then obtain k1 k2 where ks: "key1 ks = Some k1" "key2 ks = Some k2" by blast
    let ?x = "res_bind (TenantConfig_from_global_config (global_config state) t) (\<lambda>tenant_config.
                 res_bind (aes_decrypt_custodian_key env tenant_config k1 k2) (\<lambda>tenant_config.
                 res_map_err (\<lambda>_. ApiError.TenantError ''Failed while creating AppState for tenant'')
                   (TenantAppState_new env (global_config state) tenant_config (g_api_client state)
                     (redis_store state) (runtime_manager state))))"
    show ?thesis
    proof (cases ?x)
      case (Ok s)
      then obtain tc tc' where
        "TenantConfig_from_global_config (global_config state) t = (Ok tc :: (TenantConfig, ApiError) result)"
        "aes_decrypt_custodian_key env tc k1 k2 = Ok tc'"
        "TenantAppState_new env (global_config state) tc' (g_api_client state) (redis_store state)
           (runtime_manager state) = Ok s"
        by auto
      moreover have "handle_decrypt env state t
          = (Ok ''Decryption of Custodian key is successful'', set_app_state state s)"
        by (simp only: handle_decrypt_def Some ks Ok option.case prod.case result.case)
      ultimately show ?thesis using Some ks by (intro unlocked)
    next
      case (Err e)
      have "handle_decrypt env state t = (Err e, state)"
        by (simp only: handle_decrypt_def Some ks Err option.case prod.case result.case)
      then show ?thesis by (rule failed [OF Some ks]) simp
    next
      case Panic
      have "handle_decrypt env state t = (Panic, state)"
        by (simp only: handle_decrypt_def Some ks Panic option.case prod.case result.case)
      then show ?thesis by (rule failed [OF Some ks]) simp
    qed
  qed
qed

lemma TenantAppState_new_config:
  "TenantAppState_new env config tc api shared rcm = Ok s \<Longrightarrow> ts_config s = tc"
  by (auto simp: TenantAppState_new_def Let_def)

lemma TenantConfig_from_global_config_Ok:
  "TenantConfig_from_global_config config t = Ok tc
   \<Longrightarrow> tc_tenant_id tc = t \<and> t \<in> set (map fst (tenant_secrets config))"
  by (auto simp: TenantConfig_from_global_config_def unwrap_def split: option.splits
      dest!: map_of_SomeD intro: rev_image_eqI)

lemma aes_decrypt_custodian_key_Ok:
  assumes "aes_decrypt_custodian_key env tc k1 k2 = Ok tc'"
  obtains key mk where "env_hex_decode env (k1 @ k2) = Some key"
    "GcmAes256_decrypt (env_crypto env) key (master_key (tc_tenant_secrets tc)) = Ok mk"
    "tc' = tc\<lparr> tc_tenant_secrets := (tc_tenant_secrets tc)\<lparr> master_key := mk \<rparr> \<rparr>"
  using assms by (auto simp: aes_decrypt_custodian_key_def Let_def)

section \<open>The invariant\<close>

text \<open>
  \<open>unlocked_by\<close>: the state of an unlocked tenant is the one its two submitted keys give: joined and
  hex-decoded they decrypt the tenant's configured master key.
\<close>

definition unlocked_by ::
    "'w AppEnv \<Rightarrow> 'redis GlobalConfig \<Rightarrow> string \<Rightarrow> string \<Rightarrow> string \<Rightarrow> 'w TenantAppState \<Rightarrow> bool" where
  "unlocked_by env config t k1 k2 s \<longleftrightarrow>
     (\<exists>tc key mk. TenantConfig_from_global_config config t = (Ok tc :: (TenantConfig, ApiError) result)
        \<and> env_hex_decode env (k1 @ k2) = Some key
        \<and> GcmAes256_decrypt (env_crypto env) key (master_key (tc_tenant_secrets tc)) = Ok mk
        \<and> ts_config s = tc\<lparr> tc_tenant_secrets := (tc_tenant_secrets tc)\<lparr> master_key := mk \<rparr> \<rparr>)"

definition valid_call :: "'w AppEnv \<Rightarrow> ('w, 'redis) GlobalAppState \<Rightarrow> CustodianCall \<Rightarrow> bool" where
  "valid_call env g c \<longleftrightarrow> call_tenant c \<in> set (known_tenants g)
     \<and> (\<forall>t k. c = Key1 t k \<or> c = Key2 t k \<longrightarrow> key_validation (env_hex_decode env) k = Ok k)"

definition custody_ok :: "'w AppEnv \<Rightarrow> ('w, 'redis) GlobalAppState \<Rightarrow> ('w, 'redis) Custody \<Rightarrow> bool" where
  "custody_ok env g r \<longleftrightarrow>
     global_config (app_state r) = global_config g \<and> known_tenants (app_state r) = known_tenants g
     \<and> dom (tenants_key_state (app_state r)) = set (known_tenants g)
     \<and> (\<forall>c \<in> set (waiting r) \<union> set (executed r). valid_call env g c)
     \<and> (\<forall>t ks k. tenants_key_state (app_state r) t = Some ks \<longrightarrow>
          (key1 ks = Some k \<longrightarrow> Key1 t k \<in> set (executed r)) \<and> (key2 ks = Some k \<longrightarrow> Key2 t k \<in> set (executed r)))
     \<and> (\<forall>t s. tenants_app_state (app_state r) t = Some s \<longrightarrow>
          t \<in> set (known_tenants g) \<and> tc_tenant_id (ts_config s) = t \<and> Decrypt t \<in> set (executed r)
          \<and> (\<exists>k1 k2. Key1 t k1 \<in> set (executed r) \<and> Key2 t k2 \<in> set (executed r)
               \<and> unlocked_by env (global_config g) t k1 k2 s))"

lemma custodian_body_valid:
  "custodian_body hex t req = Ok c \<Longrightarrow> call_tenant c = t
   \<and> (\<forall>u k. c = Key1 u k \<or> c = Key2 u k \<longrightarrow> key_validation hex k = Ok k)"
  by (cases req) (auto simp: key_validation_def split: option.splits if_splits)

lemma TenantId_Ok:
  "TenantId state hs = Ok t \<longleftrightarrow> header_text hs X_TENANT_ID = Some t \<and> t \<in> set (known_tenants state)
     \<and> tenants_app_state state t = None"
  by (auto simp: TenantId_def is_known_tenant_def is_custodian_unlocked_def split: if_splits)

lemma handle_decrypt_frame:
  "global_config (snd (handle_decrypt env g t)) = global_config g
   \<and> known_tenants (snd (handle_decrypt env g t)) = known_tenants g
   \<and> dom (tenants_key_state (snd (handle_decrypt env g t))) = dom (tenants_key_state g)"
proof (cases rule: handle_decrypt_cases [of g t env])
  case (missing ks)
  then have "t \<in> dom (tenants_key_state g)" by blast
  with missing show ?thesis by (simp add: insert_absorb)
qed (simp_all add: set_app_state_def)

lemma custodian_run_frame:
  "global_config (snd (custodian_run env c g)) = global_config g
   \<and> known_tenants (snd (custodian_run env c g)) = known_tenants g
   \<and> dom (tenants_key_state (snd (custodian_run env c g))) = dom (tenants_key_state g)"
proof (cases c)
  case (Decrypt t)
  then show ?thesis by (simp add: handle_decrypt_frame)
qed (auto simp: handle_key1_def handle_key2_def split: option.split)

lemma custodian_run_keys:
  assumes "tenants_key_state (snd (custodian_run env c g)) t = Some ks"
  obtains ks0 where "tenants_key_state g t = Some ks0"
    "\<And>k. key1 ks = Some k \<Longrightarrow> c = Key1 t k \<or> key1 ks0 = Some k"
    "\<And>k. key2 ks = Some k \<Longrightarrow> c = Key2 t k \<or> key2 ks0 = Some k"
proof (cases c)
  case (Key1 u k)
  with assms that show thesis
    by (auto simp: handle_key1_def split: option.splits if_splits)
next
  case (Key2 u k)
  with assms that show thesis
    by (auto simp: handle_key2_def split: option.splits if_splits)
next
  case (Decrypt u)
  show thesis
  proof (cases rule: handle_decrypt_cases [of g u env])
    case (missing ks')
    with assms Decrypt that show thesis by (auto split: if_splits)
  qed (use assms Decrypt that in \<open>auto simp: set_app_state_def\<close>)
qed

lemma custodian_run_tenants:
  assumes "tenants_app_state (snd (custodian_run env c g)) t = Some s"
  obtains (old) "tenants_app_state g t = Some s"
  | (new) ks k1 k2 where "c = Decrypt t" "tc_tenant_id (ts_config s) = t" "tenants_key_state g t = Some ks"
      "key1 ks = Some k1" "key2 ks = Some k2" "unlocked_by env (global_config g) t k1 k2 s"
proof (cases c)
  case (Decrypt u)
  show thesis
  proof (cases rule: handle_decrypt_cases [of g u env])
    case (unlocked ks k1 k2 tc tc' s')
    note u = unlocked
    from u(5) obtain key mk where dec: "env_hex_decode env (k1 @ k2) = Some key"
      "GcmAes256_decrypt (env_crypto env) key (master_key (tc_tenant_secrets tc)) = Ok mk"
      "tc' = tc\<lparr> tc_tenant_secrets := (tc_tenant_secrets tc)\<lparr> master_key := mk \<rparr> \<rparr>"
      by (rule aes_decrypt_custodian_key_Ok)
    have s': "ts_config s' = tc'" by (rule TenantAppState_new_config [OF u(6)])
    have id: "tc_tenant_id tc' = u"
      using TenantConfig_from_global_config_Ok [OF u(4)] dec(3) by simp
    show thesis
    proof (cases "t = u")
      case True
      with assms Decrypt u(7) s' id have "s = s'" by (simp add: set_app_state_def)
      moreover have "unlocked_by env (global_config g) t k1 k2 s'"
        unfolding unlocked_by_def using u(4) dec s' True by blast
      ultimately show thesis using True Decrypt u s' id by (intro new) simp_all
    next
      case False
      with assms Decrypt u(7) s' id have "tenants_app_state g t = Some s" by (simp add: set_app_state_def)
      then show thesis by (rule old)
    qed
  qed (use assms Decrypt old in simp_all)
qed (use assms old in \<open>simp_all add: handle_key1_def handle_key2_def\<close>)

text \<open>An unlocked tenant stays unlocked, and a tenant's state is touched by its own requests only.\<close>

lemma custodian_run_keeps_unlocked:
  "tenants_app_state g t \<noteq> None \<Longrightarrow> tenants_app_state (snd (custodian_run env c g)) t \<noteq> None"
proof (cases c)
  case (Decrypt u)
  assume "tenants_app_state g t \<noteq> None"
  with Decrypt show ?thesis
    by (cases rule: handle_decrypt_cases [of g u env]) (simp_all add: set_app_state_def)
qed (simp_all add: handle_key1_def handle_key2_def)

lemma custodian_run_other:
  assumes "call_tenant c \<noteq> t"
  shows "tenants_app_state (snd (custodian_run env c g)) t = tenants_app_state g t
    \<and> tenants_key_state (snd (custodian_run env c g)) t = tenants_key_state g t"
proof (cases c)
  case (Decrypt u)
  show ?thesis
  proof (cases rule: handle_decrypt_cases [of g u env])
    case (unlocked ks k1 k2 tc tc' s')
    then have "tc_tenant_id (ts_config s') = u"
      using TenantConfig_from_global_config_Ok [OF unlocked(4)]
      by (auto simp: TenantAppState_new_config [OF unlocked(6)] elim: aes_decrypt_custodian_key_Ok)
    with unlocked Decrypt assms show ?thesis by (simp add: set_app_state_def)
  qed (use Decrypt assms in simp_all)
qed (use assms in \<open>auto simp: handle_key1_def handle_key2_def split: option.split\<close>)

lemma custody_ok_step:
  assumes step: "custody_step env r r'" and ok: "custody_ok env g r"
  shows "custody_ok env g r'"
  using step
proof (cases rule: custody_step.cases)
  case (accept hs t req c)
  then have "valid_call env g c"
    using ok custodian_body_valid [of "env_hex_decode env" t req c]
    by (auto simp: custody_ok_def valid_call_def TenantId_Ok)
  with ok accept show ?thesis by (simp add: custody_ok_def)
next
  case (execute xs c ys)
  let ?g' = "snd (custodian_run env c (app_state r))"
  have calls: "\<forall>c \<in> set (waiting r') \<union> set (executed r'). valid_call env g c"
    using ok execute by (auto simp: custody_ok_def)
  have keys: "(key1 ks = Some k \<longrightarrow> Key1 t k \<in> set (executed r')) \<and> (key2 ks = Some k \<longrightarrow> Key2 t k \<in> set (executed r'))"
    if "tenants_key_state ?g' t = Some ks" for t ks k
    using that
  proof (rule custodian_run_keys)
    fix ks0
    assume ks: "\<And>k. key1 ks = Some k \<Longrightarrow> c = Key1 t k \<or> key1 ks0 = Some k"
      "\<And>k. key2 ks = Some k \<Longrightarrow> c = Key2 t k \<or> key2 ks0 = Some k"
      and "tenants_key_state (app_state r) t = Some ks0"
    with ok have "(key1 ks0 = Some k \<longrightarrow> Key1 t k \<in> set (executed r)) \<and> (key2 ks0 = Some k \<longrightarrow> Key2 t k \<in> set (executed r))"
      by (simp add: custody_ok_def)
    with ks [of k] execute show ?thesis by auto
  qed
  have tenants: "t \<in> set (known_tenants g) \<and> tc_tenant_id (ts_config s) = t \<and> Decrypt t \<in> set (executed r')
      \<and> (\<exists>k1 k2. Key1 t k1 \<in> set (executed r') \<and> Key2 t k2 \<in> set (executed r')
           \<and> unlocked_by env (global_config g) t k1 k2 s)"
    if "tenants_app_state ?g' t = Some s" for t s
    using that
  proof (cases rule: custodian_run_tenants)
    case old
    then have "t \<in> set (known_tenants g) \<and> tc_tenant_id (ts_config s) = t \<and> Decrypt t \<in> set (executed r)
        \<and> (\<exists>k1 k2. Key1 t k1 \<in> set (executed r) \<and> Key2 t k2 \<in> set (executed r)
             \<and> unlocked_by env (global_config g) t k1 k2 s)"
      using ok by (simp add: custody_ok_def)
    moreover have "set (executed r) \<subseteq> set (executed r')" using execute by auto
    ultimately show ?thesis by blast
  next
    case (new ks k1 k2)
    then have "t \<in> set (known_tenants g)"
      using ok execute by (auto simp: custody_ok_def valid_call_def)
    moreover have "Key1 t k1 \<in> set (executed r) \<and> Key2 t k2 \<in> set (executed r)"
      using ok new by (simp add: custody_ok_def)
    moreover have "unlocked_by env (global_config g) t k1 k2 s"
      using ok new by (simp add: custody_ok_def)
    ultimately show ?thesis using new execute by auto
  qed
  from ok execute custodian_run_frame [of env c "app_state r"] calls keys tenants show ?thesis
    by (simp add: custody_ok_def)
qed

lemma GlobalAppState_new_Ok:
  "GlobalAppState_new config api connect rcm = Ok g \<Longrightarrow>
   tenants_app_state g = Map.empty \<and> global_config g = config \<and> known_tenants g = map fst (tenant_secrets config)
   \<and> tenants_key_state g = (\<lambda>t. if t \<in> set (known_tenants g) then Some CustodianKeyState_default else None)"
  by (auto simp: GlobalAppState_new_def Let_def split: result.splits)

lemma custody_ok_start:
  assumes "GlobalAppState_new config api connect rcm = Ok g"
  shows "custody_ok env g (custody_start g)"
proof -
  define known where "known = map fst (tenant_secrets config)"
  show ?thesis
    using GlobalAppState_new_Ok [OF assms, folded known_def]
    by (auto simp: custody_ok_def custody_start_def CustodianKeyState_default_def split: if_splits)
qed

lemma custody_ok_steps:
  "custody_steps env r r' \<Longrightarrow> custody_ok env g r \<Longrightarrow> custody_ok env g r'"
  by (induction rule: custody_steps.induct) (auto intro: custody_ok_step)

section \<open>The ceremony\<close>

text \<open>The three requests of one tenant, accepted and executed one after the other.\<close>

definition ceremony :: "'w AppEnv \<Rightarrow> string \<Rightarrow> string \<Rightarrow> string \<Rightarrow> ('w, 'redis) GlobalAppState \<Rightarrow> ('w, 'redis) GlobalAppState" where
  "ceremony env t k1 k2 g =
     snd (custodian_run env (Decrypt t) (snd (custodian_run env (Key2 t k2) (snd (custodian_run env (Key1 t k1) g)))))"

lemma custody_call:
  assumes "custody_steps env start r" "waiting r = []" "TenantId (app_state r) hs = Ok t"
    "custodian_body (env_hex_decode env) t req = Ok c"
  shows "custody_steps env start \<lparr>app_state = snd (custodian_run env c (app_state r)), waiting = [],
    executed = executed r @ [c]\<rparr>"
proof -
  have "custody_steps env start (r\<lparr>waiting := waiting r @ [c]\<rparr>)"
    by (rule steps_step [OF assms(1)], rule accept [OF assms(3,4)])
  moreover have "waiting (r\<lparr>waiting := waiting r @ [c]\<rparr>) = [] @ c # []"
    using assms(2) by simp
  then have "custody_step env (r\<lparr>waiting := waiting r @ [c]\<rparr>)
      \<lparr>app_state = snd (custodian_run env c (app_state r)), waiting = [], executed = executed r @ [c]\<rparr>"
    using execute [of "r\<lparr>waiting := waiting r @ [c]\<rparr>" "[]" c "[]" env] by simp
  ultimately show ?thesis by (rule steps_step)
qed

lemma ceremony_steps:
  assumes locked: "t \<in> set (known_tenants g)" "tenants_app_state g t = None"
    and k1: "key_validation (env_hex_decode env) k1 = Ok k1" and k2: "key_validation (env_hex_decode env) k2 = Ok k2"
  shows "custody_steps env (custody_start g)
    \<lparr>app_state = ceremony env t k1 k2 g, waiting = [], executed = [Key1 t k1, Key2 t k2, Decrypt t]\<rparr>"
proof -
  define hs :: headers where "hs = [X_TENANT_ID \<mapsto> Some t]"
  have accepted: "TenantId g' hs = Ok t"
    if "known_tenants g' = known_tenants g" "tenants_app_state g' = tenants_app_state g"
    for g' :: "('a, 'b) GlobalAppState"
    using locked that by (simp add: TenantId_Ok hs_def header_text_def)
  note call = custody_call [where hs = hs and t = t and env = env]
  have "custody_steps env (custody_start g) (custody_start g)" by (rule steps_refl)
  then have "custody_steps env (custody_start g)
      \<lparr>app_state = snd (custodian_run env (Key1 t k1) g), waiting = [], executed = [Key1 t k1]\<rparr>"
    using call [of "custody_start g" "custody_start g" "PostKey1 k1" "Key1 t k1"] accepted [of g] k1
    by (simp add: custody_start_def)
  then have "custody_steps env (custody_start g)
      \<lparr>app_state = snd (custodian_run env (Key2 t k2) (snd (custodian_run env (Key1 t k1) g))), waiting = [],
       executed = [Key1 t k1, Key2 t k2]\<rparr>"
    using call [where req = "PostKey2 k2" and c = "Key2 t k2"] accepted k2
    by (fastforce simp: handle_key1_def)
  then show ?thesis
    using call [where req = "PostDecrypt" and c = "Decrypt t"] accepted
    by (fastforce simp: handle_key1_def handle_key2_def ceremony_def)
qed

lemma ceremony_unlocks:
  assumes "tenants_key_state g t \<noteq> None"
    and "TenantConfig_from_global_config (global_config g) t = (Ok tc :: (TenantConfig, ApiError) result)"
    and "env_hex_decode env (k1 @ k2) = Some key"
    and "GcmAes256_decrypt (env_crypto env) key (master_key (tc_tenant_secrets tc)) = Ok mk"
    and "TenantAppState_new env (global_config g) (tc\<lparr> tc_tenant_secrets := (tc_tenant_secrets tc)\<lparr> master_key := mk \<rparr> \<rparr>)
           (g_api_client g) (redis_store g) (runtime_manager g) = Ok s"
  shows "tenants_app_state (ceremony env t k1 k2 g) t = Some s"
proof -
  have "ts_config s = tc\<lparr> tc_tenant_secrets := (tc_tenant_secrets tc)\<lparr> master_key := mk \<rparr> \<rparr>"
    by (rule TenantAppState_new_config [OF assms(5)])
  then have "tc_tenant_id (ts_config s) = t"
    using TenantConfig_from_global_config_Ok [OF assms(2)] by simp
  with assms show ?thesis
    by (auto simp: ceremony_def handle_key1_def handle_key2_def handle_decrypt_def set_app_state_def
        aes_decrypt_custodian_key_def)
qed

section \<open>A concrete custodian\<close>

text \<open>
  The hex codec, and a process with one tenant whose master key (32 bytes 7) is sealed under
  32 zero bytes.
\<close>

definition hex_digit :: "nat \<Rightarrow> char" where
  "hex_digit n = char_of (if n < 10 then 48 + n else 87 + n)"

definition hex_value :: "char \<Rightarrow> nat option" where
  "hex_value c = (let n = of_char c in
     if 48 \<le> n \<and> n \<le> 57 then Some (n - 48) else if 97 \<le> n \<and> n \<le> 102 then Some (n - 87)
     else if 65 \<le> n \<and> n \<le> 70 then Some (n - 55) else None)"

primrec example_hex_encode :: "bytes \<Rightarrow> string" where
  "example_hex_encode [] = []"
| "example_hex_encode (b # bs) = hex_digit (unat b div 16) # hex_digit (unat b mod 16) # example_hex_encode bs"

fun example_hex_decode :: "string \<Rightarrow> bytes option" where
  "example_hex_decode [] = Some []"
| "example_hex_decode [c] = None"
| "example_hex_decode (c # d # s) = (case (hex_value c, hex_value d, example_hex_decode s) of
     (Some m, Some n, Some bs) \<Rightarrow> Some (of_nat (16 * m + n) # bs) | _ \<Rightarrow> None)"

definition hex_ok :: "(bytes \<Rightarrow> string) \<Rightarrow> (string \<Rightarrow> bytes option) \<Rightarrow> bool" where
  "hex_ok enc dec \<longleftrightarrow> (\<forall>bs. dec (enc bs) = Some bs) \<and> (\<forall>bs bs'. enc (bs @ bs') = enc bs @ enc bs')
     \<and> (\<forall>bs. length (enc bs) = 2 * length bs) \<and> (\<forall>bs. from_utf8 (into_bytes (enc bs)) = Some (enc bs))"

lemma hex_value_digit: "n < 16 \<Longrightarrow> hex_value (hex_digit n) = Some n"
  by (auto simp: hex_value_def hex_digit_def Let_def)

lemma ascii_utf8: "list_all (\<lambda>c. of_char c < (128 :: nat)) s \<Longrightarrow> from_utf8 (into_bytes s) = Some s"
proof -
  have ascii: "list_all (\<lambda>a. a < 128) ns \<Longrightarrow> utf8_valid ns" for ns
    by (induction ns) auto
  assume "list_all (\<lambda>c. of_char c < (128 :: nat)) s"
  then have "utf8_valid (map unat (into_bytes s))"
    by (intro ascii) (simp add: into_bytes_def list_all_iff)
  then show ?thesis by (simp add: from_utf8_def)
qed

lemma example_hex_ok: "hex_ok example_hex_encode example_hex_decode"
proof -
  have "example_hex_decode (example_hex_encode bs) = Some bs" for bs
  proof (induction bs)
    case (Cons b bs)
    have "unat b < 256" using unsigned_less [of b] by simp
    then have "unat b div 16 < 16" by simp
    then show ?case by (simp add: hex_value_digit Cons mult.commute flip: of_nat_mult of_nat_add)
  qed simp
  moreover have "example_hex_encode (bs @ bs') = example_hex_encode bs @ example_hex_encode bs'" for bs bs'
    by (induction bs) simp_all
  moreover have "length (example_hex_encode bs) = 2 * length bs" for bs
    by (induction bs) simp_all
  moreover have "list_all (\<lambda>c. of_char c < (128 :: nat)) (example_hex_encode bs)" for bs
  proof -
    have digit: "of_char (hex_digit n) < (128 :: nat)" if "n < 16" for n
      using that by (simp add: hex_digit_def)
    have "unat b div 16 < 16 \<and> unat b mod 16 < 16" for b :: "8 word"
      using unsigned_less [of b, where ?'a = nat] by auto
    then show ?thesis by (induction bs) (simp_all add: digit)
  qed
  ultimately show ?thesis by (simp add: hex_ok_def ascii_utf8)
qed

definition example_cache :: "('w, 'k, 'v) MokaCache" where
  "example_cache = \<lparr> cache_get = (\<lambda>k w. (None, w)), cache_insert = (\<lambda>k v w. w) \<rparr>"

definition example_env :: "World AppEnv" where
  "example_env = \<lparr> env_pool_build = (\<lambda>url n. Ok (io_ret example_conn)), env_libs = example_libs,
     env_globals = example_globals,
     env_caches = \<lparr> build_merchant = (\<lambda>s n m. example_cache), build_hash_table = (\<lambda>s n m. example_cache),
       build_fingerprint = (\<lambda>s n m. example_cache), build_entity = (\<lambda>s n m. example_cache) \<rparr>,
     env_crypto = example_crypto, env_record_outcome = (\<lambda>r out w. w),
     env_hex_decode = example_hex_decode \<rparr>"

definition example_sealed :: bytes where
  "example_sealed = replicate 12 0 @ replicate 32 0 @ replicate 12 0 @ replicate 32 7"

definition example_custody_config :: "unit GlobalConfig" where
  "example_custody_config = example_config\<lparr> tenant_secrets :=
     [(''t1'', \<lparr> master_key = example_sealed, public_key = ''k'', schema = ''public'', redis_key_prefix = [] \<rparr>)] \<rparr>"

definition example_global :: "(World, unit) GlobalAppState" where
  "example_global = (case GlobalAppState_new example_custody_config (Ok example_client) (\<lambda>r. Err RedisError.NotFound)
     (Ok example_manager) :: ((World, unit) GlobalAppState, unit) result of Ok g \<Rightarrow> g)"

lemma example_global_new:
  "GlobalAppState_new example_custody_config (Ok example_client) (\<lambda>r. Err RedisError.NotFound)
     (Ok example_manager) = Ok example_global"
  by (simp add: example_global_def GlobalAppState_new_def Let_def)

lemmas example_global_state = GlobalAppState_new_Ok [OF example_global_new]

definition example_key :: string where "example_key = replicate 32 (CHR ''0'')"

lemma example_key_decode:
  "example_hex_decode example_key = Some (replicate 16 0)"
  "example_hex_decode (example_key @ example_key) = Some (replicate 32 0)"
  by (simp_all add: example_key_def eval_nat_numeral hex_value_def)

lemma example_key_valid: "key_validation (env_hex_decode example_env) example_key = Ok example_key"
  by (simp add: key_validation_def example_env_def example_key_decode KEY_LENGTH_def)

lemma example_unsealed: "GcmAes256_decrypt example_crypto (replicate 32 0) example_sealed = Ok (replicate 32 7)"
proof -
  have n: "NonceSequence_current (NonceSequence_from_bytes (replicate 12 0)) = replicate 12 0"
    by (rule current_from_bytes) simp
  show ?thesis
    by (simp add: GcmAes256_decrypt_def NONCE_LEN_def example_sealed_def example_crypto_def advance_current n)
qed

definition example_unlocked :: "(World, unit) Custody" where
  "example_unlocked = \<lparr>app_state = ceremony example_env ''t1'' example_key example_key example_global, waiting = [],
     executed = [Key1 ''t1'' example_key, Key2 ''t1'' example_key, Decrypt ''t1'']\<rparr>"

lemma example_unlocked_steps: "custody_steps example_env (custody_start example_global) example_unlocked"
  unfolding example_unlocked_def
  by (rule ceremony_steps) (simp_all add: example_global_state example_custody_config_def example_key_valid)

definition example_tc :: TenantConfig where
  "example_tc = \<lparr> tc_tenant_id = ''t1'', tc_locker_secrets = secrets example_config,
     tc_tenant_secrets = \<lparr> master_key = example_sealed, public_key = ''k'', schema = ''public'', redis_key_prefix = [] \<rparr>,
     tc_external_key_manager = external_key_manager example_config, tc_redis_key_prefix = [] \<rparr>"

lemma example_unlocked_state: "\<exists>s. tenants_app_state (app_state example_unlocked) ''t1'' = Some s"
proof -
  have "\<exists>s. TenantAppState_new example_env (global_config example_global) tc
      (g_api_client example_global) (redis_store example_global) (runtime_manager example_global) = Ok s" for tc
    by (simp add: TenantAppState_new_def Storage_new_def create_database_connection_pool_def example_env_def
        example_global_state example_custody_config_def example_config_def Let_def)
  then obtain s where s: "TenantAppState_new example_env (global_config example_global)
      (example_tc\<lparr> tc_tenant_secrets := (tc_tenant_secrets example_tc)\<lparr> master_key := replicate 32 7 \<rparr> \<rparr>)
      (g_api_client example_global) (redis_store example_global) (runtime_manager example_global) = Ok s" by blast
  have "tenants_app_state (ceremony example_env ''t1'' example_key example_key example_global) ''t1'' = Some s"
  proof (rule ceremony_unlocks [OF _ _ _ _ s])
    show "tenants_key_state example_global ''t1'' \<noteq> None"
      by (simp add: example_global_state example_custody_config_def)
    show "TenantConfig_from_global_config (global_config example_global) ''t1'' = Ok example_tc"
      by (simp add: example_global_state TenantConfig_from_global_config_def example_custody_config_def example_tc_def)
    show "env_hex_decode example_env (example_key @ example_key) = Some (replicate 32 0)"
      by (simp add: example_env_def example_key_decode)
    show "GcmAes256_decrypt (env_crypto example_env) (replicate 32 0) (master_key (tc_tenant_secrets example_tc))
        = Ok (replicate 32 7)"
      using example_unsealed by (simp add: example_env_def example_tc_def)
  qed
  then show ?thesis by (simp add: example_unlocked_def)
qed

section \<open>After the unlocking\<close>

lemma custody_step_keeps_unlocked:
  assumes "custody_step env r r'" "tenants_app_state (app_state r) t \<noteq> None"
  shows "tenants_app_state (app_state r') t \<noteq> None"
  using assms(1) by (cases rule: custody_step.cases) (simp_all add: assms(2) custodian_run_keeps_unlocked del: not_None_eq)

lemma custody_step_frozen:
  assumes "custody_step env r r'" "tenants_app_state (app_state r) t \<noteq> None"
    and "\<forall>c \<in> set (waiting r). call_tenant c \<noteq> t"
  shows "tenants_app_state (app_state r') t = tenants_app_state (app_state r) t
    \<and> tenants_key_state (app_state r') t = tenants_key_state (app_state r) t
    \<and> (\<forall>c \<in> set (waiting r'). call_tenant c \<noteq> t)"
  using assms(1)
proof (cases rule: custody_step.cases)
  case (accept hs u req c)
  with assms(2) custodian_body_valid [of "env_hex_decode env" u req c] have "call_tenant c \<noteq> t"
    by (auto simp: TenantId_Ok)
  with accept assms(3) show ?thesis by simp
next
  case (execute xs c ys)
  with assms(3) have "call_tenant c \<noteq> t" by simp
  from custodian_run_other [OF this, of env "app_state r"] execute assms(3) show ?thesis by simp
qed

lemma custody_steps_known:
  "custody_steps env r r' \<Longrightarrow> known_tenants (app_state r') = known_tenants (app_state r)"
  by (induction rule: custody_steps.induct)
    (auto elim!: custody_step.cases simp: custodian_run_frame)

section \<open>Properties\<close>

text \<open>C6. However the requests of the custodians are interleaved, a tenant is unlocked only by its own
  two submitted keys: its state then holds the master key that those keys, joined and hex-decoded,
  decrypt from the tenant's configured one, and everything else in its configuration is what the
  file says.  The known tenants, the tenants with a place for keys and the configuration never change.\<close>

theorem custodian_unlock_is_authorised:
  assumes "GlobalAppState_new config api connect rcm = Ok g"
    and "custody_steps env (custody_start g) r"
  shows "global_config (app_state r) = config \<and> known_tenants (app_state r) = map fst (tenant_secrets config)
    \<and> dom (tenants_key_state (app_state r)) = set (map fst (tenant_secrets config))
    \<and> (\<forall>t s. tenants_app_state (app_state r) t = Some s \<longrightarrow>
         t \<in> set (map fst (tenant_secrets config)) \<and> tc_tenant_id (ts_config s) = t
         \<and> Decrypt t \<in> set (executed r)
         \<and> (\<exists>k1 k2. Key1 t k1 \<in> set (executed r) \<and> Key2 t k2 \<in> set (executed r)
              \<and> key_validation (env_hex_decode env) k1 = Ok k1 \<and> key_validation (env_hex_decode env) k2 = Ok k2
              \<and> unlocked_by env config t k1 k2 s))"
proof -
  note g = GlobalAppState_new_Ok [OF assms(1)]
  have ok: "custody_ok env g r"
    by (rule custody_ok_steps [OF assms(2) custody_ok_start [OF assms(1)]])
  then have valid: "key_validation (env_hex_decode env) k = Ok k"
    if "Key1 t k \<in> set (executed r) \<or> Key2 t k \<in> set (executed r)" for t k
    using that by (auto simp: custody_ok_def valid_call_def)
  have known: "known_tenants g = map fst (tenant_secrets config)" "global_config g = config"
    using g by auto
  have unlocked: "t \<in> set (known_tenants g) \<and> tc_tenant_id (ts_config s) = t \<and> Decrypt t \<in> set (executed r)
      \<and> (\<exists>k1 k2. Key1 t k1 \<in> set (executed r) \<and> Key2 t k2 \<in> set (executed r)
           \<and> unlocked_by env (global_config g) t k1 k2 s)"
    if "tenants_app_state (app_state r) t = Some s" for t s
    using ok that by (simp add: custody_ok_def)
  from ok have "global_config (app_state r) = config" "known_tenants (app_state r) = map fst (tenant_secrets config)"
    "dom (tenants_key_state (app_state r)) = set (map fst (tenant_secrets config))"
    unfolding custody_ok_def known by simp_all
  with unlocked [unfolded known] valid show ?thesis by blast
qed

theorem custodian_unlock_is_authorised_witness:
  "\<exists>s. tenants_app_state (app_state example_unlocked) ''t1'' = Some s \<and> tc_tenant_id (ts_config s) = ''t1''
     \<and> unlocked_by example_env example_custody_config ''t1'' example_key example_key s"
proof -
  obtain s where s: "tenants_app_state (app_state example_unlocked) ''t1'' = Some s"
    using example_unlocked_state by blast
  with custodian_unlock_is_authorised [OF example_global_new example_unlocked_steps]
  have "tc_tenant_id (ts_config s) = ''t1''"
    "\<exists>k1 k2. Key1 ''t1'' k1 \<in> set (executed example_unlocked) \<and> Key2 ''t1'' k2 \<in> set (executed example_unlocked)
       \<and> unlocked_by example_env example_custody_config ''t1'' k1 k2 s"
    by blast+
  with s show ?thesis by (auto simp: example_unlocked_def)
qed

text \<open>C23. An unlocked tenant stays unlocked, and every later custodian request for it is refused with
  \<open>CustodianUnlocked\<close>.  If none of its requests was accepted before and is still waiting, then its
  state and its submitted keys never change again, whatever the other tenants' custodians do.\<close>

theorem custodian_unlock_is_final:
  assumes "custody_steps env r r'" and "t \<in> set (known_tenants (app_state r))"
    and "tenants_app_state (app_state r) t \<noteq> None"
  shows "tenants_app_state (app_state r') t \<noteq> None
    \<and> (\<forall>hs. header_text hs X_TENANT_ID = Some t \<longrightarrow> TenantId (app_state r') hs = Err ApiError.CustodianUnlocked)
    \<and> ((\<forall>c \<in> set (waiting r). call_tenant c \<noteq> t) \<longrightarrow>
         tenants_app_state (app_state r') t = tenants_app_state (app_state r) t
         \<and> tenants_key_state (app_state r') t = tenants_key_state (app_state r) t)"
proof -
  have unlocked: "tenants_app_state (app_state r') t \<noteq> None"
    using assms(1,3) by (induction rule: custody_steps.induct) (auto dest: custody_step_keeps_unlocked)
  moreover have "TenantId (app_state r') hs = Err ApiError.CustodianUnlocked"
    if "header_text hs X_TENANT_ID = Some t" for hs
    using that unlocked assms(2) custody_steps_known [OF assms(1)]
    by (simp add: TenantId_def is_known_tenant_def is_custodian_unlocked_def)
  moreover have "tenants_app_state (app_state r') t = tenants_app_state (app_state r) t
      \<and> tenants_key_state (app_state r') t = tenants_key_state (app_state r) t
      \<and> (\<forall>c \<in> set (waiting r'). call_tenant c \<noteq> t)"
    if "\<forall>c \<in> set (waiting r). call_tenant c \<noteq> t"
    using assms(1)
  proof (induction rule: custody_steps.induct)
    case (steps_step r1 r2)
    with assms(3) custody_step_frozen [OF steps_step(2), of t] show ?case by simp
  qed (use that in simp)
  ultimately show ?thesis by blast
qed

theorem custodian_unlock_is_final_witness:
  "TenantId (app_state example_unlocked) [X_TENANT_ID \<mapsto> Some ''t1''] = Err ApiError.CustodianUnlocked"
proof -
  have "''t1'' \<in> set (known_tenants (app_state example_unlocked))"
    using custody_steps_known [OF example_unlocked_steps]
    by (simp add: custody_start_def example_global_state example_custody_config_def)
  from custodian_unlock_is_final [OF steps_refl this] example_unlocked_state show ?thesis
    by (auto simp: header_text_def)
qed

text \<open>C24. \<open>decrypt\<close> succeeds only by installing the tenant's state.  When it fails nothing is installed,
  and the submitted keys are cleared exactly when one of the two was missing: two keys that do not
  decrypt the master key stay in place.\<close>

theorem custodian_decrypt_outcome:
  assumes "handle_decrypt env g t = (x, g')"
  shows "(is_ok x \<longrightarrow> tenants_app_state g' t \<noteq> None \<and> tenants_key_state g' = tenants_key_state g)
    \<and> (\<not> is_ok x \<longrightarrow> tenants_app_state g' = tenants_app_state g
         \<and> (\<forall>ks. tenants_key_state g t = Some ks \<longrightarrow> tenants_key_state g' t =
              Some (if key1 ks = None \<or> key2 ks = None then CustodianKeyState_default else ks)))
    \<and> (tenants_key_state g t = None \<longrightarrow> x = Err (ApiError.TenantError ''Tenant not found''))"
proof (cases rule: handle_decrypt_cases [of g t env])
  case (missing ks)
  with assms show ?thesis by (cases ks) (auto simp: CustodianKeyState_default_def)
next
  case (unlocked ks k1 k2 tc tc' s)
  have "tc_tenant_id (ts_config s) = t"
    using TenantConfig_from_global_config_Ok [OF unlocked(4)] unlocked(5)
    by (auto simp: TenantAppState_new_config [OF unlocked(6)] elim: aes_decrypt_custodian_key_Ok)
  with unlocked assms show ?thesis by (auto simp: set_app_state_def)
qed (use assms in auto)

theorem custodian_decrypt_outcome_witness:
  "\<exists>x. handle_decrypt example_env (example_global\<lparr>tenants_key_state := [''t1'' \<mapsto> \<lparr>key1 = Some ''zz'', key2 = Some ''zz''\<rparr>]\<rparr>) ''t1''
     = (x, example_global\<lparr>tenants_key_state := [''t1'' \<mapsto> \<lparr>key1 = Some ''zz'', key2 = Some ''zz''\<rparr>]\<rparr>) \<and> \<not> is_ok x"
proof -
  let ?g = "example_global\<lparr>tenants_key_state := [''t1'' \<mapsto> \<lparr>key1 = Some ''zz'', key2 = Some ''zz''\<rparr>]\<rparr>"
  have eval: "handle_decrypt example_env ?g ''t1'' = (Err (ApiError.DecryptingKeysFailed ''Hex dcoding failed''), ?g)"
    by (simp add: handle_decrypt_def aes_decrypt_custodian_key_def TenantConfig_from_global_config_def
        example_env_def hex_value_def example_global_state example_custody_config_def)
  from custodian_decrypt_outcome [OF eval] show ?thesis using eval by simp
qed

end
