(* ===== verification/Binaries.thy ===== *)
theory Binaries
  imports CustodianLaws
begin

text \<open>
  The two programs: the command line tool that makes the keys (\<open>src/src/bin/utils.rs\<close>) and the
  start of the locker (\<open>src/src/bin/locker.rs\<close>).  The properties follow a key from the tool
  through the configuration to the unlocked tenant.  Files, standard input and the JSON of a JWE
  body are parameters.
\<close>

section \<open>The key tool (bin/utils.rs)\<close>

datatype SubCommand =
    MasterKey bool
  | JweEncrypt "string option" "string option"
  | JweDecrypt "string option" "string option"

text \<open>What a program writes to its standard output: lines, or raw bytes.\<close>

datatype CliOutput = Printed "string list" | Written bytes

datatype CliError = CliError_Io string | CliError_Crypto CryptoError

record 'w CliEnv =
  cli_crypto :: "'w CryptoLibs"
  cli_hex_encode :: "bytes \<Rightarrow> string"
  cli_read_file :: "string \<Rightarrow> (string, string) result"
  cli_stdin :: "(string, string) result"
  jwe_body_to_json :: "JweBody \<Rightarrow> (bytes, string) result"
  jwe_body_from_json :: "bytes \<Rightarrow> (JweBody, string) result"

text \<open>\<open>split_at\<close> of the hex text of the key, at half its length.\<close>

definition master_key_generator :: "'w CliEnv \<Rightarrow> bool \<Rightarrow> ('w, CliOutput, CliError) io" where
  "master_key_generator env without_custodian =
     io_bind (generate_aes256_key (cli_crypto env)) (\<lambda>master_key.
     if without_custodian then io_ret (Printed [''master key: '' @ cli_hex_encode env master_key])
     else
       io_bind (generate_aes256_key (cli_crypto env)) (\<lambda>encryption_key.
       let key_custodian_key = cli_hex_encode env encryption_key in
       io_bind (io_map_err CliError_Crypto (GcmAes256_encrypt (cli_crypto env) encryption_key master_key)) (\<lambda>encrypted_master_key.
       let hexed_master_key = cli_hex_encode env encrypted_master_key;
           half = length key_custodian_key div 2 in
       io_ret (Printed [''master key: '' @ hexed_master_key, ''key 1: '' @ take half key_custodian_key,
         ''key 2: '' @ drop half key_custodian_key]))))"

definition read_file_to_string :: "'w CliEnv \<Rightarrow> string \<Rightarrow> (string, CliError) result" where
  "read_file_to_string env name = res_map_err CliError_Io (cli_read_file env name)"

definition jwe_operation :: "'w CliEnv \<Rightarrow> (bytes \<Rightarrow> ('w, bytes, CryptoError) io) \<Rightarrow> ('w, CliOutput, CliError) io" where
  "jwe_operation env op =
     io_bind (io_lift (res_map_err CliError_Io (cli_stdin env))) (\<lambda>input.
     io_map Written (io_map_err CliError_Crypto (op (into_bytes (trim input)))))"

definition cli_keys :: "string \<Rightarrow> string \<Rightarrow> JWEncryption" where
  "cli_keys priv_key pub_key = \<lparr> jw_private_key = priv_key, jw_public_key = pub_key,
     encryption_algo = RSA_OAEP_256, decryption_algo = RSA_OAEP \<rparr>"

text \<open>A missing public key is reported with the text of a missing private key by \<open>jwe-decrypt\<close>.\<close>

definition read_key :: "'w CliEnv \<Rightarrow> string \<Rightarrow> string option \<Rightarrow> (string, CliError) result" where
  "read_key env missing name =
     res_bind (ok_or (CliError_Crypto (CryptoError.InvalidData missing)) name) (read_file_to_string env)"

definition utils_main :: "'w CliEnv \<Rightarrow> SubCommand \<Rightarrow> ('w, CliOutput, CliError) io" where
  "utils_main env nested = (case nested of
     MasterKey without_custodian \<Rightarrow> master_key_generator env without_custodian
   | JweEncrypt priv_file pub_file \<Rightarrow>
       io_bind (io_lift (read_key env ''private key not found'' priv_file)) (\<lambda>priv_key.
       io_bind (io_lift (read_key env ''public key not found'' pub_file)) (\<lambda>pub_key.
       jwe_operation env (\<lambda>payload.
         io_bind (JWEncryption_encrypt (cli_crypto env) (cli_keys priv_key pub_key) payload) (\<lambda>body.
         io_lift (res_map_err CryptoError.SerdeJsonError (jwe_body_to_json env body))))))
   | JweDecrypt priv_file pub_file \<Rightarrow>
       io_bind (io_lift (read_key env ''private key not found'' priv_file)) (\<lambda>priv_key.
       io_bind (io_lift (read_key env ''private key not found'' pub_file)) (\<lambda>pub_key.
       jwe_operation env (\<lambda>payload.
         io_bind (io_lift (res_map_err CryptoError.SerdeJsonError (jwe_body_from_json env payload))) (\<lambda>body.
         io_lift (JWEncryption_decrypt (cli_crypto env) (cli_keys priv_key pub_key) body))))))"

section \<open>The start of the locker (bin/locker.rs)\<close>

text \<open>
  \<open>GlobalConfig::new\<close> and the set-up of logging are results of the libraries; every \<open>expect\<close>
  panics.  The value is the state that the server is built with.
\<close>

definition res_expect :: "('a, 'e) result \<Rightarrow> ('a, 'f) result" where
  "res_expect r = (case r of Ok x \<Rightarrow> Ok x | _ \<Rightarrow> Panic)"

definition locker_main ::
    "(string \<Rightarrow> bool) \<Rightarrow> 'w SecretBackends \<Rightarrow> ('redis GlobalConfig, string) result \<Rightarrow> (unit, string) result \<Rightarrow>
     ('redis GlobalConfig \<Rightarrow> ('w ApiClient, ApiClientError) result) \<Rightarrow> ('redis \<Rightarrow> ('w RedisShared, RedisError) result) \<Rightarrow>
     ('redis GlobalConfig \<Rightarrow> ('w RuntimeConfigManager, ConfigurationError) result) \<Rightarrow>
     ('w, ('w, 'redis) GlobalAppState, unit) io" where
  "locker_main is_ip backends config_new logger_setup client connect manager =
     io_bind (io_lift (res_expect config_new)) (\<lambda>global_config.
     io_bind (io_lift (res_expect logger_setup)) (\<lambda>_.
     io_bind (io_lift (res_expect (GlobalConfig_validate is_ip global_config))) (\<lambda>_.
     io_bind (\<lambda>w. case fetch_raw_secrets backends global_config w of (r, w') \<Rightarrow> (res_expect r, w')) (\<lambda>global_config.
     io_lift (GlobalAppState_new global_config (client global_config) connect (manager global_config))))))"

section \<open>From the tool to the unlocked tenant\<close>

lemma generate_aes256_key_Ok:
  "aes_ok c \<Longrightarrow> generate_aes256_key c w = (Ok key, w') \<Longrightarrow> length key = 32"
  unfolding generate_aes256_key_def aes_ok_def
  by (auto split: prod.splits result.splits; blast)

lemma master_key_generator_Ok:
  assumes "master_key_generator env False w = (Ok out, w')"
  obtains mk key sealed w1 w2 w3 where "generate_aes256_key (cli_crypto env) w = (Ok mk :: (bytes, CliError) result, w1)"
    "generate_aes256_key (cli_crypto env) w1 = (Ok key :: (bytes, CliError) result, w2)"
    "GcmAes256_encrypt (cli_crypto env) key mk w2 = (Ok sealed, w3)"
    "out = Printed [''master key: '' @ cli_hex_encode env sealed,
       ''key 1: '' @ take (length (cli_hex_encode env key) div 2) (cli_hex_encode env key),
       ''key 2: '' @ drop (length (cli_hex_encode env key) div 2) (cli_hex_encode env key)]"
  using assms unfolding master_key_generator_def
  by (auto simp: Let_def io_ret_def elim!: io_bind_Ok_E)

text \<open>The two halves of the hex text are the hex texts of the two halves of the key.\<close>

lemma hex_halves:
  assumes "hex_ok enc dec" "length key = 32"
  shows "take (length (enc key) div 2) (enc key) = enc (take 16 key)
    \<and> drop (length (enc key) div 2) (enc key) = enc (drop 16 key)"
proof -
  have "enc (take 16 key @ drop 16 key) = enc (take 16 key) @ enc (drop 16 key)"
    using assms(1) unfolding hex_ok_def by blast
  moreover have "length (enc key) = 64" "length (enc (take 16 key)) = 32"
    using assms by (simp_all add: hex_ok_def)
  ultimately show ?thesis by simp
qed

text \<open>C18. The keys that the tool prints open the vault.  The two custodian keys pass the validation of
  \<open>/custodian/key1\<close> and \<open>key2\<close>; the master key, put into the configuration as it is printed,
  is read back as the sealed key; and for every locked tenant configured with it, submitting the two
  keys and asking for decryption unlocks the tenant with the 32-byte master key the tool made.\<close>

theorem generated_keys_unlock:
  assumes hex: "hex_ok (cli_hex_encode cli) (env_hex_decode env)"
    and lib: "aes_ok (env_crypto env)" "cli_crypto cli = env_crypto env"
    and gen: "master_key_generator cli False w = (Ok out, w')"
  shows "\<exists>M k1 k2 sealed mk. out = Printed [''master key: '' @ M, ''key 1: '' @ k1, ''key 2: '' @ k2]
    \<and> length mk = 32
    \<and> key_validation (env_hex_decode env) k1 = Ok k1 \<and> key_validation (env_hex_decode env) k2 = Ok k2
    \<and> (\<forall>(b :: 'w SecretBackends) t s (w :: 'w). hex_decode b = env_hex_decode env \<longrightarrow>
         fetch_master_keys b Client_NoEncryption [(t, s\<lparr> master_key := into_bytes M \<rparr>)] w
           = (Ok [(t, s\<lparr> master_key := sealed \<rparr>)], w))
    \<and> (\<forall>(g :: ('w, 'redis) GlobalAppState) t tc s.
         t \<in> set (known_tenants g) \<longrightarrow> tenants_app_state g t = None \<longrightarrow> tenants_key_state g t \<noteq> None \<longrightarrow>
         TenantConfig_from_global_config (global_config g) t = (Ok tc :: (TenantConfig, ApiError) result) \<longrightarrow>
         master_key (tc_tenant_secrets tc) = sealed \<longrightarrow>
         TenantAppState_new env (global_config g) (tc\<lparr> tc_tenant_secrets := (tc_tenant_secrets tc)\<lparr> master_key := mk \<rparr> \<rparr>)
           (g_api_client g) (redis_store g) (runtime_manager g) = Ok s \<longrightarrow>
         custody_steps env (custody_start g) \<lparr>app_state = ceremony env t k1 k2 g, waiting = [],
           executed = [Key1 t k1, Key2 t k2, Decrypt t]\<rparr>
         \<and> tenants_app_state (ceremony env t k1 k2 g) t = Some s)"
proof -
  from gen obtain mk key sealed w1 w2 w3 where
    mk: "generate_aes256_key (cli_crypto cli) w = (Ok mk :: (bytes, CliError) result, w1)"
    and key: "generate_aes256_key (cli_crypto cli) w1 = (Ok key :: (bytes, CliError) result, w2)"
    and seal: "GcmAes256_encrypt (cli_crypto cli) key mk w2 = (Ok sealed, w3)"
    and out: "out = Printed [''master key: '' @ cli_hex_encode cli sealed,
       ''key 1: '' @ take (length (cli_hex_encode cli key) div 2) (cli_hex_encode cli key),
       ''key 2: '' @ drop (length (cli_hex_encode cli key) div 2) (cli_hex_encode cli key)]"
    by (rule master_key_generator_Ok)
  let ?M = "cli_hex_encode cli sealed"
  let ?k1 = "cli_hex_encode cli (take 16 key)" and ?k2 = "cli_hex_encode cli (drop 16 key)"
  have len: "length mk = 32" "length key = 32"
    using generate_aes256_key_Ok [OF _ mk] generate_aes256_key_Ok [OF _ key] lib by simp_all
  have dec: "env_hex_decode env (cli_hex_encode cli bs) = Some bs"
    and join: "cli_hex_encode cli (bs @ bs') = cli_hex_encode cli bs @ cli_hex_encode cli bs'"
    and ascii: "from_utf8 (into_bytes (cli_hex_encode cli bs)) = Some (cli_hex_encode cli bs)" for bs bs'
    using hex unfolding hex_ok_def by blast+
  have halves: "env_hex_decode env (?k1 @ ?k2) = Some key"
    using dec [of key] join [of "take 16 key" "drop 16 key"] by simp
  have valid: "key_validation (env_hex_decode env) ?k1 = Ok ?k1" "key_validation (env_hex_decode env) ?k2 = Ok ?k2"
    by (simp_all add: key_validation_def dec KEY_LENGTH_def len)
  have fetch: "fetch_master_keys b Client_NoEncryption [(t, s\<lparr> master_key := into_bytes ?M \<rparr>)] w
      = (Ok [(t, s\<lparr> master_key := sealed \<rparr>)], w)"
    if "hex_decode b = env_hex_decode env" for b :: "'w SecretBackends" and t s and w :: 'w
    using that by (simp add: io_defs fetch_secret_def get_secret_def ascii dec)
  have opened: "GcmAes256_decrypt (env_crypto env) key sealed = Ok mk"
    by (rule GcmAes256_roundtrip) (use lib seal in simp_all)
  show ?thesis
    using out hex_halves [OF hex len(2)] len valid fetch halves opened
    by (intro exI [of _ ?M] exI [of _ ?k1] exI [of _ ?k2] exI [of _ sealed] exI [of _ mk])
      (auto intro: ceremony_steps ceremony_unlocks)
qed

instance JweBody_ext :: (countable) countable
  by (rule countable_classI [of "\<lambda>r. to_nat (jwe_header r, jwe_iv r, jwe_encrypted_payload r, jwe_tag r, jwe_encrypted_key r, JweBody.more r)"])
    (auto intro: JweBody.equality)

definition example_cli :: "World CliEnv" where
  "example_cli = \<lparr> cli_crypto = example_crypto, cli_hex_encode = example_hex_encode,
     cli_read_file = (\<lambda>f. if f = ''priv'' \<or> f = ''pub'' then Ok ''k'' else Err ''no such file''),
     cli_stdin = Ok ''hi '', jwe_body_to_json = (\<lambda>b. Ok (into_bytes (text_of b))),
     jwe_body_from_json = (\<lambda>j. Ok (of_text (of_bytes j))) \<rparr>"

lemma example_generate_key: "generate_aes256_key (example_crypto :: 'w CryptoLibs) w = (Ok (replicate 32 0), w)"
  by (simp add: generate_aes256_key_def example_crypto_def io_ret_def)

lemma example_key_generation: "\<exists>out. master_key_generator example_cli False w = (Ok out, w)"
  by (simp add: master_key_generator_def example_cli_def io_bind_def io_map_err_def example_aes_encrypt
      example_generate_key Let_def io_ret_def)

theorem generated_keys_unlock_witness:
  "\<exists>M k1 k2. fst (master_key_generator example_cli False empty_world)
       = Ok (Printed [''master key: '' @ M, ''key 1: '' @ k1, ''key 2: '' @ k2])
     \<and> key_validation example_hex_decode k1 = Ok k1 \<and> key_validation example_hex_decode k2 = Ok k2"
proof -
  obtain out where gen: "master_key_generator example_cli False empty_world = (Ok out, empty_world)"
    using example_key_generation by blast
  have "hex_ok (cli_hex_encode example_cli) (env_hex_decode example_env)" "aes_ok (env_crypto example_env)"
    "cli_crypto example_cli = env_crypto example_env"
    by (simp_all add: example_cli_def example_env_def example_hex_ok example_aes_ok)
  from generated_keys_unlock [OF this gen] gen show ?thesis
    by (auto simp: example_env_def)
qed

section \<open>Talking to the locker\<close>

lemma utils_jwe_encrypt_Ok:
  assumes "utils_main cli (JweEncrypt (Some f) (Some g)) w = (Ok (Written json), w')"
  obtains priv pub input body w1 where "cli_read_file cli f = Ok priv" "cli_read_file cli g = Ok pub"
    "cli_stdin cli = Ok input"
    "JWEncryption_encrypt (cli_crypto cli) (cli_keys priv pub) (into_bytes (trim input)) w = (Ok body, w1)"
    "jwe_body_to_json cli body = Ok json"
  using assms by (auto simp: utils_main_def read_key_def read_file_to_string_def jwe_operation_def io_lift_def
      io_map_def elim!: io_bind_Ok_E split: prod.splits)

lemma utils_jwe_decrypt_eq:
  assumes "cli_read_file cli f = Ok priv" "cli_read_file cli g = Ok pub" "cli_stdin cli = Ok input"
    and "jwe_body_from_json cli (into_bytes (trim input)) = Ok body"
    and "JWEncryption_decrypt (cli_crypto cli) (cli_keys priv pub) body = Ok p"
  shows "utils_main cli (JweDecrypt (Some f) (Some g)) w = (Ok (Written p), w)"
  using assms by (simp add: utils_main_def read_key_def read_file_to_string_def jwe_operation_def io_defs)

text \<open>C27. The tool speaks the locker's protocol.  What \<open>jwe-encrypt\<close> writes for a text on its standard
  input, the middleware of the locker with the matching keys decrypts to that text without its surrounding
  white space and hands to the handlers: whenever they answer and the answer can be encrypted, the
  middleware answers it with their status; it answers nothing else; and what it answers, \<open>jwe-decrypt\<close>
  turns back into the handlers' answer.  The two ends use the two RSA algorithms crosswise.\<close>

theorem cli_talks_to_locker:
  assumes lib: "jw_ok c pair" "cli_crypto cli = c"
    and keys: "cli_read_file cli f = Ok client_priv" "cli_read_file cli g = Ok locker_pub"
      "pair client_priv client_pub" "pair locker_priv locker_pub"
    and json: "\<forall>b j. jwe_body_to_json cli b = Ok j \<longrightarrow> jwe_body_from_json cli j = Ok b"
    and input: "cli_stdin cli = Ok input" "from_utf8 (into_bytes (trim input)) \<noteq> None"
    and sent: "utils_main cli (JweEncrypt (Some f) (Some g)) w = (Ok (Written request), w1)"
  shows "\<exists>body. jwe_body_from_json cli request = Ok body
    \<and> (\<forall>next_run status answer jwe w2 w3 w4.
        next_run (into_bytes (trim input)) w2 = ((status, Ok answer), w3) \<longrightarrow>
        JWEncryption_encrypt c \<lparr> jw_private_key = locker_priv, jw_public_key = client_pub, encryption_algo = RSA_OAEP,
          decryption_algo = RSA_OAEP_256 \<rparr> answer w3 = (Ok jwe, w4) \<longrightarrow>
        (\<exists>resp. middleware c locker_priv client_pub next_run body w2 = (Ok resp, w4)
          \<and> jr_status resp = status \<and> jr_body resp = jwe))
    \<and> (\<forall>next_run resp w2 w3. middleware c locker_priv client_pub next_run body w2 = (Ok resp, w3) \<longrightarrow>
        (\<exists>answer w4. next_run (into_bytes (trim input)) w2 = ((jr_status resp, Ok answer), w4)
          \<and> (\<forall>reply w5. from_utf8 answer \<noteq> None \<longrightarrow> jwe_body_to_json cli (jr_body resp) = Ok (into_bytes (trim reply)) \<longrightarrow>
               utils_main (cli\<lparr> cli_stdin := Ok reply \<rparr>) (JweDecrypt (Some f) (Some g)) w5 = (Ok (Written answer), w5))))"
proof -
  let ?locker = "\<lparr> jw_private_key = locker_priv, jw_public_key = client_pub, encryption_algo = RSA_OAEP,
    decryption_algo = RSA_OAEP_256 \<rparr>"
  let ?client = "cli_keys client_priv locker_pub"
  from sent keys input lib obtain body w' where
    enc: "JWEncryption_encrypt c ?client (into_bytes (trim input)) w = (Ok body, w')"
    and body: "jwe_body_to_json cli body = Ok request"
    by (auto elim: utils_jwe_encrypt_Ok)
  have dec: "JWEncryption_decrypt c ?locker body = Ok (into_bytes (trim input))"
    by (rule jwe_roundtrip [OF lib(1) _ _ _ input(2) enc]) (simp_all add: cli_keys_def keys)
  have forwarded: "\<exists>resp. middleware c locker_priv client_pub next_run body w2 = (Ok resp, w4)
      \<and> jr_status resp = status \<and> jr_body resp = jwe"
    if "next_run (into_bytes (trim input)) w2 = ((status, Ok answer), w3)"
      "JWEncryption_encrypt c ?locker answer w3 = (Ok jwe, w4)" for next_run status answer jwe w2 w3 w4
    using dec that by (simp add: middleware_def Let_def io_bind_def io_lift_def io_of_def io_map_err_def io_ret_def)
  have answered: "\<exists>answer w4. next_run (into_bytes (trim input)) w2 = ((jr_status resp, Ok answer), w4)
          \<and> (\<forall>reply w5. from_utf8 answer \<noteq> None \<longrightarrow> jwe_body_to_json cli (jr_body resp) = Ok (into_bytes (trim reply)) \<longrightarrow>
               utils_main (cli\<lparr> cli_stdin := Ok reply \<rparr>) (JweDecrypt (Some f) (Some g)) w5 = (Ok (Written answer), w5))"
    if run: "middleware c locker_priv client_pub next_run body w2 = (Ok resp, w3)" for next_run resp w2 w3
  proof -
    from run dec obtain answer w4 w6 where
        answer: "next_run (into_bytes (trim input)) w2 = ((jr_status resp, Ok answer), w4)"
        and jwe: "JWEncryption_encrypt c ?locker answer w4 = (Ok (jr_body resp), w6)"
      by (auto simp: middleware_def Let_def io_lift_def io_of_def io_ret_def elim!: io_bind_Ok_E
          split: prod.splits)
    have "utils_main (cli\<lparr> cli_stdin := Ok reply \<rparr>) (JweDecrypt (Some f) (Some g)) w5 = (Ok (Written answer), w5)"
      if "from_utf8 answer \<noteq> None" "jwe_body_to_json cli (jr_body resp) = Ok (into_bytes (trim reply))" for reply w5
    proof (rule utils_jwe_decrypt_eq)
      show "JWEncryption_decrypt (cli_crypto (cli\<lparr> cli_stdin := Ok reply \<rparr>)) ?client (jr_body resp) = Ok answer"
        using jwe_roundtrip [OF lib(1) _ _ _ that(1) jwe, of ?client] lib(2) keys by (simp add: cli_keys_def)
    qed (use keys json that in auto)
    with answer show ?thesis by blast
  qed
  show ?thesis
    by (intro exI [of _ body] conjI allI impI answered forwarded) (use body json in blast, assumption+)
qed

theorem cli_talks_to_locker_witness:
  "\<exists>request body resp w. fst (utils_main example_cli (JweEncrypt (Some ''priv'') (Some ''pub'')) empty_world) = Ok (Written request)
     \<and> jwe_body_from_json example_cli request = Ok body
     \<and> middleware example_crypto ''k'' ''k'' (\<lambda>r w. ((200, Ok r), w)) body empty_world = (Ok resp, w) \<and> jr_status resp = 200"
proof -
  let ?text = "into_bytes (trim ''hi '')" and ?next = "\<lambda>r (w :: World). ((200 :: nat, Ok r :: (bytes, string) result), w)"
  let ?locker = "\<lparr> jw_private_key = ''k'', jw_public_key = ''k'', encryption_algo = RSA_OAEP, decryption_algo = RSA_OAEP_256 \<rparr>"
  have utf8: "from_utf8 ?text \<noteq> None" by code_simp
  obtain b where "JWEncryption_encrypt (example_crypto :: World CryptoLibs) (cli_keys ''k'' ''k'') ?text empty_world
      = (Ok b, empty_world)"
    using example_jwe_encrypt [of "cli_keys ''k'' ''k''" ?text empty_world] by blast
  then obtain request w1 where sent:
      "utils_main example_cli (JweEncrypt (Some ''priv'') (Some ''pub'')) empty_world = (Ok (Written request), w1)"
    by (auto simp: utils_main_def read_key_def read_file_to_string_def jwe_operation_def io_defs example_cli_def)
  obtain jwe where jwe: "JWEncryption_encrypt (example_crypto :: World CryptoLibs) ?locker ?text empty_world = (Ok jwe, empty_world)"
    using example_jwe_encrypt [of ?locker ?text empty_world] by blast
  have cli: "cli_crypto example_cli = example_crypto" "cli_read_file example_cli ''priv'' = Ok ''k''"
    "cli_read_file example_cli ''pub'' = Ok ''k''" "cli_stdin example_cli = Ok ''hi ''"
    "\<forall>b j. jwe_body_to_json example_cli b = Ok j \<longrightarrow> jwe_body_from_json example_cli j = Ok b"
    by (auto simp: example_cli_def)
  obtain body where body: "jwe_body_from_json example_cli request = Ok body"
    and talk: "\<forall>next_run status answer jwe w2 w3 w4.
        next_run ?text w2 = ((status, Ok answer), w3) \<longrightarrow> JWEncryption_encrypt (example_crypto :: World CryptoLibs) ?locker answer w3 = (Ok jwe, w4) \<longrightarrow>
        (\<exists>resp. middleware example_crypto ''k'' ''k'' next_run body w2 = (Ok resp, w4)
          \<and> jr_status resp = status \<and> jr_body resp = jwe)"
    using cli_talks_to_locker [OF example_jw_ok cli(1-3) refl refl cli(5,4) utf8 sent] by auto
  have "\<exists>resp. middleware example_crypto ''k'' ''k'' ?next body empty_world = (Ok resp, empty_world)
      \<and> jr_status resp = 200 \<and> jr_body resp = jwe"
    using talk [rule_format, of ?next empty_world 200 ?text empty_world jwe empty_world] jwe by simp
  with sent body show ?thesis by auto
qed

section \<open>The start\<close>

lemma res_expect_Ok [simp]: "res_expect r = Ok x \<longleftrightarrow> r = Ok x"
  by (cases r) (simp_all add: res_expect_def)

lemma fetch_master_keys_Ok:
  assumes "fetch_master_keys b client ts w = (Ok ts', w')"
  shows "list_all2 (\<lambda>(t, s) (t', s'). t' = t \<and> schema s' = schema s \<and> redis_key_prefix s' = redis_key_prefix s
    \<and> (\<exists>decrypted. hex_decode b decrypted = Some (master_key s'))) ts ts'"
  using assms
proof (induction b client ts arbitrary: w ts' w' rule: fetch_master_keys.induct)
  case (2 b client t s rest)
  from "2.prems" obtain e d k rest' w1 w2 where "hex_decode b d = Some k" "ts' = (t, s\<lparr> master_key := k \<rparr>) # rest'"
      "fetch_master_keys b client rest w1 = (Ok rest', w2)"
    by (auto simp: io_lift_def unwrap_def elim!: io_bind_Ok_E split: option.splits)
  then show ?case using "2.IH" by (auto simp: unwrap_def)
qed (simp add: io_ret_def)

lemma fetch_public_keys_Ok:
  assumes "fetch_public_keys b client ts w = (Ok ts', w')"
  shows "list_all2 (\<lambda>(t, s) (t', s'). t' = t \<and> schema s' = schema s \<and> redis_key_prefix s' = redis_key_prefix s
    \<and> master_key s' = master_key s) ts ts'"
  using assms
proof (induction b client ts arbitrary: w ts' w' rule: fetch_public_keys.induct)
  case (2 b client t s rest)
  from "2.prems" obtain p rest' w1 w2 where "ts' = (t, s\<lparr> public_key := p \<rparr>) # rest'"
      "fetch_public_keys b client rest w1 = (Ok rest', w2)"
    by (auto elim!: io_bind_Ok_E)
  then show ?case using "2.IH" by auto
qed (simp add: io_ret_def)

lemma list_all2_member: "list_all2 P xs ys \<Longrightarrow> y \<in> set ys \<Longrightarrow> \<exists>x \<in> set xs. P x y"
  by (induction rule: list_all2_induct) auto

lemma fetch_raw_secrets_Ok:
  assumes "fetch_raw_secrets b config w = (Ok config', w')"
  shows "kv config' = kv config \<and> redis config' = redis config
    \<and> map (\<lambda>(t, s). (t, redis_key_prefix s, schema s)) (tenant_secrets config')
        = map (\<lambda>(t, s). (t, redis_key_prefix s, schema s)) (tenant_secrets config)
    \<and> (\<forall>(t, s) \<in> set (tenant_secrets config'). \<exists>decrypted. hex_decode b decrypted = Some (master_key s))"
proof -
  from assms obtain client ts1 ts2 w1 w2 w3 w4 where
      master: "fetch_master_keys b client (tenant_secrets config) w1 = (Ok ts1, w2)"
      and public: "fetch_public_keys b client ts1 w3 = (Ok ts2, w4)"
      and same: "tenant_secrets config' = ts2" "kv config' = kv config" "redis config' = redis config"
    unfolding fetch_raw_secrets_def by (auto simp: io_ret_def elim!: io_bind_Ok_E)
  note m = fetch_master_keys_Ok [OF master] and p = fetch_public_keys_Ok [OF public]
  have names: "map (\<lambda>(t, s). (t, redis_key_prefix s, schema s)) ts1
      = map (\<lambda>(t, s). (t, redis_key_prefix s, schema s)) (tenant_secrets config)"
    using m by (induction rule: list_all2_induct) auto
  have names': "map (\<lambda>(t, s). (t, redis_key_prefix s, schema s)) ts2
      = map (\<lambda>(t, s). (t, redis_key_prefix s, schema s)) ts1"
    using p by (induction rule: list_all2_induct) auto
  have decoded: "\<exists>decrypted. hex_decode b decrypted = Some (master_key s)" if "(t, s) \<in> set ts2" for t s
  proof -
    from list_all2_member [OF p that] obtain s1 where "(t, s1) \<in> set ts1" "master_key s = master_key s1"
      by auto
    with list_all2_member [OF m, of "(t, s1)"] show ?thesis by auto
  qed
  show ?thesis unfolding same using decoded by (auto simp: names names')
qed

text \<open>C25. A locker that starts has validated its configuration and decoded the secrets of every
  tenant, and is locked: whatever a request's headers say, the handlers of the vault get
  no tenant.  What validation established still holds of the configuration it runs with: the drainer has
  a partition, and with Redis and several tenants the key prefixes are distinct and not empty.\<close>

theorem locker_starts_locked:
  assumes "locker_main is_ip b config_new logger_setup client connect manager w = (Ok g, w')"
  shows "\<exists>config. config_new = Ok config \<and> GlobalConfig_validate is_ip config = Ok ()
    \<and> fetch_raw_secrets b config w = (Ok (global_config g), w')
    \<and> known_tenants g = map fst (tenant_secrets config)
    \<and> (\<forall>hs. \<not> is_ok (TenantStateResolver g hs))
    \<and> (\<forall>(t, s) \<in> set (tenant_secrets (global_config g)). \<exists>decrypted. hex_decode b decrypted = Some (master_key s))
    \<and> drainer_num_partitions (kv (global_config g)) \<noteq> 0
    \<and> (redis (global_config g) \<noteq> None \<and> length (tenant_secrets (global_config g)) > 1 \<longrightarrow>
        (\<forall>(t, s) \<in> set (tenant_secrets (global_config g)). redis_key_prefix s \<noteq> [])
        \<and> distinct (map (\<lambda>(t, s). redis_key_prefix s) (tenant_secrets (global_config g))))"
proof -
  from assms obtain config config' where config: "config_new = Ok config" "GlobalConfig_validate is_ip config = Ok ()"
      and fetch: "fetch_raw_secrets b config w = (Ok config', w')"
      and new: "GlobalAppState_new config' (client config') connect (manager config') = (Ok g :: (_, unit) result)"
    by (auto simp: locker_main_def io_lift_def elim!: io_bind_Ok_E split: prod.splits)
  note g = GlobalAppState_new_Ok [OF new] and raw = fetch_raw_secrets_Ok [OF fetch]
  let ?triple = "\<lambda>(t, s). (t :: string, redis_key_prefix s, schema s)"
  have triple: "map ?triple (tenant_secrets config') = map ?triple (tenant_secrets config)" using raw by blast
  have names: "map fst (tenant_secrets config') = map fst (tenant_secrets config)"
      "map (\<lambda>(t, s). redis_key_prefix s) (tenant_secrets config') = map (\<lambda>(t, s). redis_key_prefix s) (tenant_secrets config)"
    using arg_cong [OF triple, of "map fst"] arg_cong [OF triple, of "map (fst \<circ> snd)"]
    by (simp_all add: case_prod_unfold comp_def)
  have len: "length (tenant_secrets config') = length (tenant_secrets config)"
    using names(1) by (metis length_map)
  have "\<not> is_ok (TenantStateResolver g hs)" for hs
    using g by (auto simp: TenantStateResolver_def get_app_state_of_tenant_def is_ok_iff)
  moreover have "drainer_num_partitions (kv config) \<noteq> 0"
    using config(2) by (auto simp: GlobalConfig_validate_def KvConfig_validate_def)
  moreover have "(\<forall>(t, s) \<in> set (tenant_secrets config'). redis_key_prefix s \<noteq> [])
        \<and> distinct (map (\<lambda>(t, s). redis_key_prefix s) (tenant_secrets config'))"
    if "redis config' \<noteq> None" "length (tenant_secrets config') > 1"
  proof -
    have "validate_kv_tenant_prefixes config = Ok ()" using config(2) by (auto simp: GlobalConfig_validate_def)
    from validated_prefixes [OF this] that raw len have
      "\<forall>p \<in> set (map (\<lambda>(t, s). redis_key_prefix s) (tenant_secrets config)). p \<noteq> []"
      "distinct (map (\<lambda>(t, s). redis_key_prefix s) (tenant_secrets config))" by auto
    then show ?thesis unfolding names(2) [symmetric] by auto
  qed
  ultimately show ?thesis using config fetch g raw names by (intro exI [of _ config]) auto
qed

definition example_backends :: "World SecretBackends" where
  "example_backends = \<lparr> vault_client_new = (\<lambda>u t. Ok ()), vault_kv2_read = (\<lambda>m p. io_ret Map.empty),
     kms_decrypt = (\<lambda>k bs. io_ret None), base64_decode = (\<lambda>s. None), hex_decode = example_hex_decode \<rparr>"

definition example_start :: "World \<Rightarrow> ((World, unit) GlobalAppState, unit) result \<times> World" where
  "example_start = locker_main (\<lambda>h. True) example_backends (Ok example_config) (Ok ()) (\<lambda>c. Ok example_client)
     (\<lambda>r. Err RedisError.NotFound) (\<lambda>c. Ok example_manager)"

lemma example_fetch:
  "\<exists>config. fetch_raw_secrets example_backends example_config w = (Ok config, w)"
proof -
  have empty: "from_utf8 [] = Some []" by (simp add: from_utf8_def of_bytes_def)
  have plain: "fetch_secret example_backends Client_NoEncryption f s = io_ret s"
    if "s \<in> {[], ''p'', ''k'', ''pem'', ''ca''}" for f s
  proof -
    have "from_utf8 (into_bytes s) = Some s" using that by (auto intro: ascii_utf8)
    then show ?thesis by (simp add: fetch_secret_def get_secret_def io_defs)
  qed
  have "hex_decode example_backends [] = Some []" by (simp add: example_backends_def)
  then show ?thesis
    by (simp add: fetch_raw_secrets_def example_config_def get_secret_management_client_def plain empty io_defs)
qed

theorem locker_starts_locked_witness:
  "\<exists>g. fst (example_start empty_world) = Ok g \<and> known_tenants g = [''hyperswitch'', ''t2'']
     \<and> \<not> is_ok (TenantStateResolver g [X_TENANT_ID \<mapsto> Some ''t2''])"
proof -
  have valid: "GlobalConfig_validate (\<lambda>h. True) example_config = Ok ()" by code_simp
  obtain config where fetch: "fetch_raw_secrets example_backends example_config empty_world = (Ok config, empty_world)"
    using example_fetch by blast
  then obtain g where start: "example_start empty_world = (Ok g, empty_world)"
    by (simp add: example_start_def locker_main_def io_defs res_expect_def valid GlobalAppState_new_def Let_def
        split: option.split)
  from locker_starts_locked [OF start [unfolded example_start_def]] start show ?thesis
    by (auto simp: example_config_def)
qed

end
