(* ===== verification/Metrics.thy ===== *)
theory Metrics
  imports Complex_Main Domain
begin

text \<open>
  The metrics: the instruments and the macros that declare them (\<open>src/src/observability/macros.rs\<close>,
  \<open>metrics.rs\<close>), the exporters and their handle (\<open>observability.rs\<close>), the wrappers that count and time
  the work of other modules (\<open>storage.rs\<close>, \<open>middleware.rs\<close>, \<open>routes.rs\<close>, \<open>routes/health.rs\<close>, \<open>runtime_config.rs\<close>,
  \<open>crypto/secrets_manager/secrets_management.rs\<close>, \<open>storage/caching.rs\<close>), and the background collector.

  What an instrument receives is appended to a list beside the state of the services.  A duration is its
  number of nanoseconds (the program converts it to seconds as an \<open>f64\<close>); \<open>Instant::now\<close> reads the
  state, and \<open>elapsed\<close> saturates at zero as the subtraction of naturals does.
\<close>

section \<open>Declaring an instrument (macros.rs)\<close>

datatype InstrumentKind = U64Counter | I64UpDownCounter | U64Gauge | F64Histogram

record Instrument =
  in_kind :: InstrumentKind
  in_meter :: string
  in_name :: string
  in_description :: "string option"
  in_unit :: "string option"
  in_boundaries :: "rat list option"

datatype MacroToken = Comma | Name string | Description string | Unit string | Buckets "rat list"

definition instrument_builder :: "InstrumentKind \<Rightarrow> string \<Rightarrow> string \<Rightarrow> Instrument" where
  "instrument_builder kind meter name =
     \<lparr> in_kind = kind, in_meter = meter, in_name = name, in_description = None, in_unit = None,
       in_boundaries = None \<rparr>"

text \<open>
  The arms of the macros on the tokens that are left.  A \<open>name:\<close> starts the builder again, whatever was
  set before it; tokens that no arm matches do not compile.
\<close>

fun metric_build :: "Instrument \<Rightarrow> MacroToken list \<Rightarrow> Instrument option" where
  "metric_build i [] = Some i"
| "metric_build i (Comma # ts) = metric_build i ts"
| "metric_build i (Name n # ts) = metric_build (instrument_builder (in_kind i) (in_meter i) n) ts"
| "metric_build i (Description d # ts) = metric_build (i\<lparr>in_description := Some d\<rparr>) ts"
| "metric_build i (Unit u # ts) = metric_build (i\<lparr>in_unit := Some u\<rparr>) ts"
| "metric_build i (Buckets b # ts) = None"

text \<open>The histogram macro has two more arms: \<open>buckets:\<close> at the end, or before a comma.\<close>

fun histogram_build :: "Instrument \<Rightarrow> MacroToken list \<Rightarrow> Instrument option" where
  "histogram_build i [] = Some i"
| "histogram_build i (Comma # ts) = histogram_build i ts"
| "histogram_build i (Name n # ts) = histogram_build (instrument_builder (in_kind i) (in_meter i) n) ts"
| "histogram_build i (Description d # ts) = histogram_build (i\<lparr>in_description := Some d\<rparr>) ts"
| "histogram_build i (Unit u # ts) = histogram_build (i\<lparr>in_unit := Some u\<rparr>) ts"
| "histogram_build i [Buckets b] = Some (i\<lparr>in_boundaries := Some b\<rparr>)"
| "histogram_build i (Buckets b # Comma # ts) = histogram_build (i\<lparr>in_boundaries := Some b\<rparr>) ts"
| "histogram_build i (Buckets b # t # ts) = None"

text \<open>The entry of each macro names the instrument after its static.\<close>

definition counter_metric :: "string \<Rightarrow> string \<Rightarrow> MacroToken list \<Rightarrow> Instrument option" where
  "counter_metric meter ident ts = metric_build (instrument_builder U64Counter meter ident) ts"

definition up_down_counter_metric :: "string \<Rightarrow> string \<Rightarrow> MacroToken list \<Rightarrow> Instrument option" where
  "up_down_counter_metric meter ident ts = metric_build (instrument_builder I64UpDownCounter meter ident) ts"

definition gauge_metric :: "string \<Rightarrow> string \<Rightarrow> MacroToken list \<Rightarrow> Instrument option" where
  "gauge_metric meter ident ts = metric_build (instrument_builder U64Gauge meter ident) ts"

definition histogram_metric_f64 :: "string \<Rightarrow> string \<Rightarrow> MacroToken list \<Rightarrow> Instrument option" where
  "histogram_metric_f64 meter ident ts = histogram_build (instrument_builder F64Histogram meter ident) ts"

section \<open>The instruments (metrics.rs)\<close>

text \<open>\<open>init *= 2.0\<close> is exact in floating point, so the bounds are those of the rational numbers, scaled
  by the rounding of the first.\<close>

fun buckets_loop :: "nat \<Rightarrow> rat \<Rightarrow> rat list" where
  "buckets_loop 0 init = []"
| "buckets_loop (Suc n) init = init # buckets_loop n (init * 2)"

definition f64_histogram_buckets :: "rat list" where
  "f64_histogram_buckets = buckets_loop 30 (1 / 1000000)"

definition CARD_VAULT_METER :: string where "CARD_VAULT_METER = ''card_vault''"

datatype Metric =
    SECRET_MANAGER_CALL_DURATION
  | HTTP_SERVER_REQUEST_COUNT | HTTP_SERVER_REQUEST_DURATION | HTTP_SERVER_ACTIVE_REQUESTS
  | HTTP_SERVER_JWE_MIDDLEWARE_OPERATION_DURATION
  | HTTP_SERVER_RATE_LIMITED_REQUEST_COUNT
  | HEALTH_CHECK_DURATION
  | DATABASE_QUERY_COUNT | DATABASE_QUERY_DURATION | DATABASE_CONNECTION_ACQUIRE_DURATION
  | DATABASE_POOL_SIZE | DATABASE_POOL_AVAILABLE | DATABASE_POOL_WAITING
  | EXTERNAL_HTTP_REQUEST_COUNT | EXTERNAL_HTTP_REQUEST_DURATION
  | CACHE_LOOKUP_COUNT | CACHE_INSERT_COUNT | CACHE_REMOVAL_COUNT | CACHE_ENTRY_COUNT
  | TTL_EXPIRED_DATA_ENCOUNTERED_COUNT | TTL_DELETION_COUNT
  | DOMAIN_GET_OR_INSERT_COUNT
  | ENTITY_IMPLICIT_CREATE_COUNT
  | RUNTIME_CONFIG_FETCH_DURATION
  | KV_OPERATION_COUNT | KV_OPERATION_DURATION | KV_DRAINER_PUSH_COUNT | KV_DRAINER_PUSH_DURATION
  | KV_CACHE_MISS_COUNT

text \<open>The tokens after the identifier of a static: with or without a unit and buckets.\<close>

definition named :: "string \<Rightarrow> string \<Rightarrow> MacroToken list" where
  "named n d = [Comma, Name n, Comma, Description d, Comma]"

definition timed_tokens :: "string \<Rightarrow> string \<Rightarrow> MacroToken list" where
  "timed_tokens n d = named n d @ [Unit ''s'', Comma, Buckets f64_histogram_buckets, Comma]"

fun metric_static :: "Metric \<Rightarrow> Instrument option" where
  "metric_static SECRET_MANAGER_CALL_DURATION =
     histogram_metric_f64 CARD_VAULT_METER ''SECRET_MANAGER_CALL_DURATION''
       (timed_tokens ''secret_manager.call.duration'' ''Duration of completed secret-manager call attempts'')"
| "metric_static HTTP_SERVER_REQUEST_COUNT =
     counter_metric CARD_VAULT_METER ''HTTP_SERVER_REQUEST_COUNT''
       (named ''http.server.request.count'' ''Number of HTTP server requests received'')"
| "metric_static HTTP_SERVER_REQUEST_DURATION =
     histogram_metric_f64 CARD_VAULT_METER ''HTTP_SERVER_REQUEST_DURATION''
       (timed_tokens ''http.server.request.duration'' ''Duration of HTTP server requests'')"
| "metric_static HTTP_SERVER_ACTIVE_REQUESTS =
     up_down_counter_metric CARD_VAULT_METER ''HTTP_SERVER_ACTIVE_REQUESTS''
       (named ''http.server.active_requests'' ''Number of HTTP server requests currently in flight'')"
| "metric_static HTTP_SERVER_JWE_MIDDLEWARE_OPERATION_DURATION =
     histogram_metric_f64 CARD_VAULT_METER ''HTTP_SERVER_JWE_MIDDLEWARE_OPERATION_DURATION''
       (timed_tokens ''http.server.jwe_middleware.operation.duration'' ''Duration of JWE/JWS middleware operations'')"
| "metric_static HTTP_SERVER_RATE_LIMITED_REQUEST_COUNT =
     counter_metric CARD_VAULT_METER ''HTTP_SERVER_RATE_LIMITED_REQUEST_COUNT''
       (named ''http.server.rate_limited_request.count'' ''Number of HTTP server requests rejected by rate limiting'')"
| "metric_static HEALTH_CHECK_DURATION =
     histogram_metric_f64 CARD_VAULT_METER ''HEALTH_CHECK_DURATION''
       (timed_tokens ''health.check.duration'' ''Duration of completed health diagnostic checks'')"
| "metric_static DATABASE_QUERY_COUNT =
     counter_metric CARD_VAULT_METER ''DATABASE_QUERY_COUNT''
       (named ''database.query.count'' ''Number of database query attempts'')"
| "metric_static DATABASE_QUERY_DURATION =
     histogram_metric_f64 CARD_VAULT_METER ''DATABASE_QUERY_DURATION''
       (timed_tokens ''database.query.duration'' ''Duration of completed database queries'')"
| "metric_static DATABASE_CONNECTION_ACQUIRE_DURATION =
     histogram_metric_f64 CARD_VAULT_METER ''DATABASE_CONNECTION_ACQUIRE_DURATION''
       (timed_tokens ''database.connection.acquire.duration''
         ''Duration of database connection acquisition attempts'')"
| "metric_static DATABASE_POOL_SIZE =
     gauge_metric CARD_VAULT_METER ''DATABASE_POOL_SIZE''
       (named ''database.pool.size'' ''Total number of connections in the database pool'')"
| "metric_static DATABASE_POOL_AVAILABLE =
     gauge_metric CARD_VAULT_METER ''DATABASE_POOL_AVAILABLE''
       (named ''database.pool.available'' ''Number of available connections in the database pool'')"
| "metric_static DATABASE_POOL_WAITING =
     gauge_metric CARD_VAULT_METER ''DATABASE_POOL_WAITING''
       (named ''database.pool.waiting'' ''Number of callers waiting for a database connection'')"
| "metric_static EXTERNAL_HTTP_REQUEST_COUNT =
     counter_metric CARD_VAULT_METER ''EXTERNAL_HTTP_REQUEST_COUNT''
       (named ''external_http.request.count'' ''Number of external HTTP request attempts'')"
| "metric_static EXTERNAL_HTTP_REQUEST_DURATION =
     histogram_metric_f64 CARD_VAULT_METER ''EXTERNAL_HTTP_REQUEST_DURATION''
       (timed_tokens ''external_http.request.duration'' ''Duration of completed external HTTP requests'')"
| "metric_static CACHE_LOOKUP_COUNT =
     counter_metric CARD_VAULT_METER ''CACHE_LOOKUP_COUNT''
       (named ''cache.lookup.count'' ''Number of cache lookup attempts'')"
| "metric_static CACHE_INSERT_COUNT =
     counter_metric CARD_VAULT_METER ''CACHE_INSERT_COUNT''
       (named ''cache.insert.count'' ''Number of cache insert attempts'')"
| "metric_static CACHE_REMOVAL_COUNT =
     counter_metric CARD_VAULT_METER ''CACHE_REMOVAL_COUNT''
       (named ''cache.removal.count'' ''Number of cache removal events'')"
| "metric_static CACHE_ENTRY_COUNT =
     gauge_metric CARD_VAULT_METER ''CACHE_ENTRY_COUNT''
       (named ''cache.entry.count'' ''Current number of cache entries'')"
| "metric_static TTL_EXPIRED_DATA_ENCOUNTERED_COUNT =
     counter_metric CARD_VAULT_METER ''TTL_EXPIRED_DATA_ENCOUNTERED_COUNT''
       (named ''ttl.expired_data_encountered.count'' ''Number of requests that encountered data with expired TTL'')"
| "metric_static TTL_DELETION_COUNT =
     counter_metric CARD_VAULT_METER ''TTL_DELETION_COUNT''
       (named ''ttl.deletion.count'' ''Number of background TTL-based deletions'')"
| "metric_static DOMAIN_GET_OR_INSERT_COUNT =
     counter_metric CARD_VAULT_METER ''DOMAIN_GET_OR_INSERT_COUNT''
       (named ''domain.get_or_insert.count'' ''Number of domain get-or-insert workflow outcomes'')"
| "metric_static ENTITY_IMPLICIT_CREATE_COUNT =
     counter_metric CARD_VAULT_METER ''ENTITY_IMPLICIT_CREATE_COUNT''
       (named ''entity.implicit_create.count''
         ''Number of key-holder records auto-created during the add flow (deprecated lazy provisioning)'')"
| "metric_static RUNTIME_CONFIG_FETCH_DURATION =
     histogram_metric_f64 CARD_VAULT_METER ''RUNTIME_CONFIG_FETCH_DURATION''
       (timed_tokens ''runtime_config.fetch.duration'' ''Duration of completed runtime config fetch attempts'')"
| "metric_static KV_OPERATION_COUNT =
     counter_metric CARD_VAULT_METER ''KV_OPERATION_COUNT''
       (named ''kv.operation.count'' ''Number of KV operation attempts'')"
| "metric_static KV_OPERATION_DURATION =
     histogram_metric_f64 CARD_VAULT_METER ''KV_OPERATION_DURATION''
       (timed_tokens ''kv.operation.duration'' ''Duration of completed KV operations'')"
| "metric_static KV_DRAINER_PUSH_COUNT =
     counter_metric CARD_VAULT_METER ''KV_DRAINER_PUSH_COUNT''
       (named ''kv.drainer.push.count'' ''Number of drainer stream push attempts'')"
| "metric_static KV_DRAINER_PUSH_DURATION =
     histogram_metric_f64 CARD_VAULT_METER ''KV_DRAINER_PUSH_DURATION''
       (timed_tokens ''kv.drainer.push.duration'' ''Duration of completed drainer stream push attempts'')"
| "metric_static KV_CACHE_MISS_COUNT =
     counter_metric CARD_VAULT_METER ''KV_CACHE_MISS_COUNT''
       (named ''kv.cache_miss.count'' ''Redis cache misses that fell back to Postgres'')"

section \<open>Labels\<close>

datatype DbOperation = Insert | Update | Delete | FindOne | Filter

datatype TtlDeletionOutcome = Deleted | Failed

datatype KeyManagerKind = Internal | External

fun DbPool_label :: "DbPool \<Rightarrow> string" where
  "DbPool_label Primary = ''primary''"
| "DbPool_label Replica = ''replica''"

fun DbOperation_label :: "DbOperation \<Rightarrow> string" where
  "DbOperation_label Insert = ''insert''"
| "DbOperation_label Update = ''update''"
| "DbOperation_label Delete = ''delete''"
| "DbOperation_label FindOne = ''find_one''"
| "DbOperation_label Filter = ''filter''"

fun Resource_label :: "Resource \<Rightarrow> string" where
  "Resource_label Resource_Entity = ''entity''"
| "Resource_label Resource_Fingerprint = ''fingerprint''"
| "Resource_label Resource_HashTable = ''hash_table''"
| "Resource_label Resource_Locker = ''locker''"
| "Resource_label Resource_Merchant = ''merchant''"
| "Resource_label Resource_Vault = ''vault''"

fun DomainGetOrInsertOutcome_label :: "DomainGetOrInsertOutcome \<Rightarrow> string" where
  "DomainGetOrInsertOutcome_label FoundExisting = ''found_existing''"
| "DomainGetOrInsertOutcome_label FoundExistingAfterDuplicateInsert = ''found_existing_after_duplicate_insert''"
| "DomainGetOrInsertOutcome_label Created = ''created''"
| "DomainGetOrInsertOutcome_label Updated = ''updated''"
| "DomainGetOrInsertOutcome_label Outcome_Error = ''error''"

fun TtlDeletionOutcome_label :: "TtlDeletionOutcome \<Rightarrow> string" where
  "TtlDeletionOutcome_label Deleted = ''deleted''"
| "TtlDeletionOutcome_label Failed = ''failed''"

fun KeyManagerKind_label :: "KeyManagerKind \<Rightarrow> string" where
  "KeyManagerKind_label Internal = ''internal''"
| "KeyManagerKind_label External = ''external''"

section \<open>Measurements\<close>

datatype Measured = Added int | Lasted nat | Gauged nat

record Measurement =
  me_metric :: Metric
  me_value :: Measured
  me_attributes :: "(string \<times> string) list"

text \<open>The state of the services, and what the instruments have received.\<close>

record 'w Metered =
  services :: 'w
  measurements :: "Measurement list"

definition measure :: "Metric \<Rightarrow> Measured \<Rightarrow> (string \<times> string) list \<Rightarrow> 'w Metered \<Rightarrow> 'w Metered" where
  "measure metric value attrs w =
     w\<lparr>measurements := measurements w @ [\<lparr> me_metric = metric, me_value = value, me_attributes = attrs \<rparr>]\<rparr>"

text \<open>Run a future and pass its result and duration on; a panic unwinds past the measurement.\<close>

definition timed ::
    "('w \<Rightarrow> nat) \<Rightarrow> ('w Metered, 'a, 'e) io \<Rightarrow> (('a, 'e) result \<Rightarrow> nat \<Rightarrow> 'w Metered \<Rightarrow> 'w Metered) \<Rightarrow>
     ('w Metered, 'a, 'e) io" where
  "timed instant_now future record_result = (\<lambda>w.
     let start = instant_now (services w) in
     case future w of (res, w') \<Rightarrow>
       (case res of
          Panic \<Rightarrow> (Panic, w')
        | _ \<Rightarrow> (res, record_result res (instant_now (services w') - start) w')))"

definition outcome_label :: "('a, 'e) result \<Rightarrow> string" where
  "outcome_label res = (if is_ok res then ''success'' else ''error'')"

section \<open>The wrappers of the storage (storage.rs)\<close>

text \<open>The parts of a text around \<open>::\<close>, from the left, and as \<open>rsplit\<close> finds them from the right.\<close>

fun split_path :: "string \<Rightarrow> string list" where
  "split_path (a # b # s) =
     (if a = CHR '':'' \<and> b = CHR '':'' then [] # split_path s
      else (case split_path (b # s) of [] \<Rightarrow> [[a]] | p # ps \<Rightarrow> (a # p) # ps))"
| "split_path s = [s]"

definition rsplit_path :: "string \<Rightarrow> string list" where
  "rsplit_path s = map rev (split_path (rev s))"

definition table_name :: "string \<Rightarrow> string" where
  "table_name type_name = (case rsplit_path type_name of x # t # ts \<Rightarrow> t | _ \<Rightarrow> ''UNKNOWN'')"

definition record_db_connection_acquire_duration ::
    "('w \<Rightarrow> nat) \<Rightarrow> ('w Metered, 'a, 'e) io \<Rightarrow> DbPool \<Rightarrow> ('w Metered, 'a, 'e) io" where
  "record_db_connection_acquire_duration instant_now future pool =
     timed instant_now future (\<lambda>res d. measure DATABASE_CONNECTION_ACQUIRE_DURATION (Lasted d)
       [(''pool'', DbPool_label pool), (''outcome'', outcome_label res)])"

definition query_attributes :: "string \<Rightarrow> DbOperation \<Rightarrow> DbPool \<Rightarrow> (string \<times> string) list" where
  "query_attributes type_name operation pool =
     [(''table'', table_name type_name), (''operation'', DbOperation_label operation), (''pool'', DbPool_label pool)]"

definition record_db_query ::
    "('w \<Rightarrow> nat) \<Rightarrow> string \<Rightarrow> ('w Metered, 'a, 'e) io \<Rightarrow> DbOperation \<Rightarrow> DbPool \<Rightarrow> ('w Metered, 'a, 'e) io" where
  "record_db_query instant_now type_name future operation pool = (\<lambda>w.
     let attrs = query_attributes type_name operation pool in
     timed instant_now future
       (\<lambda>res d. measure DATABASE_QUERY_DURATION (Lasted d) (attrs @ [(''outcome'', outcome_label res)]))
       (measure DATABASE_QUERY_COUNT (Added 1) attrs w))"

definition record_db_query_optional ::
    "('w \<Rightarrow> nat) \<Rightarrow> string \<Rightarrow> ('w Metered, 'a option, 'e) io \<Rightarrow> DbOperation \<Rightarrow> DbPool \<Rightarrow>
     ('w Metered, 'a option, 'e) io" where
  "record_db_query_optional instant_now type_name future operation pool = (\<lambda>w.
     let attrs = query_attributes type_name operation pool in
     timed instant_now future
       (\<lambda>res d. measure DATABASE_QUERY_DURATION (Lasted d) (attrs @ [(''outcome'',
          case res of Ok (Some _) \<Rightarrow> ''success'' | Ok None \<Rightarrow> ''not_found'' | _ \<Rightarrow> ''error'')]))
       (measure DATABASE_QUERY_COUNT (Added 1) attrs w))"

definition record_db_query_rows ::
    "('w \<Rightarrow> nat) \<Rightarrow> string \<Rightarrow> ('w Metered, nat, 'e) io \<Rightarrow> DbOperation \<Rightarrow> DbPool \<Rightarrow> ('w Metered, nat, 'e) io" where
  "record_db_query_rows instant_now type_name future operation pool = (\<lambda>w.
     let attrs = query_attributes type_name operation pool in
     timed instant_now future
       (\<lambda>res d. measure DATABASE_QUERY_DURATION (Lasted d) (attrs @ [(''outcome'',
          case res of Ok rows \<Rightarrow> if rows = 0 then ''zero_rows'' else ''success'' | _ \<Rightarrow> ''error'')]))
       (measure DATABASE_QUERY_COUNT (Added 1) attrs w))"

text \<open>The status of a pool, whose numbers are \<open>usize\<close>.\<close>

record PoolStatus =
  ps_size :: nat
  ps_available :: nat
  ps_waiting :: nat

definition to_u64 :: "nat \<Rightarrow> nat option" where
  "to_u64 value = (if value < 2 ^ 64 then Some value else None)"

definition gauge_u64 :: "Metric \<Rightarrow> nat \<Rightarrow> (string \<times> string) list \<Rightarrow> 'w Metered \<Rightarrow> 'w Metered" where
  "gauge_u64 metric value attrs w =
     (case to_u64 value of Some v \<Rightarrow> measure metric (Gauged v) attrs w | None \<Rightarrow> w)"

definition record_pool_status :: "DbPool \<Rightarrow> string \<Rightarrow> PoolStatus \<Rightarrow> 'w Metered \<Rightarrow> 'w Metered" where
  "record_pool_status pool tenant_id status w =
     (let attrs = [(''pool'', DbPool_label pool), (''tenant_id'', tenant_id)];
          w = gauge_u64 DATABASE_POOL_SIZE (ps_size status) attrs w;
          w = gauge_u64 DATABASE_POOL_AVAILABLE (ps_available status) attrs w in
      gauge_u64 DATABASE_POOL_WAITING (ps_waiting status) attrs w)"

text \<open>\<open>primary\<close> and \<open>replica\<close> read the status of the pools.\<close>

definition collect_db_pool_state ::
    "('w \<Rightarrow> PoolStatus) \<Rightarrow> ('w \<Rightarrow> PoolStatus) option \<Rightarrow> string \<Rightarrow> 'w Metered \<Rightarrow> 'w Metered" where
  "collect_db_pool_state primary replica tenant_id w =
     (let w = record_pool_status Primary tenant_id (primary (services w)) w in
      case replica of
        Some status \<Rightarrow> record_pool_status Replica tenant_id (status (services w)) w
      | None \<Rightarrow> w)"

section \<open>The wrappers of the caches (storage/caching.rs)\<close>

datatype RemovalCause = Expired | Explicit | Replaced | Size

definition cache_eviction_listener :: "string \<Rightarrow> RemovalCause \<Rightarrow> 'w Metered \<Rightarrow> 'w Metered" where
  "cache_eviction_listener cache_name removal_cause =
     (let removal_cause_label = (case removal_cause of
            Expired \<Rightarrow> ''expired'' | Explicit \<Rightarrow> ''explicit'' | Replaced \<Rightarrow> ''replaced'' | Size \<Rightarrow> ''size'') in
      measure CACHE_REMOVAL_COUNT (Added 1) [(''cache'', cache_name), (''removal_cause'', removal_cause_label)])"

text \<open>\<open>GetCache\<close>: the name of the cache of a table.\<close>

datatype CacheTable = Merchant_table | HashTable_table | Fingerprint_table | Entity_table

fun cache_name :: "CacheTable \<Rightarrow> string" where
  "cache_name Merchant_table = ''merchant''"
| "cache_name HashTable_table = ''hash_table''"
| "cache_name Fingerprint_table = ''fingerprint''"
| "cache_name Entity_table = ''entity''"

text \<open>\<open>lookup\<close> and \<open>cache_data\<close> with their counts.\<close>

definition lookup_counted ::
    "CacheTable \<Rightarrow> ('w Metered, 'k, 'v) MokaCache \<Rightarrow> 'k \<Rightarrow> ('w Metered, 'v option, 'e) io" where
  "lookup_counted table c key =
     io_bind (lookup c key) (\<lambda>value w.
       (Ok value, measure CACHE_LOOKUP_COUNT (Added 1)
          [(''cache'', cache_name table), (''outcome'', if value \<noteq> None then ''hit'' else ''miss'')] w))"

definition cache_data_counted ::
    "CacheTable \<Rightarrow> ('w Metered, 'k, 'v) MokaCache \<Rightarrow> 'k \<Rightarrow> 'v \<Rightarrow> ('w Metered, unit, 'e) io" where
  "cache_data_counted table c key value =
     io_bind (cache_data c key value) (\<lambda>_ w.
       (Ok (), measure CACHE_INSERT_COUNT (Added 1) [(''cache'', cache_name table)] w))"

text \<open>Running the pending tasks of a cache can evict entries, and so call the listener.\<close>

record 'w CacheStats =
  run_pending_tasks :: "'w Metered \<Rightarrow> 'w Metered"
  entry_count :: "'w \<Rightarrow> nat"

record 'w CachingStats =
  merchant_stats :: "'w CacheStats"
  hash_table_stats :: "'w CacheStats"
  fingerprint_stats :: "'w CacheStats"
  entity_stats :: "'w CacheStats"

text \<open>\<open>GetCache\<close>: the cache of a table.\<close>

fun get_cache :: "'w CachingStats \<Rightarrow> CacheTable \<Rightarrow> 'w CacheStats" where
  "get_cache self Merchant_table = merchant_stats self"
| "get_cache self HashTable_table = hash_table_stats self"
| "get_cache self Fingerprint_table = fingerprint_stats self"
| "get_cache self Entity_table = entity_stats self"

definition collect_cache :: "'w CachingStats \<Rightarrow> string \<Rightarrow> CacheTable \<Rightarrow> 'w Metered \<Rightarrow> 'w Metered" where
  "collect_cache self tenant_id table w =
     (let w = run_pending_tasks (get_cache self table) w in
      measure CACHE_ENTRY_COUNT (Gauged (entry_count (get_cache self table) (services w)))
        [(''cache'', cache_name table), (''tenant_id'', tenant_id)] w)"

definition collect_cache_entry_count :: "'w CachingStats \<Rightarrow> string \<Rightarrow> 'w Metered \<Rightarrow> 'w Metered" where
  "collect_cache_entry_count self tenant_id w =
     (let w = collect_cache self tenant_id Merchant_table w;
          w = collect_cache self tenant_id HashTable_table w;
          w = collect_cache self tenant_id Fingerprint_table w in
      collect_cache self tenant_id Entity_table w)"

section \<open>The wrappers of the other modules\<close>

definition record_jwe_middleware_operation ::
    "('w \<Rightarrow> nat) \<Rightarrow> ('w Metered, 'a, 'e) io \<Rightarrow> string \<Rightarrow> ('w Metered, 'a, 'e) io" where
  "record_jwe_middleware_operation instant_now future operation =
     timed instant_now future (\<lambda>res d. measure HTTP_SERVER_JWE_MIDDLEWARE_OPERATION_DURATION (Lasted d)
       [(''operation'', operation), (''outcome'', outcome_label res)])"

definition record_secret_manager_duration ::
    "('w \<Rightarrow> nat) \<Rightarrow> ('w Metered, 'a, 'e) io \<Rightarrow> string \<Rightarrow> string \<Rightarrow> ('w Metered, 'a, 'e) io" where
  "record_secret_manager_duration instant_now future backend operation =
     timed instant_now future (\<lambda>res d. measure SECRET_MANAGER_CALL_DURATION (Lasted d)
       [(''backend'', backend), (''operation'', operation), (''outcome'', outcome_label res)])"

definition record_health_check ::
    "('w \<Rightarrow> nat) \<Rightarrow> ('w Metered, 'a, 'e) io \<Rightarrow> string \<Rightarrow> ('w Metered, 'a, 'e) io" where
  "record_health_check instant_now future check =
     timed instant_now future (\<lambda>res d. measure HEALTH_CHECK_DURATION (Lasted d)
       [(''check'', check), (''outcome'', outcome_label res)])"

text \<open>The class and the text of an answer's status; \<open>status_of\<close> is \<open>Response::status\<close>.\<close>

definition status_outcome :: "nat \<Rightarrow> string" where
  "status_outcome status =
     (if 200 \<le> status \<and> status \<le> 299 then ''success''
      else if 300 \<le> status \<and> status \<le> 399 then ''redirect''
      else if 400 \<le> status \<and> status \<le> 499 then ''client_error''
      else if 500 \<le> status \<and> status \<le> 599 then ''server_error''
      else ''unknown'')"

definition response_attributes :: "('r \<Rightarrow> nat) \<Rightarrow> ('r, 'e) result \<Rightarrow> (string \<times> string) list" where
  "response_attributes status_of res = (case res of
     Ok resp \<Rightarrow> [(''outcome'', status_outcome (status_of resp)), (''status_code'', show_nat (status_of resp))]
   | _ \<Rightarrow> [(''outcome'', ''transport_error''), (''status_code'', ''UNKNOWN'')])"

definition record_runtime_config_fetch_duration ::
    "('w \<Rightarrow> nat) \<Rightarrow> ('r \<Rightarrow> nat) \<Rightarrow> ('w Metered, 'r, 'e) io \<Rightarrow> ('w Metered, 'r, 'e) io" where
  "record_runtime_config_fetch_duration instant_now status_of send =
     timed instant_now send (\<lambda>res d. measure RUNTIME_CONFIG_FETCH_DURATION (Lasted d)
       (response_attributes status_of res))"

text \<open>The counts and the duration around the request of \<open>ApiClient::send_request\<close>.\<close>

definition record_external_request ::
    "('w \<Rightarrow> nat) \<Rightarrow> ('r \<Rightarrow> nat) \<Rightarrow> string \<Rightarrow> string \<Rightarrow> string \<Rightarrow> ('w Metered, 'r, 'e) io \<Rightarrow> ('w Metered, 'r, 'e) io" where
  "record_external_request instant_now status_of purpose mthd url_host send = (\<lambda>w.
     let attrs = [(''purpose'', purpose), (''method'', mthd), (''host'', url_host)] in
     timed instant_now send
       (\<lambda>res d. measure EXTERNAL_HTTP_REQUEST_DURATION (Lasted d) (attrs @ response_attributes status_of res))
       (measure EXTERNAL_HTTP_REQUEST_COUNT (Added 1) attrs w))"

text \<open>The operations of the KV layer count once they have returned.\<close>

definition record_kv_operation ::
    "('w \<Rightarrow> nat) \<Rightarrow> string \<Rightarrow> ('w Metered, 'a, RedisError) io \<Rightarrow> ('w Metered, 'a, RedisError) io" where
  "record_kv_operation instant_now operation future =
     timed instant_now future (\<lambda>res d w.
       let attrs = [(''operation'', operation),
             (''outcome'', case res of Ok _ \<Rightarrow> ''success'' | Err RedisError.NotFound \<Rightarrow> ''not_found'' | _ \<Rightarrow> ''error'')] in
       measure KV_OPERATION_DURATION (Lasted d) attrs (measure KV_OPERATION_COUNT (Added 1) attrs w))"

definition record_drainer_push ::
    "('w \<Rightarrow> nat) \<Rightarrow> string \<Rightarrow> string \<Rightarrow> ('w Metered, 'a, RedisError) io \<Rightarrow> ('w Metered, 'a, RedisError) io" where
  "record_drainer_push instant_now operation entity_type future =
     timed instant_now future (\<lambda>res d w.
       let attrs = [(''operation'', operation), (''entity_type'', entity_type), (''outcome'', outcome_label res)] in
       measure KV_DRAINER_PUSH_DURATION (Lasted d) attrs (measure KV_DRAINER_PUSH_COUNT (Added 1) attrs w))"

definition record_outcome_count :: "Resource \<Rightarrow> DomainGetOrInsertOutcome \<Rightarrow> 'w Metered \<Rightarrow> 'w Metered" where
  "record_outcome_count resource outcome =
     measure DOMAIN_GET_OR_INSERT_COUNT (Added 1)
       [(''resource'', Resource_label resource), (''outcome'', DomainGetOrInsertOutcome_label outcome)]"

definition record_expired_data_encountered :: "Resource \<Rightarrow> 'w Metered \<Rightarrow> 'w Metered" where
  "record_expired_data_encountered resource =
     measure TTL_EXPIRED_DATA_ENCOUNTERED_COUNT (Added 1) [(''resource'', Resource_label resource)]"

definition record_ttl_deletion_result :: "Resource \<Rightarrow> TtlDeletionOutcome \<Rightarrow> 'w Metered \<Rightarrow> 'w Metered" where
  "record_ttl_deletion_result resource outcome =
     measure TTL_DELETION_COUNT (Added 1)
       [(''resource'', Resource_label resource), (''outcome'', TtlDeletionOutcome_label outcome)]"

section \<open>The exporters (metrics.rs, observability.rs)\<close>

text \<open>What the OpenTelemetry and Prometheus crates build.\<close>

record ('x, 'd, 'p, 'g) MetricsLibs =
  otlp_exporter_build :: "string \<Rightarrow> nat \<Rightarrow> ('x, string) result"
  periodic_reader :: "'x \<Rightarrow> nat \<Rightarrow> 'd"
  registry_new :: 'g
  prometheus_exporter_build :: "'g \<Rightarrow> ('d, string) result"
  provider_build :: "'d \<Rightarrow> string \<Rightarrow> 'p"

datatype ('p, 'g) MetricsHandle =
    Disabled
  | Otlp 'p
  | Prometheus 'p 'g string nat

definition MetricsHandle_provider :: "('p, 'g) MetricsHandle \<Rightarrow> 'p option" where
  "MetricsHandle_provider self = (case self of
     MetricsHandle.Disabled \<Rightarrow> None
   | MetricsHandle.Otlp provider \<Rightarrow> Some provider
   | MetricsHandle.Prometheus provider registry h n \<Rightarrow> Some provider)"

text \<open>The handle, and the meter provider that was made the global one.\<close>

definition init_metrics ::
    "('x, 'd, 'p, 'g) MetricsLibs \<Rightarrow> string \<Rightarrow> MetricsConfig \<Rightarrow> (('p, 'g) MetricsHandle \<times> 'p option, 'e) result" where
  "init_metrics l pkg_name config = (case config of
     MetricsConfig.Disabled \<Rightarrow> Ok (MetricsHandle.Disabled, None)
   | MetricsConfig.Otlp endpoint timeout_secs export_secs background_secs \<Rightarrow>
       (case otlp_exporter_build l endpoint timeout_secs of
          Err error \<Rightarrow> Ok (MetricsHandle.Disabled, None)
        | Panic \<Rightarrow> Panic
        | Ok exporter \<Rightarrow>
            let provider = provider_build l (periodic_reader l exporter export_secs) pkg_name in
            Ok (MetricsHandle.Otlp provider, Some provider))
   | MetricsConfig.Prometheus h n background_secs \<Rightarrow>
       let registry = registry_new l in
       (case prometheus_exporter_build l registry of
          Err error \<Rightarrow> Ok (MetricsHandle.Disabled, None)
        | Panic \<Rightarrow> Panic
        | Ok exporter \<Rightarrow>
            let provider = provider_build l exporter pkg_name in
            Ok (MetricsHandle.Prometheus provider registry h n, Some provider)))"

definition default_bg_metrics_interval :: nat where "default_bg_metrics_interval = 15"

definition background_metrics_collection_interval_secs :: "MetricsConfig \<Rightarrow> nat" where
  "background_metrics_collection_interval_secs self = (case self of
     MetricsConfig.Disabled \<Rightarrow> default_bg_metrics_interval
   | MetricsConfig.Otlp endpoint timeout_secs export_secs background_secs \<Rightarrow> background_secs
   | MetricsConfig.Prometheus h n background_secs \<Rightarrow> background_secs)"

text \<open>
  The metrics server: the address it is spawned at, and the answer of its one route.  \<open>gather\<close> and \<open>encode\<close>
  are the crate's; the buffer is answered as far as it was written.
\<close>

definition start_prometheus_metrics_server ::
    "(string \<Rightarrow> 'ip option) \<Rightarrow> string \<Rightarrow> nat \<Rightarrow> ('ip \<times> nat, ConfigurationError) result" where
  "start_prometheus_metrics_server parse_ip h n = (case parse_ip h of
     Some ip \<Rightarrow> Ok (ip, n)
   | None \<Rightarrow> Err (InvalidConfigurationValueError
       (''metrics.host \"'' @ h @ ''\" is not a valid IP address'')))"

definition metrics_endpoint :: "('g \<Rightarrow> 'f) \<Rightarrow> ('f \<Rightarrow> (unit, string) result \<times> bytes) \<Rightarrow> 'g \<Rightarrow> nat \<times> string" where
  "metrics_endpoint gather encode registry =
     (let (logged, buffer) = encode (gather registry) in
      (200, case from_utf8 buffer of Some s \<Rightarrow> s | None \<Rightarrow> []))"

text \<open>The task of the metrics server: a failure to bind or to serve is only logged.\<close>

definition metrics_server_task :: "('a \<Rightarrow> ('w, 'l, string) io) \<Rightarrow> ('l \<Rightarrow> ('w, unit, string) io) \<Rightarrow> 'a \<Rightarrow> ('w, unit, 'e) io" where
  "metrics_server_task bind_to serve addr =
     io_try (bind_to addr) (\<lambda>listener. io_try (serve listener) io_ret (\<lambda>error. io_ret ())) (\<lambda>error. io_ret ())"

section \<open>The background collector (metrics.rs)\<close>

text \<open>
  \<open>tick\<close> is the wait for the next tick, in which the rest of the program runs; \<open>tenants\<close> reads the map of
  tenants under its lock.  The loop runs for a given number of ticks; the first one passes at once.
\<close>

definition collect_tenants ::
    "('w \<Rightarrow> (string \<times> 't) list) \<Rightarrow> ('t \<Rightarrow> string \<Rightarrow> 'w Metered \<Rightarrow> 'w Metered) \<Rightarrow> 'w Metered \<Rightarrow> 'w Metered" where
  "collect_tenants tenants collect w =
     fold (\<lambda>(tenant_id, tenant_state). collect tenant_state tenant_id) (tenants (services w)) w"

fun bg_metrics_loop ::
    "nat \<Rightarrow> ('w Metered \<Rightarrow> 'w Metered) \<Rightarrow> ('w \<Rightarrow> (string \<times> 't) list) \<Rightarrow> ('t \<Rightarrow> string \<Rightarrow> 'w Metered \<Rightarrow> 'w Metered) \<Rightarrow>
     'w Metered \<Rightarrow> 'w Metered" where
  "bg_metrics_loop 0 tick tenants collect w = w"
| "bg_metrics_loop (Suc n) tick tenants collect w =
     bg_metrics_loop n tick tenants collect (collect_tenants tenants collect (tick w))"

definition spawn_bg_metrics_collector ::
    "nat \<Rightarrow> ('w Metered \<Rightarrow> 'w Metered) \<Rightarrow> ('w \<Rightarrow> (string \<times> 't) list) \<Rightarrow> ('t \<Rightarrow> string \<Rightarrow> 'w Metered \<Rightarrow> 'w Metered) \<Rightarrow>
     'w Metered \<Rightarrow> 'w Metered" where
  "spawn_bg_metrics_collector n tick tenants collect w = bg_metrics_loop n tick tenants collect (tick w)"

section \<open>The instruments are declared\<close>

definition all_metrics :: "Metric list" where
  "all_metrics =
     [SECRET_MANAGER_CALL_DURATION, HTTP_SERVER_REQUEST_COUNT, HTTP_SERVER_REQUEST_DURATION,
      HTTP_SERVER_ACTIVE_REQUESTS, HTTP_SERVER_JWE_MIDDLEWARE_OPERATION_DURATION,
      HTTP_SERVER_RATE_LIMITED_REQUEST_COUNT, HEALTH_CHECK_DURATION, DATABASE_QUERY_COUNT,
      DATABASE_QUERY_DURATION, DATABASE_CONNECTION_ACQUIRE_DURATION, DATABASE_POOL_SIZE,
      DATABASE_POOL_AVAILABLE, DATABASE_POOL_WAITING, EXTERNAL_HTTP_REQUEST_COUNT,
      EXTERNAL_HTTP_REQUEST_DURATION, CACHE_LOOKUP_COUNT, CACHE_INSERT_COUNT, CACHE_REMOVAL_COUNT,
      CACHE_ENTRY_COUNT, TTL_EXPIRED_DATA_ENCOUNTERED_COUNT, TTL_DELETION_COUNT,
      DOMAIN_GET_OR_INSERT_COUNT, ENTITY_IMPLICIT_CREATE_COUNT, RUNTIME_CONFIG_FETCH_DURATION,
      KV_OPERATION_COUNT, KV_OPERATION_DURATION, KV_DRAINER_PUSH_COUNT, KV_DRAINER_PUSH_DURATION,
      KV_CACHE_MISS_COUNT]"

lemma buckets_loop_length [simp]: "length (buckets_loop n x) = n"
  by (induction n arbitrary: x) auto

lemma buckets_loop_nth: "i < n \<Longrightarrow> buckets_loop n x ! i = x * 2 ^ i"
  by (induction n arbitrary: x i) (auto simp: nth_Cons' algebra_simps power_eq_if)

lemma buckets_increase: "i < j \<Longrightarrow> j < length f64_histogram_buckets \<Longrightarrow>
    0 < f64_histogram_buckets ! i \<and> f64_histogram_buckets ! i < f64_histogram_buckets ! j"
  by (simp add: f64_histogram_buckets_def buckets_loop_nth)

lemma metric_builds:
  "metric_build (instrument_builder k m i) (named n d) =
     Some \<lparr> in_kind = k, in_meter = m, in_name = n, in_description = Some d, in_unit = None, in_boundaries = None \<rparr>"
  "histogram_build (instrument_builder k m i) (timed_tokens n d) =
     Some \<lparr> in_kind = k, in_meter = m, in_name = n, in_description = Some d, in_unit = Some ''s'',
       in_boundaries = Some f64_histogram_buckets \<rparr>"
  by (simp_all add: named_def timed_tokens_def instrument_builder_def)


lemmas statics = counter_metric_def up_down_counter_metric_def gauge_metric_def histogram_metric_f64_def
  metric_builds

text \<open>Every static of the metrics compiles to an instrument of its own: the tokens given to its macro are
  accepted, it has a description, its exported name is not that of another one, what lasts is a histogram
  in seconds whose boundaries are strictly increasing, and what is not a histogram has none.\<close>

theorem instruments_are_declared:
  "set all_metrics = UNIV
   \<and> inj metric_static
   \<and> distinct (map (\<lambda>m. map_option in_name (metric_static m)) all_metrics)
   \<and> list_all (\<lambda>m. case metric_static m of
        None \<Rightarrow> False
      | Some i \<Rightarrow> in_meter i = CARD_VAULT_METER \<and> in_description i \<noteq> None
          \<and> (if in_kind i = F64Histogram
             then in_unit i = Some ''s'' \<and> in_boundaries i = Some f64_histogram_buckets
             else in_unit i = None \<and> in_boundaries i = None)) all_metrics
   \<and> sorted_wrt (<) (0 # f64_histogram_buckets)"
proof -
  have all: "set all_metrics = UNIV"
  proof (rule UNIV_eq_I [symmetric])
    show "m \<in> set all_metrics" for m by (cases m) (simp_all add: all_metrics_def)
  qed
  have builds: "list_all (\<lambda>m. case metric_static m of
        None \<Rightarrow> False
      | Some i \<Rightarrow> in_meter i = CARD_VAULT_METER \<and> in_description i \<noteq> None
          \<and> (if in_kind i = F64Histogram
             then in_unit i = Some ''s'' \<and> in_boundaries i = Some f64_histogram_buckets
             else in_unit i = None \<and> in_boundaries i = None)) all_metrics"
    by (simp add: all_metrics_def statics)
  have distinct: "distinct (map (\<lambda>m. map_option in_name (metric_static m)) all_metrics)"
    by (simp add: all_metrics_def statics)
  have "inj_on metric_static (set all_metrics)"
    using distinct by (auto simp: distinct_map intro: inj_on_imageI2 [of "map_option in_name"] simp: comp_def)
  moreover have "sorted_wrt (<) (0 # f64_histogram_buckets)"
    by (auto simp: sorted_wrt_iff_nth_less buckets_increase nth_Cons f64_histogram_buckets_def buckets_loop_nth
        split: nat.split)
  ultimately show ?thesis using all builds distinct by simp
qed

section \<open>Metrics do not change the program\<close>

text \<open>
  \<open>erases f m\<close>: forgetting what the instruments received, \<open>f\<close> does what \<open>m\<close> does.  \<open>unmetered m\<close> is \<open>m\<close>
  with no instrument in it.
\<close>

definition erases :: "('w Metered, 'a, 'e) io \<Rightarrow> ('w, 'a, 'e) io \<Rightarrow> bool" where
  "erases f m = (\<forall>w. case f w of (r, w') \<Rightarrow> m (services w) = (r, services w'))"

definition unmetered :: "('w, 'a, 'e) io \<Rightarrow> ('w Metered, 'a, 'e) io" where
  "unmetered m = (\<lambda>w. case m (services w) of (r, s) \<Rightarrow> (r, w\<lparr>services := s\<rparr>))"

named_theorems erases_intros "what the metered form of a computation erases to"

lemma erasesD: "erases f m \<Longrightarrow> f w = (r, w') \<Longrightarrow> m (services w) = (r, services w')"
  unfolding erases_def by (drule spec [of _ w]) simp

lemma erasesI: "(\<And>w r w'. f w = (r, w') \<Longrightarrow> m (services w) = (r, services w')) \<Longrightarrow> erases f m"
  by (auto simp: erases_def)

lemma services_measure [simp]: "services (measure metric v attrs w) = services w"
  by (simp add: measure_def)

lemma erases_basic [erases_intros]:
  "erases (io_ret x) (io_ret x)" "erases (io_err e) (io_err e)" "erases (io_lift r) (io_lift r)"
  "erases (unmetered m) m"
  by (simp_all add: erases_def io_defs unmetered_def split: prod.split)

lemma erases_timed [erases_intros]:
  "erases f m \<Longrightarrow> (\<And>res d w. services (k res d w) = services w) \<Longrightarrow> erases (timed now f k) m"
  by (rule erasesI) (auto simp: timed_def Let_def dest!: erasesD split: prod.splits result.splits)

lemma erases_counted_timed [erases_intros]:
  "erases f m \<Longrightarrow> (\<And>res d w. services (k res d w) = services w) \<Longrightarrow>
     erases (\<lambda>w. timed now f k (measure metric v attrs w)) m"
  unfolding erases_def [of "\<lambda>w. timed now f k (measure metric v attrs w)"]
  by (metis erases_def erases_timed services_measure)

lemma erases_try [erases_intros]:
  assumes "erases f m" "\<And>x. erases (ok x) (ok' x)" "\<And>e. erases (err e) (err' e)"
  shows "erases (io_try f ok err) (io_try m ok' err')"
proof (rule erasesI)
  fix w r w' assume run: "io_try f ok err w = (r, w')"
  obtain r1 w1 where f: "f w = (r1, w1)" by force
  note m = erasesD [OF assms(1) f]
  show "io_try m ok' err' (services w) = (r, services w')"
    using run f m by (cases r1) (simp_all add: io_try_def erasesD [OF assms(2)] erasesD [OF assms(3)])
qed

lemma erases_bind [erases_intros]:
  "erases f m \<Longrightarrow> (\<And>x. erases (k x) (k' x)) \<Longrightarrow> erases (io_bind f k) (io_bind m k')"
  by (simp add: io_bind_as_try erases_try erases_basic)

lemma erases_map [erases_intros]:
  "erases f m \<Longrightarrow> erases (io_map h f) (io_map h m)"
  "erases f m \<Longrightarrow> erases (io_map_err g f) (io_map_err g m)"
   apply (rule erasesI, clarsimp simp: io_map_def split: prod.splits)
   apply (drule (1) erasesD, simp)
  apply (rule erasesI, clarsimp simp: io_map_err_def split: prod.splits)
  apply (drule (1) erasesD, simp)
  done

lemma erases_counted:
  assumes "erases f m" "\<And>x w. services (k x w) = services w"
  shows "erases (io_bind f (\<lambda>x w. (Ok x, k x w))) m"
proof -
  have "erases (\<lambda>w. (Ok x, k x w)) (io_ret x)" for x using assms(2) by (simp add: erases_def io_ret_def)
  then have "erases (io_bind f (\<lambda>x w. (Ok x, k x w))) (io_bind m io_ret)" by (rule erases_bind [OF assms(1)])
  then show ?thesis by simp
qed

text \<open>A cache whose operations count nothing themselves, on either state.\<close>

definition metered_cache :: "('w, 'k, 'v) MokaCache \<Rightarrow> ('w Metered, 'k, 'v) MokaCache" where
  "metered_cache c =
     \<lparr> cache_get = (\<lambda>k w. case cache_get c k (services w) of (v, s) \<Rightarrow> (v, w\<lparr>services := s\<rparr>)),
       cache_insert = (\<lambda>k v w. w\<lparr>services := cache_insert c k v (services w)\<rparr>) \<rparr>"

lemma erases_cache:
  "erases (lookup (metered_cache c) k) (lookup c k)"
  "erases (cache_data (metered_cache c) k v) (cache_data c k v)"
  by (simp_all add: erases_def lookup_def cache_data_def metered_cache_def io_of_def split: prod.split)

text \<open>C34. Instrumentation does not change what the program does: around an operation that does \<open>m\<close>, every
  wrapper that counts or times it (queries, connections, the key service, the runtime configuration, the
  secret manager, the JWE middleware, health checks, KV operations, pushes to the drainer, lookups in and
  inserts into a cache) again does \<open>m\<close>, with the same result, panics included, and the same effects.\<close>

theorem metrics_are_transparent:
  assumes m: "erases f m" and opt: "erases f_opt m_opt" and rows: "erases f_rows m_rows"
    and req: "erases f_req m_req" and kv: "erases f_kv m_kv"
  shows "erases (record_db_connection_acquire_duration now f pool) m
   \<and> erases (record_db_query now ty f operation pool) m
   \<and> erases (record_db_query_optional now ty f_opt operation pool) m_opt
   \<and> erases (record_db_query_rows now ty f_rows operation pool) m_rows
   \<and> erases (record_jwe_middleware_operation now f label) m
   \<and> erases (record_secret_manager_duration now f backend label) m
   \<and> erases (record_health_check now f label) m
   \<and> erases (record_runtime_config_fetch_duration now status_of f_req) m_req
   \<and> erases (record_external_request now status_of purpose mthd url_host f_req) m_req
   \<and> erases (record_kv_operation now label f_kv) m_kv
   \<and> erases (record_drainer_push now label entity_type f_kv) m_kv
   \<and> erases (lookup_counted table (metered_cache c) k) (lookup c k)
   \<and> erases (cache_data_counted table (metered_cache c) k v) (cache_data c k v)"
proof -
  note defs = record_db_connection_acquire_duration_def record_db_query_def record_db_query_optional_def
    record_db_query_rows_def record_jwe_middleware_operation_def record_secret_manager_duration_def
    record_health_check_def record_runtime_config_fetch_duration_def record_external_request_def
    record_kv_operation_def record_drainer_push_def Let_def
  have counted: "erases (lookup_counted table (metered_cache c) k) (lookup c k)"
    unfolding lookup_counted_def by (rule erases_counted [OF erases_cache(1)]) simp
  have stored: "erases (cache_data_counted table (metered_cache c) k v) (cache_data c k v)"
    using erases_counted [OF erases_cache(2), of "\<lambda>_. measure CACHE_INSERT_COUNT (Added 1) [(''cache'', cache_name table)]"]
    by (simp add: cache_data_counted_def)
  show ?thesis
    unfolding defs by (intro conjI counted stored erases_timed erases_counted_timed m opt rows req kv) simp_all
qed


lemma outcome_label_simps [simp]: "outcome_label (Ok x) = ''success''" "outcome_label (Err e) = ''error''"
  by (simp_all add: outcome_label_def)

text \<open>Every query is counted once before it runs, under its table, operation and pool, and timed once
  if it returns, with \<open>success\<close> or \<open>error\<close>, \<open>not_found\<close> for an optional row that is not there and
  \<open>zero_rows\<close> for a statement that changed nothing; a query that panics is counted and not timed.\<close>

theorem queries_are_measured:
  "\<forall>w. let attrs = query_attributes ty operation pool;
        count = \<lparr> me_metric = DATABASE_QUERY_COUNT, me_value = Added 1, me_attributes = attrs \<rparr>;
        duration = (\<lambda>s label. [\<lparr> me_metric = DATABASE_QUERY_DURATION,
          me_value = Lasted (now s - now (services w)), me_attributes = attrs @ [(''outcome'', label)] \<rparr>]) in
      measurements (snd (record_db_query now ty (unmetered m) operation pool w)) =
        measurements w @ [count] @ (case m (services w) of
          (Panic, s) \<Rightarrow> [] | (Ok x, s) \<Rightarrow> duration s ''success'' | (Err e, s) \<Rightarrow> duration s ''error'')
      \<and> measurements (snd (record_db_query_optional now ty (unmetered mo) operation pool w)) =
        measurements w @ [count] @ (case mo (services w) of
          (Panic, s) \<Rightarrow> [] | (Ok (Some x), s) \<Rightarrow> duration s ''success''
        | (Ok None, s) \<Rightarrow> duration s ''not_found'' | (Err e, s) \<Rightarrow> duration s ''error'')
      \<and> measurements (snd (record_db_query_rows now ty (unmetered mr) operation pool w)) =
        measurements w @ [count] @ (case mr (services w) of
          (Panic, s) \<Rightarrow> [] | (Ok rows, s) \<Rightarrow> duration s (if rows = 0 then ''zero_rows'' else ''success'')
        | (Err e, s) \<Rightarrow> duration s ''error'')"
  by (simp add: Let_def record_db_query_def record_db_query_optional_def record_db_query_rows_def timed_def
      unmetered_def measure_def split: prod.split result.split option.split)

lemma table_name_example:
  "table_name ''hyperswitch_card_vault::storage::schema::vault::table'' = ''vault''"
  "table_name ''i32'' = ''UNKNOWN''"
  by code_simp+

text \<open>A query that answers, one that finds nothing, one that changes nothing, and a KV read that misses.\<close>

theorem metrics_are_transparent_witness:
  "erases (record_db_query (\<lambda>n. n) ''a::b::c'' (unmetered (\<lambda>n. (Ok n, n + 2) :: (nat, nat) result \<times> nat)) Insert Primary)
      (\<lambda>n. (Ok n, n + 2))
   \<and> record_db_query (\<lambda>n. n) ''a::b::c'' (unmetered (\<lambda>n. (Ok n, n + 2) :: (nat, nat) result \<times> nat)) Insert Primary
        \<lparr> services = 5, measurements = [] \<rparr> =
      (Ok 5, \<lparr> services = 7, measurements =
         [\<lparr> me_metric = DATABASE_QUERY_COUNT, me_value = Added 1,
            me_attributes = [(''table'', ''b''), (''operation'', ''insert''), (''pool'', ''primary'')] \<rparr>,
          \<lparr> me_metric = DATABASE_QUERY_DURATION, me_value = Lasted 2,
            me_attributes = [(''table'', ''b''), (''operation'', ''insert''), (''pool'', ''primary''),
              (''outcome'', ''success'')] \<rparr>] \<rparr>)"
proof -
  have m: "erases (unmetered (\<lambda>n. (Ok n, n + 2) :: (nat, nat) result \<times> nat)) (\<lambda>n. (Ok n, n + 2))"
    "erases (unmetered (\<lambda>n. (Ok None, n) :: (nat option, nat) result \<times> nat)) (\<lambda>n. (Ok None, n))"
    "erases (unmetered (\<lambda>n. (Ok 0, n) :: (nat, nat) result \<times> nat)) (\<lambda>n. (Ok 0, n))"
    "erases (unmetered (\<lambda>n. (Err RedisError.NotFound, n) :: (nat, RedisError) result \<times> nat)) (\<lambda>n. (Err RedisError.NotFound, n))"
    by (rule erases_basic)+
  have b: "table_name ''a::b::c'' = ''b''" by code_simp
  have "erases (record_db_query (\<lambda>n. n) ''a::b::c'' (unmetered (\<lambda>n. (Ok n, n + 2) :: (nat, nat) result \<times> nat)) Insert Primary)
      (\<lambda>n. (Ok n, n + 2))"
    by (rule metrics_are_transparent [OF m(1) m(2) m(3) m(1) m(4), THEN conjunct2, THEN conjunct1])
  moreover have "record_db_query (\<lambda>n. n) ''a::b::c'' (unmetered (\<lambda>n. (Ok n, n + 2) :: (nat, nat) result \<times> nat)) Insert Primary
        \<lparr> services = 5, measurements = [] \<rparr> =
      (Ok 5, \<lparr> services = 7, measurements =
         [\<lparr> me_metric = DATABASE_QUERY_COUNT, me_value = Added 1,
            me_attributes = [(''table'', ''b''), (''operation'', ''insert''), (''pool'', ''primary'')] \<rparr>,
          \<lparr> me_metric = DATABASE_QUERY_DURATION, me_value = Lasted 2,
            me_attributes = [(''table'', ''b''), (''operation'', ''insert''), (''pool'', ''primary''),
              (''outcome'', ''success'')] \<rparr>] \<rparr>)"
    by (simp add: record_db_query_def timed_def unmetered_def measure_def outcome_label_def query_attributes_def b)
  ultimately show ?thesis by simp
qed

end
