(* ===== verification/HttpMetrics.thy ===== *)
theory HttpMetrics
  imports Metrics
begin

text \<open>
  The layer that counts and times HTTP requests, \<open>src/src/observability/metrics/middleware.rs\<close>, and the
  requests in flight as a step relation: requests are accepted and their futures end in any order, by
  an answer, an error of the inner service, a panic, or because the connection dropped them.
\<close>

section \<open>The service\<close>

record HttpRequest =
  rq_method :: string
  rq_matched_path :: "string option"

record ActiveRequestGuard =
  ag_method :: string
  ag_route :: string

definition request_attributes :: "ActiveRequestGuard \<Rightarrow> (string \<times> string) list" where
  "request_attributes g = [(''http.request.method'', ag_method g), (''http.route'', ag_route g)]"

definition ActiveRequestGuard_new :: "string \<Rightarrow> string \<Rightarrow> 'w Metered \<Rightarrow> ActiveRequestGuard \<times> 'w Metered" where
  "ActiveRequestGuard_new mthd route w =
     (let g = \<lparr> ag_method = mthd, ag_route = route \<rparr> in
      (g, measure HTTP_SERVER_ACTIVE_REQUESTS (Added 1) (request_attributes g) w))"

definition ActiveRequestGuard_drop :: "ActiveRequestGuard \<Rightarrow> 'w Metered \<Rightarrow> 'w Metered" where
  "ActiveRequestGuard_drop self w = measure HTTP_SERVER_ACTIVE_REQUESTS (Added (- 1)) (request_attributes self) w"

text \<open>The future that \<open>call\<close> boxes: the guard and the start it has captured, and the inner future.\<close>

record 'f MetricsFuture =
  mf_guard :: ActiveRequestGuard
  mf_start :: nat
  mf_inner :: 'f

text \<open>\<open>inner_call\<close> is \<open>self.inner.call\<close>; \<open>None\<close> is its panic, which unwinds through the guard.\<close>

definition HttpRequestMetricsService_call ::
    "('w \<Rightarrow> nat) \<Rightarrow> ('b HttpRequest_scheme \<Rightarrow> 'w Metered \<Rightarrow> 'f option \<times> 'w Metered) \<Rightarrow> 'b HttpRequest_scheme \<Rightarrow>
     'w Metered \<Rightarrow> 'f MetricsFuture option \<times> 'w Metered" where
  "HttpRequestMetricsService_call instant_now inner_call req w =
     (let start = instant_now (services w);
          mthd = rq_method req;
          route = (case rq_matched_path req of Some p \<Rightarrow> p | None \<Rightarrow> ''UNKNOWN'');
          w = measure HTTP_SERVER_REQUEST_COUNT (Added 1)
                [(''http.request.method'', mthd), (''http.route'', route)] w;
          (guard, w) = ActiveRequestGuard_new mthd route w in
      case inner_call req w of
        (None, w) \<Rightarrow> (None, ActiveRequestGuard_drop guard w)
      | (Some future, w) \<Rightarrow> (Some \<lparr> mf_guard = guard, mf_start = start, mf_inner = future \<rparr>, w))"

datatype 'r FutureEnd = Returned 'r | Failed | Panicked | Dropped

text \<open>How the boxed future ends when the inner one does: the guard is dropped last, on every path.\<close>

definition MetricsFuture_finish ::
    "('w \<Rightarrow> nat) \<Rightarrow> ('r \<Rightarrow> nat) \<Rightarrow> 'f MetricsFuture \<Rightarrow> 'r FutureEnd \<Rightarrow> 'w Metered \<Rightarrow> 'w Metered" where
  "MetricsFuture_finish instant_now status_of self ending w =
     ActiveRequestGuard_drop (mf_guard self)
       (case ending of
          Returned response \<Rightarrow>
            measure HTTP_SERVER_REQUEST_DURATION (Lasted (instant_now (services w) - mf_start self))
              (request_attributes (mf_guard self)
                @ [(''http.response.status_code'', show_nat (status_of response))]) w
        | _ \<Rightarrow> w)"

section \<open>Requests in flight\<close>

definition http_metric :: "Metric \<Rightarrow> bool" where
  "http_metric m \<longleftrightarrow>
     m = HTTP_SERVER_REQUEST_COUNT \<or> m = HTTP_SERVER_ACTIVE_REQUESTS \<or> m = HTTP_SERVER_REQUEST_DURATION"

text \<open>What runs beside the layer changes the services and adds measurements of other instruments.\<close>

definition elsewhere :: "'w Metered \<Rightarrow> 'w Metered \<Rightarrow> bool" where
  "elsewhere w w' \<longleftrightarrow>
     (\<exists>ms. measurements w' = measurements w @ ms \<and> list_all (\<lambda>m. \<not> http_metric (me_metric m)) ms)"

type_synonym ('w, 'f) http_state = "'f MetricsFuture list \<times> 'w Metered"

inductive http_step ::
    "('w \<Rightarrow> nat) \<Rightarrow> ('r \<Rightarrow> nat) \<Rightarrow> ('b HttpRequest_scheme \<Rightarrow> 'w Metered \<Rightarrow> 'f option \<times> 'w Metered) \<Rightarrow>
     ('w, 'f) http_state \<Rightarrow> ('w, 'f) http_state \<Rightarrow> bool"
  for instant_now status_of inner_call where
  accepts: "HttpRequestMetricsService_call instant_now inner_call req w = (Some f, w') \<Longrightarrow>
     http_step instant_now status_of inner_call (fs, w) (fs @ [f], w')"
| unwinds: "HttpRequestMetricsService_call instant_now inner_call req w = (None, w') \<Longrightarrow>
     http_step instant_now status_of inner_call (fs, w) (fs, w')"
| finishes: "http_step instant_now status_of inner_call
     (fs @ f # gs, w) (fs @ gs, MetricsFuture_finish instant_now status_of f ending w)"
| other: "elsewhere w w' \<Longrightarrow> http_step instant_now status_of inner_call (fs, w) (fs, w')"

inductive_cases http_stepE: "http_step now status_of inner_call (fs, w) (fs', w')"

text \<open>What an instrument has added up, and how often it has recorded, for the requests of a guard.\<close>

definition added :: "Metric \<Rightarrow> ActiveRequestGuard \<Rightarrow> Measurement list \<Rightarrow> int" where
  "added metric g ms = (\<Sum>m\<leftarrow>ms. if me_metric m = metric \<and> me_attributes m = request_attributes g
     then (case me_value m of Added n \<Rightarrow> n | _ \<Rightarrow> 0) else 0)"

definition durations :: "ActiveRequestGuard \<Rightarrow> Measurement list \<Rightarrow> int" where
  "durations g ms = (\<Sum>m\<leftarrow>ms. if me_metric m = HTTP_SERVER_REQUEST_DURATION
      \<and> take 2 (me_attributes m) = request_attributes g then 1 else 0)"

definition in_flight :: "ActiveRequestGuard \<Rightarrow> 'f MetricsFuture list \<Rightarrow> int" where
  "in_flight g fs = int (length (filter (\<lambda>f. mf_guard f = g) fs))"

definition http_balanced :: "ActiveRequestGuard \<Rightarrow> ('w, 'f) http_state \<Rightarrow> bool" where
  "http_balanced g s \<longleftrightarrow> (case s of (fs, w) \<Rightarrow>
     added HTTP_SERVER_ACTIVE_REQUESTS g (measurements w) = in_flight g fs
       \<and> in_flight g fs + durations g (measurements w) \<le> added HTTP_SERVER_REQUEST_COUNT g (measurements w))"

section \<open>The requests in flight are counted\<close>

lemma request_attributes_inj [simp]: "request_attributes g = request_attributes h \<longleftrightarrow> g = h"
  by (cases g, cases h) (simp add: request_attributes_def)

lemma measurements_measure [simp]:
  "measurements (measure metric v attrs w) =
     measurements w @ [\<lparr> me_metric = metric, me_value = v, me_attributes = attrs \<rparr>]"
  by (simp add: measure_def)

lemma sums_append [simp]:
  "added metric g (ms @ ns) = added metric g ms + added metric g ns"
  "durations g (ms @ ns) = durations g ms + durations g ns"
  "in_flight g (fs @ gs) = in_flight g fs + in_flight g gs"
  by (simp_all add: added_def durations_def in_flight_def)

lemma length_request_attributes [simp]: "length (request_attributes h) = 2"
  by (simp add: request_attributes_def)

lemma sums_Cons [simp]:
  "added metric g [] = 0" "durations g [] = 0" "in_flight g [] = 0"
  "added metric g (m # ms) = (if me_metric m = metric \<and> me_attributes m = request_attributes g
     then (case me_value m of Added n \<Rightarrow> n | _ \<Rightarrow> 0) else 0) + added metric g ms"
  "durations g (m # ms) = (if me_metric m = HTTP_SERVER_REQUEST_DURATION
      \<and> take 2 (me_attributes m) = request_attributes g then 1 else 0) + durations g ms"
  "in_flight g (f # fs) = (if mf_guard f = g then 1 else 0) + in_flight g fs"
  by (simp_all add: added_def durations_def in_flight_def)

lemma sums_other:
  assumes "list_all (\<lambda>m. \<not> http_metric (me_metric m)) ms"
  shows "added HTTP_SERVER_ACTIVE_REQUESTS g ms = 0" "added HTTP_SERVER_REQUEST_COUNT g ms = 0" "durations g ms = 0"
  using assms by (induction ms) (auto simp: added_def durations_def http_metric_def)

lemma balanced_elsewhere: "elsewhere w w' \<Longrightarrow> http_balanced g (fs, w) \<Longrightarrow> http_balanced g (fs, w')"
  by (auto simp: elsewhere_def http_balanced_def sums_other)


lemma call_keeps_balance:
  assumes call: "HttpRequestMetricsService_call now inner_call req w = (r, w')"
    and other: "\<And>req w. elsewhere w (snd (inner_call req w))"
    and bal: "http_balanced g (fs, w)"
  shows "http_balanced g (fs @ (case r of Some f \<Rightarrow> [f] | None \<Rightarrow> []), w')"
proof -
  define h where "h = \<lparr> ag_method = rq_method req,
    ag_route = (case rq_matched_path req of Some p \<Rightarrow> p | None \<Rightarrow> ''UNKNOWN'') \<rparr>"
  define w1 where "w1 = measure HTTP_SERVER_ACTIVE_REQUESTS (Added 1) (request_attributes h)
    (measure HTTP_SERVER_REQUEST_COUNT (Added 1) (request_attributes h) w)"
  obtain r2 w2 where inner: "inner_call req w1 = (r2, w2)" by force
  have call': "(r, w') = (case r2 of
      None \<Rightarrow> (None, ActiveRequestGuard_drop h w2)
    | Some future \<Rightarrow> (Some \<lparr> mf_guard = h, mf_start = now (services w), mf_inner = future \<rparr>, w2))"
    using call inner
    by (simp add: HttpRequestMetricsService_call_def ActiveRequestGuard_new_def Let_def w1_def h_def
        request_attributes_def split: option.splits)
  obtain ms where ms: "measurements w2 = measurements w1 @ ms" "list_all (\<lambda>m. \<not> http_metric (me_metric m)) ms"
    using other [of w1 req] inner by (auto simp: elsewhere_def)
  show ?thesis
    using call' bal ms(1) sums_other [OF ms(2)]
    by (cases r2) (auto simp: http_balanced_def ActiveRequestGuard_drop_def w1_def split: if_splits)
qed

lemma finish_keeps_balance:
  "http_balanced g (fs @ f # gs, w) \<Longrightarrow> http_balanced g (fs @ gs, MetricsFuture_finish now status_of f ending w)"
  by (cases ending) (auto simp: http_balanced_def MetricsFuture_finish_def ActiveRequestGuard_drop_def split: if_splits)

text \<open>C11. However requests and the rest of the program interleave, the counter of active requests of a method
  and route is at every moment the number of their requests in flight, so it returns to zero when
  they have ended, whichever way each of them ended (an answer, an error, a panic in the handler
  or before it, a dropped connection); and each request in flight or timed has been counted.\<close>

theorem active_requests_are_balanced:
  assumes start: "list_all (\<lambda>m. \<not> http_metric (me_metric m)) (measurements w0)"
    and handlers: "\<And>req w. elsewhere w (snd (inner_call req w))"
    and run: "(http_step now status_of inner_call)\<^sup>*\<^sup>* ([], w0) (fs, w)"
  shows "added HTTP_SERVER_ACTIVE_REQUESTS g (measurements w) = in_flight g fs
    \<and> in_flight g fs + durations g (measurements w) \<le> added HTTP_SERVER_REQUEST_COUNT g (measurements w)
    \<and> (fs = [] \<longrightarrow> added HTTP_SERVER_ACTIVE_REQUESTS g (measurements w) = 0)"
proof -
  have "http_balanced g (fs, w)"
    using run
  proof (induction rule: rtranclp_induct2)
    case refl
    show ?case using sums_other [OF start] by (simp add: http_balanced_def in_flight_def)
  next
    case (step fs w fs' w')
    from step.hyps(2) show ?case
    proof (rule http_stepE)
      fix req f
      assume "fs' = fs @ [f]" "HttpRequestMetricsService_call now inner_call req w = (Some f, w')"
      then show ?thesis using call_keeps_balance [OF _ handlers step.IH] by fastforce
    next
      fix req
      assume "fs' = fs" "HttpRequestMetricsService_call now inner_call req w = (None, w')"
      then show ?thesis using call_keeps_balance [OF _ handlers step.IH] by fastforce
    next
      fix fs1 f gs ending
      assume "fs = fs1 @ f # gs" "fs' = fs1 @ gs" "w' = MetricsFuture_finish now status_of f ending w"
      then show ?thesis using finish_keeps_balance step.IH by simp
    next
      assume "fs' = fs" "elsewhere w w'"
      then show ?thesis using balanced_elsewhere step.IH by simp
    qed
  qed
  then show ?thesis by (auto simp: http_balanced_def in_flight_def)
qed


text \<open>Two requests: the second ends first with an answer, the other panics; then a handler panics at once.\<close>

theorem active_requests_are_balanced_witness:
  "\<exists>w. (http_step (\<lambda>n. n) (\<lambda>r :: nat. r) (\<lambda>(req :: HttpRequest) w. (if rq_method req = ''PUT'' then None else Some (), w)))\<^sup>*\<^sup>*
       ([], \<lparr> services = 3 :: nat, measurements = [] \<rparr>) ([] :: unit MetricsFuture list, w)
     \<and> added HTTP_SERVER_ACTIVE_REQUESTS \<lparr> ag_method = ''GET'', ag_route = ''/health'' \<rparr> (measurements w) = 0
     \<and> added HTTP_SERVER_REQUEST_COUNT \<lparr> ag_method = ''GET'', ag_route = ''/health'' \<rparr> (measurements w) = 2
     \<and> durations \<lparr> ag_method = ''GET'', ag_route = ''/health'' \<rparr> (measurements w) = 1
     \<and> added HTTP_SERVER_REQUEST_COUNT \<lparr> ag_method = ''PUT'', ag_route = ''UNKNOWN'' \<rparr> (measurements w) = 1"
proof -
  let ?inner = "\<lambda>(req :: HttpRequest) (w :: nat Metered). (if rq_method req = ''PUT'' then None else Some (), w)"
  let ?call = "HttpRequestMetricsService_call (\<lambda>n. n) ?inner"
  let ?get = "\<lparr> rq_method = ''GET'', rq_matched_path = Some ''/health'' \<rparr>"
  let ?put = "\<lparr> rq_method = ''PUT'', rq_matched_path = None \<rparr>"
  let ?g = "\<lparr> ag_method = ''GET'', ag_route = ''/health'' \<rparr>"
  let ?f = "\<lparr> mf_guard = ?g, mf_start = 3, mf_inner = () \<rparr>"
  let ?step = "http_step (\<lambda>n. n) (\<lambda>r :: nat. r) ?inner"
  let ?w0 = "\<lparr> services = 3 :: nat, measurements = [] \<rparr>"
  define w1 where "w1 = snd (?call ?get ?w0)"
  define w2 where "w2 = snd (?call ?get w1)"
  define w3 where "w3 = MetricsFuture_finish (\<lambda>n. n) (\<lambda>r :: nat. r) ?f (Returned 200) w2"
  define w4 where "w4 = MetricsFuture_finish (\<lambda>n. n) (\<lambda>r :: nat. r) ?f Panicked w3"
  define w5 where "w5 = snd (?call ?put w4)"
  note defs = HttpRequestMetricsService_call_def ActiveRequestGuard_new_def ActiveRequestGuard_drop_def
    MetricsFuture_finish_def Let_def request_attributes_def
  have calls: "?call ?get ?w0 = (Some ?f, w1)" "?call ?get w1 = (Some ?f, w2)" "?call ?put w4 = (None, w5)"
    by (simp_all add: w1_def w2_def w5_def defs)
  let ?u = "\<lparr> ag_method = ''PUT'', ag_route = ''UNKNOWN'' \<rparr>"
  let ?add = "\<lambda>m n g. \<lparr> me_metric = m, me_value = Added n, me_attributes = request_attributes g \<rparr>"
  let ?c = "?add HTTP_SERVER_REQUEST_COUNT 1" let ?a = "?add HTTP_SERVER_ACTIVE_REQUESTS"
  have m1: "w1 = \<lparr> services = 3, measurements = [?c ?g, ?a 1 ?g] \<rparr>" by (simp add: w1_def defs measure_def)
  have m2: "w2 = \<lparr> services = 3, measurements = [?c ?g, ?a 1 ?g, ?c ?g, ?a 1 ?g] \<rparr>"
    by (simp add: w2_def m1 defs measure_def)
  have m3: "measurements w3 = measurements w2 @ [\<lparr> me_metric = HTTP_SERVER_REQUEST_DURATION, me_value = Lasted 0,
      me_attributes = request_attributes ?g @ [(''http.response.status_code'', show_nat 200)] \<rparr>, ?a (- 1) ?g]"
    by (simp add: w3_def m2 defs)
  have m4: "measurements w4 = measurements w3 @ [?a (- 1) ?g]" by (simp add: w4_def defs)
  have m5: "measurements w5 = measurements w4 @ [?c ?u, ?a 1 ?u, ?a (- 1) ?u]" by (simp add: w5_def defs)
  have s1: "?step ([], ?w0) ([?f], w1)" using http_step.accepts [OF calls(1), of _ "[]"] by simp
  have s2: "?step ([?f], w1) ([?f, ?f], w2)" using http_step.accepts [OF calls(2), of _ "[?f]"] by simp
  have s3: "?step ([?f, ?f], w2) ([?f], w3)"
    using http_step.finishes [of "\<lambda>n. n" "\<lambda>r :: nat. r" ?inner "[?f]" ?f "[]"] by (simp add: w3_def)
  have s4: "?step ([?f], w3) ([], w4)"
    using http_step.finishes [of "\<lambda>n. n" "\<lambda>r :: nat. r" ?inner "[]" ?f "[]"] by (simp add: w4_def)
  have s5: "?step ([], w4) ([], w5)" by (rule http_step.unwinds [OF calls(3)])
  have run: "?step\<^sup>*\<^sup>* ([], ?w0) ([], w5)"
    by (rule converse_rtranclp_into_rtranclp [OF s1 converse_rtranclp_into_rtranclp [OF s2
          converse_rtranclp_into_rtranclp [OF s3 converse_rtranclp_into_rtranclp [OF s4 r_into_rtranclp [of ?step, OF s5]]]]])
  have "added HTTP_SERVER_ACTIVE_REQUESTS ?g (measurements w5) = 0"
    using active_requests_are_balanced [OF _ _ run] by (simp add: elsewhere_def)
  moreover have "added HTTP_SERVER_REQUEST_COUNT ?g (measurements w5) = 2" unfolding m5 m4 m3 by (simp add: m2)
  moreover have "durations ?g (measurements w5) = 1" unfolding m5 m4 m3 by (simp add: m2)
  moreover have "added HTTP_SERVER_REQUEST_COUNT ?u (measurements w5) = 1" unfolding m5 m4 m3 by (simp add: m2)
  ultimately show ?thesis by (intro exI [of _ w5] conjI run)
qed

end
