(* ===== verification/Router.thy ===== *)
theory Router
  imports Tenant HttpMetrics
begin

text \<open>
  The server: the table of routes that \<open>server_builder\<close> (\<open>src/src/app.rs\<close>) puts together from the
  \<open>serve\<close> functions of \<open>routes/data.rs\<close>, \<open>routes/key_custodian.rs\<close> and
  \<open>routes/health.rs\<close>, with the layers around them, and the fields of a request that the trace
  records (\<open>src/src/utils.rs\<close>).  axum's router is a parameter, its documented behaviour the
  hypothesis \<open>axum_ok\<close>.
\<close>

section \<open>axum's router\<close>

datatype RouteMethod = M_GET | M_HEAD | M_POST | OTHER string

datatype Handler =
    H_add_card | H_retrieve_card | H_delete_card | H_get_or_insert_fingerprint
  | H_add_data | H_retrieve_data | H_delete_data | H_create_entity
  | H_transfer_keys | H_key1 | H_key2 | H_decrypt | H_health | H_diagnostics

text \<open>The layers, outermost first: each wraps the ones after it.\<close>

datatype Layer =
    L_rate_limit (buffer: nat) (request_count: nat) (duration: nat)
  | L_middleware | L_http_metrics | L_trace | L_request_id | L_default_headers

type_synonym endpoint = "RouteMethod \<times> Layer list \<times> Handler"

record 'r Axum =
  router_new :: 'r
  router_route :: "string \<Rightarrow> endpoint \<Rightarrow> 'r \<Rightarrow> 'r"
  router_nest :: "string \<Rightarrow> 'r \<Rightarrow> 'r \<Rightarrow> 'r"
  router_layer :: "Layer \<Rightarrow> 'r \<Rightarrow> 'r"
  router_find :: "'r \<Rightarrow> RouteMethod \<Rightarrow> string \<Rightarrow> (Layer list \<times> Handler) option"

text \<open>The path that a router nested under a prefix sees: its root is the prefix itself.\<close>

definition nested_path :: "string \<Rightarrow> string \<Rightarrow> string option" where
  "nested_path prefix p =
     (if p = prefix then Some ''/''
      else if is_prefix (prefix @ ''/'') p \<and> p \<noteq> prefix @ ''/'' then Some (drop (length prefix) p)
      else None)"

text \<open>The methods a route answers: a \<open>get\<close> route also answers HEAD.\<close>

definition method_answers :: "RouteMethod \<Rightarrow> RouteMethod \<Rightarrow> bool" where
  "method_answers m' m \<longleftrightarrow> m = m' \<or> m' = M_GET \<and> m = M_HEAD"

lemma method_answers_simps [simp]:
  "method_answers M_POST m \<longleftrightarrow> m = M_POST"
  "method_answers M_GET m \<longleftrightarrow> m = M_GET \<or> m = M_HEAD"
  by (auto simp: method_answers_def)

text \<open>
  A route answers its path, a nested router everything under its prefix (neither may overlap with what
  is in the router already), and a layer wraps the routes that are in the router when it is added.
\<close>

definition axum_ok :: "'r Axum \<Rightarrow> bool" where
  "axum_ok a \<longleftrightarrow>
     (\<forall>m p. router_find a (router_new a) m p = None)
     \<and> (\<forall>q m' ls h r m p. (\<forall>m. router_find a r m q = None) \<longrightarrow>
          router_find a (router_route a q (m', ls, h) r) m p =
          (if p = q then if method_answers m' m then Some (ls, h) else None else router_find a r m p))
     \<and> (\<forall>prefix nested r m p. (\<forall>m p. nested_path prefix p \<noteq> None \<longrightarrow> router_find a r m p = None) \<longrightarrow>
          router_find a (router_nest a prefix nested r) m p =
          (case nested_path prefix p of Some q \<Rightarrow> router_find a nested m q | None \<Rightarrow> router_find a r m p))
     \<and> (\<forall>l r m p. router_find a (router_layer a l r) m p =
          map_option (\<lambda>(ls, h). (l # ls, h)) (router_find a r m p))"

section \<open>The routers of the components\<close>

definition BUFFER_LIMIT :: nat where "BUFFER_LIMIT = 1024"

definition post :: "Handler \<Rightarrow> endpoint" where "post h = (M_POST, [], h)"

definition get_route :: "Handler \<Rightarrow> endpoint" where "get_route h = (M_GET, [], h)"

definition endpoint_layer :: "endpoint \<Rightarrow> Layer \<Rightarrow> endpoint" where
  "endpoint_layer e l = (case e of (m, ls, h) \<Rightarrow> (m, l # ls, h))"

definition data_serve :: "'r Axum \<Rightarrow> 'redis GlobalConfig \<Rightarrow> 'r" where
  "data_serve a config =
     (let ratelimit_middleware = L_rate_limit
          (case buffer_size (limit config) of Some n \<Rightarrow> n | None \<Rightarrow> BUFFER_LIMIT)
          (Limit.request_count (limit config)) (Limit.duration (limit config));
        delete_route = endpoint_layer (post H_delete_card) ratelimit_middleware in
      router_route a ''/fingerprint'' (post H_get_or_insert_fingerprint)
        (router_route a ''/retrieve'' (post H_retrieve_card)
          (router_route a ''/add'' (post H_add_card)
            (router_route a ''/delete'' delete_route (router_new a)))))"

definition ratelimit_err_handler :: "nat \<times> string" where
  "ratelimit_err_handler = (429, ''Rate Limit Applied'')"

definition custodian_serve :: "'r Axum \<Rightarrow> 'r" where
  "custodian_serve a =
     router_route a ''/decrypt'' (post H_decrypt)
       (router_route a ''/key2'' (post H_key2) (router_route a ''/key1'' (post H_key1) (router_new a)))"

definition health_serve :: "'r Axum \<Rightarrow> 'r" where
  "health_serve a =
     router_route a ''/diagnostics'' (get_route H_diagnostics)
       (router_route a ''/'' (get_route H_health) (router_new a))"

section \<open>The server (app.rs)\<close>

definition server_router :: "'r Axum \<Rightarrow> 'redis GlobalConfig \<Rightarrow> bool \<Rightarrow> 'r" where
  "server_router a config metrics_enabled =
     (let router = router_nest a ''/cards'' (data_serve a config)
          (router_nest a ''/data'' (data_serve a config) (router_new a));
        v2 = router_route a ''/fingerprint'' (post H_get_or_insert_fingerprint)
          (router_route a ''/retrieve'' (post H_retrieve_data)
            (router_route a ''/add'' (post H_add_data)
              (router_route a ''/delete'' (post H_delete_data) (router_new a))));
        router = router_route a ''/entity'' (post H_create_entity) (router_nest a ''/api/v2/vault'' v2 router);
        router = router_layer a L_middleware router;
        router = (if is_external (external_key_manager config)
          then router_route a ''/key/transfer'' (post H_transfer_keys) router else router);
        router = router_nest a ''/custodian'' (custodian_serve a) router;
        router = router_nest a ''/health'' (health_serve a) router;
        router = (if metrics_enabled then router_layer a L_http_metrics router else router);
        router = router_layer a L_trace router;
        router = router_layer a L_request_id router in
      router_layer a L_default_headers router)"

text \<open>
  The end of \<open>server_builder\<close>: the socket is bound and the router served, over TLS when the
  configuration has a certificate.  The calls of the runtime are parameters; serving goes on until a
  signal ends it.
\<close>

datatype Listener = TlsListener string nat string string | TcpListener string nat

record ServerEnv =
  parse_ip :: "string \<Rightarrow> (unit, string) result"
  tcp_bind :: "string \<Rightarrow> nat \<Rightarrow> (unit, string) result"
  from_pem_file :: "string \<Rightarrow> string \<Rightarrow> (unit, string) result"
  server_run :: "Listener \<Rightarrow> (unit, string) result"

definition server_listen :: "ServerEnv \<Rightarrow> 'redis GlobalConfig \<Rightarrow> (Listener, ConfigurationError) result" where
  "server_listen env config =
     (let h = host (server config); n = port (server config) in
      res_map_err IOError
        (case tls config of
           Some tls_config \<Rightarrow>
             res_bind (tcp_bind env h n) (\<lambda>_.
             res_bind (from_pem_file env (certificate tls_config) (private_key tls_config)) (\<lambda>_.
             let l = TlsListener h n (certificate tls_config) (private_key tls_config) in
             res_map (\<lambda>_. l) (server_run env l)))
         | None \<Rightarrow>
             res_bind (tcp_bind env h n) (\<lambda>_.
             res_map (\<lambda>_. TcpListener h n) (server_run env (TcpListener h n)))))"

text \<open>
  \<open>server_builder\<close> with its early returns: the address, the metrics server of Prometheus, the
  listener.  The value is what was served, and with it what was spawned for the metrics: the address of
  their server and the interval of the background collector.
\<close>

record 'r Served =
  sv_listener :: Listener
  sv_router :: 'r
  sv_metrics_server :: "(string \<times> nat) option"
  sv_collector_interval :: "nat option"

definition ip_of :: "ServerEnv \<Rightarrow> string \<Rightarrow> string option" where
  "ip_of env h = (if is_ok (parse_ip env h) then Some h else None)"

definition server_builder ::
    "ServerEnv \<Rightarrow> 'r Axum \<Rightarrow> 'redis GlobalConfig \<Rightarrow> ('p, 'g) MetricsHandle \<Rightarrow> ('r Served, ConfigurationError) result" where
  "server_builder env a config metrics_handle =
     res_bind (res_map_err AddressError (parse_ip env (host (server config)))) (\<lambda>_.
     let metrics_enabled = MetricsHandle_provider metrics_handle \<noteq> None;
         router = server_router a config metrics_enabled in
     res_bind (case metrics_handle of
         MetricsHandle.Prometheus provider registry h n \<Rightarrow>
           res_map Some (start_prometheus_metrics_server (ip_of env) h n)
       | _ \<Rightarrow> Ok None) (\<lambda>metrics_server.
     let interval = (if metrics_enabled
           then Some (background_metrics_collection_interval_secs (metrics config)) else None) in
     res_map (\<lambda>l. \<lparr> sv_listener = l, sv_router = router, sv_metrics_server = metrics_server,
         sv_collector_interval = interval \<rparr>) (server_listen env config)))"

section \<open>The trace of a request (utils.rs)\<close>

record Span =
  span_method :: string
  span_uri :: string
  span_tenant_id :: "string option"
  span_request_id :: "string option"

definition X_REQUEST_ID :: string where "X_REQUEST_ID = ''x-request-id''"

definition record_fields_from_header :: "string \<Rightarrow> string \<Rightarrow> headers \<Rightarrow> Span" where
  "record_fields_from_header m uri hs =
     \<lparr> span_method = m, span_uri = uri, span_tenant_id = header_text hs X_TENANT_ID,
       span_request_id = header_text hs X_REQUEST_ID \<rparr>"

section \<open>The table of routes\<close>

lemma is_prefix_iff: "is_prefix p s \<longleftrightarrow> (\<exists>t. s = p @ t)"
  unfolding is_prefix_def by (metis append_eq_conv_conj append_take_drop_id)

lemma nested_path_Some:
  "nested_path prefix p = Some q \<longleftrightarrow>
     (p = prefix \<and> q = ''/'') \<or> (p = prefix @ q \<and> q \<noteq> ''/'' \<and> (\<exists>t. q = CHR ''/'' # t))"
proof (cases "p = prefix")
  case False
  show ?thesis
  proof (cases "is_prefix (prefix @ ''/'') p \<and> p \<noteq> prefix @ ''/''")
    case True
    then obtain t where "p = prefix @ CHR ''/'' # t" "t \<noteq> []" by (auto simp: is_prefix_iff)
    then show ?thesis by (auto simp: nested_path_def is_prefix_iff)
  next
    case outside: False
    then have "p \<noteq> prefix @ q \<or> q = ''/'' \<or> (\<forall>t. q \<noteq> CHR ''/'' # t)" by (auto simp: is_prefix_iff)
    moreover have "nested_path prefix p = None" unfolding nested_path_def using False outside by simp
    ultimately show ?thesis using False by auto
  qed
qed (auto simp: nested_path_def)

text \<open>The routes of the running server, each with the layers that are its own.\<close>

definition route_table :: "'redis GlobalConfig \<Rightarrow> ((string \<times> RouteMethod) \<times> (Layer list \<times> Handler)) list" where
  "route_table config =
     (let limited = [L_middleware, L_rate_limit (case buffer_size (limit config) of Some n \<Rightarrow> n | None \<Rightarrow> BUFFER_LIMIT)
          (Limit.request_count (limit config)) (Limit.duration (limit config))];
        jwe = [L_middleware] in
      [((''/data/add'', M_POST), (jwe, H_add_card)), ((''/cards/add'', M_POST), (jwe, H_add_card)),
       ((''/data/retrieve'', M_POST), (jwe, H_retrieve_card)), ((''/cards/retrieve'', M_POST), (jwe, H_retrieve_card)),
       ((''/data/delete'', M_POST), (limited, H_delete_card)), ((''/cards/delete'', M_POST), (limited, H_delete_card)),
       ((''/data/fingerprint'', M_POST), (jwe, H_get_or_insert_fingerprint)),
       ((''/cards/fingerprint'', M_POST), (jwe, H_get_or_insert_fingerprint)),
       ((''/api/v2/vault/fingerprint'', M_POST), (jwe, H_get_or_insert_fingerprint)),
       ((''/api/v2/vault/add'', M_POST), (jwe, H_add_data)),
       ((''/api/v2/vault/retrieve'', M_POST), (jwe, H_retrieve_data)),
       ((''/api/v2/vault/delete'', M_POST), (jwe, H_delete_data)),
       ((''/entity'', M_POST), (jwe, H_create_entity)),
       ((''/custodian/key1'', M_POST), ([], H_key1)), ((''/custodian/key2'', M_POST), ([], H_key2)),
       ((''/custodian/decrypt'', M_POST), ([], H_decrypt)),
       ((''/health'', M_GET), ([], H_health)), ((''/health/diagnostics'', M_GET), ([], H_diagnostics)),
       ((''/health'', M_HEAD), ([], H_health)), ((''/health/diagnostics'', M_HEAD), ([], H_diagnostics))]
      @ (if is_external (external_key_manager config)
         then [((''/key/transfer'', M_POST), ([], H_transfer_keys))] else []))"

definition outer_layers :: "bool \<Rightarrow> Layer list" where
  "outer_layers metrics_enabled =
     [L_default_headers, L_request_id, L_trace] @ (if metrics_enabled then [L_http_metrics] else [])"

lemma axum_laws:
  assumes "axum_ok a"
  shows "router_find a (router_new a) m p = None"
    and "(\<And>m. router_find a r m q = None) \<Longrightarrow> router_find a (router_route a q (m', ls, h) r) m p =
      (if p = q then if method_answers m' m then Some (ls, h) else None else router_find a r m p)"
    and "(\<And>m p. nested_path prefix p \<noteq> None \<Longrightarrow> router_find a r m p = None) \<Longrightarrow>
      router_find a (router_nest a prefix nested r) m p =
      (case nested_path prefix p of Some q \<Rightarrow> router_find a nested m q | None \<Rightarrow> router_find a r m p)"
    and "router_find a (router_layer a l r) m p = map_option (\<lambda>(ls, h). (l # ls, h)) (router_find a r m p)"
  using assms unfolding axum_ok_def by blast+

lemma data_serve_find:
  assumes "axum_ok a"
  shows "router_find a (data_serve a config) m p = map_of
     [((''/fingerprint'', M_POST), ([], H_get_or_insert_fingerprint)), ((''/retrieve'', M_POST), ([], H_retrieve_card)),
      ((''/add'', M_POST), ([], H_add_card)),
      ((''/delete'', M_POST), ([L_rate_limit (case buffer_size (limit config) of Some n \<Rightarrow> n | None \<Rightarrow> BUFFER_LIMIT)
          (Limit.request_count (limit config)) (Limit.duration (limit config))], H_delete_card))] (p, m)"
  by (simp add: data_serve_def Let_def post_def endpoint_layer_def axum_laws [OF assms])

lemma nested_path_disjoint:
  assumes "\<And>t u. prefix @ t \<noteq> prefix' @ u" "nested_path prefix p \<noteq> None"
  shows "nested_path prefix' p = None"
proof (rule ccontr)
  assume "nested_path prefix' p \<noteq> None"
  then obtain q q' where "nested_path prefix' p = Some q" "nested_path prefix p = Some q'" using assms(2) by blast
  then obtain t u where "p = prefix' @ u" "p = prefix @ t"
    unfolding nested_path_Some by (metis append_Nil2)
  with assms(1) show False by metis
qed

lemma nested_path_root: "(\<And>t. q \<noteq> prefix @ t) \<Longrightarrow> nested_path prefix q = None"
  by (metis append_Nil2 nested_path_Some option.exhaust)

lemma v2_find:
  assumes "axum_ok a"
  shows "router_find a (router_route a ''/fingerprint'' (post H_get_or_insert_fingerprint)
      (router_route a ''/retrieve'' (post H_retrieve_data) (router_route a ''/add'' (post H_add_data)
        (router_route a ''/delete'' (post H_delete_data) (router_new a))))) m p
    = map_of [((''/fingerprint'', M_POST), ([], H_get_or_insert_fingerprint)), ((''/retrieve'', M_POST), ([], H_retrieve_data)),
        ((''/add'', M_POST), ([], H_add_data)), ((''/delete'', M_POST), ([], H_delete_data))] (p, m)"
  by (simp add: post_def axum_laws [OF assms])

lemma custodian_serve_find:
  assumes "axum_ok a"
  shows "router_find a (custodian_serve a) m p = map_of [((''/key1'', M_POST), ([], H_key1)),
    ((''/key2'', M_POST), ([], H_key2)), ((''/decrypt'', M_POST), ([], H_decrypt))] (p, m)"
  by (simp add: custodian_serve_def post_def axum_laws [OF assms])

lemma health_serve_find:
  assumes "axum_ok a"
  shows "router_find a (health_serve a) m p = map_of [((''/'', M_GET), ([], H_health)),
    ((''/diagnostics'', M_GET), ([], H_diagnostics)), ((''/'', M_HEAD), ([], H_health)),
    ((''/diagnostics'', M_HEAD), ([], H_diagnostics))] (p, m)"
  by (simp add: health_serve_def get_route_def axum_laws [OF assms])

text \<open>The whole router, by the first prefix that the path has.\<close>

lemma server_router_find:
  assumes ok: "axum_ok a"
  shows "router_find a (server_router a config metrics_enabled) m p =
    map_option (\<lambda>(ls, h). (outer_layers metrics_enabled @ ls, h))
      (case nested_path ''/health'' p of Some q \<Rightarrow> router_find a (health_serve a) m q
       | None \<Rightarrow> (case nested_path ''/custodian'' p of Some q \<Rightarrow> router_find a (custodian_serve a) m q
       | None \<Rightarrow> (if is_external (external_key_manager config) \<and> p = ''/key/transfer''
            then if m = M_POST then Some ([], H_transfer_keys) else None
       else map_option (\<lambda>(ls, h). (L_middleware # ls, h))
        (if p = ''/entity'' then if m = M_POST then Some ([], H_create_entity) else None
         else case nested_path ''/api/v2/vault'' p of
           Some q \<Rightarrow> map_of [((''/fingerprint'', M_POST), ([], H_get_or_insert_fingerprint)), ((''/retrieve'', M_POST), ([], H_retrieve_data)),
             ((''/add'', M_POST), ([], H_add_data)), ((''/delete'', M_POST), ([], H_delete_data))] (q, m)
         | None \<Rightarrow> (case nested_path ''/cards'' p of Some q \<Rightarrow> router_find a (data_serve a config) m q
           | None \<Rightarrow> (case nested_path ''/data'' p of Some q \<Rightarrow> router_find a (data_serve a config) m q
             | None \<Rightarrow> None))))))"
proof -
  have post_law: "router_find a (router_route a q (post h) r) m p =
      (if p = q then if m = M_POST then Some ([], h) else None else router_find a r m p)"
    if "\<And>m. router_find a r m q = None" for q h r m p
    using axum_laws(2) [OF ok that] by (simp add: post_def)
  note laws = axum_laws [OF ok] and none = nested_path_disjoint nested_path_root
  let ?D = "data_serve a config"
  let ?r1 = "router_nest a ''/data'' ?D (router_new a)"
  let ?r2 = "router_nest a ''/cards'' ?D ?r1"
  let ?v2 = "router_route a ''/fingerprint'' (post H_get_or_insert_fingerprint)
      (router_route a ''/retrieve'' (post H_retrieve_data) (router_route a ''/add'' (post H_add_data)
        (router_route a ''/delete'' (post H_delete_data) (router_new a))))"
  let ?r3 = "router_nest a ''/api/v2/vault'' ?v2 ?r2"
  let ?r4 = "router_route a ''/entity'' (post H_create_entity) ?r3"
  let ?r5 = "router_layer a L_middleware ?r4"
  let ?r6 = "if is_external (external_key_manager config)
    then router_route a ''/key/transfer'' (post H_transfer_keys) ?r5 else ?r5"
  let ?r7 = "router_nest a ''/custodian'' (custodian_serve a) ?r6"
  have r1: "router_find a ?r1 m p = (case nested_path ''/data'' p of Some q \<Rightarrow> router_find a ?D m q | None \<Rightarrow> None)" for m p
    by (simp add: laws split: option.split)
  have r2: "router_find a ?r2 m p = (case nested_path ''/cards'' p of Some q \<Rightarrow> router_find a ?D m q
      | None \<Rightarrow> router_find a ?r1 m p)" for m p
    by (rule laws(3)) (simp add: r1 none(1) [of "''/cards''"])
  have r3: "router_find a ?r3 m p = (case nested_path ''/api/v2/vault'' p of Some q \<Rightarrow> router_find a ?v2 m q
      | None \<Rightarrow> router_find a ?r2 m p)" for m p
    by (rule laws(3)) (simp add: r1 r2 none(1) [of "''/api/v2/vault''"])
  have r4: "router_find a ?r4 m p = (if p = ''/entity'' then if m = M_POST then Some ([], H_create_entity) else None
      else router_find a ?r3 m p)" for m p
    by (rule post_law) (simp add: r1 r2 r3 none(2))
  have r5: "router_find a ?r5 m p = map_option (\<lambda>(ls, h). (L_middleware # ls, h)) (router_find a ?r4 m p)" for m p
    by (rule laws(4))
  have r6: "router_find a ?r6 m p = (if is_external (external_key_manager config) \<and> p = ''/key/transfer''
      then if m = M_POST then Some ([], H_transfer_keys) else None else router_find a ?r5 m p)" for m p
  proof (cases "is_external (external_key_manager config)")
    case True
    have "router_find a (router_route a ''/key/transfer'' (post H_transfer_keys) ?r5) m p =
        (if p = ''/key/transfer'' then if m = M_POST then Some ([], H_transfer_keys) else None else router_find a ?r5 m p)"
      by (rule post_law) (simp add: r1 r2 r3 r4 r5 none(2))
    with True show ?thesis by simp
  qed simp
  have r7: "router_find a ?r7 m p = (case nested_path ''/custodian'' p of Some q \<Rightarrow> router_find a (custodian_serve a) m q
      | None \<Rightarrow> router_find a ?r6 m p)" for m p
  proof (rule laws(3))
    fix m p assume under: "nested_path ''/custodian'' p \<noteq> None"
    then have "p \<noteq> ''/key/transfer''" "p \<noteq> ''/entity''" by (auto simp: none(2))
    with under show "router_find a ?r6 m p = None"
      unfolding r6 r5 r4 r3 r2 r1 by (simp add: none(1) [of "''/custodian''"])
  qed
  have r8: "router_find a (router_nest a ''/health'' (health_serve a) ?r7) m p =
      (case nested_path ''/health'' p of Some q \<Rightarrow> router_find a (health_serve a) m q | None \<Rightarrow> router_find a ?r7 m p)" for m p
  proof (rule laws(3))
    fix m p assume under: "nested_path ''/health'' p \<noteq> None"
    then have "p \<noteq> ''/key/transfer''" "p \<noteq> ''/entity''" by (auto simp: none(2))
    with under show "router_find a ?r7 m p = None"
      unfolding r7 r6 r5 r4 r3 r2 r1 by (simp add: none(1) [of "''/health''"])
  qed
  have "router_find a (server_router a config metrics_enabled) m p = map_option (\<lambda>(ls, h). (outer_layers metrics_enabled @ ls, h))
      (router_find a (router_nest a ''/health'' (health_serve a) ?r7) m p)"
    unfolding server_router_def Let_def outer_layers_def
    by (cases metrics_enabled) (simp_all add: laws(4) option.map_comp comp_def case_prod_unfold)
  then show ?thesis unfolding r8 r7 r6 r5 r4 r3 r2 r1 v2_find [OF ok] .
qed

lemma under_prefix:
  assumes "nested_path prefix p = Some q"
  obtains (root) "p = prefix" "q = ''/''" | (below) t where "p = prefix @ CHR ''/'' # t" "q = CHR ''/'' # t" "t \<noteq> []"
  using assms by (auto simp: nested_path_Some)

lemma nested_eval:
  "nested_path prefix prefix = Some ''/''"
  "t \<noteq> [] \<Longrightarrow> nested_path prefix (prefix @ CHR ''/'' # t) = Some (CHR ''/'' # t)"
  by (simp_all add: nested_path_Some)

lemma health_routes:
  assumes "axum_ok a" "nested_path ''/health'' p = Some q"
  shows "router_find a (health_serve a) m q = map_of (route_table config) (p, m)"
  using assms(2)
  by (cases rule: under_prefix) (simp_all add: health_serve_find [OF assms(1)] route_table_def Let_def)

lemma custodian_routes:
  assumes "axum_ok a" "nested_path ''/custodian'' p = Some q"
  shows "router_find a (custodian_serve a) m q = map_of (route_table config) (p, m)"
  using assms(2)
  by (cases rule: under_prefix) (simp_all add: custodian_serve_find [OF assms(1)] route_table_def Let_def)

lemma v2_routes:
  assumes "nested_path ''/api/v2/vault'' p = Some q"
  shows "map_option (\<lambda>(ls, h). (L_middleware # ls, h))
    (map_of [((''/fingerprint'', M_POST), ([], H_get_or_insert_fingerprint)), ((''/retrieve'', M_POST), ([], H_retrieve_data)),
       ((''/add'', M_POST), ([], H_add_data)), ((''/delete'', M_POST), ([], H_delete_data))] (q, m))
    = map_of (route_table config) (p, m)"
  using assms by (cases rule: under_prefix) (simp_all add: route_table_def Let_def)

lemma data_routes:
  assumes "axum_ok a" "nested_path prefix p = Some q" "prefix = ''/data'' \<or> prefix = ''/cards''"
  shows "map_option (\<lambda>(ls, h). (L_middleware # ls, h)) (router_find a (data_serve a config) m q)
    = map_of (route_table config) (p, m)"
proof -
  from assms(3) consider "prefix = ''/data''" | "prefix = ''/cards''" by blast
  then show ?thesis
  proof cases
    case 1
    from assms(2) show ?thesis unfolding 1
      by (cases rule: under_prefix) (simp_all add: data_serve_find [OF assms(1)] route_table_def Let_def)
  next
    case 2
    from assms(2) show ?thesis unfolding 2
      by (cases rule: under_prefix) (simp_all add: data_serve_find [OF assms(1)] route_table_def Let_def)
  qed
qed

lemma other_routes:
  assumes "nested_path ''/health'' p = None" "nested_path ''/custodian'' p = None" "nested_path ''/api/v2/vault'' p = None"
    "nested_path ''/cards'' p = None" "nested_path ''/data'' p = None"
  shows "map_of (route_table config) (p, m) =
    (if is_external (external_key_manager config) \<and> p = ''/key/transfer''
      then if m = M_POST then Some ([], H_transfer_keys) else None
     else if p = ''/entity'' then if m = M_POST then Some ([L_middleware], H_create_entity) else None else None)"
proof -
  have "p \<notin> set [''/data/add'', ''/cards/add'', ''/data/retrieve'', ''/cards/retrieve'', ''/data/delete'', ''/cards/delete'',
      ''/data/fingerprint'', ''/cards/fingerprint'', ''/api/v2/vault/fingerprint'', ''/api/v2/vault/add'',
      ''/api/v2/vault/retrieve'', ''/api/v2/vault/delete'', ''/custodian/key1'', ''/custodian/key2'', ''/custodian/decrypt'',
      ''/health'', ''/health/diagnostics'']"
    using assms by (intro notI) (simp only: set_simps insert_iff empty_iff; elim disjE FalseE; simp add: nested_path_def is_prefix_def)
  then show ?thesis by (simp add: route_table_def Let_def)
qed

lemma server_router_table:
  assumes ok: "axum_ok a"
  shows "router_find a (server_router a config metrics_enabled) m p =
      map_option (\<lambda>(ls, h). (outer_layers metrics_enabled @ ls, h)) (map_of (route_table config) (p, m))"
proof -
  note find = server_router_find [OF ok]
  show ?thesis
  proof (cases "nested_path ''/health'' p")
    case (Some q)
    then show ?thesis by (simp only: find option.case health_routes [OF ok Some, where config = config])
  next
    case health: None
    show ?thesis
    proof (cases "nested_path ''/custodian'' p")
      case (Some q)
      then show ?thesis by (simp only: find health option.case custodian_routes [OF ok Some, where config = config])
    next
      case custodian: None
      show ?thesis
      proof (cases "nested_path ''/api/v2/vault'' p")
        case (Some q)
        then have "p \<noteq> ''/entity''" "p \<noteq> ''/key/transfer''" by (auto simp: nested_path_def is_prefix_def)
        then show ?thesis by (simp only: find health custodian Some option.case v2_routes [OF Some, where config = config] simp_thms if_False)
      next
        case v2: None
        show ?thesis
        proof (cases "nested_path ''/cards'' p")
          case (Some q)
          then have "p \<noteq> ''/entity''" "p \<noteq> ''/key/transfer''" by (auto simp: nested_path_def is_prefix_def)
          then show ?thesis
            by (simp only: find health custodian v2 Some option.case data_routes [OF ok Some disjI2 [OF refl]] simp_thms if_False)
        next
          case cards: None
          show ?thesis
          proof (cases "nested_path ''/data'' p")
            case (Some q)
            then have "p \<noteq> ''/entity''" "p \<noteq> ''/key/transfer''" by (auto simp: nested_path_def is_prefix_def)
            then show ?thesis
              by (simp only: find health custodian v2 cards Some option.case data_routes [OF ok Some disjI1 [OF refl]] simp_thms if_False)
          next
            case None
            then show ?thesis
              unfolding find other_routes [OF health custodian v2 cards None] by (simp add: health custodian v2 cards)
          qed
        qed
      qed
    qed
  qed
qed

lemma route_table_layers:
  "\<forall>(k, (ls, h)) \<in> set (route_table config).
     (L_middleware \<notin> set ls \<longleftrightarrow> h \<in> {H_transfer_keys, H_key1, H_key2, H_decrypt, H_health, H_diagnostics})
     \<and> ((\<exists>b c d. L_rate_limit b c d \<in> set ls) \<longleftrightarrow> h = H_delete_card)
     \<and> (h = H_transfer_keys \<longrightarrow> is_external (external_key_manager config))"
  by (simp add: route_table_def Let_def)

text \<open>A router as the function of its answers.\<close>

definition example_axum :: "(RouteMethod \<Rightarrow> string \<Rightarrow> (Layer list \<times> Handler) option) Axum" where
  "example_axum = \<lparr> router_new = (\<lambda>m p. None),
     router_route = (\<lambda>q (m', ls, h) r m p. if p = q then if method_answers m' m then Some (ls, h) else None else r m p),
     router_nest = (\<lambda>prefix nested r m p. case nested_path prefix p of Some q \<Rightarrow> nested m q | None \<Rightarrow> r m p),
     router_layer = (\<lambda>l r m p. map_option (\<lambda>(ls, h). (l # ls, h)) (r m p)),
     router_find = (\<lambda>r. r) \<rparr>"

lemma example_axum_ok: "axum_ok example_axum"
  by (simp add: axum_ok_def example_axum_def split: option.split)

text \<open>C12. What the server answers: exactly the routes of the table (the two health routes also for HEAD,
  as axum's \<open>get\<close> does), and nothing else, each wrapped in the server's outer layers and its own.  So the encrypting middleware stands before every handler of
  cards, vault data, fingerprints and entities, and before no other; only the deletion of a card is rate limited;
  and keys are transferred only under an external key manager.\<close>

theorem server_routes:
  assumes ok: "axum_ok a"
  shows "router_find a (server_router a config metrics_enabled) m p =
      map_option (\<lambda>(ls, h). (outer_layers metrics_enabled @ ls, h)) (map_of (route_table config) (p, m))
    \<and> (\<forall>ls h. router_find a (server_router a config metrics_enabled) m p = Some (ls, h) \<longrightarrow>
        (L_middleware \<notin> set ls \<longleftrightarrow> h \<in> {H_transfer_keys, H_key1, H_key2, H_decrypt, H_health, H_diagnostics})
        \<and> ((\<exists>b c d. L_rate_limit b c d \<in> set ls) \<longleftrightarrow> h = H_delete_card)
        \<and> (h = H_transfer_keys \<longrightarrow> is_external (external_key_manager config)))"
proof -
  have table: "(L_middleware \<notin> set ls \<longleftrightarrow> h \<in> {H_transfer_keys, H_key1, H_key2, H_decrypt, H_health, H_diagnostics})
        \<and> ((\<exists>b c d. L_rate_limit b c d \<in> set ls) \<longleftrightarrow> h = H_delete_card)
        \<and> (h = H_transfer_keys \<longrightarrow> is_external (external_key_manager config))"
    if "map_of (route_table config) (p, m) = Some (ls, h)" for ls h
    using bspec [OF route_table_layers map_of_SomeD [OF that]] unfolding prod.case .
  have found: "router_find a (server_router a config metrics_enabled) m p =
      map_option (\<lambda>(ls, h). (outer_layers metrics_enabled @ ls, h)) (map_of (route_table config) (p, m))"
    by (rule server_router_table [OF ok])
  have "(L_middleware \<notin> set ls \<longleftrightarrow> h \<in> {H_transfer_keys, H_key1, H_key2, H_decrypt, H_health, H_diagnostics})
        \<and> ((\<exists>b c d. L_rate_limit b c d \<in> set ls) \<longleftrightarrow> h = H_delete_card)
        \<and> (h = H_transfer_keys \<longrightarrow> is_external (external_key_manager config))"
    if answer: "router_find a (server_router a config metrics_enabled) m p = Some (ls, h)" for ls h
  proof -
    from answer found obtain ls' where "map_of (route_table config) (p, m) = Some (ls', h)"
      "ls = outer_layers metrics_enabled @ ls'"
      by (cases "map_of (route_table config) (p, m)") auto
    with table [of ls' h] show ?thesis by (simp add: outer_layers_def)
  qed
  with found show ?thesis by blast
qed

theorem server_routes_witness:
  "map_option snd (router_find example_axum (server_router example_axum example_config True) M_POST ''/cards/add'') = Some H_add_card
   \<and> router_find example_axum (server_router example_axum example_config True) M_GET ''/cards/add'' = None"
proof -
  have "map_of (route_table example_config) (''/cards/add'', M_POST) = Some ([L_middleware], H_add_card)"
    "map_of (route_table example_config) (''/cards/add'', M_GET) = None"
    by (simp_all add: route_table_def Let_def)
  then show ?thesis
    by (simp add: server_routes [OF example_axum_ok, THEN conjunct1])
qed


section \<open>Metrics never keep the server down\<close>

lemma res_map_bind: "res_map f (res_bind m g) = res_bind m (\<lambda>x. res_map f (g x))"
  by (cases m) simp_all

text \<open>C33. With a validated configuration the metrics cannot stop the start of the server: whatever the
  exporter answers, the metrics server has a valid address with a port that is not zero, the layer
  that counts requests, that address and the background collector are there only with a working
  exporter, and \<open>server_builder\<close> fails only where it fails without metrics, with the same error.\<close>

theorem metrics_never_stop_the_server:
  assumes valid: "GlobalConfig_validate (\<lambda>h. is_ok (parse_ip env h)) config = Ok ()"
    and init: "init_metrics l pkg_name (metrics config) = (Ok (handle, provider) :: (('p, 'g) MetricsHandle \<times> 'p option, 'e) result)"
  shows "MetricsHandle_provider handle = provider
    \<and> (provider \<noteq> None \<longrightarrow> metrics config \<noteq> MetricsConfig.Disabled)
    \<and> (\<exists>metrics_server.
        server_builder env a config handle =
          res_map (\<lambda>s. s\<lparr>sv_router := server_router a config (provider \<noteq> None),
              sv_metrics_server := metrics_server,
              sv_collector_interval := map_option (\<lambda>_. background_metrics_collection_interval_secs (metrics config)) provider\<rparr>)
            (server_builder env a config (MetricsHandle.Disabled :: ('p, 'g) MetricsHandle))
        \<and> (\<forall>h n. metrics_server = Some (h, n) \<longrightarrow> provider \<noteq> None \<and> is_ok (parse_ip env h) \<and> n \<noteq> 0))"
proof -
  have m: "MetricsConfig_validate (\<lambda>h. is_ok (parse_ip env h)) (metrics config) = Ok ()"
    using valid by (auto simp: GlobalConfig_validate_def)
  note defs = MetricsHandle_provider_def server_builder_def Let_def res_map_bind res_map_comp comp_def
  show ?thesis
  proof (cases handle)
    case Disabled
    then have "provider = None" using init by (auto simp: init_metrics_def Let_def split: MetricsConfig.splits result.splits)
    with Disabled show ?thesis
      by (intro conjI exI [of _ None]) (simp_all add: defs)
  next
    case (Otlp p)
    then have "provider = Some p" "metrics config \<noteq> MetricsConfig.Disabled"
      using init by (auto simp: init_metrics_def Let_def split: MetricsConfig.splits result.splits)
    with Otlp show ?thesis by (intro conjI exI [of _ None]) (simp_all add: defs)
  next
    case (Prometheus p g h n)
    then have "provider = Some p" "is_ok (parse_ip env h)" "n \<noteq> 0" "metrics config \<noteq> MetricsConfig.Disabled"
      using init m
      by (auto simp: init_metrics_def Let_def MetricsConfig_validate_def split: MetricsConfig.splits result.splits if_splits)
    with Prometheus show ?thesis
      by (intro conjI exI [of _ "Some (h, n)"]) (simp_all add: defs start_prometheus_metrics_server_def ip_of_def)
  qed
qed


text \<open>Prometheus at 127.0.0.1:9090, with an exporter that is built.\<close>

definition example_metrics_libs :: "(unit, nat, nat, unit) MetricsLibs" where
  "example_metrics_libs = \<lparr> otlp_exporter_build = (\<lambda>e t. Err ''unreachable''), periodic_reader = (\<lambda>x t. t),
     registry_new = (), prometheus_exporter_build = (\<lambda>g. Ok 1), provider_build = (\<lambda>d s. d) \<rparr>"

definition example_server_env :: ServerEnv where
  "example_server_env = \<lparr> parse_ip = (\<lambda>h. if h = ''127.0.0.1'' \<or> h = ''0.0.0.0'' then Ok () else Err ''syntax''),
     tcp_bind = (\<lambda>h n. Ok ()), from_pem_file = (\<lambda>c k. Ok ()), server_run = (\<lambda>l. Ok ()) \<rparr>"

theorem metrics_never_stop_the_server_witness:
  "\<exists>served. server_builder example_server_env example_axum
      (example_config\<lparr>metrics := MetricsConfig.Prometheus ''127.0.0.1'' 9090 15\<rparr>)
      (MetricsHandle.Prometheus 1 () ''127.0.0.1'' 9090 :: (nat, unit) MetricsHandle) = Ok served
    \<and> sv_router served = server_router example_axum
        (example_config\<lparr>metrics := MetricsConfig.Prometheus ''127.0.0.1'' 9090 15\<rparr>) True
    \<and> sv_collector_interval served = Some 15"
proof -
  let ?c = "example_config\<lparr>metrics := MetricsConfig.Prometheus ''127.0.0.1'' 9090 15\<rparr>"
  let ?h = "MetricsHandle.Prometheus 1 () ''127.0.0.1'' 9090 :: (nat, unit) MetricsHandle"
  have valid: "GlobalConfig_validate (\<lambda>h. is_ok (parse_ip example_server_env h)) ?c = Ok ()" by code_simp
  have init: "init_metrics example_metrics_libs ''vault'' (metrics ?c) = (Ok (?h, Some 1) :: (_, unit) result)" by code_simp
  obtain ms where run: "server_builder example_server_env example_axum ?c ?h =
      res_map (\<lambda>s. s\<lparr>sv_router := server_router example_axum ?c True, sv_metrics_server := ms,
          sv_collector_interval := Some 15\<rparr>)
        (server_builder example_server_env example_axum ?c (MetricsHandle.Disabled :: (nat, unit) MetricsHandle))"
    using metrics_never_stop_the_server [OF valid init, of example_axum]
    by (auto simp: background_metrics_collection_interval_secs_def)
  obtain s where off: "server_builder example_server_env example_axum ?c
      (MetricsHandle.Disabled :: (nat, unit) MetricsHandle) = Ok s"
    by (simp add: server_builder_def server_listen_def example_server_env_def example_config_def Let_def)
  show ?thesis unfolding run off by simp
qed

end
