(* ===== verification/Lifecycle.thy ===== *)
theory Lifecycle
  imports Router
begin

text \<open>
  The end of the server's life (\<open>src/src/app.rs\<close>): the future \<open>shutdown_signal\<close> and what the two
  ways of serving do with it, and the id of a request.  The signal handlers of tokio are a parameter: what
  their futures answer at each poll.
\<close>

section \<open>The shutdown signal\<close>

datatype 'a Poll = Pending | Ready 'a

text \<open>
  One poll of the two branches of \<open>select!\<close>: \<open>tokio::signal::ctrl_c()\<close> answers when the signal came or
  when its handler could not be installed; \<open>signal(SignalKind::terminate())\<close> answers at once whether
  the handler is there, and then \<open>recv\<close> waits for the signal.
\<close>

record SignalPoll =
  ctrl_c_poll :: "(unit, string) result Poll"
  terminate_handler :: "(unit, string) result"
  terminate_recv :: "unit Poll"

definition poll_map :: "('a \<Rightarrow> 'b) \<Rightarrow> 'a Poll \<Rightarrow> 'b Poll" where
  "poll_map f p = (case p of Pending \<Rightarrow> Pending | Ready x \<Rightarrow> Ready (f x))"

definition expect :: "('a, 'e) result \<Rightarrow> ('a, unit) result" where
  "expect r = (case r of Ok x \<Rightarrow> Ok x | _ \<Rightarrow> Panic)"

definition ctrl_c_branch :: "SignalPoll \<Rightarrow> (unit, unit) result Poll" where
  "ctrl_c_branch s = poll_map expect (ctrl_c_poll s)"

definition terminate_branch :: "SignalPoll \<Rightarrow> (unit, unit) result Poll" where
  "terminate_branch s =
     (case expect (terminate_handler s) of
        Ok _ \<Rightarrow> poll_map Ok (terminate_recv s)
      | _ \<Rightarrow> Ready Panic)"

text \<open>
  \<open>select!\<close> polls its branches in a random order and the first one that is ready ends it; a panic in
  a branch is a panic of the future.
\<close>

definition poll_shutdown :: "bool \<Rightarrow> SignalPoll \<Rightarrow> (unit, unit) result Poll" where
  "poll_shutdown ctrl_c_first s =
     (let (first, second) = (if ctrl_c_first then (ctrl_c_branch s, terminate_branch s)
                             else (terminate_branch s, ctrl_c_branch s)) in
      case first of Ready r \<Rightarrow> Ready r | Pending \<Rightarrow> second)"

text \<open>The future over a sequence of polls: how many were needed, and how it ended.\<close>

fun shutdown_signal :: "(bool \<times> SignalPoll) list \<Rightarrow> (nat \<times> (unit, unit) result) option" where
  "shutdown_signal [] = None"
| "shutdown_signal ((ctrl_c_first, s) # polls) =
     (case poll_shutdown ctrl_c_first s of
        Ready r \<Rightarrow> Some (0, r)
      | Pending \<Rightarrow> map_option (\<lambda>(n, r). (Suc n, r)) (shutdown_signal polls))"

section \<open>Graceful shutdown\<close>

text \<open>
  With TLS a task awaits the future and then asks the handle to stop within thirty seconds; a panic of that
  task asks for nothing.  Without TLS the future itself is given to \<open>axum::serve\<close>, whose answer to its
  end is the parameter \<open>with_graceful_shutdown\<close>.
\<close>

datatype Shutdown = Serve_on | Stop_gracefully (deadline_secs: "nat option")

definition shutdown_request ::
    "((unit, unit) result \<Rightarrow> Shutdown) \<Rightarrow> Listener \<Rightarrow> (bool \<times> SignalPoll) list \<Rightarrow> Shutdown" where
  "shutdown_request with_graceful_shutdown listener polls =
     (case shutdown_signal polls of
        None \<Rightarrow> Serve_on
      | Some (_, r) \<Rightarrow>
          (case listener of
             TlsListener h p cert key \<Rightarrow> (case r of Ok _ \<Rightarrow> Stop_gracefully (Some 30) | _ \<Rightarrow> Serve_on)
           | TcpListener h p \<Rightarrow> with_graceful_shutdown r))"

text \<open>The handlers could be installed, and a signal has come.\<close>

definition handlers_installed :: "SignalPoll \<Rightarrow> bool" where
  "handlers_installed s \<longleftrightarrow> (\<forall>r. ctrl_c_poll s = Ready r \<longrightarrow> r = Ok ()) \<and> terminate_handler s = Ok ()"

definition signalled :: "SignalPoll \<Rightarrow> bool" where
  "signalled s \<longleftrightarrow> ctrl_c_poll s = Ready (Ok ()) \<or> terminate_recv s = Ready ()"

lemma poll_shutdown_installed:
  "handlers_installed s \<Longrightarrow> poll_shutdown f s = (if signalled s then Ready (Ok ()) else Pending)"
  by (cases "ctrl_c_poll s"; cases "terminate_recv s")
    (simp_all add: handlers_installed_def signalled_def poll_shutdown_def ctrl_c_branch_def terminate_branch_def
      poll_map_def expect_def)

text \<open>
  With the handlers installed the server is asked to stop exactly when a signal has come, whichever of the
  two it is and in whichever order the branches are polled.
\<close>

lemma shutdown_signal_iff:
  assumes "\<forall>(f, s) \<in> set polls. handlers_installed s"
  shows "shutdown_signal polls =
    (if \<exists>(f, s) \<in> set polls. signalled s
     then Some (length (takeWhile (\<lambda>(f, s). \<not> signalled s) polls), Ok ()) else None)"
  using assms by (induction polls rule: shutdown_signal.induct) (auto simp: poll_shutdown_installed)

lemma stops_when_signalled:
  assumes "\<forall>(f, s) \<in> set polls. handlers_installed s" and "graceful (Ok ()) = Stop_gracefully None"
  shows "shutdown_request graceful listener polls =
    (if \<exists>(f, s) \<in> set polls. signalled s
     then Stop_gracefully (case listener of TlsListener _ _ _ _ \<Rightarrow> Some 30 | TcpListener _ _ \<Rightarrow> None) else Serve_on)"
  using assms(2) by (cases listener) (simp_all add: shutdown_request_def shutdown_signal_iff [OF assms(1)])

text \<open>
  Under TLS a handler that cannot be installed is not noticed: the task is gone, and no later signal stops
  the server gracefully.
\<close>

lemma handler_not_installed:
  assumes "terminate_handler s = Err e" "ctrl_c_poll s = Pending"
  shows "shutdown_request graceful (TlsListener h p c k) ((f, s) # polls) = Serve_on"
  using assms by (simp add: shutdown_request_def poll_shutdown_def ctrl_c_branch_def terminate_branch_def
      poll_map_def expect_def)

section \<open>The headers of every answer\<close>

text \<open>
  A new request id is a UUID of version 7; \<open>HeaderValue::from_str\<close> is a parameter.  The layer for
  default headers overrides \<open>x-version\<close> with what git says of the build.
\<close>

definition make_request_id :: "(string \<Rightarrow> 'v option) \<Rightarrow> string \<Rightarrow> 'v option" where
  "make_request_id header_value uuid = header_value uuid"

definition default_headers :: "string \<Rightarrow> headers \<Rightarrow> headers" where
  "default_headers git_describe hs = hs(''x-version'' \<mapsto> Some git_describe)"

end
