(* ===== verification/PlainLaws.thy ===== *)
theory PlainLaws
  imports ExampleServices
begin

text \<open>
  The two builds of the store: with the KV layer switched off at run time, and no replica, the
  operations of the build with the \<open>kv\<close> feature are those of the build without it.
\<close>

section \<open>Routing\<close>

lemma route_conn_primary: "\<not> has_replica self \<Longrightarrow> route_conn self = get_conn self"
  by (rule ext) (simp add: route_conn_def should_use_replica_def)

lemma get_conn_Err: "get_conn self w = (Err e, w') \<Longrightarrow> e = StorageError.PoolClientFailure"
  by (auto simp: get_conn_def io_map_def io_map_err_def split: prod.splits)

text \<open>\<open>find_optional\<close> of the KV layer against \<open>optional()\<close> of diesel.\<close>

lemma optional_on_conn:
  assumes "\<And>e. is_nf (from_diesel e) \<longleftrightarrow> e = DieselError.NotFound"
    and "\<not> is_nf (from_storage StorageError.PoolClientFailure)"
  shows "optional is_nf (on_conn (get_conn self) from_storage from_diesel query) =
    on_conn (get_conn self) from_storage from_diesel (\<lambda>c. diesel_optional (query c))"
proof
  fix w
  show "optional is_nf (on_conn (get_conn self) from_storage from_diesel query) w =
      on_conn (get_conn self) from_storage from_diesel (\<lambda>c. diesel_optional (query c)) w"
    using assms get_conn_Err [of self w]
    by (auto simp: optional_def on_conn_def diesel_optional_def io_defs split: prod.splits result.splits)
qed

lemma optional_io_map: "optional is_nf (io_map f m) = io_map (map_option f) (optional is_nf m)"
  by (rule ext) (simp add: optional_def io_defs split: prod.splits result.splits)

section \<open>The generic operations in the mode Disabled\<close>

lemma insert_inner_disabled:
  "kv_settings self w = KvState.Disabled \<Longrightarrow>
   insert_resource_inner M irl self new pk rk w = storage_insert M (set_storage_scheme M new PostgresOnly) self w"
  by (simp add: insert_resource_inner_def decide_storage_scheme_for_insert_operation_def Let_def)

lemma find_inner_disabled:
  "kv_settings self w = KvState.Disabled \<Longrightarrow> find_resource_by_id_inner M self pk w = storage_find M self pk w"
  by (simp add: find_resource_by_id_inner_def decide_storage_scheme_for_find_operation_def Let_def)

lemma find_lookup_disabled:
  "kv_settings self w = KvState.Disabled \<Longrightarrow>
   find_resource_by_lookup_id M L f self lk w = storage_find_by_lookup L self lk w"
  by (simp add: find_resource_by_lookup_id_def decide_storage_scheme_for_find_operation_def Let_def)

lemma update_disabled:
  "kv_settings self w = KvState.Disabled \<Longrightarrow>
   update_resource_by_id M U self u pk w = storage_update U self (set_update_storage_scheme U u PostgresOnly) pk w"
  by (simp add: update_resource_by_id_def decide_storage_scheme_for_mutate_operation_def Let_def io_bind_def io_ret_def)

lemma delete_inner_disabled:
  "kv_settings self w = KvState.Disabled \<Longrightarrow> delete_resource_by_id_inner M D self pk w = storage_delete D self pk w"
  by (simp add: delete_resource_by_id_inner_def decide_storage_scheme_for_mutate_operation_def
      Let_def io_bind_def io_ret_def)

lemma delete_disabled:
  "kv_settings self w = KvState.Disabled \<Longrightarrow> delete_resource_by_id M D self pk w = storage_delete D self pk w"
  by (simp add: delete_resource_by_id_def delete_inner_disabled)

lemma insert_disabled:
  "kv_settings self w = KvState.Disabled \<Longrightarrow> insert_resource M self new pk w =
   io_map (into_model M) (storage_insert M (set_storage_scheme M new PostgresOnly) self) w"
  "kv_settings self w = KvState.Disabled \<Longrightarrow> insert_resource_with_reverse_lookup M L irl self new pk w =
   io_map (into_model M) (storage_insert M (set_storage_scheme M new PostgresOnly) self) w"
  by (simp_all add: insert_resource_def insert_resource_with_reverse_lookup_def io_map_def insert_inner_disabled)

lemma find_disabled:
  "kv_settings self w = KvState.Disabled \<Longrightarrow>
   find_resource_by_id M self pk w = io_map (into_model M) (storage_find M self pk) w"
  by (simp add: find_resource_by_id_def io_map_def find_inner_disabled)

lemma find_optional_disabled:
  "kv_settings self w = KvState.Disabled \<Longrightarrow> find_optional_resource_by_id M self pk w =
   io_map (map_option (into_model M)) (optional (error_is_not_found M) (storage_find M self pk)) w"
  "kv_settings self w = KvState.Disabled \<Longrightarrow> find_optional_resource_by_lookup_id M L f self lk w =
   optional (error_is_not_found M) (storage_find_by_lookup L self lk) w"
  unfolding optional_io_map [symmetric] find_optional_resource_by_id_def find_optional_resource_by_lookup_id_def
  by (simp_all add: optional_def io_try_def find_disabled find_lookup_disabled)

text \<open>A row that is asked for as an option and then required.\<close>

lemma optional_required:
  "io_bind (io_map (map_option f) (optional (storage_error_is nf) m)) (\<lambda>x. io_lift (ok_or nf x)) = io_map f m"
  by (rule ext) (auto simp: optional_def storage_error_is_def io_defs split: prod.splits result.splits)

lemma not_found_errors:
  "VaultDBError_is_not_found (VaultDBError_from_diesel e) \<longleftrightarrow> e = DieselError.NotFound"
  "HashDBError_is_not_found (HashDBError_from_diesel e) \<longleftrightarrow> e = DieselError.NotFound"
  "FingerprintDBError_is_not_found (FingerprintDBError_from_diesel e) \<longleftrightarrow> e = DieselError.NotFound"
  "\<not> VaultDBError_is_not_found (VaultDBError_from_StorageError StorageError.PoolClientFailure)"
  "\<not> HashDBError_is_not_found (HashDBError_from_StorageError StorageError.PoolClientFailure)"
  "\<not> FingerprintDBError_is_not_found (FingerprintDBError_from_StorageError StorageError.PoolClientFailure)"
  by (cases e; simp add: VaultDBError_is_not_found_def VaultDBError_from_diesel_def HashDBError_is_not_found_def
      HashDBError_from_diesel_def FingerprintDBError_is_not_found_def FingerprintDBError_from_diesel_def
      storage_error_is_def storage_error_from_diesel_def
      split: DatabaseErrorKind.split)+

lemmas optional_conn = optional_on_conn [where is_nf = VaultDBError_is_not_found and from_diesel = VaultDBError_from_diesel
    and from_storage = VaultDBError_from_StorageError, OF not_found_errors(1) not_found_errors(4)]
  optional_on_conn [where is_nf = HashDBError_is_not_found and from_diesel = HashDBError_from_diesel
    and from_storage = HashDBError_from_StorageError, OF not_found_errors(2) not_found_errors(5)]
  optional_on_conn [where is_nf = FingerprintDBError_is_not_found and from_diesel = FingerprintDBError_from_diesel
    and from_storage = FingerprintDBError_from_StorageError, OF not_found_errors(3) not_found_errors(6)]

section \<open>Reverse lookups without the KV layer (storage/db.rs)\<close>

definition find_by_lookup_id_plain :: "'w Storage \<Rightarrow> string \<Rightarrow> ('w, ReverseLookup, ReverseLookupDBError) io" where
  "find_by_lookup_id_plain self lookup_id =
     on_conn (get_conn self) ReverseLookupDBError_from_StorageError ReverseLookupDBError_from_diesel
       (\<lambda>conn. pg_reverse_lookup_find conn \<lparr> rlpk_lookup_id = lookup_id \<rparr>)"

definition insert_reverse_lookup_plain ::
    "'w Storage \<Rightarrow> ReverseLookupNew \<Rightarrow> ('w, ReverseLookup, ReverseLookupDBError) io" where
  "insert_reverse_lookup_plain self new =
     on_conn (get_conn self) ReverseLookupDBError_from_StorageError ReverseLookupDBError_from_diesel
       (\<lambda>conn. pg_reverse_lookup_insert conn new)"

definition delete_reverse_lookup_plain :: "'w Storage \<Rightarrow> string \<Rightarrow> ('w, nat, ReverseLookupDBError) io" where
  "delete_reverse_lookup_plain self lookup_id =
     on_conn (get_conn self) ReverseLookupDBError_from_StorageError ReverseLookupDBError_from_diesel
       (\<lambda>conn. pg_reverse_lookup_delete conn \<lparr> rlpk_lookup_id = lookup_id \<rparr>)"

lemma reverse_lookups_disabled:
  assumes off: "kv_settings self w = KvState.Disabled" and "\<not> has_replica self"
  shows "find_by_lookup_id self lookup_id w = find_by_lookup_id_plain self lookup_id w"
    "insert_reverse_lookup self rln w =
       insert_reverse_lookup_plain self (rln\<lparr> rln_updated_by := StorageScheme_to_string PostgresOnly \<rparr>) w"
    "delete_reverse_lookup self lookup_id w = delete_reverse_lookup_plain self lookup_id w"
proof -
  note primary = route_conn_primary [OF assms(2)]
  show "find_by_lookup_id self lookup_id w = find_by_lookup_id_plain self lookup_id w"
    by (simp add: find_by_lookup_id_def find_by_lookup_id_plain_def find_disabled [OF off] ReverseLookup_kv_def
        ReverseLookup_storage_find_def primary io_map_id)
  show "insert_reverse_lookup self rln w =
       insert_reverse_lookup_plain self (rln\<lparr> rln_updated_by := StorageScheme_to_string PostgresOnly \<rparr>) w"
    by (simp add: insert_reverse_lookup_def insert_reverse_lookup_plain_def insert_disabled [OF off] ReverseLookup_kv_def
        ReverseLookup_storage_insert_def io_map_id)
  show "delete_reverse_lookup self lookup_id w = delete_reverse_lookup_plain self lookup_id w"
    by (simp add: delete_reverse_lookup_def delete_reverse_lookup_plain_def delete_disabled [OF off]
        ReverseLookup_kv_delete_def ReverseLookup_storage_delete_def)
qed

text \<open>\<open>insert_vault\<close> of the plain build: the columns of a \<open>VaultNew\<close> are inserted as they are.\<close>

definition insert_vault_plain :: "'w Storage \<Rightarrow> VaultNew \<Rightarrow> ('w, Vault, VaultDBError) io" where
  "insert_vault_plain self new =
     io_map Vault_from_VaultInner
       (on_conn (get_conn self) VaultDBError_from_StorageError VaultDBError_from_diesel
         (\<lambda>conn. pg_vault_insert conn (VaultNewInner_from_VaultNew new)))"

lemma insert_vault_disabled:
  "kv_settings self w = KvState.Disabled \<Longrightarrow>
   insert_vault self new w = insert_vault_plain self (new\<lparr> vn_updated_by := PostgresOnly \<rparr>) w"
  by (simp add: insert_vault_def insert_vault_plain_def insert_disabled Vault_kv_def Vault_storage_insert_def
      VaultNewInner_from_VaultNew_def VaultNewInner_set_updated_by_def)

text \<open>
  Two operations of the \<open>kv\<close> build do more, or in another order, than the plain ones even with the
  layer off: \<open>insert_hash\<close> draws the id and the time before it takes a connection, and \<open>delete_locker\<close>
  reads the card first and deletes its reverse lookup afterwards.
\<close>

lemma insert_hash_disabled:
  assumes off: "\<And>w. kv_settings self w = KvState.Disabled"
  shows "insert_hash self bs w =
     io_bind (io_of (generate_uuid (globals self))) (\<lambda>hash_id.
     io_bind (io_of (date_time_now (globals self))) (\<lambda>created_at.
     on_conn (get_conn self) HashDBError_from_StorageError HashDBError_from_diesel
       (\<lambda>conn. pg_hash_table_insert conn
         \<lparr> htn_hash_id = hash_id, htn_data_hash = bs, htn_created_at = created_at, htn_updated_by = Some PostgresOnly \<rparr>))) w"
  by (simp add: insert_hash_def io_bind_def io_of_def insert_disabled [OF off] HashTable_kv_def
      HashTable_storage_insert_def io_map_id split: prod.split)

lemma delete_locker_disabled:
  assumes off: "\<And>w. kv_settings self w = KvState.Disabled" and "\<not> has_replica self"
  shows "delete_locker self l m c w =
     io_bind (optional VaultDBError_is_not_found (find_by_locker_id_merchant_id_customer_id_plain self l m c)) (\<lambda>card.
     io_bind (delete_locker_plain self l m c) (\<lambda>deleted_rows.
     io_bind (case card of
         Some locker \<Rightarrow> io_map (\<lambda>_. ()) (io_map_err (\<lambda>_. VaultDBError_from_KvError KvError.Backend)
           (delete_reverse_lookup_plain self (Locker_get_reverse_lookup_key_from_resource locker)))
       | None \<Rightarrow> io_ret ()) (\<lambda>_.
     io_ret deleted_rows))) w"
proof -
  have find: "find_optional_resource_by_id Locker_kv self
      \<lparr> lpk_locker_id = l, lpk_merchant_id = m, lpk_customer_id = c \<rparr>
    = optional VaultDBError_is_not_found (find_by_locker_id_merchant_id_customer_id_plain self l m c)"
    by (rule ext) (simp add: find_optional_resource_by_id_def optional_def io_try_def
        find_disabled [OF off] find_by_locker_id_merchant_id_customer_id_plain_def Locker_kv_def Locker_storage_find_def
        route_conn_primary [OF assms(2)])
  have delete: "delete_resource_by_id_inner Locker_kv Locker_kv_delete self
      \<lparr> lpk_locker_id = l, lpk_merchant_id = m, lpk_customer_id = c \<rparr> = delete_locker_plain self l m c"
    by (rule ext) (simp add: delete_inner_disabled [OF off] Locker_kv_delete_def Locker_storage_delete_def delete_locker_plain_def)
  have lookup: "delete_reverse_lookup self k = delete_reverse_lookup_plain self k" for k
    by (rule ext) (rule reverse_lookups_disabled(3) [OF off assms(2)])
  have error: "kv_backend_error Locker_kv KvError.Backend = VaultDBError_from_KvError KvError.Backend"
    by (simp add: kv_backend_error_def Locker_kv_def)
  show ?thesis
    unfolding delete_locker_def delete_resource_by_id_with_reverse_lookup_def find delete lookup error
    by (simp add: io_bind_def io_map_def split: prod.split result.split option.split)
qed

text \<open>C17. With the KV layer off and no replica, the store of the \<open>kv\<close> build is the plain one: each of the
  operations on vault rows, cards, hashes, fingerprints and reverse lookups listed here does the same to the
  same state with the same answer, errors included; the rows that are written differ only in saying that
  Postgres wrote them.  The two other operations are, while the layer stays off, the plain ones in the order
  written out: \<open>insert_hash\<close> draws the id and the time before the connection instead of after
  it, and \<open>delete_locker\<close> adds a read of the card before the delete and the delete of its reverse lookup after it.\<close>

theorem kv_disabled_is_plain:
  assumes off: "kv_settings self w = KvState.Disabled" and "\<not> has_replica self"
  shows "insert_vault self vn w = insert_vault_plain self (vn\<lparr> vn_updated_by := PostgresOnly \<rparr>) w
    \<and> insert_locker self ln w = insert_locker_plain self (ln\<lparr> ln_updated_by := Some PostgresOnly \<rparr>) w
    \<and> find_by_locker_id_merchant_id_customer_id self l m c w = find_by_locker_id_merchant_id_customer_id_plain self l m c w
    \<and> find_optional_by_hash_id_merchant_id_customer_id self i m c w
        = find_optional_by_hash_id_merchant_id_customer_id_plain self i m c w
    \<and> find_optional_by_data_hash self bs w = find_optional_by_data_hash_plain self bs w
    \<and> find_optional_by_fingerprint_hash self bs w = find_optional_by_fingerprint_hash_plain self bs w
    \<and> insert_fingerprint self bs f w = insert_fingerprint_plain self bs f w
    \<and> find_by_vault_id_entity_id self v e w = find_by_vault_id_entity_id_plain self v e w
    \<and> update_vault_data self v e u w = update_vault_data_plain self v e (u\<lparr> vu_updated_by := PostgresOnly \<rparr>) w
    \<and> find_by_lookup_id self k w = find_by_lookup_id_plain self k w
    \<and> insert_reverse_lookup self rn w =
        insert_reverse_lookup_plain self (rn\<lparr> rln_updated_by := StorageScheme_to_string PostgresOnly \<rparr>) w
    \<and> delete_reverse_lookup self k w = delete_reverse_lookup_plain self k w
    \<and> delete_from_vault self v e w = delete_from_vault_plain self v e w
    \<and> ((\<forall>w. kv_settings self w = KvState.Disabled) \<longrightarrow>
        insert_hash self bs w =
          io_bind (io_of (generate_uuid (globals self))) (\<lambda>hash_id.
          io_bind (io_of (date_time_now (globals self))) (\<lambda>created_at.
          on_conn (get_conn self) HashDBError_from_StorageError HashDBError_from_diesel
            (\<lambda>conn. pg_hash_table_insert conn
              \<lparr> htn_hash_id = hash_id, htn_data_hash = bs, htn_created_at = created_at, htn_updated_by = Some PostgresOnly \<rparr>))) w
        \<and> delete_locker self l m c w =
          io_bind (optional VaultDBError_is_not_found (find_by_locker_id_merchant_id_customer_id_plain self l m c)) (\<lambda>card.
          io_bind (delete_locker_plain self l m c) (\<lambda>deleted_rows.
          io_bind (case card of
              Some locker \<Rightarrow> io_map (\<lambda>_. ()) (io_map_err (\<lambda>_. VaultDBError_from_KvError KvError.Backend)
                (delete_reverse_lookup_plain self (Locker_get_reverse_lookup_key_from_resource locker)))
            | None \<Rightarrow> io_ret ()) (\<lambda>_.
          io_ret deleted_rows))) w)"
proof -
  note primary = route_conn_primary [OF assms(2)]
  note conv = io_map_id optional_conn primary
  have "insert_locker self ln w = insert_locker_plain self (ln\<lparr> ln_updated_by := Some PostgresOnly \<rparr>) w"
    by (simp add: insert_locker_def insert_locker_plain_def insert_disabled [OF off] Locker_kv_def Locker_storage_insert_def)
  moreover have "find_by_locker_id_merchant_id_customer_id self l m c w = find_by_locker_id_merchant_id_customer_id_plain self l m c w"
    by (simp add: find_by_locker_id_merchant_id_customer_id_def find_by_locker_id_merchant_id_customer_id_plain_def
        find_disabled [OF off] Locker_kv_def Locker_storage_find_def primary)
  moreover have "find_optional_by_hash_id_merchant_id_customer_id self i m c w
      = find_optional_by_hash_id_merchant_id_customer_id_plain self i m c w"
    by (simp add: find_optional_by_hash_id_merchant_id_customer_id_def find_optional_by_hash_id_merchant_id_customer_id_plain_def
        find_optional_disabled [OF off] Locker_kv_def Locker_kv_lookup_def Locker_storage_find_by_lookup_def
        optional_io_map conv)
  moreover have "find_optional_by_data_hash self bs w = find_optional_by_data_hash_plain self bs w"
    by (simp add: find_optional_by_data_hash_def find_optional_by_data_hash_plain_def find_optional_disabled [OF off]
        HashTable_kv_def HashTable_storage_find_def conv option.map_id0)
  moreover have "find_optional_by_fingerprint_hash self bs w = find_optional_by_fingerprint_hash_plain self bs w"
    by (simp add: find_optional_by_fingerprint_hash_def find_optional_by_fingerprint_hash_plain_def
        find_optional_disabled [OF off] Fingerprint_kv_def Fingerprint_storage_find_def conv option.map_id0)
  moreover have "insert_fingerprint self bs f w = insert_fingerprint_plain self bs f w"
    by (simp add: insert_fingerprint_def insert_fingerprint_plain_def insert_disabled [OF off] Fingerprint_kv_def
        Fingerprint_storage_insert_def conv)
  moreover have "find_by_vault_id_entity_id self v e w = find_by_vault_id_entity_id_plain self v e w"
  proof -
    have "find_by_vault_id_entity_id self v e w = io_bind (io_map (map_option Vault_from_VaultInner)
        (optional (storage_error_is VaultDBError.NotFoundError) (Vault_storage_find self
          \<lparr> vpk_entity_id = e, vpk_vault_id = v \<rparr>))) (\<lambda>x. io_lift (ok_or VaultDBError.NotFoundError x)) w"
      by (simp add: find_by_vault_id_entity_id_def io_bind_def find_optional_disabled [OF off] Vault_kv_def
          VaultDBError_is_not_found_def)
    then show ?thesis
      unfolding optional_required by (simp add: find_by_vault_id_entity_id_plain_def Vault_storage_find_def primary)
  qed
  moreover have "update_vault_data self v e u w = update_vault_data_plain self v e (u\<lparr> vu_updated_by := PostgresOnly \<rparr>) w"
    by (simp add: update_vault_data_def update_vault_data_plain_def update_disabled [OF off] Vault_kv_update_def
        Vault_storage_update_def)
  moreover have "delete_from_vault self v e w = delete_from_vault_plain self v e w"
    by (simp add: delete_from_vault_def delete_from_vault_plain_def delete_disabled [OF off] Vault_kv_delete_def
        Vault_storage_delete_def)
  ultimately show ?thesis
    by (intro conjI impI reverse_lookups_disabled [OF assms] insert_vault_disabled [OF off] insert_hash_disabled
        delete_locker_disabled [OF _ assms(2)])
      (assumption | erule spec)+
qed

theorem kv_disabled_is_plain_witness:
  "delete_from_vault example_store ''v'' ''e'' (in_mode KvState.Disabled empty_world)
     = delete_from_vault_plain example_store ''v'' ''e'' (in_mode KvState.Disabled empty_world)"
proof -
  have "kv_settings example_store (in_mode KvState.Disabled empty_world) = KvState.Disabled"
    by simp
  moreover have "\<not> has_replica example_store" by (simp add: has_replica_def example_store_def)
  ultimately show ?thesis by (rule kv_disabled_is_plain [THEN conjunct2, THEN conjunct2, THEN conjunct2, THEN conjunct2,
    THEN conjunct2, THEN conjunct2, THEN conjunct2, THEN conjunct2, THEN conjunct2, THEN conjunct2, THEN conjunct2, THEN conjunct2, THEN conjunct1])
qed

end
