(* ===== verification/ReplicaLaws.thy ===== *)
theory ReplicaLaws
  imports StorageDb
begin

text \<open>
  Which Postgres pool an operation of the store uses: the tables of
  \<open>src/src/storage/kv/impls/\<close>, the merchants and the entities of \<open>storage/db.rs\<close>, over
  \<open>route_conn\<close> and \<open>get_conn\<close> of \<open>storage.rs\<close>.
\<close>

section \<open>The pool a read is served from\<close>

text \<open>
  The store with the one pool a routed read at \<open>w\<close> is meant to use as its only pool: the replica
  when one is configured and the last good runtime configuration asks for it, the primary
  otherwise.
\<close>

definition reads_from :: "'w Storage \<Rightarrow> 'w \<Rightarrow> 'w Storage" where
  "reads_from self w = (case (replica_pg_pool self, runtime_values self w) of
     (Some pool, Some values) \<Rightarrow>
       if use_replica values then self\<lparr> primary_pg_pool := pool, replica_pg_pool := None \<rparr>
       else self\<lparr> replica_pg_pool := None \<rparr>
   | _ \<Rightarrow> self\<lparr> replica_pg_pool := None \<rparr>)"

lemma runtime_values_pools [simp]:
  "runtime_values (self\<lparr> primary_pg_pool := p, replica_pg_pool := r \<rparr>) w = runtime_values self w"
  "runtime_values (self\<lparr> replica_pg_pool := r \<rparr>) w = runtime_values self w"
  by (simp_all add: runtime_values_def)

lemma reads_from_no_replica [simp]: "replica_pg_pool (reads_from self w) = None"
  by (simp add: reads_from_def split: option.splits)

lemma on_conn_pool:
  assumes "io_map fst conn w = io_map fst conn' w"
  shows "on_conn conn f g query w = on_conn conn' f g query w"
  using assms by (auto simp: on_conn_def io_bind_def io_map_def io_map_err_def
      split: prod.splits result.splits elim!: res_map.elims)

lemma routed_conn:
  "io_map fst (route_conn self) w = io_map fst (route_conn (reads_from self w)) w"
  by (auto simp: route_conn_def should_use_replica_def has_replica_def reads_from_def get_conn_def
      get_replica_conn_def io_map_def io_map_err_def res_map_comp comp_def
      split: option.splits prod.splits)

lemma routed_query:
  "on_conn (route_conn (reads_from self w)) f g query w = on_conn (route_conn self) f g query w"
  by (rule on_conn_pool) (rule routed_conn [symmetric])

lemma get_conn_replica [simp]: "get_conn (self\<lparr> replica_pg_pool := r \<rparr>) = get_conn self"
  by (simp add: get_conn_def)

lemma routed_not_unconfigured: "fst (route_conn self w) \<noteq> Err StorageError.ReplicaPoolNotConfigured"
  by (auto simp: route_conn_def get_replica_conn_def get_conn_def should_use_replica_def has_replica_def
      io_map_def io_map_err_def split: prod.splits option.splits)

lemmas storage_reads = Locker_storage_find_def Locker_storage_find_by_lookup_def Vault_storage_find_def
  HashTable_storage_find_def Fingerprint_storage_find_def find_by_merchant_id_def
  find_all_keys_excluding_entity_keys_def find_by_entity_id_def

lemmas storage_writes = Locker_storage_insert_def Locker_storage_delete_def Vault_storage_insert_def
  Vault_storage_update_def Vault_storage_delete_def HashTable_storage_insert_def
  Fingerprint_storage_insert_def ReverseLookup_storage_insert_def ReverseLookup_storage_find_def
  ReverseLookup_storage_delete_def insert_merchant_def insert_entity_def

section \<open>Reads may go to the replica, writes never\<close>

text \<open>C36. Every Postgres read of a table, a merchant or an entity runs on the replica's pool when a
  replica is configured and the last good runtime configuration asks for it, and on the primary's
  pool otherwise: it answers what the store with that one pool answers.  Every write, and the reads
  of the reverse lookups, run on the primary whatever replica is configured, and a routed connection
  never fails because no replica is configured.\<close>

theorem replica_serves_reads_only:
  "Locker_storage_find self lpk w = Locker_storage_find (reads_from self w) lpk w
   \<and> Locker_storage_find_by_lookup self lhk w = Locker_storage_find_by_lookup (reads_from self w) lhk w
   \<and> Vault_storage_find self vpk w = Vault_storage_find (reads_from self w) vpk w
   \<and> HashTable_storage_find self hpk w = HashTable_storage_find (reads_from self w) hpk w
   \<and> Fingerprint_storage_find self fpk w = Fingerprint_storage_find (reads_from self w) fpk w
   \<and> find_by_merchant_id c self merchant_id key w = find_by_merchant_id c (reads_from self w) merchant_id key w
   \<and> find_all_keys_excluding_entity_keys c self key n w
       = find_all_keys_excluding_entity_keys c (reads_from self w) key n w
   \<and> find_by_entity_id self entity_id w = find_by_entity_id (reads_from self w) entity_id w
   \<and> Locker_storage_insert ln self = Locker_storage_insert ln (self\<lparr> replica_pg_pool := r \<rparr>)
   \<and> Locker_storage_delete self lpk = Locker_storage_delete (self\<lparr> replica_pg_pool := r \<rparr>) lpk
   \<and> Vault_storage_insert vn self = Vault_storage_insert vn (self\<lparr> replica_pg_pool := r \<rparr>)
   \<and> Vault_storage_update self vu vpk = Vault_storage_update (self\<lparr> replica_pg_pool := r \<rparr>) vu vpk
   \<and> Vault_storage_delete self vpk = Vault_storage_delete (self\<lparr> replica_pg_pool := r \<rparr>) vpk
   \<and> HashTable_storage_insert hn self = HashTable_storage_insert hn (self\<lparr> replica_pg_pool := r \<rparr>)
   \<and> Fingerprint_storage_insert fn self = Fingerprint_storage_insert fn (self\<lparr> replica_pg_pool := r \<rparr>)
   \<and> ReverseLookup_storage_insert rn self = ReverseLookup_storage_insert rn (self\<lparr> replica_pg_pool := r \<rparr>)
   \<and> ReverseLookup_storage_find self rpk = ReverseLookup_storage_find (self\<lparr> replica_pg_pool := r \<rparr>) rpk
   \<and> ReverseLookup_storage_delete self rpk = ReverseLookup_storage_delete (self\<lparr> replica_pg_pool := r \<rparr>) rpk
   \<and> insert_merchant c self mn key = insert_merchant c (self\<lparr> replica_pg_pool := r \<rparr>) mn key
   \<and> insert_entity self entity_id identifier = insert_entity (self\<lparr> replica_pg_pool := r \<rparr>) entity_id identifier
   \<and> fst (route_conn self w) \<noteq> Err StorageError.ReplicaPoolNotConfigured"
  by (intro conjI routed_not_unconfigured;
      simp add: storage_reads storage_writes routed_query io_bind_def io_map_def)

end
