(* ===== verification/Triples.thy ===== *)
theory Triples
  imports Frame
begin

text \<open>
  Invariants of effectful computations: what a run keeps, also when it fails, and what holds of its
  answer, with one rule for each combinator of the prelude.
\<close>

section \<open>Triples\<close>

text \<open>
  \<open>ensures I P m B\<close>: a run of \<open>m\<close> from a state with the invariant \<open>I\<close> and \<open>P\<close> ends in a state
  with \<open>I\<close>, also when it fails, and an answer \<open>x\<close> comes with \<open>B x\<close>.
\<close>

definition ensures :: "('w \<Rightarrow> bool) \<Rightarrow> ('w \<Rightarrow> bool) \<Rightarrow> ('w, 'a, 'e) io \<Rightarrow> ('a \<Rightarrow> 'w \<Rightarrow> bool) \<Rightarrow> bool" where
  "ensures I P m B = (\<forall>w. I w \<longrightarrow> P w \<longrightarrow> (case m w of (r, w') \<Rightarrow> I w' \<and> (\<forall>x. r = Ok x \<longrightarrow> B x w')))"

named_theorems ensures_intros "what a computation ensures, from what its parts ensure"

lemma ensuresD: "ensures I P m B \<Longrightarrow> I w \<Longrightarrow> P w \<Longrightarrow> m w = (r, w') \<Longrightarrow> I w' \<and> (\<forall>x. r = Ok x \<longrightarrow> B x w')"
  by (auto simp: ensures_def)

lemma ensuresI:
  "(\<And>w r w'. I w \<Longrightarrow> P w \<Longrightarrow> m w = (r, w') \<Longrightarrow> I w' \<and> (\<forall>x. r = Ok x \<longrightarrow> B x w')) \<Longrightarrow> ensures I P m B"
  by (auto simp: ensures_def)

lemma ensures_basic [ensures_intros]:
  "(\<And>w. I w \<Longrightarrow> P w \<Longrightarrow> B x w) \<Longrightarrow> ensures I P (io_ret x) B" "ensures I P (io_err e) B"
  "(\<And>x w. v = Ok x \<Longrightarrow> I w \<Longrightarrow> P w \<Longrightarrow> B x w) \<Longrightarrow> ensures I P (io_lift v) B"
  by (simp_all add: ensures_def io_defs)

lemma ensures_try [ensures_intros]:
  assumes "ensures I P m A" "\<And>x. ensures I (A x) (f x) B" "\<And>e. ensures I (\<lambda>_. True) (g e) B"
  shows "ensures I P (io_try m f g) B"
proof (rule ensuresI)
  fix w r w' assume start: "I w" "P w" and run: "io_try m f g w = (r, w')"
  obtain r1 w1 where m: "m w = (r1, w1)" by force
  note m' = ensuresD [OF assms(1) start m]
  show "I w' \<and> (\<forall>x. r = Ok x \<longrightarrow> B x w')"
  proof (cases r1)
    case (Ok x)
    then have "f x w1 = (r, w')" "I w1" "A x w1" using run m m' by (simp_all add: io_try_def)
    then show ?thesis by (rule ensuresD [OF assms(2), rotated 2])
  next
    case (Err e)
    then have "g e w1 = (r, w')" "I w1" using run m m' by (simp_all add: io_try_def)
    then show ?thesis using ensuresD [OF assms(3)] by blast
  qed (use run m m' in \<open>simp add: io_try_def\<close>)
qed

lemma ensures_bind [ensures_intros]:
  assumes "ensures I P m A" "\<And>x. ensures I (A x) (f x) B"
  shows "ensures I P (io_bind m f) B"
  unfolding io_bind_as_try by (rule ensures_try [OF assms]) (simp add: ensures_def io_err_def)

lemma ensures_map [ensures_intros]:
  "ensures I P m B \<Longrightarrow> ensures I P (io_map_err g m) B"
  "ensures I P m (\<lambda>x. B (h x)) \<Longrightarrow> ensures I P (io_map h m) B"
proof -
  show "ensures I P m B \<Longrightarrow> ensures I P (io_map_err g m) B"
    by (rule ensuresI) (auto simp: io_map_err_def split: prod.splits dest: ensuresD)
  have "io_map h m = io_bind m (\<lambda>x. io_ret (h x))"
    by (rule ext) (simp add: io_defs split: prod.split result.split)
  then show "ensures I P m (\<lambda>x. B (h x)) \<Longrightarrow> ensures I P (io_map h m) B"
    using ensures_bind [of I P m "\<lambda>x. B (h x)" "\<lambda>x. io_ret (h x)" B] by (simp add: ensures_basic)
qed

lemma ensures_if [ensures_intros]:
  "(b \<Longrightarrow> ensures I P m B) \<Longrightarrow> (\<not> b \<Longrightarrow> ensures I P n B) \<Longrightarrow> ensures I P (if b then m else n) B"
  by simp

lemma ensures_option [ensures_intros]:
  "(v = None \<Longrightarrow> ensures I P m B) \<Longrightarrow> (\<And>x. v = Some x \<Longrightarrow> ensures I P (f x) B) \<Longrightarrow>
    ensures I P (case v of None \<Rightarrow> m | Some x \<Rightarrow> f x) B"
  by (cases v) auto

lemma ensures_weaken:
  "ensures I P' m B' \<Longrightarrow> (\<And>w. P w \<Longrightarrow> P' w) \<Longrightarrow> (\<And>x w. B' x w \<Longrightarrow> B x w) \<Longrightarrow> ensures I P m B"
  by (rule ensuresI, drule ensuresD) auto

lemma ensures_pure: "(a \<Longrightarrow> ensures I P m B) \<Longrightarrow> ensures I (\<lambda>w. a \<and> P w) m B"
  by (auto simp: ensures_def)

lemma ensures_stays:
  assumes "stays R m" "\<And>w w'. R w w' \<Longrightarrow> I w \<Longrightarrow> I w' \<and> (P w \<longrightarrow> P w')"
  shows "ensures I P m (\<lambda>_. P)"
  by (rule ensuresI) (use staysD [OF assms(1)] assms(2) in blast)

end
