(* ===== verification/MerchantLaws.thy ===== *)
theory MerchantLaws
  imports DedupLaws Triples PlainLaws
begin

text \<open>
  The keys of merchants (\<open>src/src/domain/merchant.rs\<close>, \<open>caching/merchant.rs\<close>,
  \<open>crypto/keymanager/internal_keymanager.rs\<close>): a merchant's data key, once it has been made, is the
  key that every later lookup answers, through the cache and after a concurrent insert.
\<close>

section \<open>The laws of the merchants' table\<close>

text \<open>
  \<open>mview w\<close> is the table, \<open>content w\<close> what the cache holds, and \<open>E\<close> any relation that the
  services of the merchants keep.  An insert succeeds only on a new id, and only then changes the table.
\<close>

definition merchant_quiet ::
    "('w \<Rightarrow> string \<rightharpoonup> MerchantInner) \<Rightarrow> ('w \<Rightarrow> string \<rightharpoonup> Merchant) \<Rightarrow> ('w \<Rightarrow> 'w \<Rightarrow> bool) \<Rightarrow> 'w \<Rightarrow> 'w \<Rightarrow> bool" where
  "merchant_quiet mview content E w w' \<longleftrightarrow> mview w' = mview w \<and> shrinks content w w' \<and> E w w'"

definition merchant_conn_ok ::
    "('w \<Rightarrow> string \<rightharpoonup> MerchantInner) \<Rightarrow> ('w \<Rightarrow> string \<rightharpoonup> Merchant) \<Rightarrow> ('w \<Rightarrow> 'w \<Rightarrow> bool) \<Rightarrow> 'w PgConn \<Rightarrow> bool" where
  "merchant_conn_ok mview content E conn \<longleftrightarrow>
     (\<forall>i w r w'. pg_merchant_find conn i w = (r, w') \<longrightarrow> merchant_quiet mview content E w w'
        \<and> (\<forall>x. r = Ok x \<longrightarrow> mview w i = Some x) \<and> (r = Err DieselError.NotFound \<longrightarrow> mview w i = None))
     \<and> (\<forall>n w r w'. pg_merchant_insert conn n w = (r, w') \<longrightarrow> shrinks content w w' \<and> E w w'
        \<and> (case r of Ok x \<Rightarrow> mview w (mni_merchant_id n) = None \<and> mview w' = (mview w)(mni_merchant_id n \<mapsto> x)
           | _ \<Rightarrow> mview w' = mview w))"

definition merchant_laws ::
    "('w \<Rightarrow> string \<rightharpoonup> MerchantInner) \<Rightarrow> ('w \<Rightarrow> string \<rightharpoonup> Merchant) \<Rightarrow> ('w \<Rightarrow> 'w \<Rightarrow> bool) \<Rightarrow> 'w TenantAppState \<Rightarrow> bool" where
  "merchant_laws mview content E state \<longleftrightarrow>
     preorder_on_states E \<and> \<not> has_replica (inner (ts_db state))
     \<and> stays (merchant_quiet mview content E) (primary_pg_pool (inner (ts_db state)))
     \<and> (\<forall>w conn w'. primary_pg_pool (inner (ts_db state)) w = (Ok conn, w') \<longrightarrow> merchant_conn_ok mview content E conn)
     \<and> (\<forall>n. stays (merchant_quiet mview content E) (rng_fill (ts_crypto state) n))
     \<and> (\<forall>r out w. merchant_quiet mview content E w (ts_record_outcome state r out w))
     \<and> cache_ok content (\<lambda>w w'. mview w' = mview w \<and> E w w') (merchant_cache (ts_db state))"

text \<open>The row of a merchant with its key unsealed, and what the lookups keep.\<close>

definition merchant_row ::
    "('w \<Rightarrow> string \<rightharpoonup> MerchantInner) \<Rightarrow> 'w TenantAppState \<Rightarrow> 'w \<Rightarrow> string \<rightharpoonup> Merchant" where
  "merchant_row mview state w i = Option.bind (mview w i) (\<lambda>x.
     case MerchantInner_decrypt (ts_crypto state) (master_encryption state) x of Ok m \<Rightarrow> Some m | _ \<Rightarrow> None)"

definition merchant_inv ::
    "('w \<Rightarrow> string \<rightharpoonup> MerchantInner) \<Rightarrow> ('w \<Rightarrow> string \<rightharpoonup> Merchant) \<Rightarrow> ('w \<Rightarrow> 'w \<Rightarrow> bool) \<Rightarrow> 'w TenantAppState \<Rightarrow>
     'w \<Rightarrow> 'w \<Rightarrow> bool" where
  "merchant_inv mview content E state w0 w \<longleftrightarrow>
     coherent content (merchant_row mview state) w \<and> mview w0 \<subseteq>\<^sub>m mview w \<and> E w0 w"

lemma merchant_row_mono:
  assumes "mview w \<subseteq>\<^sub>m mview w'"
  shows "merchant_row mview state w \<subseteq>\<^sub>m merchant_row mview state w'"
proof (unfold map_le_def, intro ballI)
  fix i assume "i \<in> dom (merchant_row mview state w)"
  then obtain x where x: "mview w i = Some x" by (auto simp: merchant_row_def bind_eq_Some_conv)
  have "mview w' i = Some x" using assms x by (auto simp: map_le_def dom_def)
  with x show "merchant_row mview state w i = merchant_row mview state w' i" by (simp add: merchant_row_def)
qed

lemma merchant_row_same: "mview w' = mview w \<Longrightarrow> merchant_row mview state w' = merchant_row mview state w"
  by (rule ext) (simp add: merchant_row_def)

lemma quiet_preorder: "preorder_on_states E \<Longrightarrow> preorder_on_states (merchant_quiet mview content E)"
  using shrinks_preorder [of content]
  by (auto simp: preorder_on_states_def merchant_quiet_def)

lemma merchant_inv_quiet:
  assumes "preorder_on_states E" "merchant_inv mview content E state w0 w" "merchant_quiet mview content E w w'"
  shows "merchant_inv mview content E state w0 w' \<and> merchant_row mview state w' = merchant_row mview state w"
proof -
  have "E w0 w'" using assms preorder_trans [OF assms(1)] by (auto simp: merchant_inv_def merchant_quiet_def)
  then show ?thesis using assms merchant_row_same [of mview w' w] coherent_mono [of content "merchant_row mview state" w w']
    by (auto simp: merchant_inv_def merchant_quiet_def)
qed

section \<open>What the operations on merchants ensure\<close>

lemma merchant_lawsD:
  assumes "merchant_laws mview content E state"
  shows "preorder_on_states E" "route_conn (inner (ts_db state)) = get_conn (inner (ts_db state))"
    "stays (merchant_quiet mview content E) (primary_pg_pool (inner (ts_db state)))"
    "primary_pg_pool (inner (ts_db state)) w = (Ok conn, w') \<Longrightarrow> merchant_conn_ok mview content E conn"
    "stays (merchant_quiet mview content E) (rng_fill (ts_crypto state) n)"
    "merchant_quiet mview content E w (ts_record_outcome state r out w)"
    "cache_ok content (\<lambda>w w'. mview w' = mview w \<and> E w w') (merchant_cache (ts_db state))"
  using assms route_conn_primary [of "inner (ts_db state)"] unfolding merchant_laws_def by blast+

lemma stays_aes:
  assumes "preorder_on_states R" "\<And>n. stays R (rng_fill c n)"
  shows "stays R (GcmAes256_encrypt c k p)"
  unfolding GcmAes256_encrypt_def NonceSequence_new_def Let_def by (intro stays_intros assms)

lemma merchant_aes_quiet:
  "merchant_laws mview content E state \<Longrightarrow> stays (merchant_quiet mview content E) (GcmAes256_encrypt (ts_crypto state) k p)"
  by (intro stays_aes quiet_preorder merchant_lawsD(1,5))

text \<open>A quiet step of a computation keeps the invariant and the rows.\<close>

lemma ensures_quiet:
  assumes "merchant_laws mview content E state" "stays (merchant_quiet mview content E) m"
    and "\<And>w w'. merchant_row mview state w' = merchant_row mview state w \<Longrightarrow> P w \<Longrightarrow> P w'"
  shows "ensures (merchant_inv mview content E state w0) P m (\<lambda>_. P)"
  by (rule ensures_stays [OF assms(2)])
    (use merchant_inv_quiet [OF merchant_lawsD(1) [OF assms(1)]] assms(3) in blast)

lemma ensures_conn:
  assumes laws: "merchant_laws mview content E state"
  shows "ensures (merchant_inv mview content E state w0) P (get_conn (inner (ts_db state)))
    (\<lambda>(conn, pool) w. merchant_conn_ok mview content E conn)"
proof (rule ensuresI)
  fix w r w' assume inv: "merchant_inv mview content E state w0 w" and run: "get_conn (inner (ts_db state)) w = (r, w')"
  obtain r1 where p: "primary_pg_pool (inner (ts_db state)) w = (r1, w')" "r = res_map (\<lambda>c. (c, Primary)) (res_map_err (\<lambda>_. StorageError.PoolClientFailure) r1)"
    using run by (auto simp: get_conn_def io_map_def io_map_err_def split: prod.splits)
  have "merchant_inv mview content E state w0 w'"
    using merchant_inv_quiet [OF merchant_lawsD(1) [OF laws] inv staysD [OF merchant_lawsD(3) [OF laws] p(1)]] ..
  moreover have "\<forall>x. r = Ok x \<longrightarrow> (case x of (conn, pool) \<Rightarrow> merchant_conn_ok mview content E conn)"
    using p merchant_lawsD(4) [OF laws, of w] by (cases r1) auto
  ultimately show "merchant_inv mview content E state w0 w'
      \<and> (\<forall>x. r = Ok x \<longrightarrow> (case x of (conn, pool) \<Rightarrow> \<lambda>w. merchant_conn_ok mview content E conn) w')"
    by (simp add: case_prod_beta)
qed

lemma ensures_pg_find:
  assumes laws: "merchant_laws mview content E state"
  shows "ensures (merchant_inv mview content E state w0) (\<lambda>_. merchant_conn_ok mview content E conn)
    (pg_merchant_find conn i) (\<lambda>x w. mview w i = Some x)"
proof (rule ensuresI)
  fix w r w' assume inv: "merchant_inv mview content E state w0 w" and ok: "merchant_conn_ok mview content E conn"
    and run: "pg_merchant_find conn i w = (r, w')"
  have q: "merchant_quiet mview content E w w' \<and> (\<forall>x. r = Ok x \<longrightarrow> mview w i = Some x)"
    using ok [unfolded merchant_conn_ok_def, THEN conjunct1] run by blast
  then show "merchant_inv mview content E state w0 w' \<and> (\<forall>x. r = Ok x \<longrightarrow> mview w' i = Some x)"
    using merchant_inv_quiet [OF merchant_lawsD(1) [OF laws] inv] by (simp add: merchant_quiet_def)
qed

lemma ensures_pg_insert:
  assumes laws: "merchant_laws mview content E state"
  shows "ensures (merchant_inv mview content E state w0) (\<lambda>_. merchant_conn_ok mview content E conn)
    (pg_merchant_insert conn n) (\<lambda>x w. mview w (mni_merchant_id n) = Some x)"
proof (rule ensuresI)
  fix w r w' assume inv: "merchant_inv mview content E state w0 w" and ok: "merchant_conn_ok mview content E conn"
    and run: "pg_merchant_insert conn n w = (r, w')"
  have q: "shrinks content w w' \<and> E w w'
        \<and> (case r of Ok x \<Rightarrow> mview w (mni_merchant_id n) = None \<and> mview w' = (mview w)(mni_merchant_id n \<mapsto> x)
           | _ \<Rightarrow> mview w' = mview w)"
    using ok [unfolded merchant_conn_ok_def, THEN conjunct2] run by blast
  have grows: "mview w \<subseteq>\<^sub>m mview w'"
    using q by (cases r) (auto simp: map_le_def)
  have "coherent content (merchant_row mview state) w'"
    using inv q merchant_row_mono [OF grows, of state]
    by (auto simp: merchant_inv_def coherent_def shrinks_def intro: map_le_trans)
  moreover have "mview w0 \<subseteq>\<^sub>m mview w'" using inv grows by (auto simp: merchant_inv_def intro: map_le_trans)
  moreover have "E w0 w'" using inv q preorder_trans [OF merchant_lawsD(1) [OF laws], of w0 w w'] by (simp add: merchant_inv_def)
  ultimately show "merchant_inv mview content E state w0 w' \<and> (\<forall>x. r = Ok x \<longrightarrow> mview w' (mni_merchant_id n) = Some x)"
    using q by (auto simp: merchant_inv_def)
qed

lemma merchant_row_opened:
  "mview w i = Some x \<Longrightarrow> MerchantInner_decrypt (ts_crypto state) (master_encryption state) x = Ok m \<Longrightarrow>
    merchant_row mview state w i = Some m"
  by (simp add: merchant_row_def)

lemma ensures_cache_data:
  assumes laws: "merchant_laws mview content E state"
  shows "ensures (merchant_inv mview content E state w0) (\<lambda>w. merchant_row mview state w i = Some m)
    (cache_data (merchant_cache (ts_db state)) i m) (\<lambda>_ w. merchant_row mview state w i = Some m)"
proof (rule ensuresI)
  fix w r w' assume inv: "merchant_inv mview content E state w0 w" and row: "merchant_row mview state w i = Some m"
    and run: "cache_data (merchant_cache (ts_db state)) i m w = (r, w')"
  have w': "w' = cache_insert (merchant_cache (ts_db state)) i m w" using run by (simp add: cache_data_def)
  have c: "(mview w' = mview w \<and> E w w') \<and> content w' \<subseteq>\<^sub>m (content w)(i \<mapsto> m)"
    unfolding w' by (rule cache_insert_ok [OF merchant_lawsD(7) [OF laws]])
  have same: "merchant_row mview state w' = merchant_row mview state w" using c by (intro merchant_row_same) simp
  have "coherent content (merchant_row mview state) w'"
    using coherent_insert [OF _ _ same row] inv c by (simp add: merchant_inv_def)
  then show "merchant_inv mview content E state w0 w' \<and> (\<forall>x. r = Ok x \<longrightarrow> merchant_row mview state w' i = Some m)"
    using inv c row same preorder_trans [OF merchant_lawsD(1) [OF laws], of w0 w w'] by (simp add: merchant_inv_def)
qed

lemma ensures_lookup:
  assumes laws: "merchant_laws mview content E state"
  shows "ensures (merchant_inv mview content E state w0) (\<lambda>_. True)
    (lookup (merchant_cache (ts_db state)) i) (\<lambda>found w. \<forall>m. found = Some m \<longrightarrow> merchant_row mview state w i = Some m)"
proof (rule ensuresI)
  fix w r w' assume inv: "merchant_inv mview content E state w0 w"
    and run: "lookup (merchant_cache (ts_db state)) i w = (r, w')"
  obtain found where g: "cache_get (merchant_cache (ts_db state)) i w = (found, w')" "r = Ok found"
    using run by (auto simp: lookup_def io_of_def split: prod.splits)
  note c = cache_get_ok [OF merchant_lawsD(7) [OF laws] g(1)]
  have q: "merchant_quiet mview content E w w'" using c by (simp add: merchant_quiet_def)
  note i = merchant_inv_quiet [OF merchant_lawsD(1) [OF laws] inv q]
  have "merchant_row mview state w i = Some m" if "found = Some m" for m
    using c inv that by (auto simp: merchant_inv_def coherent_def map_le_def dom_def)
  then show "merchant_inv mview content E state w0 w' \<and> (\<forall>x. r = Ok x \<longrightarrow>
      (\<forall>m. x = Some m \<longrightarrow> merchant_row mview state w' i = Some m))" using i g(2) by simp
qed

text \<open>The operations of the store and of the domain, composed from these.\<close>

abbreviation answers_row where
  "answers_row mview state i m \<equiv> (\<lambda>w. merchant_row mview state w i = Some m)"

lemma ensures_find_by_merchant_id:
  assumes laws: "merchant_laws mview content E state"
  shows "ensures (merchant_inv mview content E state w0) P
    (find_by_merchant_id (ts_crypto state) (inner (ts_db state)) i (master_encryption state)) (answers_row mview state i)"
  unfolding find_by_merchant_id_def on_conn_def merchant_lawsD(2) [OF laws]
proof (rule ensures_bind [OF ensures_bind [OF ensures_map(1) [OF ensures_conn [OF laws]]]])
  show "ensures (merchant_inv mview content E state w0)
      ((case x of (conn, pool) \<Rightarrow> \<lambda>w. merchant_conn_ok mview content E conn))
      (case x of (c, pool) \<Rightarrow> io_map_err MerchantDBError_from_diesel (pg_merchant_find c i))
      (\<lambda>x w. mview w i = Some x)" for x
    by (cases x) (simp add: ensures_map(1) [OF ensures_pg_find [OF laws]])
  show "ensures (merchant_inv mview content E state w0) (\<lambda>w. mview w i = Some x)
      (io_lift (res_map_err MerchantDBError_from_CryptoError
        (MerchantInner_decrypt (ts_crypto state) (master_encryption state) x))) (answers_row mview state i)" for x
    by (rule ensures_basic(3)) (auto intro: merchant_row_opened)
qed

lemma ensures_find_merchant:
  assumes laws: "merchant_laws mview content E state"
  shows "ensures (merchant_inv mview content E state w0) (\<lambda>_. True)
    (Caching_find_by_merchant_id (ts_crypto state) (ts_db state) i (master_encryption state)) (answers_row mview state i)"
  unfolding Caching_find_by_merchant_id_def
proof (rule ensures_bind [OF ensures_lookup [OF laws] ensures_option], goal_cases)
  case (1 cached)
  show ?case
    by (rule ensures_bind [OF ensures_find_by_merchant_id [OF laws] ensures_bind [OF ensures_cache_data [OF laws] ensures_basic(1)]])
next
  case (2 cached m)
  then show ?case by (intro ensures_basic(1)) simp
qed

lemma ensures_insert_merchant:
  assumes laws: "merchant_laws mview content E state"
  shows "ensures (merchant_inv mview content E state w0) (\<lambda>_. True)
    (Caching_insert_merchant (ts_crypto state) (ts_db state) new (master_encryption state))
    (answers_row mview state (mn_merchant_id new))"
proof -
  have "ensures (merchant_inv mview content E state w0) (\<lambda>_. True)
    (insert_merchant (ts_crypto state) (inner (ts_db state)) new (master_encryption state))
    (answers_row mview state (mn_merchant_id new))"
    unfolding insert_merchant_def
  proof (rule ensures_bind [OF ensures_map(1) [OF ensures_conn [OF laws]]], clarify)
    fix conn :: "'a PgConn" and pool
    have enc: "ensures (merchant_inv mview content E state w0) (\<lambda>_. merchant_conn_ok mview content E conn)
        (MerchantNew_encrypt (ts_crypto state) (master_encryption state) new)
        (\<lambda>v w. mni_merchant_id v = mn_merchant_id new \<and> merchant_conn_ok mview content E conn)"
      unfolding MerchantNew_encrypt_def
      by (rule ensures_bind [OF ensures_quiet [OF laws merchant_aes_quiet [OF laws]] ensures_basic(1)]) auto
    show "ensures (merchant_inv mview content E state w0) (\<lambda>w. merchant_conn_ok mview content E conn)
       (io_bind (io_map_err MerchantDBError_from_CryptoError
          (MerchantNew_encrypt (ts_crypto state) (master_encryption state) new)) (\<lambda>values.
        io_bind (io_map_err MerchantDBError_from_diesel (pg_merchant_insert conn values)) (\<lambda>inner.
        io_lift (res_map_err MerchantDBError_from_CryptoError
          (MerchantInner_decrypt (ts_crypto state) (master_encryption state) inner)))))
       (answers_row mview state (mn_merchant_id new))"
    proof (rule ensures_bind [OF ensures_map(1) [OF enc]])
      fix v
      show "ensures (merchant_inv mview content E state w0)
         (\<lambda>w. mni_merchant_id v = mn_merchant_id new \<and> merchant_conn_ok mview content E conn)
         (io_bind (io_map_err MerchantDBError_from_diesel (pg_merchant_insert conn v)) (\<lambda>inner.
          io_lift (res_map_err MerchantDBError_from_CryptoError
            (MerchantInner_decrypt (ts_crypto state) (master_encryption state) inner))))
         (answers_row mview state (mn_merchant_id new))"
      proof (rule ensures_pure)
        assume id: "mni_merchant_id v = mn_merchant_id new"
        show "ensures (merchant_inv mview content E state w0) (\<lambda>w. merchant_conn_ok mview content E conn)
         (io_bind (io_map_err MerchantDBError_from_diesel (pg_merchant_insert conn v)) (\<lambda>inner.
          io_lift (res_map_err MerchantDBError_from_CryptoError
            (MerchantInner_decrypt (ts_crypto state) (master_encryption state) inner))))
         (answers_row mview state (mn_merchant_id new))"
          by (rule ensures_bind [OF ensures_map(1) [OF ensures_pg_insert [OF laws]]], rule ensures_basic(3))
            (auto simp: id intro: merchant_row_opened)
      qed
    qed
  qed
  then show ?thesis unfolding Caching_insert_merchant_def Let_def
    by (rule ensures_bind) (rule ensures_bind [OF ensures_cache_data [OF laws] ensures_basic(1)])
qed

lemma ensures_answer:
  assumes "merchant_laws mview content E state"
  shows "ensures (merchant_inv mview content E state w0) (answers_row mview state i m)
      (answer_with state r out (Ok m)) (answers_row mview state i)"
    "ensures (merchant_inv mview content E state w0) P (answer_with state r out (Err e)) B"
proof -
  have q: "stays (merchant_quiet mview content E) (record_get_or_insert_outcome state r out)"
    by (simp add: stays_def record_get_or_insert_outcome_def merchant_lawsD(6) [OF assms])
  show "ensures (merchant_inv mview content E state w0) (answers_row mview state i m)
      (answer_with state r out (Ok m)) (answers_row mview state i)"
    unfolding answer_with_def by (rule ensures_bind [OF ensures_quiet [OF assms q] ensures_basic(3)]) auto
  show "ensures (merchant_inv mview content E state w0) P (answer_with state r out (Err e)) B"
    unfolding answer_with_def
    by (rule ensures_weaken [OF ensures_bind [OF ensures_quiet [OF assms q, where P = "\<lambda>_. True"] ensures_basic(3)]]) auto
qed

lemma ensures_find_or_create:
  assumes laws: "merchant_laws mview content E state"
  shows "ensures (merchant_inv mview content E state w0) (\<lambda>_. True)
    (merchant_find_or_create state i (master_encryption state)) (answers_row mview state i)"
proof -
  have key: "ensures (merchant_inv mview content E state w0) (\<lambda>_. True) (generate_aes256_key (ts_crypto state)) (\<lambda>_ _. True)"
  proof (rule ensures_quiet [OF laws])
    show "stays (merchant_quiet mview content E) (generate_aes256_key (ts_crypto state))"
      using staysD [OF merchant_lawsD(5) [OF laws, of 32]]
      by (auto simp: generate_aes256_key_def stays_def split: prod.split result.split)
  qed
  note found = ensures_try [OF ensures_find_merchant [OF laws] ensures_answer(1) [OF laws]]
  note created = ensures_try [OF ensures_insert_merchant [OF laws, where new = "\<lparr> mn_merchant_id = i, mn_enc_key = dek \<rparr>" for dek,
        simplified] ensures_answer(1) [OF laws]]
  show ?thesis unfolding merchant_find_or_create_def Let_def
    by (rule found ensures_if ensures_bind [OF key] created ensures_answer(2) [OF laws])+
qed

lemma ensures_internal:
  assumes laws: "merchant_laws mview content E state"
  shows "ensures (merchant_inv mview content E state w0) (\<lambda>_. True) (Internal_find_or_create_entity state i)
      (\<lambda>c w. \<exists>m. c = InternalCryptoManager (m_enc_key m) \<and> merchant_row mview state w i = Some m)"
    "ensures (merchant_inv mview content E state w0) (\<lambda>_. True) (Internal_find_by_entity_id state i)
      (\<lambda>c w. \<exists>m. c = InternalCryptoManager (m_enc_key m) \<and> merchant_row mview state w i = Some m)"
proof -
  have ret: "ensures (merchant_inv mview content E state w0) (answers_row mview state i m)
      (io_ret (InternalCryptoManager (m_enc_key m)))
      (\<lambda>c w. \<exists>m. c = InternalCryptoManager (m_enc_key m) \<and> merchant_row mview state w i = Some m)" for m
    by (rule ensures_basic(1)) blast
  have find: "ensures (merchant_inv mview content E state w0) (\<lambda>_. True)
      (io_try (Caching_find_by_merchant_id (ts_crypto state) (ts_db state) i (master_encryption state)) io_ret
        (\<lambda>err. if MerchantDBError_is_not_found err
          then io_map_err ApiError_from_MerchantDBError (merchant_find_or_create state i (master_encryption state))
          else io_err (ApiError_from_MerchantDBError err)))
      (answers_row mview state i)"
    by (rule ensures_try [OF ensures_find_merchant [OF laws]] ensures_basic ensures_if
        ensures_map(1) [OF ensures_find_or_create [OF laws]] | assumption)+
  show "ensures (merchant_inv mview content E state w0) (\<lambda>_. True) (Internal_find_or_create_entity state i)
      (\<lambda>c w. \<exists>m. c = InternalCryptoManager (m_enc_key m) \<and> merchant_row mview state w i = Some m)"
    unfolding Internal_find_or_create_entity_def by (rule ensures_bind [OF find ret])
  show "ensures (merchant_inv mview content E state w0) (\<lambda>_. True) (Internal_find_by_entity_id state i)
      (\<lambda>c w. \<exists>m. c = InternalCryptoManager (m_enc_key m) \<and> merchant_row mview state w i = Some m)"
    unfolding Internal_find_by_entity_id_def
    by (rule ensures_bind [OF ensures_map(1) [OF ensures_find_merchant [OF laws]] ret])
qed

text \<open>A merchant that has a row is not reported missing.\<close>

lemma merchant_found:
  assumes laws: "merchant_laws mview content E state" and inv: "merchant_inv mview content E state w0 w"
    and row: "merchant_row mview state w i = Some m"
    and run: "Internal_find_by_entity_id state i w = (r, w')"
  shows "r \<noteq> Err ApiError.NotFoundError"
proof
  assume r: "r = Err ApiError.NotFoundError"
  let ?db = "inner (ts_db state)" and ?k = "master_encryption state"
  obtain x where x: "mview w i = Some x" "MerchantInner_decrypt (ts_crypto state) ?k x = Ok m"
    using row by (cases "mview w i"; cases "MerchantInner_decrypt (ts_crypto state) ?k (the (mview w i))")
      (auto simp: merchant_row_def)
  obtain e where e: "Caching_find_by_merchant_id (ts_crypto state) (ts_db state) i ?k w = (Err e, w')"
      "ApiError_from_MerchantDBError e = ApiError.NotFoundError"
    using run r by (auto simp: Internal_find_by_entity_id_def io_bind_def io_map_err_def io_ret_def split: prod.splits result.splits)
  obtain w1 where g: "cache_get (merchant_cache (ts_db state)) i w = (None, w1)"
      and f: "find_by_merchant_id (ts_crypto state) ?db i ?k w1 = (Err e, w')"
    using e(1) by (auto simp: Caching_find_by_merchant_id_def lookup_def cache_data_def io_defs split: prod.splits option.splits result.splits)
  have x1: "mview w1 i = Some x" using cache_get_ok [OF merchant_lawsD(7) [OF laws] g] x(1) by simp
  obtain r2 w2 where c: "get_conn ?db w1 = (r2, w2)" by force
  show False
  proof (cases r2)
    case (Ok cp)
    have p: "primary_pg_pool ?db w1 = (Ok (fst cp), w2)" using get_conn_Ok [OF c [unfolded Ok]] .
    have ok: "merchant_conn_ok mview content E (fst cp)" by (rule merchant_lawsD(4) [OF laws p])
    have "mview w2 = mview w1" using staysD [OF merchant_lawsD(3) [OF laws] p] by (simp add: merchant_quiet_def)
    moreover obtain r3 w3 where q: "pg_merchant_find (fst cp) i w2 = (r3, w3)" by force
    note ok [unfolded merchant_conn_ok_def, THEN conjunct1, THEN spec, THEN spec, THEN spec, THEN spec, THEN mp, OF q]
    ultimately have "r3 \<noteq> Err DieselError.NotFound" "\<forall>y. r3 = Ok y \<longrightarrow> y = x" using x1 by auto
    moreover have "\<exists>d. r3 = Err d \<and> e = MerchantDBError_from_diesel d"
      using f c Ok q x(2) calculation(2)
      by (cases cp; cases r3) (auto simp: find_by_merchant_id_def on_conn_def merchant_lawsD(2) [OF laws] io_bind_def io_map_err_def io_lift_def)
    moreover have "MerchantDBError_is_not_found e" using e(2) by (cases e) (simp_all add: storage_error_simps)
    ultimately show False using merchant_err.not_found_iff by auto
  next
    case (Err x)
    then show False using get_conn_Err [OF c [unfolded Err]] f c e(2)
      by (auto simp: find_by_merchant_id_def on_conn_def merchant_lawsD(2) [OF laws] io_bind_def io_map_err_def)
  next
    case Panic
    then show False using f c
      by (auto simp: find_by_merchant_id_def on_conn_def merchant_lawsD(2) [OF laws] io_bind_def io_map_err_def)
  qed
qed

lemma ensures_create:
  assumes "merchant_laws mview content E state"
  shows "ensures (merchant_inv mview content E state w0) (\<lambda>_. True) (Internal_create_entity state i) (\<lambda>_ _. True)"
  unfolding Internal_create_entity_def
  by (rule ensures_bind [OF ensures_map(1) [OF ensures_find_or_create [OF assms]] ensures_basic(1)]) simp

section \<open>The key of a merchant\<close>

text \<open>The requests that reach the merchants' table, in any order and with any outcome.\<close>

inductive merchant_step :: "'w TenantAppState \<Rightarrow> 'w \<Rightarrow> 'w \<Rightarrow> bool" for state where
  store_step: "Internal_find_or_create_entity state j w = (r, w') \<Longrightarrow> merchant_step state w w'"
| read_step: "Internal_find_by_entity_id state j w = (r, w') \<Longrightarrow> merchant_step state w w'"
| create_step: "Internal_create_entity state j w = (s, w') \<Longrightarrow> merchant_step state w w'"

lemma merchant_inv_refl:
  assumes "merchant_laws mview content E state" "coherent content (merchant_row mview state) w"
  shows "merchant_inv mview content E state w w"
  using assms(2) preorder_refl [OF merchant_lawsD(1) [OF assms(1)]] by (simp add: merchant_inv_def)

lemma merchant_step_inv:
  assumes "merchant_laws mview content E state" "merchant_step state w w'" "merchant_inv mview content E state w0 w"
  shows "merchant_inv mview content E state w0 w'"
  using assms(2)
proof cases
  case (store_step j r)
  then show ?thesis using ensuresD [OF ensures_internal(1) [OF assms(1)] assms(3) TrueI] by blast
next
  case (read_step j r)
  then show ?thesis using ensuresD [OF ensures_internal(2) [OF assms(1)] assms(3) TrueI] by blast
next
  case (create_step j s)
  then show ?thesis using ensuresD [OF ensures_create [OF assms(1)] assms(3) TrueI] by blast
qed

lemma merchant_steps_inv:
  assumes "merchant_laws mview content E state" "(merchant_step state)\<^sup>*\<^sup>* w w'" "merchant_inv mview content E state w0 w"
  shows "merchant_inv mview content E state w0 w'"
  using assms(2,3) by induction (auto intro: merchant_step_inv [OF assms(1)])

text \<open>C3. The data key of a merchant is made once: whatever requests for merchants follow, in any order
  and also failing ones, a later request for the same merchant, storing or reading, is given the key
  that the first one was given; every cached key is the one in the table, and no row of the table is
  lost or replaced.\<close>

theorem merchant_key_is_stable:
  assumes laws: "merchant_laws mview content E state" and inv: "coherent content (merchant_row mview state) w"
    and first: "Internal_find_or_create_entity state i w = (Ok c, w1)"
    and steps: "(merchant_step state)\<^sup>*\<^sup>* w1 w2"
    and later: "Internal_find_or_create_entity state i w2 = (Ok c', w3) \<or> Internal_find_by_entity_id state i w2 = (Ok c', w3)"
  shows "c' = c \<and> coherent content (merchant_row mview state) w3
    \<and> merchant_row mview state w \<subseteq>\<^sub>m merchant_row mview state w3"
proof -
  from ensuresD [OF ensures_internal(1) [OF laws] merchant_inv_refl [OF laws inv] TrueI first] obtain m where
    m: "c = InternalCryptoManager (m_enc_key m)" "merchant_row mview state w1 i = Some m"
    and i1: "merchant_inv mview content E state w w1" by auto
  have "merchant_inv mview content E state w1 w1"
    using merchant_inv_refl [OF laws] i1 by (simp add: merchant_inv_def)
  note i2 = merchant_steps_inv [OF laws steps this]
  have i3: "merchant_inv mview content E state w1 w3 \<and>
      (\<exists>m'. c' = InternalCryptoManager (m_enc_key m') \<and> merchant_row mview state w3 i = Some m')"
    using later ensuresD [OF ensures_internal(1) [OF laws] i2 TrueI] ensuresD [OF ensures_internal(2) [OF laws] i2 TrueI]
    by (elim disjE) blast+
  then obtain m' where m': "c' = InternalCryptoManager (m_enc_key m')" "merchant_row mview state w3 i = Some m'" by blast
  have grow: "merchant_row mview state w \<subseteq>\<^sub>m merchant_row mview state w1" "merchant_row mview state w1 \<subseteq>\<^sub>m merchant_row mview state w3"
    using i1 i3 by (auto simp: merchant_inv_def intro!: merchant_row_mono)
  then have "m' = m" using m(2) m'(2) by (auto simp: map_le_def dom_def)
  then show ?thesis using m m' i3 map_le_trans [OF grow] by (simp add: merchant_inv_def)
qed

text \<open>The example services: an unknown merchant is created, another one is created, the first is read.\<close>

definition example_merchants :: "World \<Rightarrow> string \<rightharpoonup> MerchantInner" where
  "example_merchants w i = List.find (\<lambda>r. mi_merchant_id r = i) (w_merchants w)"

lemma example_merchants_insert:
  "List.find (\<lambda>r. mi_merchant_id r = mi_merchant_id x) (w_merchants w) = None \<Longrightarrow>
    example_merchants (w\<lparr> w_merchants := w_merchants w @ [x] \<rparr>) = (example_merchants w)(mi_merchant_id x \<mapsto> x)"
  by (rule ext) (auto simp: example_merchants_def find_append split: option.split)

lemma example_merchant_laws:
  assumes "preorder_on_states E" "\<And>w f. E w (w_merchants_update f w)" "\<And>w f. E w (w_merchant_cache_update f w)"
    "\<And>w f. E w (w_outcomes_update f w)"
  shows "merchant_laws example_merchants w_merchant_cache E example_tenant"
proof -
  have refl: "E w w" for w using preorder_refl [OF assms(1)] .
  have "merchant_conn_ok example_merchants w_merchant_cache E example_conn"
    unfolding merchant_conn_ok_def
  proof (intro conjI allI impI, goal_cases)
    case (1 i w r w')
    then show ?case by (simp add: example_conn_def merchant_quiet_def shrinks_def refl)
  next
    case (2 i w r w' x)
    then show ?case
      by (cases "List.find (\<lambda>r. mi_merchant_id r = i) (w_merchants w)") (auto simp: example_conn_def rows_find_def example_merchants_def)
  next
    case (3 i w r w')
    then show ?case
      by (cases "List.find (\<lambda>r. mi_merchant_id r = i) (w_merchants w)") (auto simp: example_conn_def rows_find_def example_merchants_def)
  next
    case (4 n w r w')
    then show ?case by (auto simp: example_conn_def rows_insert_def shrinks_def split: if_splits)
  next
    case (5 n w r w')
    then show ?case using assms(2) refl by (auto simp: example_conn_def rows_insert_def split: if_splits)
  next
    case (6 n w r w')
    let ?x = "\<lparr> mi_id = 1, mi_merchant_id = mni_merchant_id n, mi_enc_key = mni_enc_key n, mi_created_at = w_time w \<rparr>"
    show ?case using 6 example_merchants_insert [of ?x w]
      by (auto simp: example_conn_def rows_insert_def example_merchants_def [of w] split: if_splits)
  qed
  moreover have "cache_ok w_merchant_cache (\<lambda>w w'. example_merchants w' = example_merchants w \<and> E w w') (merchant_cache (ts_db example_tenant))"
    using assms(3) refl by (simp add: cache_ok_def example_tenant_def example_caching_def example_merchants_def fun_eq_iff)
  ultimately show ?thesis
    using assms(4) refl by (simp add: merchant_laws_def assms(1) example_tenant_def example_caching_def merchant_quiet_def
        shrinks_def stays_def example_crypto_def io_ret_def example_merchants_def fun_eq_iff has_replica_def)
qed

definition example_new_row :: "string \<Rightarrow> World \<Rightarrow> MerchantInner" where
  "example_new_row i w = \<lparr> mi_id = 1, mi_merchant_id = i,
     mi_enc_key = Encrypted_new (replicate 12 0 @ replicate 32 0 @ replicate 12 0 @ replicate 32 0), mi_created_at = w_time w \<rparr>"

lemma example_new_row_opened:
  "MerchantInner_decrypt example_crypto (replicate 32 0) (example_new_row i w)
    = Ok \<lparr> m_merchant_id = i, m_enc_key = replicate 32 0, m_created_at = w_time w \<rparr>"
  using GcmAes256_roundtrip [OF example_aes_ok example_aes_encrypt, of "replicate 32 0"]
  by (simp add: MerchantInner_decrypt_def example_new_row_def)

definition example_created :: "string \<Rightarrow> World \<Rightarrow> World" where
  "example_created i w = w\<lparr> w_merchants := w_merchants w @ [example_new_row i w],
     w_merchant_cache := (w_merchant_cache w)(i \<mapsto> \<lparr> m_merchant_id = i, m_enc_key = replicate 32 0, m_created_at = w_time w \<rparr>),
     w_outcomes := w_outcomes w @ [(Resource_Merchant, Created)] \<rparr>"

lemma example_create:
  assumes "w_merchant_cache w i = None" "example_merchants w i = None"
  shows "Internal_find_or_create_entity example_tenant i w = (Ok (InternalCryptoManager (replicate 32 0)), example_created i w)"
proof -
  let ?key = "replicate 32 0 :: bytes"
  have pool: "get_conn example_store w = (Ok (example_conn, Primary), w)" for w
    by (simp add: get_conn_def io_defs)
  have route: "route_conn example_store = get_conn example_store"
    by (rule route_conn_primary) (simp add: has_replica_def)
  have none: "List.find (\<lambda>r. mi_merchant_id r = i) (w_merchants w) = None"
    using assms(2) by (simp add: example_merchants_def)
  have find: "Caching_find_by_merchant_id example_crypto example_caching i ?key w = (Err MerchantDBError.NotFoundError, w)"
    using assms(1) none by (simp add: Caching_find_by_merchant_id_def lookup_def example_caching_def find_by_merchant_id_def
        on_conn_def route pool example_conn_def rows_find_def io_defs storage_error_simps)
  have key: "generate_aes256_key example_crypto w = (Ok ?key :: (bytes, MerchantDBError) result, w)"
    by (simp add: generate_aes256_key_def example_crypto_def io_ret_def)
  have ins: "insert_merchant example_crypto example_store \<lparr> mn_merchant_id = i, mn_enc_key = ?key \<rparr> ?key w
      = (Ok \<lparr> m_merchant_id = i, m_enc_key = ?key, m_created_at = w_time w \<rparr>, w\<lparr> w_merchants := w_merchants w @ [example_new_row i w] \<rparr>)"
    using none example_new_row_opened [of i w]
    by (simp add: insert_merchant_def MerchantNew_encrypt_def pool io_bind_def io_map_err_def example_aes_encrypt
        example_conn_def rows_insert_def io_ret_def io_lift_def example_new_row_def)
  let ?m = "\<lparr> m_merchant_id = i, m_enc_key = ?key, m_created_at = w_time w \<rparr>"
  let ?w = "w\<lparr> w_merchants := w_merchants w @ [example_new_row i w], w_merchant_cache := (w_merchant_cache w)(i \<mapsto> ?m) \<rparr>"
  have ins': "Caching_insert_merchant example_crypto example_caching \<lparr> mn_merchant_id = i, mn_enc_key = ?key \<rparr> ?key w = (Ok ?m, ?w)"
    using ins by (simp add: Caching_insert_merchant_def cache_data_def io_bind_def io_ret_def Let_def)
      (simp add: example_caching_def)
  have state: "ts_crypto example_tenant = example_crypto" "master_encryption example_tenant = ?key"
    "ts_record_outcome example_tenant r out v = v\<lparr> w_outcomes := w_outcomes v @ [(r, out)] \<rparr>" for r out v
    by (simp_all add: example_tenant_def master_encryption_def)
  have nf: "MerchantDBError_is_not_found MerchantDBError.NotFoundError" by (simp add: storage_error_simps)
  show ?thesis
    by (simp add: Internal_find_or_create_entity_def merchant_find_or_create_def state find key ins' nf
        io_bind_def io_try_def io_map_err_def answer_with_def record_get_or_insert_outcome_def io_lift_def io_ret_def Let_def example_created_def)
qed

theorem merchant_key_is_stable_witness:
  "\<exists>w1 w2 w3. Internal_find_or_create_entity example_tenant ''m1'' empty_world = (Ok (InternalCryptoManager (replicate 32 0)), w1)
    \<and> (merchant_step example_tenant)\<^sup>*\<^sup>* w1 w2
    \<and> Internal_find_by_entity_id example_tenant ''m1'' w2 = (Ok (InternalCryptoManager (replicate 32 0)), w3)
    \<and> merchant_row example_merchants example_tenant empty_world \<subseteq>\<^sub>m merchant_row example_merchants example_tenant w3"
proof -
  let ?w1 = "example_created ''m1'' empty_world" and ?w2 = "example_created ''m2'' (example_created ''m1'' empty_world)"
  have first: "Internal_find_or_create_entity example_tenant ''m1'' empty_world = (Ok (InternalCryptoManager (replicate 32 0)), ?w1)"
    by (rule example_create) (simp_all add: empty_world_def example_merchants_def)
  have "Internal_find_or_create_entity example_tenant ''m2'' ?w1 = (Ok (InternalCryptoManager (replicate 32 0)), ?w2)"
    by (rule example_create) (simp_all add: example_created_def example_new_row_def empty_world_def example_merchants_def)
  then have steps: "(merchant_step example_tenant)\<^sup>*\<^sup>* ?w1 ?w2" by (blast intro: store_step)
  obtain c' where c': "Internal_find_by_entity_id example_tenant ''m1'' ?w2 = (Ok c', ?w2)"
    by (auto simp: Internal_find_by_entity_id_def Caching_find_by_merchant_id_def lookup_def example_tenant_def
        example_caching_def io_defs example_created_def)
  have coh: "coherent w_merchant_cache (merchant_row example_merchants example_tenant) empty_world"
    by (simp add: coherent_def empty_world_def)
  have laws: "merchant_laws example_merchants w_merchant_cache (\<lambda>_ _. True) example_tenant"
    by (rule example_merchant_laws) (simp_all add: preorder_on_states_def)
  show ?thesis
    using merchant_key_is_stable [OF laws coh first steps disjI2 [OF c']] first steps c' by blast
qed

end
