(* ===== verification/RoundTrip.thy ===== *)
theory RoundTrip
  imports MerchantLaws RouteLaws
begin

text \<open>
  The vault from end to end: what \<open>POST /api/v2/vault/add\<close> was given is what \<open>POST /api/v2/vault/retrieve\<close>
  answers, through the key manager, the cipher, the KV layer and the two stores
  (\<open>routes/routes_v2/data.rs\<close>, \<open>routes/data/crypto_operation.rs\<close>).
\<close>

section \<open>What the calls on the vault leave alone\<close>

text \<open>
  The table and the cache of the merchants are not touched by the calls on the vault, and neither they
  nor the vault are by the clock.
\<close>

abbreviation merchants_stay ::
    "('w \<Rightarrow> string \<rightharpoonup> MerchantInner) \<Rightarrow> ('w \<Rightarrow> string \<rightharpoonup> Merchant) \<Rightarrow> 'w \<Rightarrow> 'w \<Rightarrow> bool" where
  "merchants_stay mview content \<equiv> merchant_quiet mview content (\<lambda>_ _. True)"

definition vault_beside ::
    "('w \<Rightarrow> string \<rightharpoonup> MerchantInner) \<Rightarrow> ('w \<Rightarrow> string \<rightharpoonup> Merchant) \<Rightarrow> ('w, VaultPrimaryKey, VaultInner) KvView \<Rightarrow>
     'w TenantAppState \<Rightarrow> bool" where
  "vault_beside mview content V state \<longleftrightarrow>
     (\<forall>w. merchant_quiet mview content (same_view V (inner (ts_db state))) w (snd (date_time_now (ts_globals state) w)))
     \<and> services_stay (merchants_stay mview content) (inner (ts_db state)) (kv_value Vault_kv)
     \<and> (\<forall>r out w. merchants_stay mview content w (ts_record_outcome state r out w))
     \<and> (\<forall>w c w'. primary_pg_pool (inner (ts_db state)) w = (Ok c, w') \<longrightarrow>
          (\<forall>pk. stays (merchants_stay mview content) (pg_vault_find c pk))
        \<and> (\<forall>n. stays (merchants_stay mview content) (pg_vault_insert c n))
        \<and> (\<forall>pk u. stays (merchants_stay mview content) (pg_vault_update c pk u)))"

lemma vault_writes_stay:
  assumes beside: "vault_beside mview content V state" and route: "route_conn (inner (ts_db state)) = get_conn (inner (ts_db state))"
  shows "stays (merchants_stay mview content) (vault_upsert state new)"
    "stays (merchants_stay mview content) (vault_get_or_insert state new)"
proof -
  let ?R = "merchants_stay mview content" and ?db = "inner (ts_db state)"
  have R: "preorder_on_states ?R" by (rule quiet_preorder) (simp add: preorder_on_states_def)
  have s: "services_stay ?R ?db (kv_value Vault_kv)" and rec: "\<And>r out w. ?R w (ts_record_outcome state r out w)"
    and q: "\<And>w c w'. primary_pg_pool ?db w = (Ok c, w') \<Longrightarrow>
        (\<forall>pk. stays ?R (pg_vault_find c pk)) \<and> (\<forall>n. stays ?R (pg_vault_insert c n)) \<and> (\<forall>pk u. stays ?R (pg_vault_update c pk u))"
    using beside unfolding vault_beside_def by blast+
  note conn = stays_conn(1) [OF R s]
  have find: "stays ?R (storage_find Vault_kv ?db pk)" for pk
    using q [OF get_conn_Ok] by (auto simp: Vault_kv_def Vault_storage_find_def route intro!: stays_on_conn [OF R conn])
  have insert: "stays ?R (storage_insert Vault_kv n ?db)" for n
    using q [OF get_conn_Ok] by (auto simp: Vault_kv_def Vault_storage_insert_def intro!: stays_on_conn [OF R conn])
  have update: "stays ?R (storage_update Vault_kv_update ?db u pk)" for u pk
    using q [OF get_conn_Ok] by (auto simp: Vault_kv_update_def Vault_storage_update_def
      intro!: stays_map stays_on_conn [OF R conn])
  have ans: "stays ?R (answer_with state r out x)" for r out and x :: "(Vault, VaultDBError) result"
    by (simp add: stays_def answer_with_eq rec)
  have i: "stays ?R (insert_vault ?db new)"
    unfolding insert_vault_def by (rule stays_insert(2) [OF R s insert])
  have u: "stays ?R (update_vault_data ?db vid eid u)" for vid eid u
    unfolding update_vault_data_def by (rule stays_update [OF R s find update])
  have f: "stays ?R (find_by_vault_id_entity_id ?db vid eid)" for vid eid
    unfolding find_by_vault_id_entity_id_def
    by (intro stays_intros R stays_find(3) [OF R s find])
  show "stays ?R (vault_upsert state new)" "stays ?R (vault_get_or_insert state new)"
    unfolding vault_upsert_def vault_get_or_insert_def Let_def
    by (intro stays_intros R ans i u f)+
qed

text \<open>An insert under a key that is not there makes its row the one that is read.\<close>

lemma get_or_insert_fresh:
  assumes laws: "vault_laws V (inner (ts_db state))" and out: "outcomes_ok V state"
    and soft: "kv_settings (inner (ts_db state)) w = SoftKill \<Longrightarrow>
      vault_redis_entry V (inner (ts_db state)) (vn_vault_id new) (vn_entity_id new) w = None"
    and fresh: "vault_row V (inner (ts_db state)) (vn_vault_id new) (vn_entity_id new) w = None"
    and run: "vault_get_or_insert state new w = (Ok v, w')"
  shows "vault_row V (inner (ts_db state)) (vn_vault_id new) (vn_entity_id new) w' = Some v
    \<and> v_data v = Encrypted (into_inner (vn_encrypted_data new)) \<and> v_expires_at v = vn_expires_at new"
proof -
  let ?db = "inner (ts_db state)" and ?vid = "vn_vault_id new" and ?eid = "vn_entity_id new"
  let ?pk = "\<lparr> vpk_entity_id = ?eid, vpk_vault_id = ?vid \<rparr>"
  obtain r1 w1 where i: "insert_vault ?db new w = (r1, w1)" by force
  show ?thesis
  proof (cases r1)
    case (Ok x)
    then have v: "v = x" "w' = ts_record_outcome state Resource_Vault Created w1"
      using run i by (simp_all add: vault_get_or_insert_eq)
    note ins = insert_vault_Ok [OF laws i [unfolded Ok]]
    obtain y where y: "x = Vault_from_VaultInner y" "visible Vault_kv V ?db w1 ?pk = Some y"
      using ins(2) inserted_visible [where pk = ?pk] soft by (force simp: vault_redis_entry_def row_key_def)
    have "vault_row V ?db ?vid ?eid w' = vault_row V ?db ?vid ?eid w1"
      using out same_view_visible [of V ?db w1 w' Vault_kv] by (simp add: outcomes_ok_def vault_row_def v(2))
    then have "vault_row V ?db ?vid ?eid w' = Some v" using y v(1) by (simp add: vault_row_def)
    moreover have "v_data v = Encrypted (into_inner (vn_encrypted_data new)) \<and> v_expires_at v = vn_expires_at new"
      using v(1) ins(1) by (simp add: stored_vault_def)
    ultimately show ?thesis by simp
  next
    case (Err e)
    then have "VaultDBError_is_duplicate e" using run i by (simp add: vault_get_or_insert_eq split: if_splits)
    then show ?thesis using insert_vault_duplicate [OF laws i [unfolded Err]] fresh by simp
  qed (use run i in \<open>simp add: vault_get_or_insert_eq\<close>)
qed

section \<open>Storing\<close>

text \<open>What a store that succeeded has done: the key of the entity was there or was made, and the data,
  encrypted under it, is the row that is read under the key of the request.\<close>

lemma add_data_stores:
  assumes laws: "vault_laws V (inner (ts_db state))" and out: "outcomes_ok V state"
    and merchants: "merchant_laws mview content (same_view V (inner (ts_db state))) state"
    and beside: "vault_beside mview content V state" and dek: "dek_manager state = InternalKeyManager"
    and inv: "coherent content (merchant_row mview state) w"
    and soft: "kv_settings (inner (ts_db state)) w = SoftKill \<Longrightarrow>
      vault_redis_entry V (inner (ts_db state)) (sd_vault_id req) (sd_entity_id req) w = None"
    and fresh: "mode \<noteq> Some Upsert \<Longrightarrow> vault_row V (inner (ts_db state)) (sd_vault_id req) (sd_entity_id req) w = None"
    and run: "add_data rc km state mode req w = (Ok resp, w')"
  obtains m p ct wa wb v where "coherent content (merchant_row mview state) w'"
    "merchant_row mview state w' (sd_entity_id req) = Some m" "value_to_json rc (sd_data req) = Ok p"
    "GcmAes256_encrypt (ts_crypto state) (m_enc_key m) p wa = (Ok ct, wb)"
    "vault_row V (inner (ts_db state)) (sd_vault_id req) (sd_entity_id req) w' = Some v"
    "v_data v = Encrypted ct" "\<forall>t. ttl_at (sd_ttl req) = Some t \<longrightarrow> v_expires_at v = Some t"
    "mode \<noteq> Some Upsert \<longrightarrow> v_expires_at v = ttl_at (sd_ttl req)"
proof -
  let ?db = "inner (ts_db state)" and ?E = "same_view V (inner (ts_db state))"
  let ?inv = "merchant_inv mview content ?E state w" and ?i = "sd_entity_id req"
  obtain x w1 c w2 v where
      r1: "StoreDataRequest_validate (ts_globals state) req w = (Ok x, w1)" and
      r2: "Internal_find_or_create_entity state ?i w1 = (Ok c, w2)" and
      r3: "encrypt_data_and_upsert_into_db_v2 rc km state c req mode w2 = (Ok v, w')" and
      resp: "resp = StoreDataResponse_from v"
    using run unfolding add_data_def dek by (auto elim!: io_bind_Ok_E)
  obtain p ct w3 new w4 where p: "value_to_json rc (sd_data req) = Ok p" and
      enc: "encrypt_data km state c p w2 = (Ok ct, w3)" and
      new: "VaultNew_new (ts_globals state) req (Encrypted_new ct) w3 = (Ok new :: (VaultNew, ApiError) result, w4)" and
      put: "(case mode of Some Upsert \<Rightarrow> vault_upsert state new | Some Insert \<Rightarrow> vault_get_or_insert state new
        | None \<Rightarrow> vault_get_or_insert state new) w4 = (Ok v, w')"
    using r3 unfolding encrypt_data_and_upsert_into_db_v2_def by (auto simp: io_lift_def elim!: io_bind_Ok_E)
  have clock: "merchant_quiet mview content ?E w (snd (date_time_now (ts_globals state) w))" for w
    using beside by (simp add: vault_beside_def)
  note E = merchant_lawsD(1) [OF merchants]
  have "stays (merchant_quiet mview content ?E) (StoreDataRequest_validate (ts_globals state) req)"
    unfolding StoreDataRequest_validate_def Ttl_validate_def
    by (intro stays_intros quiet_preorder E clock)
  then have q1: "merchant_quiet mview content ?E w w1" using r1 by (rule staysD)
  have i1: "?inv w1" using merchant_inv_quiet [OF E merchant_inv_refl [OF merchants inv] q1] ..
  from ensuresD [OF ensures_internal(1) [OF merchants] i1 TrueI r2] obtain m where i2: "?inv w2"
    and c: "c = InternalCryptoManager (m_enc_key m)" and m: "merchant_row mview state w2 ?i = Some m" by auto
  have ct: "GcmAes256_encrypt (ts_crypto state) (m_enc_key m) p w2 = (Ok ct, w3)"
    using enc by (simp add: c Internal_encrypt_data_def)
  have q3: "merchant_quiet mview content ?E w2 w3"
    using staysD [OF merchant_aes_quiet [OF merchants] ct] .
  have q4: "merchant_quiet mview content ?E w3 w4" and new': "vn_vault_id new = sd_vault_id req" "vn_entity_id new = ?i"
      "vn_encrypted_data new = Encrypted_new ct" "vn_expires_at new = ttl_at (sd_ttl req)"
    using new clock [of w3] unfolding VaultNew_new_def by (auto simp: io_of_def io_bind_def io_ret_def split: prod.splits)
  have i4: "?inv w4" and row4: "merchant_row mview state w4 = merchant_row mview state w2"
    using merchant_inv_quiet [OF E i2 q3] merchant_inv_quiet [OF E _ q4] by auto
  have same: "?E w w4" using i4 by (simp add: merchant_inv_def)
  have soft4: "kv_settings ?db w4 = SoftKill \<Longrightarrow> vault_redis_entry V ?db (vn_vault_id new) (vn_entity_id new) w4 = None"
    using same soft by (simp add: same_view_def vault_redis_entry_def new')
  have row: "vault_row V ?db (sd_vault_id req) ?i w4 = vault_row V ?db (sd_vault_id req) ?i w"
    by (simp add: vault_row_def same_view_visible [OF same])
  have stored: "vault_row V ?db (sd_vault_id req) ?i w' = Some v \<and> v_data v = Encrypted ct
      \<and> (\<forall>t. ttl_at (sd_ttl req) = Some t \<longrightarrow> v_expires_at v = Some t)
      \<and> (mode \<noteq> Some Upsert \<longrightarrow> v_expires_at v = ttl_at (sd_ttl req))"
  proof (cases "mode = Some Upsert")
    case True
    then have "vault_upsert state new w4 = (Ok v, w')" using put by simp
    from upsert_answer [OF laws out soft4 this] show ?thesis using True by (auto simp: new' stored_vault_def)
  next
    case False
    then have g: "vault_get_or_insert state new w4 = (Ok v, w')" using put by (auto split: option.splits WriteMode.splits)
    have "vault_row V ?db (vn_vault_id new) (vn_entity_id new) w4 = None" using fresh False row by (simp add: new')
    from get_or_insert_fresh [OF laws out soft4 this g] show ?thesis by (simp add: new')
  qed
  have q5: "merchants_stay mview content w4 w'"
    using put staysD [OF vault_writes_stay(1) [OF beside merchant_lawsD(2) [OF merchants]]]
      staysD [OF vault_writes_stay(2) [OF beside merchant_lawsD(2) [OF merchants]]]
    by (auto split: option.splits WriteMode.splits)
  have "merchant_row mview state w' = merchant_row mview state w4"
    using q5 by (intro merchant_row_same) (simp add: merchant_quiet_def)
  moreover have "coherent content (merchant_row mview state) w'"
    using i4 q5 merchant_row_same [of mview w' w4 state] coherent_mono [of content "merchant_row mview state" w4 w']
    by (simp add: merchant_inv_def merchant_quiet_def)
  ultimately show thesis using that p ct stored m row4 by simp
qed

section \<open>Storing, then reading\<close>

lemma internal_decrypt_found:
  "fst (decrypt_vault km state (InternalCryptoManager k) enc w) \<noteq> Err ApiError.NotFoundError"
proof -
  have "ApiError_from_CryptoError e \<noteq> ApiError.NotFoundError" for e by (cases e) simp_all
  then show ?thesis
    by (auto simp: decrypt_vault_def Internal_decrypt_data_def io_map_def io_lift_def io_ret_def
        split: option.split dest: sym)
qed

text \<open>The reading of a stored row, some time after a state in which the row and the merchant's key were there.\<close>

lemma retrieval_row_stored:
  assumes laws: "vault_laws V (inner (ts_db state))"
    and merchants: "merchant_laws mview content (same_view V (inner (ts_db state))) state" and dek: "dek_manager state = InternalKeyManager"
    and inv: "merchant_inv mview content (same_view V (inner (ts_db state))) state w1 w2"
    and m: "merchant_row mview state w1 (rd_entity_id req) = Some m"
    and v: "vault_row V (inner (ts_db state)) (rd_vault_id req) (rd_entity_id req) w1 = Some v"
    and opened: "GcmAes256_decrypt (ts_crypto state) (m_enc_key m) ct = Ok p" "v_data v = Encrypted ct"
    and read: "retrieval_row km state req w2 = (Ok row, x)"
  shows "row = Vault_set_decrypted_data v p"
  using read
proof (rule retrieval_row_Ok)
  fix c x1 enc x2
  assume c': "KeyProvider_find_by_entity_id state (dek_manager state) (rd_entity_id req) w2 = (Ok c, x1)"
    and enc: "find_by_vault_id_entity_id (inner (ts_db state)) (rd_vault_id req) (rd_entity_id req) x1 = (Ok enc, x2)"
    and row: "decrypt_vault km state c enc x2 = (Ok row, x)"
  then have c: "Internal_find_by_entity_id state (rd_entity_id req) w2 = (Ok c, x1)" by (simp add: dek)
  from ensuresD [OF ensures_internal(2) [OF merchants] inv TrueI c] obtain m' where
    m': "c = InternalCryptoManager (m_enc_key m')" "merchant_row mview state x1 (rd_entity_id req) = Some m'"
    and i3: "merchant_inv mview content (same_view V (inner (ts_db state))) state w1 x1" by auto
  have "m' = m" using m m'(2) i3 merchant_row_mono [of mview w1 x1 state]
    by (auto simp: merchant_inv_def map_le_def dom_def)
  moreover have "vault_row V (inner (ts_db state)) (rd_vault_id req) (rd_entity_id req) x1 = Some v"
    using same_view_visible [of V "inner (ts_db state)" w1 x1 Vault_kv] i3 v by (simp add: merchant_inv_def vault_row_def)
  then have "enc = v" using find_vault_cases [OF laws enc] by simp
  ultimately show ?thesis
    using row opened by (simp add: decrypt_vault_def m'(1) Internal_decrypt_data_def io_defs)
qed

lemma retrieval_row_missing:
  assumes "retrieval_row km state req w = (Err ApiError.NotFoundError, w')"
  shows "(\<exists>w1. KeyProvider_find_by_entity_id state (dek_manager state) (rd_entity_id req) w = (Err ApiError.NotFoundError, w1))
    \<or> (\<exists>cm w1 w2. KeyProvider_find_by_entity_id state (dek_manager state) (rd_entity_id req) w = (Ok cm, w1)
        \<and> (find_by_vault_id_entity_id (inner (ts_db state)) (rd_vault_id req) (rd_entity_id req) w1
              = (Err VaultDBError.NotFoundError, w2)
          \<or> (\<exists>enc. find_by_vault_id_entity_id (inner (ts_db state)) (rd_vault_id req) (rd_entity_id req) w1 = (Ok enc, w2)
              \<and> fst (decrypt_vault km state cm enc w2) = Err ApiError.NotFoundError)))"
proof -
  have vault: "ApiError.NotFoundError = ApiError_from_VaultDBError e \<longleftrightarrow> e = VaultDBError.NotFoundError" for e
    by (cases e) simp_all
  show ?thesis
    using assms
    by (auto simp: retrieval_row_def io_bind_def io_map_err_def vault split: prod.splits result.splits
        elim!: res_map_err.elims)
qed

lemma retrieval_row_found:
  assumes laws: "vault_laws V (inner (ts_db state))"
    and merchants: "merchant_laws mview content (same_view V (inner (ts_db state))) state" and dek: "dek_manager state = InternalKeyManager"
    and inv: "merchant_inv mview content (same_view V (inner (ts_db state))) state w1 w2"
    and m: "merchant_row mview state w1 (rd_entity_id req) = Some m"
    and v: "vault_row V (inner (ts_db state)) (rd_vault_id req) (rd_entity_id req) w1 = Some v"
  shows "retrieval_row km state req w2 \<noteq> (Err ApiError.NotFoundError, x)"
proof
  assume missing: "retrieval_row km state req w2 = (Err ApiError.NotFoundError, x)"
  have row2: "merchant_row mview state w2 (rd_entity_id req) = Some m"
    using m inv merchant_row_mono [of mview w1 w2 state] by (auto simp: merchant_inv_def map_le_def dom_def)
  have "Internal_find_by_entity_id state (rd_entity_id req) w2 \<noteq> (Err ApiError.NotFoundError, x1)" for x1
    using merchant_found [OF merchants inv row2] by blast
  then obtain c x1 x2 where c: "Internal_find_by_entity_id state (rd_entity_id req) w2 = (Ok c, x1)"
    and r2: "find_by_vault_id_entity_id (inner (ts_db state)) (rd_vault_id req) (rd_entity_id req) x1
          = (Err VaultDBError.NotFoundError, x2)
      \<or> (\<exists>enc. fst (decrypt_vault km state c enc x2) = Err ApiError.NotFoundError)"
    using retrieval_row_missing [OF missing] by (auto simp: dek)
  have i3: "merchant_inv mview content (same_view V (inner (ts_db state))) state w1 x1"
    and "\<exists>k. c = InternalCryptoManager k"
    using ensuresD [OF ensures_internal(2) [OF merchants] inv TrueI c] by auto
  then obtain k where c': "c = InternalCryptoManager k" by auto
  have "vault_row V (inner (ts_db state)) (rd_vault_id req) (rd_entity_id req) x1 = Some v"
    using same_view_visible [of V "inner (ts_db state)" w1 x1 Vault_kv] i3 v by (simp add: merchant_inv_def vault_row_def)
  then have "find_by_vault_id_entity_id (inner (ts_db state)) (rd_vault_id req) (rd_entity_id req) x1
      \<noteq> (Err VaultDBError.NotFoundError, x2)"
    using find_vault_cases [OF laws] by fastforce
  then show False using r2 internal_decrypt_found [of km state k _ x2] by (simp add: c')
qed


text \<open>The example services: an unknown entity stores a text, another one stores something, the first
  reads its text.\<close>

lemma example_vault_beside: "vault_beside example_merchants w_merchant_cache vault_view example_tenant"
proof -
  have "services_stay (merchants_stay example_merchants w_merchant_cache) example_store (kv_value Vault_kv)"
    by (simp add: services_stay_def stays_def io_ret_def shrinks_same example_globals_def example_redis_def
        example_kv_value_def merchant_quiet_def example_merchants_def fun_eq_iff Vault_kv_def split: option.split)
  moreover have "stays (merchants_stay example_merchants w_merchant_cache) (pg_vault_find example_conn pk)"
    "stays (merchants_stay example_merchants w_merchant_cache) (pg_vault_insert example_conn n)"
    "stays (merchants_stay example_merchants w_merchant_cache) (pg_vault_update example_conn pk u)" for pk n u
    by (simp_all add: stays_def example_conn_def rows_insert_def shrinks_same Let_def merchant_quiet_def
        example_merchants_def fun_eq_iff split: option.split)
  ultimately show ?thesis
    by (simp add: vault_beside_def merchant_quiet_def same_view_def vault_view_def example_view_def shrinks_same
        ts_globals_def example_globals_def example_merchants_def fun_eq_iff io_ret_def)
qed

lemma example_round_trip_merchants:
  "merchant_laws example_merchants w_merchant_cache (same_view vault_view example_store) example_tenant"
  by (rule example_merchant_laws)
    (auto simp: preorder_on_states_def same_view_def vault_view_def example_view_def)

definition example_store_data :: StoreDataRequest where
  "example_store_data = \<lparr> sd_entity_id = ''m1'', sd_vault_id = ''v1'', sd_data = Json_String ''4111'', sd_ttl = Ttl None \<rparr>"

definition example_sealed :: bytes where
  "example_sealed = replicate 12 0 @ replicate 32 0 @ replicate 12 0 @ into_bytes (text_of (Json_String ''4111''))"

definition example_stored :: World where
  "example_stored = (example_created ''m1'' (in_mode KvState.Disabled empty_world))
     \<lparr> w_vaults := [\<lparr> vi_id = 1, vi_entity_id = ''m1'', vi_vault_id = ''v1'', vi_encrypted_data = Encrypted_new example_sealed,
         vi_created_at = 1000000000, vi_expires_at = None, vi_updated_by = Some PostgresOnly \<rparr>],
       w_outcomes := [(Resource_Merchant, Created), (Resource_Vault, Created)] \<rparr>"

lemma example_add:
  "\<exists>resp. add_data example_route_codec example_km_codec example_tenant (Some Upsert) example_store_data
     (in_mode KvState.Disabled empty_world) = (Ok resp, example_stored)"
proof -
  let ?w = "in_mode KvState.Disabled empty_world" and ?c = "InternalCryptoManager (replicate 32 0)"
  let ?w1 = "example_created ''m1'' (in_mode KvState.Disabled empty_world)"
  have key: "KeyProvider_find_or_create_entity example_km_codec example_tenant (dek_manager example_tenant) ''m1'' ?w
      = (Ok ?c, ?w1)"
    using example_create [of ?w "''m1''"] by (simp add: dek_manager_def example_tenant_def in_mode_def empty_world_def example_merchants_def)
  have seal: "encrypt_data example_km_codec example_tenant ?c (into_bytes (text_of (Json_String ''4111''))) v
      = (Ok example_sealed, v)" for v
    by (simp add: Internal_encrypt_data_def io_map_err_def example_aes_encrypt example_sealed_def)
      (simp add: example_tenant_def example_aes_encrypt)
  let ?new = "\<lparr> vn_vault_id = ''v1'', vn_entity_id = ''m1'', vn_encrypted_data = Encrypted_new example_sealed,
     vn_created_at = 1000000000, vn_expires_at = None, vn_updated_by = PostgresOnly \<rparr>"
  have new: "VaultNew_new (ts_globals example_tenant) example_store_data (Encrypted_new example_sealed) ?w1
      = (Ok ?new :: (VaultNew, ApiError) result, ?w1)"
    by (simp add: VaultNew_new_def example_store_data_def ts_globals_def example_globals_def example_store_def io_defs
        example_created_def in_mode_def empty_world_def)
  have ins: "insert_vault example_store ?new ?w1
      = (Ok (stored_vault ?new PostgresOnly), example_stored\<lparr> w_outcomes := [(Resource_Merchant, Created)] \<rparr>)"
    by (simp add: example_run example_parts example_created_def empty_world_def stored_vault_def example_stored_def
        vault_storage_defs in_mode_def)
  have put: "vault_upsert example_tenant ?new ?w1 = (Ok (stored_vault ?new PostgresOnly), example_stored)"
    using ins by (simp add: vault_upsert_eq) (simp add: example_tenant_def example_stored_def)
  show ?thesis
    using key seal new put
    by (simp add: add_data_def StoreDataRequest_validate_def Ttl_validate_def example_store_data_def
        encrypt_data_and_upsert_into_db_v2_def example_route_codec_def io_bind_def io_lift_def io_map_def io_map_err_def io_ret_def)
qed

lemma example_read:
  "\<exists>a w. retrieve_data example_route_codec example_km_codec example_tenant
     \<lparr> rd_entity_id = ''m1'', rd_vault_id = ''v1'' \<rparr> example_stored = ((Ok a, w), [])"
proof -
  have key: "KeyProvider_find_by_entity_id example_tenant (dek_manager example_tenant) ''m1'' example_stored
      = (Ok (InternalCryptoManager (replicate 32 0)), example_stored)"
    by (simp add: dek_manager_def example_tenant_def Internal_find_by_entity_id_def Caching_find_by_merchant_id_def
      lookup_def example_caching_def io_defs example_stored_def example_created_def)
  have find: "find_by_vault_id_entity_id example_store ''v1'' ''m1'' example_stored
      = (Ok (Vault_from_VaultInner (hd (w_vaults example_stored))), example_stored)"
    by (simp add: example_run example_parts vault_storage_defs example_stored_def example_created_def)
  have dec: "decrypt_data example_km_codec example_tenant (InternalCryptoManager (replicate 32 0)) example_sealed v
      = (Ok (into_bytes (text_of (Json_String ''4111''))), v)" for v
    by (simp add: Internal_decrypt_data_def example_tenant_def example_sealed_def example_opened io_lift_def)
  show ?thesis
    using key find dec
    by (simp add: retrieve_data_def decrypt_vault_def unless_expired_def retrieve_answer_def example_stored_def type_conversions
        Vault_set_decrypted_data_def from_decrypted_data_def ok_or_def example_route_codec_def io_bind_def io_map_def io_map_err_def Let_def)
qed


end
