(* ===== verification/KeySpace.thy ===== *)
theory KeySpace
  imports VaultLaws
begin

text \<open>
  The keys of the KV layer (\<open>src/src/storage/kv/partition_key.rs\<close>): which rows they tell apart, and
  what happens to two rows of the vault whose keys have the same text.
\<close>

section \<open>The text of a key\<close>

lemma split_at_first:
  "x \<notin> set xs \<Longrightarrow> x \<notin> set xs' \<Longrightarrow> xs @ x # ys = xs' @ x # ys' \<longleftrightarrow> xs = xs' \<and> ys = ys'"
proof (induction xs arbitrary: xs')
  case Nil
  then show ?case by (cases xs') auto
next
  case (Cons a xs)
  then show ?case by (cases xs') auto
qed

lemma vault_text_inj:
  assumes "CHR ''_'' \<notin> set e" "CHR ''_'' \<notin> set e'"
  shows "PartitionKey_to_string l (PartitionKey.Vault e v) = PartitionKey_to_string l (PartitionKey.Vault e' v')
    \<longleftrightarrow> e = e' \<and> v = v'"
  using split_at_first [OF assms] by (simp add: PartitionKey_to_string_def)

text \<open>The tables have key spaces of their own.\<close>

lemma table_keys_disjoint:
  "PartitionKey_to_string l (PartitionKey.Vault e v) \<noteq> PartitionKey_to_string l (PartitionKey.Locker m c i)"
  "PartitionKey_to_string l (PartitionKey.Vault e v) \<noteq> PartitionKey_to_string l (PartitionKey.HashTable h)"
  "PartitionKey_to_string l (PartitionKey.Vault e v) \<noteq> PartitionKey_to_string l (PartitionKey.Fingerprint h)"
  "PartitionKey_to_string l (PartitionKey.Vault e v) \<noteq> PartitionKey_to_string l (PartitionKey.ReverseLookup s)"
  "PartitionKey_to_string l (PartitionKey.Locker m c i) \<noteq> PartitionKey_to_string l (PartitionKey.HashTable h)"
  "PartitionKey_to_string l (PartitionKey.Locker m c i) \<noteq> PartitionKey_to_string l (PartitionKey.Fingerprint h)"
  "PartitionKey_to_string l (PartitionKey.Locker m c i) \<noteq> PartitionKey_to_string l (PartitionKey.ReverseLookup s)"
  "PartitionKey_to_string l (PartitionKey.HashTable h) \<noteq> PartitionKey_to_string l (PartitionKey.Fingerprint h')"
  "PartitionKey_to_string l (PartitionKey.HashTable h) \<noteq> PartitionKey_to_string l (PartitionKey.ReverseLookup s)"
  "PartitionKey_to_string l (PartitionKey.Fingerprint h) \<noteq> PartitionKey_to_string l (PartitionKey.ReverseLookup s)"
  by (simp_all add: PartitionKey_to_string_def)

section \<open>Rows with other keys\<close>

text \<open>
  What other clients of the store do: successful inserts, updates and deletes under keys other than
  \<open>(entity_id, vault_id)\<close> whose entity has no underscore in its id, and reads of any key.
\<close>

inductive beside_key :: "'w Storage \<Rightarrow> string \<Rightarrow> string \<Rightarrow> 'w \<Rightarrow> 'w \<Rightarrow> bool"
  for store :: "'w Storage" and vault_id entity_id :: string where
  insert: "insert_vault store new w = (Ok x, w') \<Longrightarrow> CHR ''_'' \<notin> set (vn_entity_id new) \<Longrightarrow>
    (vn_entity_id new, vn_vault_id new) \<noteq> (entity_id, vault_id) \<Longrightarrow> beside_key store vault_id entity_id w w'"
| update: "update_vault_data store vid eid u w = (Ok x, w') \<Longrightarrow> CHR ''_'' \<notin> set eid \<Longrightarrow>
    (eid, vid) \<noteq> (entity_id, vault_id) \<Longrightarrow> beside_key store vault_id entity_id w w'"
| delete: "delete_from_vault store vid eid w = (Ok n, w') \<Longrightarrow> CHR ''_'' \<notin> set eid \<Longrightarrow>
    (eid, vid) \<noteq> (entity_id, vault_id) \<Longrightarrow> beside_key store vault_id entity_id w w'"
| read: "find_by_vault_id_entity_id store vid eid w = (r, w') \<Longrightarrow> beside_key store vault_id entity_id w w'"

lemma vault_row_visible:
  "visible Vault_kv V store w' \<lparr> vpk_entity_id = entity_id, vpk_vault_id = vault_id \<rparr>
     = visible Vault_kv V store w \<lparr> vpk_entity_id = entity_id, vpk_vault_id = vault_id \<rparr> \<Longrightarrow>
   vault_row V store vault_id entity_id w' = vault_row V store vault_id entity_id w"
  by (simp add: vault_row_def)

lemma plain_row_keys:
  assumes "CHR ''_'' \<notin> set entity_id" "CHR ''_'' \<notin> set eid" "(eid, vid) \<noteq> (entity_id, vault_id)"
  shows "row_key Vault_kv store \<lparr> vpk_entity_id = entity_id, vpk_vault_id = vault_id \<rparr>
    \<noteq> row_key Vault_kv store \<lparr> vpk_entity_id = eid, vpk_vault_id = vid \<rparr>"
  using assms(3) vault_text_inj [OF assms(1,2)] by (auto simp: row_key_def)

lemma beside_key_row:
  assumes laws: "vault_laws V store" and plain: "CHR ''_'' \<notin> set entity_id"
    and step: "beside_key store vault_id entity_id w w'"
  shows "vault_row V store vault_id entity_id w' = vault_row V store vault_id entity_id w"
  using step
proof cases
  case (insert new x)
  obtain y where "inserted Vault_kv V store \<lparr> vpk_entity_id = vn_entity_id new, vpk_vault_id = vn_vault_id new \<rparr>
      (PartitionKey.Vault (vn_entity_id new) (vn_vault_id new)) (VaultNewInner_from_VaultNew new) y w w'"
    using insert_vault_Ok(2) [OF laws insert(1)] by blast
  then show ?thesis
    by (intro vault_row_visible) (rule inserted_other [OF _ plain_row_keys [OF plain insert(2,3)]])
next
  case (update vid eid u x)
  then obtain scheme e where "written Vault_kv V store \<lparr> vpk_entity_id = eid, vpk_vault_id = vid \<rparr> scheme (Some e) w w'"
    using update_vault_Ok [OF laws update(1)] by blast
  then show ?thesis
    by (intro vault_row_visible) (rule written_other [OF _ plain_row_keys [OF plain update(2,3)]])
next
  case (delete vid eid n)
  then obtain scheme where "written Vault_kv V store \<lparr> vpk_entity_id = eid, vpk_vault_id = vid \<rparr> scheme None w w'"
    using delete_vault_Ok [OF laws delete(1)] by blast
  then show ?thesis
    by (intro vault_row_visible) (rule written_other [OF _ plain_row_keys [OF plain delete(2,3)]])
next
  case (read vid eid r)
  then have "same_view V store w w'" using find_vault_cases [OF laws read(1)] by blast
  then show ?thesis by (simp add: vault_row_def same_view_visible)
qed



section \<open>Rows whose keys have the same text\<close>

text \<open>C22. With an underscore in the ids they are not: with KV enabled, a read under another entity
  and another vault id whose ids, joined by an underscore, give the same text answers the row that
  was stored for this entity.\<close>

theorem vault_keys_collide:
  assumes laws: "vault_laws V store" and on: "kv_settings store w = KvState.Enabled"
    and ins: "insert_vault store new w = (Ok x, w')"
    and same: "entity_id @ ''_'' @ vault_id = vn_entity_id new @ ''_'' @ vn_vault_id new"
    and find: "find_by_vault_id_entity_id store vault_id entity_id w' = (r, w'')"
  shows "(\<forall>y. r = Ok y \<longrightarrow> y = x) \<and> r \<noteq> Err VaultDBError.NotFoundError \<and> v_entity_id x = vn_entity_id new"
proof -
  let ?pk = "\<lparr> vpk_entity_id = vn_entity_id new, vpk_vault_id = vn_vault_id new \<rparr>"
  obtain y where y: "x = Vault_from_VaultInner y" "inserted Vault_kv V store ?pk
      (PartitionKey.Vault (vn_entity_id new) (vn_vault_id new)) (VaultNewInner_from_VaultNew new) y w w'"
    using insert_vault_Ok(2) [OF laws ins] by blast
  have "row_key Vault_kv store \<lparr> vpk_entity_id = entity_id, vpk_vault_id = vault_id \<rparr> = row_key Vault_kv store ?pk"
    using same by (simp add: row_key_def PartitionKey_to_string_def)
  then have "vault_row V store vault_id entity_id w' = Some x"
    using y on by (simp add: vault_row_def visible_def inserted_def)
  then show ?thesis
    using find_vault_cases [OF laws find] insert_vault_Ok(1) [OF laws ins] by (auto simp: stored_vault_def)
qed

definition example_collision :: VaultNew where
  "example_collision = example_new\<lparr> vn_entity_id := ''a_b'', vn_vault_id := ''c'' \<rparr>"

theorem vault_keys_collide_witness:
  "\<exists>x w w'. insert_vault example_store example_collision (in_mode KvState.Enabled empty_world) = (Ok x, w)
     \<and> find_by_vault_id_entity_id example_store ''b_c'' ''a'' w = (Ok x, w') \<and> v_entity_id x = ''a_b''"
proof -
  have "is_ok (fst (insert_vault example_store example_collision (in_mode KvState.Enabled empty_world)))"
    by (simp add: example_run example_parts example_new_def example_collision_def empty_world_def stored_vault_def
        KvConfig_default_def default_drainer_num_partitions_def)
  then obtain x w where i: "insert_vault example_store example_collision (in_mode KvState.Enabled empty_world) = (Ok x, w)"
    by (cases "insert_vault example_store example_collision (in_mode KvState.Enabled empty_world)") (auto simp: is_ok_iff)
  obtain r w' where f: "find_by_vault_id_entity_id example_store ''b_c'' ''a'' w = (r, w')" by force
  have "is_ok (fst (find_by_vault_id_entity_id example_store ''b_c'' ''a''
      (snd (insert_vault example_store example_collision (in_mode KvState.Enabled empty_world)))))"
    by (simp add: example_run example_parts example_new_def example_collision_def empty_world_def stored_vault_def
        KvConfig_default_def default_drainer_num_partitions_def)
  then have "\<exists>y. r = Ok y" using i f by (simp add: is_ok_iff)
  moreover have "kv_settings example_store (in_mode KvState.Enabled empty_world) = KvState.Enabled" by simp
  ultimately show ?thesis
    using vault_keys_collide [OF example_vault_laws _ i _ f] i f by (auto simp: example_collision_def)
qed

end
