(* ===== verification/VaultSpec.thy ===== *)
theory VaultSpec
  imports KeySpace
begin

text \<open>
  The abstract specification of the vault, a map from keys to rows with four operations, and that the
  store implements it: on Postgres alone, and on Redis in front of a Postgres that nothing was drained to.
\<close>

section \<open>The specification\<close>

datatype VaultRequest =
    Store VaultNew
  | Read VaultPrimaryKey
  | Change VaultPrimaryKey VaultUpdate
  | Remove VaultPrimaryKey

datatype VaultAnswer = Row Vault | Removed | Failed VaultDBError

definition new_key :: "VaultNew \<Rightarrow> VaultPrimaryKey" where
  "new_key new = \<lparr> vpk_entity_id = vn_entity_id new, vpk_vault_id = vn_vault_id new \<rparr>"

definition changed_vault :: "StorageScheme \<Rightarrow> VaultUpdate \<Rightarrow> Vault \<Rightarrow> Vault" where
  "changed_vault scheme u v = v\<lparr> v_data := Encrypted (into_inner (vu_encrypted_data u)),
     v_expires_at := (if scheme = PostgresOnly \<and> vu_expires_at u = None then v_expires_at v else vu_expires_at u),
     v_updated_by := Some scheme \<rparr>"

text \<open>The map changes only with an answer that is not a failure.\<close>

inductive vault_spec ::
    "StorageScheme \<Rightarrow> VaultRequest \<Rightarrow> (VaultPrimaryKey \<rightharpoonup> Vault) \<Rightarrow> VaultAnswer \<Rightarrow> (VaultPrimaryKey \<rightharpoonup> Vault) \<Rightarrow> bool"
  for scheme where
  spec_stored: "s (new_key new) = None \<Longrightarrow>
    vault_spec scheme (Store new) s (Row (stored_vault new scheme)) (s(new_key new \<mapsto> stored_vault new scheme))"
| spec_duplicate: "s (new_key new) \<noteq> None \<Longrightarrow> vault_spec scheme (Store new) s (Failed VaultDBError.Duplicate) s"
| spec_read: "s pk = Some v \<Longrightarrow> vault_spec scheme (Read pk) s (Row v) s"
| spec_missing: "s pk = None \<Longrightarrow> vault_spec scheme (Read pk) s (Failed VaultDBError.NotFoundError) s"
| spec_changed: "s pk = Some v \<Longrightarrow>
    vault_spec scheme (Change pk u) s (Row (changed_vault scheme u v)) (s(pk \<mapsto> changed_vault scheme u v))"
| spec_removed: "vault_spec scheme (Remove pk) s Removed (s(pk := None))"

inductive_simps vault_spec_simps [simp]:
  "vault_spec scheme (Store new) s a s'" "vault_spec scheme (Read pk) s a s'"
  "vault_spec scheme (Change pk u) s a s'" "vault_spec scheme (Remove pk) s a s'"

section \<open>The implementation\<close>

definition row_answer :: "(Vault, VaultDBError) result \<Rightarrow> VaultAnswer option" where
  "row_answer r = (case r of Ok v \<Rightarrow> Some (Row v) | Err e \<Rightarrow> Some (Failed e) | Panic \<Rightarrow> None)"

fun serve_vault :: "'w Storage \<Rightarrow> VaultRequest \<Rightarrow> 'w \<Rightarrow> VaultAnswer option \<times> 'w" where
  "serve_vault store (Store new) w = (case insert_vault store new w of (r, w') \<Rightarrow> (row_answer r, w'))"
| "serve_vault store (Read pk) w =
     (case find_by_vault_id_entity_id store (vpk_vault_id pk) (vpk_entity_id pk) w of (r, w') \<Rightarrow> (row_answer r, w'))"
| "serve_vault store (Change pk u) w =
     (case update_vault_data store (vpk_vault_id pk) (vpk_entity_id pk) u w of (r, w') \<Rightarrow> (row_answer r, w'))"
| "serve_vault store (Remove pk) w =
     (case delete_from_vault store (vpk_vault_id pk) (vpk_entity_id pk) w of (r, w') \<Rightarrow>
       (case r of Ok n \<Rightarrow> Some Removed | Err e \<Rightarrow> Some (Failed e) | Panic \<Rightarrow> None, w'))"

text \<open>
  An answer is definite if it is not the failure of a service: a row, a removal, a duplicate of a
  store or a miss of a read.
\<close>

fun definite :: "VaultRequest \<Rightarrow> VaultAnswer option \<Rightarrow> bool" where
  "definite (Store new) (Some (Failed e)) = (e = VaultDBError.Duplicate)"
| "definite (Read pk) (Some (Failed e)) = (e = VaultDBError.NotFoundError)"
| "definite _ (Some (Failed e)) = False"
| "definite _ (Some _) = True"
| "definite _ None = False"

fun request_key :: "VaultRequest \<Rightarrow> VaultPrimaryKey" where
  "request_key (Store new) = new_key new"
| "request_key (Read pk) = pk"
| "request_key (Change pk u) = pk"
| "request_key (Remove pk) = pk"

definition plain_key :: "VaultPrimaryKey \<Rightarrow> bool" where
  "plain_key pk = (CHR ''_'' \<notin> set (vpk_entity_id pk))"

text \<open>The abstraction, and the states of the store in which it is one map.\<close>

definition vault_map ::
    "('w, VaultPrimaryKey, VaultInner) KvView \<Rightarrow> 'w Storage \<Rightarrow> 'w \<Rightarrow> VaultPrimaryKey \<rightharpoonup> Vault" where
  "vault_map V store w pk = (if plain_key pk then vault_row V store (vpk_vault_id pk) (vpk_entity_id pk) w else None)"

definition one_store ::
    "('w, VaultPrimaryKey, VaultInner) KvView \<Rightarrow> 'w Storage \<Rightarrow> StorageScheme \<Rightarrow> 'w \<Rightarrow> bool" where
  "one_store V store scheme w = (case scheme of
     PostgresOnly \<Rightarrow> kv_settings store w = KvState.Disabled
   | RedisKv \<Rightarrow> kv_settings store w = KvState.Enabled \<and> pg_row V w = Map.empty)"

lemma vault_key_eta [simp]: "\<lparr> vpk_entity_id = vpk_entity_id pk, vpk_vault_id = vpk_vault_id pk \<rparr> = (pk :: VaultPrimaryKey)"
  by (cases pk) simp

lemma row_key_plain:
  assumes "plain_key pk" "plain_key pk'"
  shows "row_key Vault_kv store pk = row_key Vault_kv store pk' \<longleftrightarrow> pk = pk'"
  using vault_text_inj [of "vpk_entity_id pk" "vpk_entity_id pk'" "libs store" "vpk_vault_id pk" "vpk_vault_id pk'"] assms
  by (cases pk; cases pk') (simp add: plain_key_def row_key_def)

lemma vault_map_plain: "plain_key pk \<Longrightarrow> vault_map V store w pk = map_option Vault_from_VaultInner (visible Vault_kv V store w pk)"
  by (simp add: vault_map_def vault_row_def)

lemma same_view_vault_map: "same_view V store w w' \<Longrightarrow> vault_map V store w' = vault_map V store w"
  using same_view_visible [of V store w w' Vault_kv] by (simp add: vault_map_def vault_row_def fun_eq_iff)

lemma same_view_one_store: "same_view V store w w' \<Longrightarrow> one_store V store scheme w' = one_store V store scheme w"
  by (simp add: one_store_def same_view_def split: StorageScheme.split)

section \<open>One request\<close>

text \<open>A write of a row, by whichever operation, is an update of the map.\<close>

lemma vault_map_write:
  assumes one: "one_store V store scheme w" and plain: "plain_key pk"
    and vis: "visible Vault_kv V store w' pk = e"
    and others: "\<And>pk'. plain_key pk' \<Longrightarrow> pk' \<noteq> pk \<Longrightarrow> visible Vault_kv V store w' pk' = visible Vault_kv V store w pk'"
  shows "vault_map V store w' = (vault_map V store w)(pk := map_option Vault_from_VaultInner e)"
proof
  fix pk'
  show "vault_map V store w' pk' = ((vault_map V store w)(pk := map_option Vault_from_VaultInner e)) pk'"
    using vis others [of pk'] plain by (cases "plain_key pk'"; cases "pk' = pk") (auto simp: vault_map_def vault_row_def)
qed

lemma written_map:
  assumes one: "one_store V store scheme w" and plain: "plain_key pk"
    and wr: "written Vault_kv V store pk scheme' e w w'"
  shows "scheme' = scheme \<and> one_store V store scheme w'
    \<and> vault_map V store w' = (vault_map V store w)(pk := map_option Vault_from_VaultInner e)"
proof -
  have s: "scheme' = scheme \<and> one_store V store scheme w'"
    using one wr by (cases scheme; cases scheme') (auto simp: one_store_def written_def view_defs)
  have "visible Vault_kv V store w' pk = e"
    using one wr s written_None [of Vault_kv V store pk scheme w w'] written_same [of Vault_kv V store pk scheme _ w w']
    by (cases e; cases scheme) (auto simp: one_store_def)
  moreover have "visible Vault_kv V store w' pk' = visible Vault_kv V store w pk'" if "plain_key pk'" "pk' \<noteq> pk" for pk'
    using written_other [OF wr] row_key_plain [OF that(1) plain] that(2) by blast
  ultimately show ?thesis using s vault_map_write [OF one plain, of w' e] by simp
qed

lemma inserted_map:
  assumes one: "one_store V store scheme w" and plain: "plain_key pk"
    and ins: "inserted Vault_kv V store pk key n x w w'"
  shows "vault_map V store w pk = None \<and> one_store V store scheme w'
    \<and> vault_map V store w' = (vault_map V store w)(pk \<mapsto> Vault_from_VaultInner x)"
proof -
  have "visible Vault_kv V store w pk = None"
    using one ins by (cases scheme) (simp_all add: one_store_def inserted_def visible_def)
  moreover have "one_store V store scheme w'"
    using one ins by (cases scheme) (simp_all add: one_store_def inserted_def pg_becomes_def)
  moreover have "visible Vault_kv V store w' pk = Some x"
    using inserted_visible [OF ins] one by (cases scheme) (auto simp: one_store_def)
  moreover have "visible Vault_kv V store w' pk' = visible Vault_kv V store w pk'" if "plain_key pk'" "pk' \<noteq> pk" for pk'
    using inserted_other [OF ins] row_key_plain [OF that(1) plain] that(2) by blast
  ultimately show ?thesis using vault_map_write [OF one plain, of w' "Some x"] vault_map_plain [OF plain, of V store w] by simp
qed

lemma serve_vault_refines:
  assumes laws: "vault_laws V store" and one: "one_store V store scheme w" and plain: "plain_key (request_key req)"
    and run: "serve_vault store req w = (ans, w')" and def: "definite req ans"
  shows "one_store V store scheme w' \<and> (\<exists>a. ans = Some a \<and> vault_spec scheme req (vault_map V store w) a (vault_map V store w'))"
proof (cases req)
  case (Store new)
  then obtain r where ins: "insert_vault store new w = (r, w')" and ans: "ans = row_answer r"
    using run by (auto split: prod.splits)
  have p: "plain_key (new_key new)" using plain Store by simp
  show ?thesis
  proof (cases r)
    case (Ok v)
    have v: "v = stored_vault new scheme"
      using insert_vault_Ok(1) [OF laws ins [unfolded Ok]] one
      by (cases scheme) (auto simp: one_store_def insert_scheme_def)
    obtain x where x: "v = Vault_from_VaultInner x" "inserted Vault_kv V store (new_key new)
        (PartitionKey.Vault (vn_entity_id new) (vn_vault_id new)) (VaultNewInner_from_VaultNew new) x w w'"
      using insert_vault_Ok(2) [OF laws ins [unfolded Ok]] unfolding new_key_def by blast
    show ?thesis using inserted_map [OF one p x(2)] x(1) v Store ans Ok by (simp add: row_answer_def)
  next
    case (Err e)
    then have "e = VaultDBError.Duplicate" using def ans Store by (simp add: row_answer_def)
    then have d: "same_view V store w w' \<and> vault_row V store (vn_vault_id new) (vn_entity_id new) w \<noteq> None"
      using insert_vault_duplicate [OF laws ins [unfolded Err]] by (simp add: VaultDBError_is_duplicate_def storage_error_is_def)
    then have "vault_map V store w (new_key new) \<noteq> None" using p by (simp add: vault_map_def new_key_def)
    then show ?thesis using d one Store ans Err \<open>e = VaultDBError.Duplicate\<close> same_view_vault_map [of V store w w']
        same_view_one_store [of V store w w' scheme] by (simp add: row_answer_def)
  qed (use def ans Store in \<open>simp add: row_answer_def\<close>)
next
  case (Read pk)
  then obtain r where find: "find_by_vault_id_entity_id store (vpk_vault_id pk) (vpk_entity_id pk) w = (r, w')"
      and ans: "ans = row_answer r"
    using run by (auto split: prod.splits)
  note f = find_vault_cases [OF laws find]
  have "vault_map V store w' = vault_map V store w" "one_store V store scheme w'"
    using f one same_view_vault_map [of V store w w'] same_view_one_store [of V store w w' scheme] by simp_all
  then show ?thesis using f def plain Read ans by (cases r) (auto simp: row_answer_def vault_map_def)
next
  case (Change pk u)
  then obtain r where upd: "update_vault_data store (vpk_vault_id pk) (vpk_entity_id pk) u w = (r, w')"
      and ans: "ans = row_answer r"
    using run by (auto split: prod.splits)
  have p: "plain_key pk" using plain Change by simp
  obtain v where v: "r = Ok v" using def ans Change by (cases r) (auto simp: row_answer_def)
  obtain scheme' current where c: "visible Vault_kv V store w pk = Some current"
      "v = Vault_from_VaultInner (vault_updated scheme' u current)"
      "written Vault_kv V store pk scheme' (Some (vault_updated scheme' u current)) w w'"
    using update_vault_Ok [OF laws upd [unfolded v]] by auto
  note wm = written_map [OF one p c(3)]
  have "vault_map V store w pk = Some (Vault_from_VaultInner current)" using c(1) p by (simp add: vault_map_plain)
  moreover have "v = changed_vault scheme u (Vault_from_VaultInner current)"
    using c(2) wm by (simp add: changed_vault_def Vault_updated) (simp add: type_conversions)
  ultimately show ?thesis using wm c(2) Change ans v by (simp add: row_answer_def)
next
  case (Remove pk)
  then obtain r where del: "delete_from_vault store (vpk_vault_id pk) (vpk_entity_id pk) w = (r, w')"
      and ans: "ans = (case r of Ok n \<Rightarrow> Some Removed | Err e \<Rightarrow> Some (Failed e) | Panic \<Rightarrow> None)"
    using run by (auto split: prod.splits)
  have p: "plain_key pk" using plain Remove by simp
  obtain n where n: "r = Ok n" using def ans Remove by (cases r) auto
  obtain scheme' where "written Vault_kv V store pk scheme' None w w'"
    using delete_vault_Ok [OF laws del [unfolded n]] by auto
  then show ?thesis using written_map [OF one p] Remove ans n by fastforce
qed

section \<open>Any sequence of requests\<close>

fun serve_all :: "'w Storage \<Rightarrow> VaultRequest list \<Rightarrow> 'w \<Rightarrow> VaultAnswer option list \<times> 'w" where
  "serve_all store [] w = ([], w)"
| "serve_all store (req # reqs) w = (case serve_vault store req w of (ans, w1) \<Rightarrow>
     (case serve_all store reqs w1 of (rest, w2) \<Rightarrow> (ans # rest, w2)))"

inductive spec_trace ::
    "StorageScheme \<Rightarrow> VaultRequest list \<Rightarrow> (VaultPrimaryKey \<rightharpoonup> Vault) \<Rightarrow> VaultAnswer list \<Rightarrow> (VaultPrimaryKey \<rightharpoonup> Vault) \<Rightarrow> bool"
  for scheme where
  trace_done: "spec_trace scheme [] s [] s"
| trace_step: "vault_spec scheme req s a s1 \<Longrightarrow> spec_trace scheme reqs s1 as s2 \<Longrightarrow> spec_trace scheme (req # reqs) s (a # as) s2"

lemma vault_spec_deterministic:
  "vault_spec scheme req s a s' \<Longrightarrow> vault_spec scheme req s b s'' \<Longrightarrow> b = a \<and> s'' = s'"
  by (cases req) auto

lemma spec_trace_deterministic:
  "spec_trace scheme reqs s as s' \<Longrightarrow> spec_trace scheme reqs s bs s'' \<Longrightarrow> bs = as \<and> s'' = s'"
proof (induction arbitrary: bs s'' rule: spec_trace.induct)
  case (trace_step req s a s1 reqs as s2)
  from trace_step.prems obtain b t1 bs' where b: "bs = b # bs'" "vault_spec scheme req s b t1" "spec_trace scheme reqs t1 bs' s''"
    by (cases rule: spec_trace.cases) auto
  then show ?case using vault_spec_deterministic [OF trace_step.hyps(1) b(2)] trace_step.IH by blast
qed (auto elim: spec_trace.cases)

text \<open>C2. The vault is a map.  Whatever requests are made of it one after the other, under entity ids
  without an underscore, as long as no service fails the answers are those of the specification, which has
  a single map of keys to rows and is deterministic, and the map it ends with is what the store then holds.
  It holds with KV off, and with KV on while nothing has been drained to Postgres; the two differ only in the mark of the
  store on each row, and in that an update without an expiry keeps the old one in Postgres.\<close>

theorem vault_refines_map:
  assumes laws: "vault_laws V store" and one: "one_store V store scheme w"
    and plain: "\<forall>req \<in> set reqs. plain_key (request_key req)"
    and run: "serve_all store reqs w = (answers, w')" and def: "list_all2 definite reqs answers"
  shows "one_store V store scheme w' \<and> (\<exists>as. answers = map Some as
    \<and> spec_trace scheme reqs (vault_map V store w) as (vault_map V store w')
    \<and> (\<forall>bs s. spec_trace scheme reqs (vault_map V store w) bs s \<longrightarrow> bs = as \<and> s = vault_map V store w'))"
proof -
  have "one_store V store scheme w' \<and> (\<exists>as. answers = map Some as
    \<and> spec_trace scheme reqs (vault_map V store w) as (vault_map V store w'))"
    using one plain run def
  proof (induction reqs arbitrary: w answers)
    case (Cons req reqs)
    obtain ans w1 rest where s: "serve_vault store req w = (ans, w1)" "serve_all store reqs w1 = (rest, w')" "answers = ans # rest"
      using Cons.prems(3) by (auto split: prod.splits)
    have step: "one_store V store scheme w1 \<and> (\<exists>a. ans = Some a \<and> vault_spec scheme req (vault_map V store w) a (vault_map V store w1))"
      using serve_vault_refines [OF laws Cons.prems(1) _ s(1)] Cons.prems(2,4) s(3) by simp
    then show ?case using Cons.IH [of w1 rest] Cons.prems(2,4) s(2,3)
      by simp (metis list.simps(9) trace_step)
  qed (auto intro: trace_done)
  then show ?thesis using spec_trace_deterministic by blast
qed

definition example_requests :: "VaultRequest list" where
  "example_requests = [Store example_new, Store example_new, Read (new_key example_new),
     Change (new_key example_new) example_update, Read (new_key example_new), Remove (new_key example_new), Read (new_key example_new)]"

definition example_answers :: "VaultAnswer list" where
  "example_answers = (let v = stored_vault example_new RedisKv; u = changed_vault RedisKv example_update v in
     [Row v, Failed VaultDBError.Duplicate, Row v, Row u, Row u, Removed, Failed VaultDBError.NotFoundError])"

lemma example_all:
  "list_all2 definite example_requests (fst (serve_all example_store example_requests (in_mode KvState.Enabled empty_world)))"
  by (simp add: example_requests_def example_run example_parts example_new_def empty_world_def stored_vault_def new_key_def
      row_answer_def example_update_def KvConfig_default_def default_drainer_num_partitions_def vault_storage_defs
      storage_error_simps kv_duplicate_error_def kv_backend_error_def)

lemma example_trace: "spec_trace RedisKv example_requests Map.empty example_answers (Map.empty(new_key example_new := None))"
  unfolding example_requests_def example_answers_def Let_def
  by (rule trace_step trace_done | simp | rule refl)+

theorem vault_refines_map_witness:
  "\<exists>w. serve_all example_store example_requests (in_mode KvState.Enabled empty_world) = (map Some example_answers, w)
     \<and> vault_map vault_view example_store w = Map.empty"
proof -
  let ?w = "in_mode KvState.Enabled empty_world"
  obtain answers w where run: "serve_all example_store example_requests ?w = (answers, w)" by force
  have one: "one_store vault_view example_store RedisKv ?w"
    by (simp add: one_store_def vault_view_def example_view_def) (simp add: empty_world_def fun_eq_iff)
  have start: "vault_map vault_view example_store ?w = Map.empty"
    by (simp add: vault_map_def vault_row_def visible_def vault_view_def example_view_def fun_eq_iff) (simp add: empty_world_def)
  have plain: "\<forall>req \<in> set example_requests. plain_key (request_key req)"
    by (simp add: example_requests_def plain_key_def new_key_def)
  have def: "list_all2 definite example_requests answers" using example_all run by simp
  show ?thesis
    using vault_refines_map [OF example_vault_laws one plain run def] run example_trace by (auto simp: start)
qed

end
