(* ===== verification/Sealed.thy ===== *)
theory Sealed
  imports RoundTrip
begin

text \<open>
  Stored data is encrypted, and only decryption opens it: whatever the store answers is a row whose data
  is marked as encrypted, whichever of Postgres and Redis it comes from, and what a client is answered
  is the plain text that the key manager made of such data.  The two marks are the constructors of
  \<open>Encryptable\<close> (\<open>src/src/storage/types.rs\<close>).
\<close>

section \<open>What an operation answers\<close>

text \<open>\<open>answers m A\<close>: an answer \<open>x\<close> of \<open>m\<close> has \<open>A x\<close>, from any state.\<close>

definition answers :: "('w, 'a, 'e) io \<Rightarrow> ('a \<Rightarrow> bool) \<Rightarrow> bool" where
  "answers m A = ensures (\<lambda>_. True) (\<lambda>_. True) m (\<lambda>x _. A x)"

named_theorems answers_intros "what an operation answers, from what its parts answer"

lemma answersD: "answers m A \<Longrightarrow> m w = (Ok x, w') \<Longrightarrow> A x"
  using ensuresD [of "\<lambda>_. True" "\<lambda>_. True" m "\<lambda>x _. A x" w "Ok x" w'] by (simp add: answers_def)

lemma answersI: "(\<And>w x w'. m w = (Ok x, w') \<Longrightarrow> A x) \<Longrightarrow> answers m A"
  by (auto simp: answers_def ensures_def)

lemma answers_basic [answers_intros]:
  "A x \<Longrightarrow> answers (io_ret x) A" "answers (io_err e) A" "(\<And>x. r = Ok x \<Longrightarrow> A x) \<Longrightarrow> answers (io_lift r) A"
  by (auto intro!: answersI simp: io_defs)

lemma answers_any: "answers m (\<lambda>_. True)"
  by (rule answersI) simp

lemma answers_try [answers_intros]:
  "answers m A \<Longrightarrow> (\<And>x. A x \<Longrightarrow> answers (f x) B) \<Longrightarrow> (\<And>e. answers (g e) B) \<Longrightarrow> answers (io_try m f g) B"
  unfolding answers_def
  by (rule ensures_try [where A = "\<lambda>x _. A x"]) (auto intro: ensures_pure simp: ensures_def)

lemma answers_bind [answers_intros]:
  "answers m A \<Longrightarrow> (\<And>x. A x \<Longrightarrow> answers (f x) B) \<Longrightarrow> answers (io_bind m f) B"
  unfolding io_bind_as_try by (erule answers_try) (auto intro: answers_intros)

lemma answers_map [answers_intros]: "answers m (\<lambda>x. A (h x)) \<Longrightarrow> answers (io_map h m) A"
  by (auto intro!: answersI dest: answersD)

lemma answers_map_err [answers_intros]: "answers m A \<Longrightarrow> answers (io_map_err g m) A"
  by (auto intro!: answersI dest: answersD)

lemma answers_at: "(\<And>w. answers (m w) A) \<Longrightarrow> answers (\<lambda>w. m w w) A"
  by (rule answersI) (auto dest: answersD)

section \<open>The KV layer answers models of rows\<close>

lemma insert_answers_model: "answers (insert_resource M store new key) (\<lambda>x. x \<in> range (into_model M))"
  unfolding insert_resource_def by (rule answers_map, rule answersI) simp

lemma insert_reverse_answers_model:
  "answers (insert_resource_with_reverse_lookup M L ins store new key) (\<lambda>x. x \<in> range (into_model M))"
  unfolding insert_resource_with_reverse_lookup_def by (rule answers_map, rule answersI) simp

lemma find_answers_model: "answers (find_resource_by_id M store pk) (\<lambda>x. x \<in> range (into_model M))"
  unfolding find_resource_by_id_def by (rule answers_map, rule answersI) simp

lemma optional_answers: "answers m A \<Longrightarrow> answers (optional nf m) (\<lambda>v. \<forall>x. v = Some x \<longrightarrow> A x)"
  unfolding optional_def by (erule answers_try) (auto intro: answers_intros)

lemma hget_answers:
  "(\<And>v. answers (hit v) A) \<Longrightarrow> answers miss A \<Longrightarrow> answers (kv_hget M store key s hit miss) A"
  unfolding kv_hget_def
  by (rule answers_try [OF answers_any]) (auto intro: answers_intros split: KvResult.split)

lemma find_lookup_answers_model:
  assumes "\<And>lk. answers (storage_find_by_lookup L store lk) (\<lambda>x. x \<in> range (into_model M))"
  shows "answers (find_resource_by_lookup_id M L lookups store lk) (\<lambda>x. x \<in> range (into_model M))"
proof -
  have hit: "answers (kv_hget M store k s (\<lambda>v. io_ret (into_model M v)) (storage_find_by_lookup L store lk))
      (\<lambda>x. x \<in> range (into_model M))" for k s
    by (rule hget_answers) (auto intro: answers_intros assms)
  show ?thesis
    unfolding find_resource_by_lookup_id_def Let_def
    by (rule answers_at, split StorageScheme.split)
      (auto intro!: assms answers_try [OF answers_any] hit answers_intros)
qed

lemma update_answers_model:
  assumes "\<And>u pk. answers (storage_update U store u pk) (\<lambda>x. x \<in> range (into_model M))"
  shows "answers (update_resource_by_id M U store u pk) (\<lambda>x. x \<in> range (into_model M))"
  unfolding update_resource_by_id_def Let_def
  by (rule answers_bind [OF answers_any])
    (auto intro!: assms answers_bind [OF answers_any] answers_intros split: StorageScheme.split)


section \<open>Stored data is encrypted, answered data is not\<close>

definition sealed :: "Encryptable \<Rightarrow> bool" where
  "sealed d \<longleftrightarrow> get_encrypted_inner_value d \<noteq> None \<and> get_decrypted_inner_value d = None"

lemma models_sealed:
  "v \<in> range Vault_from_VaultInner \<Longrightarrow> sealed (v_data v)" "l \<in> range Locker_from_LockerInner \<Longrightarrow> sealed (lk_data l)"
  by (auto simp: sealed_def Vault_from_VaultInner_def Locker_from_LockerInner_def Encryptable_from_Encrypted_def)

lemma answers_weaken: "answers m A \<Longrightarrow> (\<And>x. A x \<Longrightarrow> B x) \<Longrightarrow> answers m B"
  by (rule answersI) (auto dest: answersD)

lemma answer_with_answers [answers_intros]:
  "(\<And>x. r = Ok x \<Longrightarrow> A x) \<Longrightarrow> answers (answer_with state res outcome r) A"
  unfolding answer_with_def by (rule answers_bind [OF answers_any]) (auto intro: answers_intros)

lemma row_models: "into_model Vault_kv = Vault_from_VaultInner" "into_model Locker_kv = Locker_from_LockerInner"
  by (simp_all add: Vault_kv_def Locker_kv_def)

lemma vault_sealed [answers_intros]:
  "answers (insert_vault db new) (\<lambda>v. sealed (v_data v))"
  "answers (find_by_vault_id_entity_id db i e) (\<lambda>v. sealed (v_data v))"
  "answers (update_vault_data db i e u) (\<lambda>v. sealed (v_data v))"
proof -
  have model: "answers m (\<lambda>v. sealed (v_data v))" if "answers m (\<lambda>x. x \<in> range Vault_from_VaultInner)"
    for m :: "('w, Vault, VaultDBError) io"
    using that by (rule answers_weaken) (simp add: models_sealed)
  note inserted = insert_answers_model [of Vault_kv, unfolded row_models]
    and found = find_answers_model [of Vault_kv, unfolded row_models]
    and updated = update_answers_model [where M = Vault_kv, unfolded row_models]
  have "answers (storage_update Vault_kv_update db u pk) (\<lambda>x. x \<in> range Vault_from_VaultInner)" for u pk
    unfolding Vault_kv_update_def Vault_storage_update_def by (auto intro!: answers_map answersI)
  then show "answers (update_vault_data db i e u) (\<lambda>v. sealed (v_data v))"
    unfolding update_vault_data_def by (intro model updated)
  show "answers (insert_vault db new) (\<lambda>v. sealed (v_data v))"
    unfolding insert_vault_def by (intro model inserted)
  have "answers (find_optional_resource_by_id Vault_kv db pk) (\<lambda>v. \<forall>x. v = Some x \<longrightarrow> sealed (v_data x))" for pk
    unfolding find_optional_resource_by_id_def by (intro optional_answers model found)
  then show "answers (find_by_vault_id_entity_id db i e) (\<lambda>v. sealed (v_data v))"
    unfolding find_by_vault_id_entity_id_def by (rule answers_bind) (auto intro: answers_intros)
qed

lemma locker_sealed [answers_intros]:
  "answers (insert_locker db new) (\<lambda>l. sealed (lk_data l))"
  "answers (find_by_locker_id_merchant_id_customer_id db i m c) (\<lambda>l. sealed (lk_data l))"
  "answers (find_optional_by_hash_id_merchant_id_customer_id db h m c) (\<lambda>v. \<forall>l. v = Some l \<longrightarrow> sealed (lk_data l))"
proof -
  have model: "answers m (\<lambda>l. sealed (lk_data l))" if "answers m (\<lambda>x. x \<in> range Locker_from_LockerInner)"
    for m :: "('w, Locker, VaultDBError) io"
    using that by (rule answers_weaken) (simp add: models_sealed)
  note inserted = insert_reverse_answers_model [of Locker_kv, unfolded row_models]
    and found = find_answers_model [of Locker_kv, unfolded row_models]
    and looked_up = find_lookup_answers_model [where M = Locker_kv, unfolded row_models]
  have "answers (storage_find_by_lookup Locker_kv_lookup db lk) (\<lambda>x. x \<in> range Locker_from_LockerInner)" for lk
    unfolding Locker_kv_lookup_def Locker_storage_find_by_lookup_def by (auto intro!: answers_map answersI)
  then show "answers (find_optional_by_hash_id_merchant_id_customer_id db h m c)
      (\<lambda>v. \<forall>l. v = Some l \<longrightarrow> sealed (lk_data l))"
    unfolding find_optional_by_hash_id_merchant_id_customer_id_def find_optional_resource_by_lookup_id_def
    by (intro optional_answers model looked_up)
  show "answers (insert_locker db new) (\<lambda>l. sealed (lk_data l))"
    unfolding insert_locker_def by (intro model inserted)
  show "answers (find_by_locker_id_merchant_id_customer_id db i m c) (\<lambda>l. sealed (lk_data l))"
    unfolding find_by_locker_id_merchant_id_customer_id_def by (intro model found)
qed

text \<open>What the decryption of a sealed row answers.\<close>

lemma decrypt_vault_sealed:
  assumes "sealed (v_data v)" "decrypt_vault km state cm v w = (Ok row, w')"
  obtains ct p where "v_data v = Encrypted ct" "decrypt_data km state cm ct w = (Ok p, w')" "v_data row = Decrypted p"
  using assms by (cases "v_data v") (auto simp: sealed_def decrypt_vault_def Vault_set_decrypted_data_def from_decrypted_data_def)

lemma decrypt_locker_sealed:
  assumes "sealed (lk_data l)" "decrypt_locker km state cm l w = (Ok row, w')"
  obtains ct p where "lk_data l = Encrypted ct" "decrypt_data km state cm ct w = (Ok p, w')" "lk_data row = Decrypted p"
  using assms by (cases "lk_data l") (auto simp: sealed_def decrypt_locker_def Locker_set_decrypted_data_def from_decrypted_data_def)

lemma retrieved_data_opened:
  assumes "retrieve_data rc km state req w = ((Ok a, w'), tasks)"
  shows "\<exists>cm w1 v ct w2 p w3.
      KeyProvider_find_by_entity_id state (dek_manager state) (rd_entity_id req) w = (Ok cm, w1)
    \<and> find_by_vault_id_entity_id (inner (ts_db state)) (rd_vault_id req) (rd_entity_id req) w1 = (Ok v, w2)
    \<and> v_data v = Encrypted ct \<and> decrypt_data km state cm ct w2 = (Ok p, w3)
    \<and> value_from_json rc p = Ok (rdr_data a)"
proof -
  obtain row w3 where row: "retrieval_row km state req w = (Ok row, w3)" and a: "retrieve_answer rc row = Ok a"
    using retrieved_answer [OF assms] .
  obtain cm w1 v w2 where
    key: "KeyProvider_find_by_entity_id state (dek_manager state) (rd_entity_id req) w = (Ok cm, w1)" and
    find: "find_by_vault_id_entity_id (inner (ts_db state)) (rd_vault_id req) (rd_entity_id req) w1 = (Ok v, w2)" and
    dec: "decrypt_vault km state cm v w2 = (Ok row, w3)" using retrieval_row_Ok [OF row] .
  obtain ct p where "v_data v = Encrypted ct" "decrypt_data km state cm ct w2 = (Ok p, w3)" "v_data row = Decrypted p"
    using decrypt_vault_sealed [OF answersD [OF vault_sealed(2) find] dec] .
  moreover from this(3) have "value_from_json rc p = Ok (rdr_data a)"
    using a by (auto simp: retrieve_answer_def)
  ultimately show ?thesis using key find by blast
qed

lemma retrieved_card_opened:
  assumes "retrieve_card rc km state req w = ((Ok a, w'), tasks)"
  shows "\<exists>cm w1 l ct w2 p w3 stored.
      KeyProvider_find_by_entity_id state (dek_manager state) (rc_merchant_id req) w = (Ok cm, w1)
    \<and> find_by_locker_id_merchant_id_customer_id (inner (ts_db state)) (rc_card_reference req) (rc_merchant_id req)
        (rc_merchant_customer_id req) w1 = (Ok l, w2)
    \<and> lk_data l = Encrypted ct \<and> decrypt_data km state cm ct w2 = (Ok p, w3)
    \<and> stored_data_from_json rc p = Ok stored
    \<and> rr_payload a = Some \<lparr> rp_card = (case stored of StoredData_CardData c \<Rightarrow> Some c | _ \<Rightarrow> None),
        rp_enc_card_data = (case stored of StoredData_EncData d \<Rightarrow> Some d | _ \<Rightarrow> None) \<rparr>"
proof -
  obtain row w3 where row: "retrieval_card km state req w = (Ok row, w3)" and a: "RetrieveCardResponse_try_from rc row = Ok a"
    using retrieved_card_answer [OF assms] .
  obtain cm w1 l w2 where
    key: "KeyProvider_find_by_entity_id state (dek_manager state) (rc_merchant_id req) w = (Ok cm, w1)" and
    find: "find_by_locker_id_merchant_id_customer_id (inner (ts_db state)) (rc_card_reference req) (rc_merchant_id req)
        (rc_merchant_customer_id req) w1 = (Ok l, w2)" and
    dec: "decrypt_locker km state cm l w2 = (Ok row, w3)" using retrieval_card_Ok [OF row] .
  obtain ct p where opened: "lk_data l = Encrypted ct" "decrypt_data km state cm ct w2 = (Ok p, w3)" "lk_data row = Decrypted p"
    using decrypt_locker_sealed [OF answersD [OF locker_sealed(2) find] dec] .
  then obtain stored where stored: "stored_data_from_json rc p = Ok stored" and
    "a = \<lparr> rr_status = Status_Ok, rr_payload = Some (case stored of
        StoredData_EncData d \<Rightarrow> \<lparr> rp_card = None, rp_enc_card_data = Some d \<rparr>
      | StoredData_CardData c \<Rightarrow> \<lparr> rp_card = Some c, rp_enc_card_data = None \<rparr>) \<rparr>"
    using a by (auto simp: RetrieveCardResponse_try_from_def stored_data_of_def)
  then have "rr_payload a = Some \<lparr> rp_card = (case stored of StoredData_CardData c \<Rightarrow> Some c | _ \<Rightarrow> None),
        rp_enc_card_data = (case stored of StoredData_EncData d \<Rightarrow> Some d | _ \<Rightarrow> None) \<rparr>"
    by (cases stored) simp_all
  then show ?thesis using key find opened(1,2) stored by blast
qed

text \<open>C9. Data leaves the store only through decryption.  Every row the store answers, found, inserted, updated
  or read back after a duplicate, from Postgres or from Redis, holds encrypted data; and what a retrieval
  of the vault or of a card answers is the decoding of what the key manager answered when it
  decrypted, under the key of the request's entity, exactly the data of the row found under the request's
  key.\<close>

theorem answers_come_from_decryption:
  "(retrieve_data rc km state req w = ((Ok a, w'), tasks) \<longrightarrow>
      (\<exists>cm w1 v ct w2 p w3.
          KeyProvider_find_by_entity_id state (dek_manager state) (rd_entity_id req) w = (Ok cm, w1)
        \<and> find_by_vault_id_entity_id (inner (ts_db state)) (rd_vault_id req) (rd_entity_id req) w1 = (Ok v, w2)
        \<and> v_data v = Encrypted ct \<and> decrypt_data km state cm ct w2 = (Ok p, w3)
        \<and> value_from_json rc p = Ok (rdr_data a)))
   \<and> (retrieve_card rc km state creq w = ((Ok b, cw), ctasks) \<longrightarrow>
      (\<exists>cm w1 l ct w2 p w3 stored.
          KeyProvider_find_by_entity_id state (dek_manager state) (rc_merchant_id creq) w = (Ok cm, w1)
        \<and> find_by_locker_id_merchant_id_customer_id (inner (ts_db state)) (rc_card_reference creq) (rc_merchant_id creq)
            (rc_merchant_customer_id creq) w1 = (Ok l, w2)
        \<and> lk_data l = Encrypted ct \<and> decrypt_data km state cm ct w2 = (Ok p, w3)
        \<and> stored_data_from_json rc p = Ok stored
        \<and> rr_payload b = Some \<lparr> rp_card = (case stored of StoredData_CardData c \<Rightarrow> Some c | _ \<Rightarrow> None),
            rp_enc_card_data = (case stored of StoredData_EncData d \<Rightarrow> Some d | _ \<Rightarrow> None) \<rparr>))
   \<and> answers (insert_vault db vault_new) (\<lambda>v. sealed (v_data v))
   \<and> answers (find_by_vault_id_entity_id db vault_id entity_id) (\<lambda>v. sealed (v_data v))
   \<and> answers (update_vault_data db vault_id entity_id update) (\<lambda>v. sealed (v_data v))
   \<and> answers (vault_get_or_insert state vault_new) (\<lambda>v. sealed (v_data v))
   \<and> answers (vault_upsert state vault_new) (\<lambda>v. sealed (v_data v))
   \<and> answers (insert_locker db locker_new) (\<lambda>l. sealed (lk_data l))
   \<and> answers (find_by_locker_id_merchant_id_customer_id db locker_id m c) (\<lambda>l. sealed (lk_data l))
   \<and> answers (locker_get_or_insert state locker_new) (\<lambda>l. sealed (lk_data l))"
proof -
  have "answers (vault_get_or_insert state vault_new) (\<lambda>v. sealed (v_data v))"
    unfolding vault_get_or_insert_def Let_def
    by (rule answers_try [OF vault_sealed(1)]) (auto intro!: answers_intros answers_try [OF vault_sealed(2)])
  moreover have "answers (vault_upsert state vault_new) (\<lambda>v. sealed (v_data v))"
    unfolding vault_upsert_def Let_def
    by (rule answers_try [OF vault_sealed(1)]) (auto intro!: answers_intros answers_try [OF vault_sealed(3)])
  moreover have "answers (locker_get_or_insert state locker_new) (\<lambda>l. sealed (lk_data l))"
    unfolding locker_get_or_insert_def Let_def
    by (rule answers_try [OF locker_sealed(1)]) (auto intro!: answers_intros answers_try [OF locker_sealed(2)])
  ultimately show ?thesis
    by (intro conjI impI vault_sealed locker_sealed retrieved_data_opened retrieved_card_opened)
qed

theorem answers_come_from_decryption_witness:
  "\<exists>a w cm w1 v ct w2 p w3.
      retrieve_data example_route_codec example_km_codec example_tenant
        \<lparr> rd_entity_id = ''m1'', rd_vault_id = ''v1'' \<rparr> example_stored = ((Ok a, w), [])
    \<and> find_by_vault_id_entity_id example_store ''v1'' ''m1'' w1 = (Ok v, w2) \<and> v_data v = Encrypted ct
    \<and> decrypt_data example_km_codec example_tenant cm ct w2 = (Ok p, w3)
    \<and> value_from_json example_route_codec p = Ok (rdr_data a)"
proof -
  obtain a w where read: "retrieve_data example_route_codec example_km_codec example_tenant
     \<lparr> rd_entity_id = ''m1'', rd_vault_id = ''v1'' \<rparr> example_stored = ((Ok a, w), [])" using example_read by blast
  then show ?thesis
    using mp [OF conjunct1 [OF answers_come_from_decryption] read] by simp blast
qed

end
