(* ===== verification/Serialization.thy ===== *)
theory Serialization
  imports Store
begin

text \<open>
  The rows and statements as JSON: what serde derives for the rows that Redis holds
  (\<open>src/src/storage/types.rs\<close>, \<open>storage/storage_v2/types.rs\<close>, \<open>storage/scheme.rs\<close>) and for the statements of the
  drainer, with the adapters the program writes itself (\<open>Encrypted\<close>, \<open>bind_params\<close> and \<open>pg_type_metadata\<close> of
  \<open>storage/kv/serializable_query.rs\<close>, \<open>primitive_datetime_serde\<close> of \<open>utils.rs\<close>).  base64 and the texts of
  dates are the libraries'.  A struct is read from an object; the sequences that serde also accepts
  are never written.
\<close>

section \<open>JSON values\<close>

datatype json = JNull | JBool bool | JNum int | JStr string | JArr "json list" | JObj "(string \<times> json) list"

text \<open>
  \<open>iso8601_format c t\<close> is \<open>t.assume_utc().format\<close> under the configuration \<open>c\<close>; \<open>iso8601_parse\<close> answers
  a date, its time and its offset from UTC in nanoseconds.  \<open>datetime_to_json\<close> is the \<open>Serialize\<close> of the time crate.
\<close>

datatype TimePrecision = Precision_Hour | Precision_Minute | Precision_Second (decimal_digits: "nat option")

record SerdeLibs =
  b64_encode :: "bytes \<Rightarrow> string"
  b64_decode :: "string \<Rightarrow> (bytes, string) result"
  iso8601_format :: "TimePrecision \<Rightarrow> time \<Rightarrow> (string, string) result"
  iso8601_parse :: "TimePrecision \<Rightarrow> string \<Rightarrow> (time \<times> int, string) result"
  datetime_to_json :: "time \<Rightarrow> (json, string) result"
  datetime_from_json :: "json \<Rightarrow> (time, string) result"

definition string_from_json :: "json \<Rightarrow> (string, string) result" where
  "string_from_json j = (case j of JStr s \<Rightarrow> Ok s | _ \<Rightarrow> Err ''invalid type: expected a string'')"

definition int_from_json :: "int \<Rightarrow> int \<Rightarrow> json \<Rightarrow> (int, string) result" where
  "int_from_json lo hi j = (case j of
     JNum n \<Rightarrow> if lo \<le> n \<and> n \<le> hi then Ok n else Err ''invalid value: integer out of range''
   | _ \<Rightarrow> Err ''invalid type: expected an integer'')"

definition i32_from_json :: "json \<Rightarrow> (int, string) result" where
  "i32_from_json = int_from_json (- (2 ^ 31)) (2 ^ 31 - 1)"

definition u32_from_json :: "json \<Rightarrow> (nat, string) result" where
  "u32_from_json j = res_map nat (int_from_json 0 (2 ^ 32 - 1) j)"

definition bool_from_json :: "json \<Rightarrow> (bool, string) result" where
  "bool_from_json j = (case j of JBool b \<Rightarrow> Ok b | _ \<Rightarrow> Err ''invalid type: expected a boolean'')"

definition list_from_json :: "(json \<Rightarrow> ('a, string) result) \<Rightarrow> json \<Rightarrow> ('a list, string) result" where
  "list_from_json f j = (case j of JArr xs \<Rightarrow> res_traverse f xs | _ \<Rightarrow> Err ''invalid type: expected a sequence'')"

definition option_from_json :: "(json \<Rightarrow> ('a, string) result) \<Rightarrow> json \<Rightarrow> ('a option, string) result" where
  "option_from_json f j = (if j = JNull then Ok None else res_map Some (f j))"

definition option_to_json :: "('a \<Rightarrow> json) \<Rightarrow> 'a option \<Rightarrow> json" where
  "option_to_json f v = (case v of None \<Rightarrow> JNull | Some x \<Rightarrow> f x)"

text \<open>A \<open>Vec<u8>\<close> is a sequence of numbers.\<close>

definition bytes_to_json :: "bytes \<Rightarrow> json" where
  "bytes_to_json bs = JArr (map (\<lambda>b. JNum (uint b)) bs)"

definition bytes_from_json :: "json \<Rightarrow> (bytes, string) result" where
  "bytes_from_json = list_from_json (\<lambda>j. res_map word_of_int (int_from_json 0 255 j))"

section \<open>Structs\<close>

text \<open>
  The fields of an object: a field given twice is an error; one that is missing is an error, unless
  it is an \<open>Option\<close> that serde reads itself.
\<close>

definition field :: "string \<Rightarrow> json \<Rightarrow> (json option, string) result" where
  "field name j = (case j of
     JObj kvs \<Rightarrow>
       (case filter (\<lambda>(k, v). k = name) kvs of
          [] \<Rightarrow> Ok None
        | [(k, v)] \<Rightarrow> Ok (Some v)
        | _ \<Rightarrow> Err (''duplicate field '' @ name))
   | _ \<Rightarrow> Err ''invalid type: expected struct'')"

definition required :: "string \<Rightarrow> (json \<Rightarrow> ('a, string) result) \<Rightarrow> json \<Rightarrow> ('a, string) result" where
  "required name f j = res_bind (field name j) (\<lambda>v. case v of
     None \<Rightarrow> Err (''missing field '' @ name) | Some x \<Rightarrow> f x)"

definition optional :: "string \<Rightarrow> (json \<Rightarrow> ('a, string) result) \<Rightarrow> json \<Rightarrow> ('a option, string) result" where
  "optional name f j = res_bind (field name j) (\<lambda>v. case v of
     None \<Rightarrow> Ok None | Some x \<Rightarrow> option_from_json f x)"

section \<open>The adapters of the program\<close>

definition Encrypted_serialize :: "SerdeLibs \<Rightarrow> Encrypted \<Rightarrow> json" where
  "Encrypted_serialize l self = JStr (b64_encode l (into_inner self))"

definition Encrypted_deserialize :: "SerdeLibs \<Rightarrow> json \<Rightarrow> (Encrypted, string) result" where
  "Encrypted_deserialize l j =
     res_bind (string_from_json j) (\<lambda>value. res_map Encrypted_new (b64_decode l value))"

text \<open>The other ways in and out of \<open>Encrypted\<close>; \<open>from_sql\<close> and \<open>to_sql\<close> are those of the bytes.\<close>

definition Encrypted_get_inner :: "Encrypted \<Rightarrow> bytes" where
  "Encrypted_get_inner self = into_inner self"

definition Encrypted_from_Vec :: "bytes \<Rightarrow> Encrypted" where
  "Encrypted_from_Vec v = Encrypted_new v"

definition Encrypted_from_Secret :: "bytes \<Rightarrow> Encrypted" where
  "Encrypted_from_Secret v = Encrypted_new v"

definition Encrypted_from_sql :: "('raw \<Rightarrow> (bytes, string) result) \<Rightarrow> 'raw \<Rightarrow> (Encrypted, string) result" where
  "Encrypted_from_sql from_sql raw = res_map Encrypted_new (from_sql raw)"

definition Encrypted_to_sql :: "(bytes \<Rightarrow> ('raw, string) result) \<Rightarrow> Encrypted \<Rightarrow> ('raw, string) result" where
  "Encrypted_to_sql to_sql self = to_sql (Encrypted_get_inner self)"

definition Encrypted_build :: "bytes \<Rightarrow> (Encrypted, string) result" where
  "Encrypted_build row = Ok (Encrypted_new row)"

text \<open>
  Dates (utils.rs): texts with seconds to nine decimals; the offset of the text is taken off, and the date
  and time of UTC are kept.
\<close>

definition FORMAT_CONFIG :: TimePrecision where "FORMAT_CONFIG = Precision_Second (Some 9)"

definition iso8601_serialize :: "SerdeLibs \<Rightarrow> time \<Rightarrow> (json, string) result" where
  "iso8601_serialize l date_time = res_map JStr (iso8601_format l FORMAT_CONFIG date_time)"

definition iso8601_deserialize :: "SerdeLibs \<Rightarrow> json \<Rightarrow> (time, string) result" where
  "iso8601_deserialize l j =
     res_bind (string_from_json j) (\<lambda>date_time.
     res_map (\<lambda>(local_time, offset). local_time - offset) (iso8601_parse l FORMAT_CONFIG date_time))"

definition iso8601_option_serialize :: "SerdeLibs \<Rightarrow> time option \<Rightarrow> (json, string) result" where
  "iso8601_option_serialize l date_time = (case date_time of
     None \<Rightarrow> Ok JNull
   | Some t \<Rightarrow> res_map JStr (iso8601_format l FORMAT_CONFIG t))"

definition iso8601_option_deserialize :: "SerdeLibs \<Rightarrow> json \<Rightarrow> (time option, string) result" where
  "iso8601_option_deserialize l j =
     res_bind (option_from_json string_from_json j) (\<lambda>v. case v of
       None \<Rightarrow> Ok None
     | Some date_time \<Rightarrow> res_map (\<lambda>(local_time, offset). Some (local_time - offset)) (iso8601_parse l FORMAT_CONFIG date_time))"

text \<open>The statements of the drainer (serializable_query.rs).\<close>

definition bind_params_serialize :: "SerdeLibs \<Rightarrow> bytes option list \<Rightarrow> json" where
  "bind_params_serialize l binds = JArr (map (option_to_json (\<lambda>bs. JStr (b64_encode l bs))) binds)"

definition bind_params_deserialize :: "SerdeLibs \<Rightarrow> json \<Rightarrow> (bytes option list, string) result" where
  "bind_params_deserialize l j =
     res_bind (list_from_json (option_from_json string_from_json) j)
       (res_traverse (\<lambda>b. case b of None \<Rightarrow> Ok None | Some s \<Rightarrow> res_map Some (b64_decode l s)))"

text \<open>A failed lookup is written as two zeros.\<close>

definition pg_oids :: "PgTypeMetadata \<Rightarrow> nat \<times> nat" where
  "pg_oids m = (case m of Some (oid, array_oid) \<Rightarrow> (oid, array_oid) | None \<Rightarrow> (0, 0))"

definition pg_type_metadata_serialize :: "PgTypeMetadata list \<Rightarrow> json" where
  "pg_type_metadata_serialize metadata =
     JArr (map (\<lambda>(oid, array_oid). JArr [JNum (int oid), JNum (int array_oid)]) (map pg_oids metadata))"

definition pair_from_json :: "(json \<Rightarrow> ('a, string) result) \<Rightarrow> json \<Rightarrow> ('a \<times> 'a, string) result" where
  "pair_from_json f j = (case j of
     JArr [x, y] \<Rightarrow> res_bind (f x) (\<lambda>a. res_map (\<lambda>b. (a, b)) (f y))
   | _ \<Rightarrow> Err ''invalid type: expected a tuple of size 2'')"

definition pg_type_metadata_deserialize :: "json \<Rightarrow> (PgTypeMetadata list, string) result" where
  "pg_type_metadata_deserialize j = res_map (map Some) (list_from_json (pair_from_json u32_from_json) j)"

definition FAKE_OID :: nat where "FAKE_OID = 0"

definition KvPgMetadataLookup_lookup_type :: "string \<Rightarrow> string option \<Rightarrow> PgTypeMetadata" where
  "KvPgMetadataLookup_lookup_type type_name schema_name = Some (FAKE_OID, FAKE_OID)"

fun DatabaseOperation_serialize :: "DatabaseOperation \<Rightarrow> json" where
  "DatabaseOperation_serialize Insert = JStr ''insert''"
| "DatabaseOperation_serialize Update = JStr ''update''"
| "DatabaseOperation_serialize Delete = JStr ''delete''"

definition DatabaseOperation_deserialize :: "json \<Rightarrow> (DatabaseOperation, string) result" where
  "DatabaseOperation_deserialize j =
     (if j = JStr ''insert'' then Ok Insert
      else if j = JStr ''update'' then Ok Update
      else if j = JStr ''delete'' then Ok Delete
      else Err ''unknown variant'')"

definition SerializableQuery_serialize :: "SerdeLibs \<Rightarrow> SerializableQuery \<Rightarrow> json" where
  "SerializableQuery_serialize l self = JObj
     [(''sql'', JStr (sq_sql self)), (''binds'', bind_params_serialize l (sq_binds self)),
      (''metadata'', pg_type_metadata_serialize (sq_metadata self)),
      (''safe_to_cache_prepared'', JBool (sq_safe_to_cache_prepared self)),
      (''entity_type'', JStr (sq_entity_type self)),
      (''operation'', DatabaseOperation_serialize (sq_operation self))]"

definition SerializableQuery_deserialize :: "SerdeLibs \<Rightarrow> json \<Rightarrow> (SerializableQuery, string) result" where
  "SerializableQuery_deserialize l j =
     res_bind (required ''sql'' string_from_json j) (\<lambda>sql.
     res_bind (required ''binds'' (bind_params_deserialize l) j) (\<lambda>binds.
     res_bind (required ''metadata'' pg_type_metadata_deserialize j) (\<lambda>metadata.
     res_bind (required ''safe_to_cache_prepared'' bool_from_json j) (\<lambda>safe.
     res_bind (required ''entity_type'' string_from_json j) (\<lambda>entity_type.
     res_bind (required ''operation'' DatabaseOperation_deserialize j) (\<lambda>operation.
     Ok \<lparr> sq_sql = sql, sq_binds = binds, sq_metadata = metadata, sq_safe_to_cache_prepared = safe,
          sq_entity_type = entity_type, sq_operation = operation \<rparr>))))))"

section \<open>The rows\<close>

fun StorageScheme_serialize :: "StorageScheme \<Rightarrow> json" where
  "StorageScheme_serialize PostgresOnly = JStr ''postgres_only''"
| "StorageScheme_serialize RedisKv = JStr ''redis_kv''"

definition StorageScheme_deserialize :: "json \<Rightarrow> (StorageScheme, string) result" where
  "StorageScheme_deserialize j =
     (if j = JStr ''postgres_only'' then Ok PostgresOnly
      else if j = JStr ''redis_kv'' then Ok RedisKv
      else Err ''unknown variant'')"

text \<open>The text column of Postgres: \<open>as_ref\<close> and \<open>parse\<close> of strum.\<close>

definition StorageScheme_to_sql :: "StorageScheme \<Rightarrow> string" where
  "StorageScheme_to_sql self = StorageScheme_to_string self"

definition StorageScheme_from_sql :: "string \<Rightarrow> (StorageScheme, string) result" where
  "StorageScheme_from_sql s = StorageScheme_from_str s"

definition LockerInner_serialize :: "SerdeLibs \<Rightarrow> LockerInner \<Rightarrow> (json, string) result" where
  "LockerInner_serialize l self =
     res_bind (iso8601_serialize l (li_created_at self)) (\<lambda>created_at.
     res_bind (iso8601_option_serialize l (li_ttl self)) (\<lambda>ttl.
     Ok (JObj
       [(''id'', JNum (li_id self)), (''locker_id'', JStr (li_locker_id self)),
        (''merchant_id'', JStr (li_merchant_id self)), (''customer_id'', JStr (li_customer_id self)),
        (''enc_data'', Encrypted_serialize l (li_enc_data self)), (''created_at'', created_at),
        (''hash_id'', JStr (li_hash_id self)), (''ttl'', ttl),
        (''updated_by'', option_to_json StorageScheme_serialize (li_updated_by self))])))"

definition LockerInner_deserialize :: "SerdeLibs \<Rightarrow> json \<Rightarrow> (LockerInner, string) result" where
  "LockerInner_deserialize l j =
     res_bind (required ''id'' i32_from_json j) (\<lambda>i.
     res_bind (required ''locker_id'' string_from_json j) (\<lambda>locker_id.
     res_bind (required ''merchant_id'' string_from_json j) (\<lambda>merchant_id.
     res_bind (required ''customer_id'' string_from_json j) (\<lambda>customer_id.
     res_bind (required ''enc_data'' (Encrypted_deserialize l) j) (\<lambda>enc_data.
     res_bind (required ''created_at'' (iso8601_deserialize l) j) (\<lambda>created_at.
     res_bind (required ''hash_id'' string_from_json j) (\<lambda>hash_id.
     res_bind (required ''ttl'' (iso8601_option_deserialize l) j) (\<lambda>ttl.
     res_bind (optional ''updated_by'' StorageScheme_deserialize j) (\<lambda>updated_by.
     Ok \<lparr> li_id = i, li_locker_id = locker_id, li_merchant_id = merchant_id, li_customer_id = customer_id,
          li_enc_data = enc_data, li_created_at = created_at, li_hash_id = hash_id, li_ttl = ttl,
          li_updated_by = updated_by \<rparr>)))))))))"

text \<open>A date that has no adapter is written as the time crate does.\<close>

definition datetime_option_to_json :: "SerdeLibs \<Rightarrow> time option \<Rightarrow> (json, string) result" where
  "datetime_option_to_json l v = (case v of None \<Rightarrow> Ok JNull | Some t \<Rightarrow> datetime_to_json l t)"

definition VaultInner_serialize :: "SerdeLibs \<Rightarrow> VaultInner \<Rightarrow> (json, string) result" where
  "VaultInner_serialize l self =
     res_bind (datetime_to_json l (vi_created_at self)) (\<lambda>created_at.
     res_bind (datetime_option_to_json l (vi_expires_at self)) (\<lambda>expires_at.
     Ok (JObj
       [(''id'', JNum (vi_id self)), (''entity_id'', JStr (vi_entity_id self)),
        (''vault_id'', JStr (vi_vault_id self)),
        (''encrypted_data'', Encrypted_serialize l (vi_encrypted_data self)), (''created_at'', created_at),
        (''expires_at'', expires_at),
        (''updated_by'', option_to_json StorageScheme_serialize (vi_updated_by self))])))"

definition VaultInner_deserialize :: "SerdeLibs \<Rightarrow> json \<Rightarrow> (VaultInner, string) result" where
  "VaultInner_deserialize l j =
     res_bind (required ''id'' i32_from_json j) (\<lambda>i.
     res_bind (required ''entity_id'' string_from_json j) (\<lambda>entity_id.
     res_bind (required ''vault_id'' string_from_json j) (\<lambda>vault_id.
     res_bind (required ''encrypted_data'' (Encrypted_deserialize l) j) (\<lambda>encrypted_data.
     res_bind (required ''created_at'' (datetime_from_json l) j) (\<lambda>created_at.
     res_bind (optional ''expires_at'' (datetime_from_json l) j) (\<lambda>expires_at.
     res_bind (optional ''updated_by'' StorageScheme_deserialize j) (\<lambda>updated_by.
     Ok \<lparr> vi_id = i, vi_entity_id = entity_id, vi_vault_id = vault_id, vi_encrypted_data = encrypted_data,
          vi_created_at = created_at, vi_expires_at = expires_at, vi_updated_by = updated_by \<rparr>)))))))"

definition HashTable_serialize :: "SerdeLibs \<Rightarrow> HashTable \<Rightarrow> (json, string) result" where
  "HashTable_serialize l self =
     res_bind (datetime_to_json l (ht_created_at self)) (\<lambda>created_at.
     Ok (JObj
       [(''id'', JNum (ht_id self)), (''hash_id'', JStr (ht_hash_id self)),
        (''data_hash'', bytes_to_json (ht_data_hash self)), (''created_at'', created_at),
        (''updated_by'', option_to_json StorageScheme_serialize (ht_updated_by self))]))"

definition HashTable_deserialize :: "SerdeLibs \<Rightarrow> json \<Rightarrow> (HashTable, string) result" where
  "HashTable_deserialize l j =
     res_bind (required ''id'' i32_from_json j) (\<lambda>i.
     res_bind (required ''hash_id'' string_from_json j) (\<lambda>hash_id.
     res_bind (required ''data_hash'' bytes_from_json j) (\<lambda>data_hash.
     res_bind (required ''created_at'' (datetime_from_json l) j) (\<lambda>created_at.
     res_bind (optional ''updated_by'' StorageScheme_deserialize j) (\<lambda>updated_by.
     Ok \<lparr> ht_id = i, ht_hash_id = hash_id, ht_data_hash = data_hash, ht_created_at = created_at,
          ht_updated_by = updated_by \<rparr>)))))"

definition Fingerprint_serialize :: "Fingerprint \<Rightarrow> json" where
  "Fingerprint_serialize self = JObj
     [(''id'', JNum (fp_id self)), (''fingerprint_hash'', bytes_to_json (fp_fingerprint_hash self)),
      (''fingerprint_id'', JStr (fp_fingerprint_id self)),
      (''updated_by'', option_to_json StorageScheme_serialize (fp_updated_by self))]"

definition Fingerprint_deserialize :: "json \<Rightarrow> (Fingerprint, string) result" where
  "Fingerprint_deserialize j =
     res_bind (required ''id'' i32_from_json j) (\<lambda>i.
     res_bind (required ''fingerprint_hash'' bytes_from_json j) (\<lambda>fingerprint_hash.
     res_bind (required ''fingerprint_id'' string_from_json j) (\<lambda>fingerprint_id.
     res_bind (optional ''updated_by'' StorageScheme_deserialize j) (\<lambda>updated_by.
     Ok \<lparr> fp_id = i, fp_fingerprint_hash = fingerprint_hash, fp_fingerprint_id = fingerprint_id,
          fp_updated_by = updated_by \<rparr>))))"

definition ReverseLookup_serialize :: "ReverseLookup \<Rightarrow> json" where
  "ReverseLookup_serialize self = JObj
     [(''lookup_id'', JStr (rl_lookup_id self)), (''secondary_key'', JStr (rl_secondary_key self)),
      (''partition_key'', JStr (rl_partition_key self)), (''source'', JStr (rl_source self)),
      (''updated_by'', JStr (rl_updated_by self))]"

definition ReverseLookup_deserialize :: "json \<Rightarrow> (ReverseLookup, string) result" where
  "ReverseLookup_deserialize j =
     res_bind (required ''lookup_id'' string_from_json j) (\<lambda>lookup_id.
     res_bind (required ''secondary_key'' string_from_json j) (\<lambda>secondary_key.
     res_bind (required ''partition_key'' string_from_json j) (\<lambda>partition_key.
     res_bind (required ''source'' string_from_json j) (\<lambda>source.
     res_bind (required ''updated_by'' string_from_json j) (\<lambda>updated_by.
     Ok \<lparr> rl_lookup_id = lookup_id, rl_secondary_key = secondary_key, rl_partition_key = partition_key,
          rl_source = source, rl_updated_by = updated_by \<rparr>)))))"

section \<open>What the libraries promise\<close>

text \<open>
  base64 decodes what it encoded; a formatted date is parsed to the same instant, in UTC; the time crate
  reads the date it wrote, which is not a null.
\<close>

definition serde_ok :: "SerdeLibs \<Rightarrow> bool" where
  "serde_ok l \<longleftrightarrow>
     (\<forall>bs. b64_decode l (b64_encode l bs) = Ok bs)
     \<and> (\<forall>t s. iso8601_format l FORMAT_CONFIG t = Ok s \<longrightarrow> iso8601_parse l FORMAT_CONFIG s = Ok (t, 0))
     \<and> (\<forall>t j. datetime_to_json l t = Ok j \<longrightarrow> datetime_from_json l j = Ok t \<and> j \<noteq> JNull)"

definition is_i32 :: "int \<Rightarrow> bool" where
  "is_i32 n \<longleftrightarrow> - (2 ^ 31) \<le> n \<and> n \<le> 2 ^ 31 - 1"

lemma serde_okD:
  assumes "serde_ok l"
  shows "b64_decode l (b64_encode l bs) = Ok bs"
    "iso8601_format l FORMAT_CONFIG t = Ok s \<Longrightarrow> iso8601_parse l FORMAT_CONFIG s = Ok (t, 0)"
    "datetime_to_json l t = Ok j \<Longrightarrow> datetime_from_json l j = Ok t"
    "datetime_to_json l t = Ok j \<Longrightarrow> j \<noteq> JNull"
  using assms unfolding serde_ok_def by blast+

lemma field_here [simp]:
  "k \<noteq> name \<Longrightarrow> field name (JObj ((k, v) # kvs)) = field name (JObj kvs)"
  "name \<notin> fst ` set kvs \<Longrightarrow> field name (JObj ((name, v) # kvs)) = Ok (Some v)"
proof -
  show "k \<noteq> name \<Longrightarrow> field name (JObj ((k, v) # kvs)) = field name (JObj kvs)" by (simp add: field_def)
  show "field name (JObj ((name, v) # kvs)) = Ok (Some v)" if "name \<notin> fst ` set kvs"
  proof -
    have "filter (\<lambda>(k, v). k = name) kvs = []" using that by (induction kvs) auto
    then show ?thesis by (simp add: field_def)
  qed
qed

lemma from_json_basic [simp]:
  "string_from_json (JStr s) = Ok s" "bool_from_json (JBool b) = Ok b"
  "is_i32 n \<Longrightarrow> i32_from_json (JNum n) = Ok n"
  "m < 2 ^ 32 \<Longrightarrow> u32_from_json (JNum (int m)) = Ok m"
  by (auto simp: string_from_json_def bool_from_json_def i32_from_json_def u32_from_json_def int_from_json_def is_i32_def)

lemma enum_round_trip [simp]:
  "StorageScheme_deserialize (StorageScheme_serialize s) = Ok s"
  "StorageScheme_serialize s \<noteq> JNull"
  "DatabaseOperation_deserialize (DatabaseOperation_serialize x) = Ok x"
  by (cases s; simp add: StorageScheme_deserialize_def)+ (cases x; simp add: DatabaseOperation_deserialize_def)

lemma option_round_trip [simp]:
  "(\<And>x. f (g x) = Ok x) \<Longrightarrow> (\<And>x. g x \<noteq> JNull) \<Longrightarrow> option_from_json f (option_to_json g v) = Ok v"
  by (cases v) (simp_all add: option_from_json_def option_to_json_def)

lemma traverse_round_trip: "(\<And>x. x \<in> set xs \<Longrightarrow> f (g x) = Ok x) \<Longrightarrow> res_traverse f (map g xs) = Ok xs"
  by (induction xs) simp_all

lemma bytes_round_trip [simp]: "bytes_from_json (bytes_to_json bs) = Ok bs"
proof -
  have "0 \<le> uint b \<and> uint b \<le> 255" for b :: "8 word" using unsigned_less [of b, where ?'a = int] by simp
  then show ?thesis
    by (simp add: bytes_from_json_def bytes_to_json_def list_from_json_def traverse_round_trip int_from_json_def)
qed

lemma is_ok_map [simp]: "is_ok (res_map f r) = is_ok r"
  by (cases r) simp_all

lemma is_ok_bind: "is_ok r \<Longrightarrow> (\<And>x. is_ok (g x)) \<Longrightarrow> is_ok (res_bind r g)"
  by (cases r) simp_all

section \<open>What is written is read back\<close>

lemma adapters_round_trip:
  assumes l: "serde_ok l"
  shows "Encrypted_deserialize l (Encrypted_serialize l e) = Ok e"
    "iso8601_serialize l t = Ok j \<Longrightarrow> iso8601_deserialize l j = Ok t"
    "iso8601_option_serialize l v = Ok j \<Longrightarrow> iso8601_option_deserialize l j = Ok v"
    "bind_params_deserialize l (bind_params_serialize l binds) = Ok binds"
proof -
  note serde = serde_okD [OF l]
  show "Encrypted_deserialize l (Encrypted_serialize l e) = Ok e"
    by (simp add: Encrypted_deserialize_def Encrypted_serialize_def serde)
  show "iso8601_serialize l t = Ok j \<Longrightarrow> iso8601_deserialize l j = Ok t"
    by (auto simp: iso8601_serialize_def iso8601_deserialize_def serde(2))
  show "iso8601_option_serialize l v = Ok j \<Longrightarrow> iso8601_option_deserialize l j = Ok v"
    by (cases v) (auto simp: iso8601_option_serialize_def iso8601_option_deserialize_def option_from_json_def serde(2))
  have "list_from_json (option_from_json string_from_json) (bind_params_serialize l binds) =
      Ok (map (map_option (b64_encode l)) binds)"
    by (simp add: list_from_json_def bind_params_serialize_def res_traverse_Ok_iff list_all2_map1 list_all2_map2
        list.rel_refl_strong option_from_json_def option_to_json_def split: option.split)
  moreover have "res_traverse (\<lambda>b. case b of None \<Rightarrow> Ok None | Some s \<Rightarrow> res_map Some (b64_decode l s))
      (map (map_option (b64_encode l)) binds) = Ok binds"
    by (rule traverse_round_trip) (simp add: serde split: option.split)
  ultimately show "bind_params_deserialize l (bind_params_serialize l binds) = Ok binds"
    by (simp add: bind_params_deserialize_def)
qed

lemma pg_type_metadata_round_trip:
  assumes "list_all (\<lambda>(a, b). a < 2 ^ 32 \<and> b < 2 ^ 32) (map pg_oids metadata)"
  shows "pg_type_metadata_deserialize (pg_type_metadata_serialize metadata) = Ok (map (Some \<circ> pg_oids) metadata)"
proof -
  have "list_all (\<lambda>(a, b). a < 2 ^ 32 \<and> b < 2 ^ 32) oids \<Longrightarrow> list_from_json (pair_from_json u32_from_json)
      (JArr (map (\<lambda>(oid, array_oid). JArr [JNum (int oid), JNum (int array_oid)]) oids)) = Ok oids" for oids
    unfolding list_from_json_def by (auto simp: list_all_iff pair_from_json_def intro!: traverse_round_trip)
  then have "list_from_json (pair_from_json u32_from_json) (pg_type_metadata_serialize metadata) = Ok (map pg_oids metadata)"
    using assms unfolding pg_type_metadata_serialize_def by blast
  then show ?thesis by (simp add: pg_type_metadata_deserialize_def)
qed

lemma no_failed_lookup: "None \<notin> set metadata \<Longrightarrow> map (Some \<circ> pg_oids) metadata = metadata"
  by (rule map_idI) (metis comp_apply option.case(2) option.exhaust pg_oids_def prod.case_eq_if prod.collapse)

lemma datetime_option_round_trip:
  "serde_ok l \<Longrightarrow> datetime_option_to_json l v = Ok j \<Longrightarrow> option_from_json (datetime_from_json l) j = Ok v"
  by (cases v) (auto simp: datetime_option_to_json_def option_from_json_def serde_okD)

lemmas row_defs = required_def optional_def LockerInner_deserialize_def VaultInner_deserialize_def
  HashTable_deserialize_def Fingerprint_deserialize_def ReverseLookup_deserialize_def
  SerializableQuery_deserialize_def

text \<open>C10. What the program writes to Redis it reads back: a row of every table of the KV layer, and a statement
  of the drainer with its binds and types, are deserialized from their JSON to exactly the value that was
  serialized; a locker's dates keep their nanoseconds.  Only a type of a statement whose lookup failed,
  which the program's own lookup never does, is read back as two zeros.  Serializing fails only where a
  date has no text.\<close>

theorem rows_survive_json:
  assumes l: "serde_ok l"
    and ids: "is_i32 (li_id locker)" "is_i32 (vi_id vault)" "is_i32 (ht_id hash)" "is_i32 (fp_id fingerprint)"
    and oids: "list_all (\<lambda>(a, b). a < 2 ^ 32 \<and> b < 2 ^ 32) (map pg_oids (sq_metadata query))"
  shows "(\<forall>j. LockerInner_serialize l locker = Ok j \<longrightarrow> LockerInner_deserialize l j = Ok locker)
    \<and> (\<forall>j. VaultInner_serialize l vault = Ok j \<longrightarrow> VaultInner_deserialize l j = Ok vault)
    \<and> (\<forall>j. HashTable_serialize l hash = Ok j \<longrightarrow> HashTable_deserialize l j = Ok hash)
    \<and> Fingerprint_deserialize (Fingerprint_serialize fingerprint) = Ok fingerprint
    \<and> ReverseLookup_deserialize (ReverseLookup_serialize lookup) = Ok lookup
    \<and> (None \<notin> set (sq_metadata query) \<longrightarrow>
        SerializableQuery_deserialize l (SerializableQuery_serialize l query) = Ok query)
    \<and> SerializableQuery_deserialize l (SerializableQuery_serialize l query)
        = Ok (query\<lparr> sq_metadata := map (Some \<circ> pg_oids) (sq_metadata query) \<rparr>)
    \<and> (\<forall>t s. KvPgMetadataLookup_lookup_type t s \<noteq> None)
    \<and> ((\<forall>t. is_ok (iso8601_format l FORMAT_CONFIG t)) \<longrightarrow> is_ok (LockerInner_serialize l locker))
    \<and> ((\<forall>t. is_ok (datetime_to_json l t)) \<longrightarrow> is_ok (VaultInner_serialize l vault) \<and> is_ok (HashTable_serialize l hash))"
proof -
  note serde = serde_okD [OF l] adapters_round_trip [OF l] datetime_option_round_trip [OF l]
  have "LockerInner_deserialize l j = Ok locker" if "LockerInner_serialize l locker = Ok j" for j
    using that ids(1) by (auto simp: LockerInner_serialize_def row_defs serde)
  moreover have "VaultInner_deserialize l j = Ok vault" if "VaultInner_serialize l vault = Ok j" for j
    using that ids(2) by (auto simp: VaultInner_serialize_def row_defs serde)
  moreover have "HashTable_deserialize l j = Ok hash" if "HashTable_serialize l hash = Ok j" for j
    using that ids(3) by (auto simp: HashTable_serialize_def row_defs serde)
  moreover have "Fingerprint_deserialize (Fingerprint_serialize fingerprint) = Ok fingerprint"
    using ids(4) by (simp add: Fingerprint_serialize_def row_defs)
  moreover have "ReverseLookup_deserialize (ReverseLookup_serialize lookup) = Ok lookup"
    by (simp add: ReverseLookup_serialize_def row_defs)
  moreover have query: "SerializableQuery_deserialize l (SerializableQuery_serialize l query)
      = Ok (query\<lparr> sq_metadata := map (Some \<circ> pg_oids) (sq_metadata query) \<rparr>)"
    by (simp add: SerializableQuery_serialize_def row_defs serde pg_type_metadata_round_trip [OF oids])
  moreover have "None \<notin> set (sq_metadata query) \<longrightarrow>
      SerializableQuery_deserialize l (SerializableQuery_serialize l query) = Ok query"
    using query no_failed_lookup [of "sq_metadata query"] by simp
  moreover have "\<forall>t s. KvPgMetadataLookup_lookup_type t s \<noteq> None" by (simp add: KvPgMetadataLookup_lookup_type_def)
  moreover have "(\<forall>t. is_ok (iso8601_format l FORMAT_CONFIG t)) \<longrightarrow> is_ok (LockerInner_serialize l locker)"
    by (auto simp: LockerInner_serialize_def iso8601_serialize_def iso8601_option_serialize_def is_ok_bind split: option.split)
  moreover have "(\<forall>t. is_ok (datetime_to_json l t)) \<longrightarrow>
      is_ok (VaultInner_serialize l vault) \<and> is_ok (HashTable_serialize l hash)"
    by (auto simp: VaultInner_serialize_def HashTable_serialize_def datetime_option_to_json_def is_ok_bind split: option.split)
  ultimately show ?thesis by blast
qed


text \<open>A codec in which a date is its decimal number, and a locker with a time to live.\<close>

definition example_serde :: SerdeLibs where
  "example_serde = \<lparr> b64_encode = of_bytes, b64_decode = (\<lambda>s. Ok (into_bytes s)),
     iso8601_format = (\<lambda>c t. if t < 0 then Err ''year'' else Ok (show_nat (nat t))),
     iso8601_parse = (\<lambda>c s. Ok (int (nat_of_digits s), 0)),
     datetime_to_json = (\<lambda>t. Ok (JNum t)),
     datetime_from_json = (\<lambda>j. case j of JNum t \<Rightarrow> Ok t | _ \<Rightarrow> Err ''date'') \<rparr>"

lemma example_serde_ok: "serde_ok example_serde"
  by (simp add: serde_ok_def example_serde_def nat_of_digits_show_nat)

theorem rows_survive_json_witness:
  "\<exists>j. LockerInner_serialize example_serde
        \<lparr> li_id = 7, li_locker_id = ''l'', li_merchant_id = ''m'', li_customer_id = ''c'',
          li_enc_data = Encrypted_new [1, 255], li_created_at = 1123456789, li_hash_id = ''h'',
          li_ttl = Some 5000000001, li_updated_by = Some RedisKv \<rparr> = Ok j
     \<and> LockerInner_deserialize example_serde j = Ok
        \<lparr> li_id = 7, li_locker_id = ''l'', li_merchant_id = ''m'', li_customer_id = ''c'',
          li_enc_data = Encrypted_new [1, 255], li_created_at = 1123456789, li_hash_id = ''h'',
          li_ttl = Some 5000000001, li_updated_by = Some RedisKv \<rparr>"
proof -
  let ?r = "\<lparr> li_id = 7, li_locker_id = ''l'', li_merchant_id = ''m'', li_customer_id = ''c'',
          li_enc_data = Encrypted_new [1, 255], li_created_at = 1123456789, li_hash_id = ''h'',
          li_ttl = Some 5000000001, li_updated_by = Some RedisKv \<rparr>"
  let ?v = "\<lparr> vi_id = 1, vi_entity_id = ''e'', vi_vault_id = ''v'', vi_encrypted_data = Encrypted_new [],
      vi_created_at = 0, vi_expires_at = None, vi_updated_by = None \<rparr>"
  let ?h = "\<lparr> ht_id = 1, ht_hash_id = ''h'', ht_data_hash = [0], ht_created_at = 0, ht_updated_by = None \<rparr>"
  let ?f = "\<lparr> fp_id = 1, fp_fingerprint_hash = [0], fp_fingerprint_id = ''f'', fp_updated_by = None \<rparr>"
  let ?q = "\<lparr> sq_sql = ''s'', sq_binds = [None], sq_metadata = [Some (0, 0)], sq_safe_to_cache_prepared = True,
      sq_entity_type = ''t'', sq_operation = Insert \<rparr>"
  obtain j where j: "LockerInner_serialize example_serde ?r = Ok j"
    by (simp add: LockerInner_serialize_def iso8601_serialize_def iso8601_option_serialize_def example_serde_def)
  have "LockerInner_deserialize example_serde j = Ok ?r"
    using rows_survive_json [OF example_serde_ok, of ?r ?v ?h ?f ?q, THEN conjunct1] j
    by (simp add: is_i32_def pg_oids_def)
  with j show ?thesis by blast
qed

end
