(* ===== verification/Startup.thy ===== *)
theory Startup
  imports Serialization Domain
begin

text \<open>
  What the program builds before it serves: the logger (\<open>src/src/logger/\<close>), the configuration it reads
  (\<open>config.rs\<close>), the clients of HTTP (\<open>api_client.rs\<close>), of Redis (\<open>storage/redis.rs\<close>) and of the HashiCorp vault
  (\<open>crypto/secrets_manager/managers/hcvault/core.rs\<close>).  The libraries that build them are parameters.
\<close>

section \<open>Logging (logger/config.rs, logger/setup.rs)\<close>

datatype TracingLevel = TRACE | DEBUG | INFO | WARN | ERROR

fun TracingLevel_to_string :: "TracingLevel \<Rightarrow> string" where
  "TracingLevel_to_string TRACE = ''TRACE''"
| "TracingLevel_to_string DEBUG = ''DEBUG''"
| "TracingLevel_to_string INFO = ''INFO''"
| "TracingLevel_to_string WARN = ''WARN''"
| "TracingLevel_to_string ERROR = ''ERROR''"

datatype LogFormat = DefaultFormat | Json

text \<open>\<open>Level\<close> is read by \<open>tracing::Level::from_str\<close>, a parameter.\<close>

datatype Level = Level TracingLevel

fun into_level :: "Level \<Rightarrow> TracingLevel" where
  "into_level (Level l) = l"

definition Level_deserialize :: "(string \<Rightarrow> (TracingLevel, string) result) \<Rightarrow> json \<Rightarrow> (Level, string) result" where
  "Level_deserialize level_from_str j = res_bind (string_from_json j) (\<lambda>s. res_map Level (level_from_str s))"

record LogConsole =
  lc_enabled :: bool
  lc_level :: Level
  lc_log_format :: LogFormat
  lc_filtering_directive :: "string option"

record Log =
  console :: LogConsole

text \<open>\<open>members\<close> are the crates of the workspace, which the build collects.\<close>

definition get_envfilter_directive :: "string list \<Rightarrow> TracingLevel \<Rightarrow> TracingLevel \<Rightarrow> string list \<Rightarrow> string" where
  "get_envfilter_directive members default_log_level filter_log_level crates_to_filter =
     join_on CHR '','' (fold (\<lambda>target directives. directives @ [target @ ''='' @ TracingLevel_to_string filter_log_level])
       (members @ crates_to_filter) [TracingLevel_to_string default_log_level])"

datatype ConsoleLogFormat = HumanReadable | CompactJson

record ConsoleLoggingConfig =
  cl_level :: TracingLevel
  cl_log_format :: ConsoleLogFormat
  cl_filtering_directive :: "string option"

record LoggerConfig =
  lg_static_top_level_fields :: "(string \<times> string) list"
  lg_log_span_lifecycles :: bool
  lg_console_config :: "ConsoleLoggingConfig option"
  lg_global_filtering_directive :: "string option"

definition get_logger_config :: "string list \<Rightarrow> string \<Rightarrow> Log \<Rightarrow> string \<Rightarrow> string list \<Rightarrow> LoggerConfig" where
  "get_logger_config members build_version config service_name crates_to_filter =
     (let c = console config;
          console_config =
            (if lc_enabled c
             then let console_filter_directive = (case lc_filtering_directive c of
                      Some d \<Rightarrow> d
                    | None \<Rightarrow> get_envfilter_directive members WARN (into_level (lc_level c)) crates_to_filter);
                    log_format = (case lc_log_format c of DefaultFormat \<Rightarrow> HumanReadable | Json \<Rightarrow> CompactJson) in
                  Some \<lparr> cl_level = into_level (lc_level c), cl_log_format = log_format,
                    cl_filtering_directive = Some console_filter_directive \<rparr>
             else None) in
      \<lparr> lg_static_top_level_fields = [(''service'', service_name), (''build_version'', build_version)],
        lg_log_span_lifecycles = False, lg_console_config = console_config,
        lg_global_filtering_directive = None \<rparr>)"

text \<open>
  \<open>build_logging_components\<close> answers the storage layer, the console layer if there is one, and the guards
  that flush the logs; the layers are installed in the global subscriber.
\<close>

definition logger_setup ::
    "(LoggerConfig \<Rightarrow> ('layer \<times> 'layer option \<times> 'guard list, string) result) \<Rightarrow> ('layer list \<Rightarrow> 'w \<Rightarrow> 'w) \<Rightarrow>
     string list \<Rightarrow> string \<Rightarrow> Log \<Rightarrow> string \<Rightarrow> string list \<Rightarrow> ('w, 'guard list, string) io" where
  "logger_setup build_logging_components init members build_version config service_name crates_to_filter =
     io_bind (io_lift (build_logging_components
       (get_logger_config members build_version config service_name crates_to_filter)))
       (\<lambda>(storage_layer, console_log_layer, guards) w.
          let layers = storage_layer # (case console_log_layer of Some l \<Rightarrow> [l] | None \<Rightarrow> []) in
          (Ok guards, init layers w))"

section \<open>Reading the configuration (config.rs)\<close>

datatype Env = Development | Release

definition current_env :: "bool \<Rightarrow> Env" where
  "current_env debug_assertions = (if debug_assertions then Development else Release)"

fun Env_config_path :: "Env \<Rightarrow> string" where
  "Env_config_path Development = ''development.toml''"
| "Env_config_path Release = ''production.toml''"

fun Env_to_string :: "Env \<Rightarrow> string" where
  "Env_to_string Development = ''development''"
| "Env_to_string Release = ''release''"

text \<open>\<open>PathBuf::push\<close>: an absolute path replaces what was there.\<close>

definition path_push :: "string \<Rightarrow> string \<Rightarrow> string" where
  "path_push p component =
     (if is_prefix ''/'' component \<or> p = [] then component
      else if last p = CHR ''/'' then p @ component
      else p @ ''/'' @ component)"

definition workspace_path :: "(string \<Rightarrow> string option) \<Rightarrow> string" where
  "workspace_path env_var = (case env_var ''CARGO_MANIFEST_DIR'' of Some d \<Rightarrow> d | None \<Rightarrow> ''.'')"

definition config_path :: "(string \<Rightarrow> string option) \<Rightarrow> Env \<Rightarrow> string option \<Rightarrow> string" where
  "config_path env_var environment explicit_config_path = (case explicit_config_path of
     Some p \<Rightarrow> path_push [] p
   | None \<Rightarrow> path_push (path_push (path_push [] (workspace_path env_var)) ''config'') (Env_config_path environment))"

text \<open>
  The sources of the \<open>config\<close> crate, from the weakest to the strongest: the file, then the variables of the
  environment; the override of \<open>env\<close> wins over both.
\<close>

datatype ConfigSource = FileSource string bool | EnvironmentSource string string bool

record ConfigBuilder =
  cb_overrides :: "(string \<times> string) list"
  cb_sources :: "ConfigSource list"

definition GlobalConfig_builder :: "Env \<Rightarrow> ConfigBuilder" where
  "GlobalConfig_builder environment = \<lparr> cb_overrides = [(''env'', Env_to_string environment)], cb_sources = [] \<rparr>"

definition GlobalConfig_new_with_config_path ::
    "(string \<Rightarrow> string option) \<Rightarrow> bool \<Rightarrow> (ConfigBuilder \<Rightarrow> ('tree, string) result) \<Rightarrow>
     ('tree \<Rightarrow> ('redis GlobalConfig, string) result) \<Rightarrow> string option \<Rightarrow> ('redis GlobalConfig, string) result" where
  "GlobalConfig_new_with_config_path env_var debug_assertions config_build deserialize explicit_config_path =
     (let env = current_env debug_assertions;
          file = config_path env_var env explicit_config_path;
          builder = GlobalConfig_builder env;
          sources = cb_sources builder @ [FileSource file False, EnvironmentSource ''LOCKER'' ''__'' True] in
      res_bind (config_build (builder\<lparr>cb_sources := sources\<rparr>)) deserialize)"

definition GlobalConfig_new ::
    "(string \<Rightarrow> string option) \<Rightarrow> bool \<Rightarrow> (ConfigBuilder \<Rightarrow> ('tree, string) result) \<Rightarrow>
     ('tree \<Rightarrow> ('redis GlobalConfig, string) result) \<Rightarrow> ('redis GlobalConfig, string) result" where
  "GlobalConfig_new env_var debug_assertions config_build deserialize =
     GlobalConfig_new_with_config_path env_var debug_assertions config_build deserialize None"

text \<open>\<open>deserialize_hex\<close> keeps the bytes of the text; the hex is decoded when the secrets are fetched.\<close>

definition deserialize_hex :: "json \<Rightarrow> (bytes, string) result" where
  "deserialize_hex j = res_map into_bytes (string_from_json j)"

section \<open>The HTTP client (api_client.rs)\<close>

record ('i, 'c) ClientSettings =
  cs_follow_redirects :: bool
  cs_pool_idle_timeout :: nat
  cs_pool_max_idle_per_host :: nat
  cs_rustls :: bool
  cs_identity :: "'i option"
  cs_root_certificates :: "'c list"
  cs_https_only :: bool

record ('i, 'c, 'h) ReqwestLibs =
  identity_from_pem :: "string \<Rightarrow> ('i, string) result"
  certificate_from_pem :: "string \<Rightarrow> ('c, string) result"
  client_build :: "('i, 'c) ClientSettings \<Rightarrow> ('h, string) result"

definition ApiClient_settings :: "('i, 'c, 'h) ReqwestLibs \<Rightarrow> 'redis GlobalConfig \<Rightarrow> (('i, 'c) ClientSettings, ApiClientError) result" where
  "ApiClient_settings r global_config =
     (let ac = api_client global_config;
          settings = \<lparr> cs_follow_redirects = False, cs_pool_idle_timeout = client_idle_timeout ac,
            cs_pool_max_idle_per_host = pool_max_idle_per_host ac, cs_rustls = False, cs_identity = None,
            cs_root_certificates = [], cs_https_only = False \<rparr> in
      if is_mtls_enabled (external_key_manager global_config)
      then res_bind (res_map_err (\<lambda>_. ApiClientError.IdentityParseFailed) (identity_from_pem r (identity ac))) (\<lambda>client_identity.
           res_bind (ok_or (ApiClientError.MissingConfigurationError ''CA certificate not configured for mTLS'')
             (get_ca_cert (external_key_manager global_config))) (\<lambda>ca_cert.
           res_bind (res_map_err (\<lambda>_. ApiClientError.CertificateParseFailed ''external_key_manager'') (certificate_from_pem r ca_cert))
             (\<lambda>key_manager_ca_cert.
           Ok (settings\<lparr> cs_rustls := True, cs_identity := Some client_identity,
             cs_root_certificates := [key_manager_ca_cert], cs_https_only := True \<rparr>))))
      else Ok settings)"

definition ApiClient_new :: "('i, 'c, 'h) ReqwestLibs \<Rightarrow> 'redis GlobalConfig \<Rightarrow> ('h, ApiClientError) result" where
  "ApiClient_new r global_config =
     res_bind (ApiClient_settings r global_config) (\<lambda>settings.
     res_map_err (\<lambda>_. ApiClientError.ClientConstructionFailed) (client_build r settings))"

section \<open>Redis (storage/redis.rs)\<close>

text \<open>\<open>pool_new\<close> connects; \<open>pool_clone\<close> is the pool with a prefix for every key.\<close>

definition RedisStore_new :: "('conf \<Rightarrow> ('w, 'pool, string) io) \<Rightarrow> 'conf \<Rightarrow> ('w, 'pool, RedisError) io" where
  "RedisStore_new pool_new conf = io_map_err (\<lambda>_. RedisConnectionError) (pool_new conf)"

definition clone_with_prefix :: "('pool \<Rightarrow> string \<Rightarrow> 'pool) \<Rightarrow> 'pool \<Rightarrow> string \<Rightarrow> 'pool" where
  "clone_with_prefix pool_clone self key_prefix = pool_clone self key_prefix"

section \<open>The HashiCorp vault (hcvault/core.rs)\<close>

definition HashiCorpVault_new ::
    "(string \<Rightarrow> string \<Rightarrow> ('settings, string) result) \<Rightarrow> ('settings \<Rightarrow> ('client, string) result) \<Rightarrow>
     HashiCorpVaultConfig \<Rightarrow> ('client, HashiCorpError) result" where
  "HashiCorpVault_new settings_build client_new config =
     res_bind (res_map_err (\<lambda>_. HashiCorpError.ClientCreationFailed) (settings_build (url config) (token config)))
       (\<lambda>settings. res_map_err (\<lambda>_. HashiCorpError.ClientCreationFailed) (client_new settings))"

text \<open>\<open>fetch\<close> at the two types that can be read from a text.\<close>

definition from_encoded_string :: "string \<Rightarrow> string option" where
  "from_encoded_string input = Some input"

definition from_encoded_bytes :: "'w SecretBackends \<Rightarrow> string \<Rightarrow> bytes option" where
  "from_encoded_bytes b input = hex_decode b input"

definition HashiCorpVault_fetch ::
    "'w SecretBackends \<Rightarrow> (string \<Rightarrow> 'a option) \<Rightarrow> string \<Rightarrow> ('w, 'a, HashiCorpError) io" where
  "HashiCorpVault_fetch b from_encoded d =
     io_bind (Kv2_read b d) (\<lambda>output. io_lift (ok_or HexDecodingFailed (from_encoded output)))"


section \<open>What the start establishes\<close>

text \<open>
  With a validated configuration the client never misses its CA certificate; over mTLS it is built with the
  identity and that certificate alone, for \<open>https\<close> only, and in no mode does it follow redirects.
\<close>

lemma validated_client:
  assumes "GlobalConfig_validate is_ip config = Ok ()"
  shows "\<forall>m. ApiClient_new r config \<noteq> Err (ApiClientError.MissingConfigurationError m)"
    and "\<And>s. ApiClient_settings r config = Ok s \<Longrightarrow>
      \<not> cs_follow_redirects s \<and> (is_mtls_enabled (external_key_manager config) \<longrightarrow>
        cs_https_only s \<and> cs_rustls s \<and> (\<exists>i ca c. cs_identity s = Some i \<and> get_ca_cert (external_key_manager config) = Some ca
          \<and> certificate_from_pem r ca = Ok c \<and> cs_root_certificates s = [c]))"
proof -
  have v: "ExternalKeyManagerConfig_validate (external_key_manager config) = Ok ()"
    "ApiClientConfig_validate_for_mtls (api_client config) (external_key_manager config) = Ok ()"
    using assms by (auto simp: GlobalConfig_validate_def)
  show "\<forall>m. ApiClient_new r config \<noteq> Err (ApiClientError.MissingConfigurationError m)"
  proof (cases "is_mtls_enabled (external_key_manager config)")
    case True
    then obtain ca where "get_ca_cert (external_key_manager config) = Some ca" using validated_mtls [OF v] by blast
    then show ?thesis
      by (cases "identity_from_pem r (identity (api_client config))"; cases "certificate_from_pem r ca")
        (auto simp: ApiClient_new_def ApiClient_settings_def Let_def)
  qed (simp add: ApiClient_new_def ApiClient_settings_def Let_def)
  show "ApiClient_settings r config = Ok s \<Longrightarrow>
      \<not> cs_follow_redirects s \<and> (is_mtls_enabled (external_key_manager config) \<longrightarrow>
        cs_https_only s \<and> cs_rustls s \<and> (\<exists>i ca c. cs_identity s = Some i \<and> get_ca_cert (external_key_manager config) = Some ca
          \<and> certificate_from_pem r ca = Ok c \<and> cs_root_certificates s = [c]))" for s
    by (auto simp: ApiClient_settings_def Let_def split: if_splits)
qed

text \<open>The file of the build is read from the project, unless a path is given.\<close>

lemma config_path_default:
  "config_path (\<lambda>v. None) Release None = ''./config/production.toml''"
  "config_path v e (Some p) = p"
  by code_simp (simp add: config_path_def path_push_def is_prefix_def)

text \<open>
  The directive of the logger names its default level first and then each crate of the workspace, and the ones
  that were asked for, at the level of the configuration.
\<close>

lemma fold_snoc: "fold (\<lambda>x acc. acc @ [f x]) xs acc = acc @ map f xs"
  by (induction xs arbitrary: acc) simp_all

lemma envfilter_directive:
  assumes "\<And>m. m \<in> set (members @ crates) \<Longrightarrow> CHR '','' \<notin> set m"
  shows "split_on CHR '','' (get_envfilter_directive members def_level level crates) =
    TracingLevel_to_string def_level # map (\<lambda>m. m @ ''='' @ TracingLevel_to_string level) (members @ crates)"
proof -
  have "CHR '','' \<notin> set (TracingLevel_to_string l)" for l by (cases l) simp_all
  then show ?thesis
    unfolding get_envfilter_directive_def fold_snoc using assms by (subst split_on_join_on) auto
qed

end
