(* ===== verification/Container.thy ===== *)
theory Container
  imports Errors
begin

text \<open>
  The container of errors, \<open>src/src/error/container.rs\<close>: a \<open>ContainerError<E>\<close> is a report of the error_stack
  crate whose current context is an \<open>E\<close>.  The reports and their operations are the crate's, so they are
  arguments here (\<open>current_context\<close>, \<open>change_context\<close>, \<open>Report::from\<close>); the other theories keep the current
  context alone, and the last section says why that is enough.
\<close>

section \<open>The container\<close>

datatype 'r ContainerError = ContainerError (ce_error: 'r)

definition get_inner :: "('r \<Rightarrow> 'e) \<Rightarrow> 'r ContainerError \<Rightarrow> 'e" where
  "get_inner current_context self = current_context (ce_error self)"

text \<open>\<open>U: From<&T>\<close> is \<open>convert\<close>: the \<open>?\<close> operator and \<open>err.into()\<close> between containers.\<close>

definition ContainerError_from ::
    "('r \<Rightarrow> 'e) \<Rightarrow> ('f \<Rightarrow> 'r \<Rightarrow> 's) \<Rightarrow> ('e \<Rightarrow> 'f) \<Rightarrow> 'r ContainerError \<Rightarrow> 's ContainerError" where
  "ContainerError_from current_context change_context convert v =
     (let new_error = convert (current_context (ce_error v)) in
      ContainerError (change_context new_error (ce_error v)))"

definition ContainerError_from_error :: "('e \<Rightarrow> 'r) \<Rightarrow> 'e \<Rightarrow> 'r ContainerError" where
  "ContainerError_from_error report_from v = ContainerError (report_from v)"

definition ContainerError_from_report :: "'r \<Rightarrow> 'r ContainerError" where
  "ContainerError_from_report error = ContainerError error"

definition change_error ::
    "('e \<Rightarrow> 'r) \<Rightarrow> ('f \<Rightarrow> 'r \<Rightarrow> 's) \<Rightarrow> ('a, 'e) result \<Rightarrow> 'f \<Rightarrow> ('a, 's ContainerError) result" where
  "change_error report_from change_context self error = (case self of
     Ok v \<Rightarrow> Ok v
   | Err err \<Rightarrow> Err (ContainerError (change_context error (report_from err)))
   | Panic \<Rightarrow> Panic)"

text \<open>A container answers a client as its current context does.\<close>

definition ContainerError_into_response :: "('r \<Rightarrow> 'e) \<Rightarrow> ('e \<Rightarrow> 'resp) \<Rightarrow> 'r ContainerError \<Rightarrow> 'resp" where
  "ContainerError_into_response current_context respond self = respond (current_context (ce_error self))"

section \<open>Only the current context matters\<close>

text \<open>
  error_stack documents that a changed or a new report has the given context as its current one.  Then the
  operations on containers are, on the current context, the plain conversions that the models of the
  other files use: \<open>?\<close> is \<open>res_map_err convert\<close>, and \<open>change_error\<close> replaces any error.
\<close>

lemma container_is_its_context:
  assumes "\<And>e r. current' (change e r) = e" "\<And>e. current (report_from e) = e"
  shows "get_inner current' (ContainerError_from current change convert c) = convert (get_inner current c)"
    "get_inner current (ContainerError_from_error report_from e) = e"
    "res_map_err (get_inner current') (res_map_err (ContainerError_from current change convert) r)
       = res_map_err convert (res_map_err (get_inner current) r)"
    "res_map_err (get_inner current') (change_error report_from change v e') = res_map_err (\<lambda>_. e') v"
    "ContainerError_into_response current' respond (ContainerError_from current change convert c)
       = respond (convert (get_inner current c))"
proof -
  show inner: "get_inner current' (ContainerError_from current change convert c) = convert (get_inner current c)" for c
    by (simp add: get_inner_def ContainerError_from_def assms(1))
  show "get_inner current (ContainerError_from_error report_from e) = e"
    by (simp add: get_inner_def ContainerError_from_error_def assms(2))
  show "res_map_err (get_inner current') (res_map_err (ContainerError_from current change convert) r)
       = res_map_err convert (res_map_err (get_inner current) r)"
    by (cases r) (simp_all add: inner)
  show "res_map_err (get_inner current') (change_error report_from change v e') = res_map_err (\<lambda>_. e') v"
    by (cases v) (simp_all add: change_error_def get_inner_def assms(1))
  show "ContainerError_into_response current' respond (ContainerError_from current change convert c)
       = respond (convert (get_inner current c))"
    by (simp add: ContainerError_into_response_def ContainerError_from_def get_inner_def assms(1))
qed

end
