(* ===== verification/Spec2Isabelle.thy ===== *)
theory Spec2Isabelle
  imports MigrationLaws DedupLaws Binaries Lifecycle PlainLaws ReplicaLaws RoundTrip VaultSpec CustodianLaws Sealed Startup
    Container
begin

text \<open>
  A model of the card vault (\<open>src/src\<close>), in the build with the features of a release:
  middleware, key custodian, external key manager, caching, Redis and KV.

  \<^bold>\<open>The program.\<close>  A client's request reaches a table of routes.  The routes of the vault
  stand behind a middleware that decrypts and verifies the request (a JWS inside a JWE) and signs and
  encrypts the answer.  A header names the tenant; a tenant is served only after its two
  custodians have submitted their keys, which decrypt its master key.  A handler asks a key
  provider for the data key of the merchant (kept in Postgres, sealed under the master key) or for
  the identifier of a key that an external service holds, encrypts the data and stores it, or reads,
  decrypts and answers it.  The store is Postgres alone, or Postgres behind Redis: then
  rows are written to Redis, and the statement that would write them to Postgres is appended to a
  stream that another program drains.  A runtime configuration, fetched over HTTP, switches between
  the modes \<open>Disabled\<close>, \<open>Enabled\<close> and \<open>SoftKill\<close> and between the primary and the
  replica while the program runs.

  \<^bold>\<open>How it is modelled.\<close>  An effectful function is a function from the state of the services
  (the type \<open>'w\<close>, never inspected) to a result and the next state; a result is \<open>Ok\<close>,
  \<open>Err\<close> with a value of the source's error enum, or \<open>Panic\<close> (\<open>Prelude\<close>: \<open>result\<close>,
  \<open>io\<close> and their combinators, which follow \<open>?\<close>, \<open>map_err\<close> and \<open>match\<close>).  What is not under
  \<open>src/\<close> (Postgres through diesel, the Redis client, ring, josekit, moka, reqwest, the hex and
  base64 codecs, the clock and random generators, axum's router) is a field of a record that the
  definitions take.  What the program relies on from them is a hypothesis of the theorems that need it,
  a predicate over that record (\<open>aes_ok\<close>, \<open>jw_ok\<close>, \<open>hex_ok\<close>, \<open>kv_services\<close>,
  \<open>mutations_ok\<close>, \<open>cache_ok\<close>, \<open>axum_ok\<close>), and \<open>ExampleServices\<close> has one concrete set of
  services that meets them, on which the witnesses run.  A text is the list of its UTF-8 bytes as characters;
  machine integers are words where they can wrap and numbers where the source's checks bound them.

  \<^bold>\<open>The theories\<close>, in the order of their imports, with the files they model:
  \<^item> \<open>Prelude\<close>, \<open>Text\<close>: results, effects, strings, UTF-8, white space.
  \<^item> \<open>Errors\<close> (\<open>error.rs\<close>, \<open>error/\<close>, \<open>storage/kv/impls.rs\<close>): the error enums, their conversions and the
    answer to a client.  \<open>Validations\<close> (\<open>validations.rs\<close>): card numbers.
  \<^item> \<open>Types\<close> (\<open>storage/types.rs\<close>, \<open>storage/storage_v2/types.rs\<close>), \<open>Config\<close> (\<open>config.rs\<close>,
    \<open>crypto/secrets_manager/\<close>), \<open>RuntimeConfigManager\<close> (\<open>runtime_config.rs\<close>).
  \<^item> \<open>Store\<close> (\<open>storage.rs\<close>, \<open>storage/kv/partition_key.rs\<close>), \<open>KvStore\<close> (\<open>storage/kv/wrapper.rs\<close>,
    \<open>resource.rs\<close>, \<open>serializable_query.rs\<close>: the generic operations over a record of the traits of a table),
    \<open>KvResources\<close> (\<open>storage/kv/impls/\<close>), \<open>StorageDb\<close> (\<open>storage/db.rs\<close>, \<open>storage/storage_v2/db.rs\<close>),
    \<open>Caching\<close> (\<open>storage/caching/\<close>), \<open>Domain\<close> (\<open>domain/\<close>).
  \<^item> \<open>Crypto\<close> (\<open>crypto/encryption_manager/\<close>, \<open>crypto/hash_manager/\<close>, \<open>middleware.rs\<close>),
    \<open>KeyManager\<close> (\<open>api_client.rs\<close>, \<open>crypto/keymanager/\<close>), \<open>Routes\<close> (\<open>routes/data/\<close>,
    \<open>routes/routes_v2/\<close>, \<open>routes/entity.rs\<close>), \<open>KeyMigration\<close> (\<open>routes/key_migration.rs\<close>).
  \<^item> \<open>Tenant\<close> (\<open>tenant.rs\<close>, \<open>app.rs\<close>, \<open>custom_extractors.rs\<close>, \<open>routes/key_custodian.rs\<close>,
    \<open>routes/health.rs\<close>), \<open>Router\<close> (\<open>app.rs\<close>, \<open>utils.rs\<close>), \<open>Lifecycle\<close> (\<open>app.rs\<close>, the shutdown
    signal), \<open>Binaries\<close> (\<open>bin/utils.rs\<close>, \<open>bin/locker.rs\<close>).
  \<^item> \<open>Serialization\<close> (the JSON of the rows: \<open>storage/types.rs\<close>, \<open>utils.rs\<close>, \<open>serializable_query.rs\<close>),
    \<open>Startup\<close> (\<open>logger/\<close>, and the loading and building parts of \<open>config.rs\<close>, \<open>api_client.rs\<close>, \<open>storage/redis.rs\<close>,
    \<open>hcvault/core.rs\<close>), \<open>Container\<close> (\<open>error/container.rs\<close>), \<open>Metrics\<close> (\<open>observability.rs\<close>, \<open>observability/\<close>, and
    the wrappers of the other files that count and time), \<open>HttpMetrics\<close> (\<open>observability/metrics/middleware.rs\<close>).
  \<^item> The laws.  \<open>KvLaws\<close>: what a table of the KV layer promises, as the locales \<open>kv_table\<close> and
    \<open>kv_mutable_table\<close>, interpreted for the vault, the hash table and the fingerprints.
    \<open>VaultLaws\<close>, \<open>VaultSpec\<close> (the abstract map that the vault implements), \<open>DedupLaws\<close>,
    \<open>MerchantLaws\<close>, \<open>KeySpace\<close>, \<open>PlainLaws\<close>, \<open>ReplicaLaws\<close>, \<open>CustodianLaws\<close>, \<open>RouteLaws\<close>,
    \<open>RoundTrip\<close>, \<open>MigrationLaws\<close>, \<open>Sealed\<close>.  \<open>Frame\<close> (what an operation leaves alone) and \<open>Triples\<close> (what
    it keeps and what its answer comes with) hold the rules, one for each combinator, that derive such
    facts of an operation from its parts.

  \<^bold>\<open>What is shown.\<close>
  \<^item> The vault: what is inserted, upserted or updated is what a read of the same key answers, in every KV
    mode (in \<open>SoftKill\<close> an old Redis entry of the key hides a new row), rows with other keys are left alone, and
    what a delete leaves behind (\<open>VaultLaws\<close>); which keys the KV layer tells apart, and that entities
    whose ids have no underscore never see what others do (\<open>KeySpace\<close>); with KV off the operations are those of
    the build without it, up to the order of two of them (\<open>PlainLaws\<close>); which pool each Postgres query
    runs on (\<open>ReplicaLaws\<close>).
  \<^item> The vault as a map: sequences of its operations under such ids, on one store that answers each of
    them, refine an abstract map (\<open>VaultSpec\<close>); and from end to end, what the handler of a store was given
    is what the handler of a retrieval answers until it expires (\<open>RoundTrip\<close>).
  \<^item> Merchants: a data key is made once and then stays, through the cache and concurrent inserts
    (\<open>MerchantLaws\<close>); a migration of keys ends under every fair order of its futures and keeps the keys
    apart (\<open>MigrationLaws\<close>).
  \<^item> Deduplication: equal data under an equal key has one fingerprint for ever, through the cache, a
    concurrent insert and whatever other calls come between (\<open>DedupLaws\<close>).
  \<^item> The custodian as a step relation, in which accepted requests wait and are executed in any order: a
    tenant is unlocked by its own two keys only, and then stays as it is (\<open>CustodianLaws\<close>); the keys that
    the tool makes unlock it (\<open>Binaries\<close>).
  \<^item> The edge: no handler runs on a request that does not decrypt and verify (\<open>Crypto\<close>), which
    routes that covers (\<open>Router\<close>), and the round trips of AES, JWE and the tool (\<open>Crypto\<close>, \<open>Binaries\<close>).
  \<^item> Time to live: bounds, that data is answered exactly until it expires and its deletion spawned exactly after
    that; and what damaged data does to a retrieval (\<open>RouteLaws\<close>).
  \<^item> Configuration: exactly what validation accepts (\<open>Config\<close>), what the start of the program establishes
    (\<open>Binaries\<close>), and that the last good runtime configuration, and no older one, is served
    (\<open>RuntimeConfigManager\<close>).
  \<^item> Card numbers (\<open>Validations\<close>), shards and streams of the drainer (\<open>Store\<close>).
  \<^item> Types and formats: what the store answers is encrypted and only what decryption makes of it is answered
    (\<open>Sealed\<close>); rows and statements survive their JSON (\<open>Serialization\<close>).
  \<^item> Metrics: the wrappers that count and time do not change what they wrap (\<open>Metrics\<close>), so the other
    theories leave them out; the counter of active requests is the number of requests in flight
    (\<open>HttpMetrics\<close>, a step relation); metrics cannot keep the server from starting (\<open>Router\<close>).
  \<^item> The shutdown signal ends at the first poll at which a signal has come, in any order of its branches
    (\<open>Lifecycle\<close>).

  \<^bold>\<open>Bounds and fuel.\<close>  Every definition is total.  The refresh loop of the runtime configuration
  and the collector of metrics run for a given number of ticks, and the futures of the key migration for a
  given list of polls, each with the number of calls that were ready at it (none, one or both of the future's
  calls); these are arguments, so the theorems hold for any, and \<open>MigrationLaws\<close> shows that a fair executor
  ends the migration.  No other definition has fuel.

  \<^bold>\<open>Not modelled.\<close>  The events that are logged and traced, which do not change what a request does; the
  declarations that diesel generates (\<open>storage/schema.rs\<close>) and the JSON that serde derives for requests and
  answers; the TLS stack, how the runtime drains connections, and the layers of tower; the tests; the program
  that drains the streams, which is not in the repository.  Handlers run one after the other, except
  where a theory models their interleaving (the custodian, the key migration and the requests in flight).
\<close>

end
